(* ===== verification/Prelude.thy ===== *)
theory Prelude
  imports Main "HOL-Library.Word" "HOL-Library.State_Monad"
begin

text \<open>
  What every component of the development shares: the parts of the Go language and of its
  standard library that the operator uses (fixed-width integers, \<open>map[string]string\<close> with
  its nil value, \<open>strconv\<close>, nil-pointer panics), and a small weakest-precondition
  calculus for the state monad in which the reconcilers are written.
\<close>

named_theorems wp_simps \<open>weakest preconditions of the primitives and combinators\<close>
named_theorems emits_rules \<open>rules of the trace calculus\<close>
named_theorems go_simps \<open>unfolding rules for the Go primitives\<close>
named_theorems key_defs \<open>definitions of the annotation, label and variable names\<close>

section \<open>Fixed-width integers\<close>

text \<open>
  \<open>int32\<close> and \<open>int64\<close> values are integers; the operations of the program that can leave
  the range wrap around explicitly.
\<close>

definition wrap32 :: "int \<Rightarrow> int" where
  "wrap32 i = (i + 2 ^ 31) mod 2 ^ 32 - 2 ^ 31"

definition wrap64 :: "int \<Rightarrow> int" where
  "wrap64 i = (i + 2 ^ 63) mod 2 ^ 64 - 2 ^ 63"

definition int32_ok :: "int \<Rightarrow> bool" where
  "int32_ok i \<longleftrightarrow> - (2 ^ 31) \<le> i \<and> i < 2 ^ 31"

definition int64_ok :: "int \<Rightarrow> bool" where
  "int64_ok i \<longleftrightarrow> - (2 ^ 63) \<le> i \<and> i < 2 ^ 63"

text \<open>\<open>x--\<close> on an \<open>int32\<close>.\<close>

definition dec32 :: "int \<Rightarrow> int" where
  "dec32 i = wrap32 (i - 1)"

lemma wrap32_id: "int32_ok i \<Longrightarrow> wrap32 i = i"
  by (simp add: int32_ok_def wrap32_def)

lemma wrap64_id: "int64_ok i \<Longrightarrow> wrap64 i = i"
  by (simp add: int64_ok_def wrap64_def)

lemma int32_ok_wrap32 [simp]: "int32_ok (wrap32 i)"
  using pos_mod_bound [of "2 ^ 32" "i + 2 ^ 31"] pos_mod_sign [of "2 ^ 32" "i + 2 ^ 31"]
  by (simp add: int32_ok_def wrap32_def)

lemma int64_ok_wrap64 [simp]: "int64_ok (wrap64 i)"
  using pos_mod_bound [of "2 ^ 64" "i + 2 ^ 63"] pos_mod_sign [of "2 ^ 64" "i + 2 ^ 63"]
  by (simp add: int64_ok_def wrap64_def)

text \<open>The wrap-around is that of two's complement words of the same width.\<close>

lemma wrap32_word: "wrap32 i = sint (word_of_int i :: 32 word)"
  by (simp add: wrap32_def sint_sbintrunc' signed_take_bit_eq_take_bit_shift take_bit_eq_mod)

lemma wrap64_word: "wrap64 i = sint (word_of_int i :: 64 word)"
  by (simp add: wrap64_def sint_sbintrunc' signed_take_bit_eq_take_bit_shift take_bit_eq_mod)

lemma dec32_id: "int32_ok i \<Longrightarrow> i \<noteq> - (2 ^ 31) \<Longrightarrow> dec32 i = i - 1"
  by (simp add: dec32_def wrap32_id int32_ok_def)

lemma dec32_pos: "0 \<le> i \<Longrightarrow> int32_ok i \<Longrightarrow> dec32 i = i - 1"
  by (rule dec32_id) auto

lemma dec32_ok [simp]: "int32_ok (dec32 i)"
  by (simp add: dec32_def)

lemma dec32_zero [simp]: "dec32 0 = -1"
  by (simp add: dec32_def wrap32_def)

section \<open>Panics\<close>

text \<open>A Go expression either yields a value or panics (nil dereference, nil map write).\<close>

datatype 'a go = Ret 'a | Panic

section \<open>Maps of strings, with the nil map\<close>

text \<open>
  A \<open>map[string]string\<close> value: \<open>None\<close> is the nil map, which can be read but not written.
\<close>

type_synonym gomap = "(string \<rightharpoonup> string) option"

definition gmap :: "gomap \<Rightarrow> (string \<rightharpoonup> string)" where
  "gmap m = (case m of None \<Rightarrow> Map.empty | Some f \<Rightarrow> f)"

text \<open>\<open>m[k]\<close>, with the zero value for a missing key, and \<open>_, ok := m[k]\<close>.\<close>

definition gget :: "gomap \<Rightarrow> string \<Rightarrow> string" where
  "gget m k = (case gmap m k of None \<Rightarrow> '''' | Some v \<Rightarrow> v)"

definition ghas :: "gomap \<Rightarrow> string \<Rightarrow> bool" where
  "ghas m k \<longleftrightarrow> gmap m k \<noteq> None"

text \<open>\<open>m[k] = v\<close> panics on the nil map; \<open>delete(m, k)\<close> does not.\<close>

fun gset :: "gomap \<Rightarrow> string \<Rightarrow> string \<Rightarrow> gomap go" where
  "gset None k v = Panic"
| "gset (Some f) k v = Ret (Some (f(k \<mapsto> v)))"

definition gdel :: "gomap \<Rightarrow> string \<Rightarrow> gomap" where
  "gdel m k = map_option (\<lambda>f. f(k := None)) m"

lemma gmap_simps [simp]: "gmap None = Map.empty" "gmap (Some f) = f"
  by (simp_all add: gmap_def)

lemma gget_Some_upd [simp]:
  "gget (Some (f(k \<mapsto> v))) k' = (if k' = k then v else gget (Some f) k')"
  by (simp add: gget_def)

lemma gget_None [simp]: "gget None k = ''''"
  by (simp add: gget_def)

lemma gget_Some: "f k = Some v \<Longrightarrow> gget (Some f) k = v"
  by (simp add: gget_def)

lemma ghas_None [simp]: "\<not> ghas None k"
  by (simp add: ghas_def)

lemma ghas_nonnil: "ghas m k \<Longrightarrow> \<exists>f. m = Some f"
  by (cases m) (auto simp: ghas_def)

lemma gget_nonempty_has: "gget m k \<noteq> '''' \<Longrightarrow> ghas m k"
  by (auto simp: gget_def ghas_def split: option.splits)

lemma gget_nonempty_nonnil: "gget m k \<noteq> '''' \<Longrightarrow> \<exists>f. m = Some f"
  by (rule ghas_nonnil, rule gget_nonempty_has)

section \<open>strconv and fmt\<close>

text \<open>Decimal digits of a natural number, most significant first.\<close>

definition digit_char :: "nat \<Rightarrow> char" where
  "digit_char d = ''0123456789'' ! d"

fun nat_digits :: "nat \<Rightarrow> string" where
  "nat_digits n = (if n < 10 then [digit_char n] else nat_digits (n div 10) @ [digit_char (n mod 10)])"

declare nat_digits.simps [simp del]

text \<open>\<open>strconv.Itoa\<close>, \<open>strconv.FormatInt(_, 10)\<close> and the verb \<open>%d\<close>.\<close>

definition Itoa :: "int \<Rightarrow> string" where
  "Itoa i = (if i < 0 then CHR ''-'' # nat_digits (nat (- i)) else nat_digits (nat i))"

datatype num_error = ErrSyntax | ErrRange

definition digit_val :: "char \<Rightarrow> nat option" where
  "digit_val c = (let n = of_char c :: nat in if 48 \<le> n \<and> n \<le> 57 then Some (n - 48) else None)"

fun digits_val :: "nat \<Rightarrow> string \<Rightarrow> nat option" where
  "digits_val acc [] = Some acc"
| "digits_val acc (c # cs) =
     (case digit_val c of None \<Rightarrow> None | Some d \<Rightarrow> digits_val (10 * acc + d) cs)"

text \<open>
  \<open>strconv.Atoi\<close> and \<open>strconv.ParseInt(_, 10, 64)\<close>: an optional sign, at least one digit,
  only digits, and a value in the range of \<open>int64\<close>.
\<close>

definition parse_magnitude :: "bool \<Rightarrow> string \<Rightarrow> num_error + int" where
  "parse_magnitude neg s =
     (if s = [] then Inl ErrSyntax
      else case digits_val 0 s of
        None \<Rightarrow> Inl ErrSyntax
      | Some n \<Rightarrow> (let i = (if neg then - int n else int n) in
                  if int64_ok i then Inr i else Inl ErrRange))"

fun Atoi :: "string \<Rightarrow> num_error + int" where
  "Atoi [] = Inl ErrSyntax"
| "Atoi (c # cs) =
     (if c = CHR ''-'' then parse_magnitude True cs
      else if c = CHR ''+'' then parse_magnitude False cs
      else parse_magnitude False (c # cs))"

lemma less_10_cases:
  fixes n :: nat
  assumes "n < 10"
  shows "n = 0 \<or> n = 1 \<or> n = 2 \<or> n = 3 \<or> n = 4 \<or> n = 5 \<or> n = 6 \<or> n = 7 \<or> n = 8 \<or> n = 9"
  using assms by (simp add: numeral_eq_Suc less_Suc_eq)

lemma digit_val_char: "d < 10 \<Longrightarrow> digit_val (digit_char d) = Some d"
  by (drule less_10_cases) (elim disjE; simp add: digit_char_def digit_val_def)

lemma digit_char_no_sign: "d < 10 \<Longrightarrow> digit_char d \<noteq> CHR ''-'' \<and> digit_char d \<noteq> CHR ''+''"
  by (drule less_10_cases) (elim disjE; simp add: digit_char_def)

lemma digits_val_append:
  "digits_val acc (xs @ ys) =
     (case digits_val acc xs of None \<Rightarrow> None | Some a \<Rightarrow> digits_val a ys)"
  by (induction acc xs rule: digits_val.induct) (auto split: option.splits)

lemma digits_val_nat_digits: "digits_val 0 (nat_digits n) = Some n"
proof (induction n rule: nat_digits.induct)
  case (1 n)
  show ?case
  proof (cases "n < 10")
    case True
    then show ?thesis by (simp add: nat_digits.simps [of n] digit_val_char)
  next
    case False
    with 1 show ?thesis
      by (simp add: nat_digits.simps [of n] digits_val_append digit_val_char)
  qed
qed

lemma nat_digits_nonempty [simp]: "nat_digits n \<noteq> []"
  by (subst nat_digits.simps) simp

lemma nat_digits_hd: "\<exists>d cs. d < 10 \<and> nat_digits n = digit_char d # cs"
proof (induction n rule: nat_digits.induct)
  case (1 n)
  show ?case
  proof (cases "n < 10")
    case True
    then show ?thesis by (auto simp: nat_digits.simps [of n])
  next
    case False
    with 1 obtain d cs where "d < 10" "nat_digits (n div 10) = digit_char d # cs" by auto
    with False show ?thesis by (auto simp: nat_digits.simps [of n])
  qed
qed

lemma Itoa_nonempty [simp]: "Itoa i \<noteq> []"
  by (simp add: Itoa_def)

text \<open>Reading back what was printed: the round trip of version numbers and timestamps.\<close>

lemma Atoi_Itoa: "int64_ok i \<Longrightarrow> Atoi (Itoa i) = Inr i"
proof (cases "i < 0")
  case True
  then show "int64_ok i \<Longrightarrow> Atoi (Itoa i) = Inr i"
    by (simp add: Itoa_def parse_magnitude_def digits_val_nat_digits)
next
  case False
  obtain d cs where d: "d < 10" "nat_digits (nat i) = digit_char d # cs"
    using nat_digits_hd by blast
  have "Atoi (Itoa i) = parse_magnitude False (nat_digits (nat i))"
    using False d digit_char_no_sign [of d] by (simp add: Itoa_def)
  then show "int64_ok i \<Longrightarrow> Atoi (Itoa i) = Inr i"
    using False by (simp add: parse_magnitude_def digits_val_nat_digits)
qed

lemma nat_digits_inj: "nat_digits m = nat_digits n \<Longrightarrow> m = n"
  by (metis digits_val_nat_digits option.inject)

lemma nat_digits_not_minus: "nat_digits n \<noteq> CHR ''-'' # cs"
  using nat_digits_hd [of n] digit_char_no_sign by fastforce

lemma Itoa_inj: "Itoa i = Itoa j \<longleftrightarrow> i = j"
proof
  assume eq: "Itoa i = Itoa j"
  have "(i < 0) = (j < 0)"
    using eq nat_digits_not_minus nat_digits_not_minus [symmetric]
    by (metis Itoa_def)
  then show "i = j"
    using eq by (auto simp: Itoa_def dest: nat_digits_inj split: if_splits)
qed simp

lemma parse_magnitude_range: "parse_magnitude b s = Inr i \<Longrightarrow> int64_ok i"
  by (auto simp: parse_magnitude_def Let_def split: if_split_asm option.split_asm)

lemma Atoi_range: "Atoi s = Inr i \<Longrightarrow> int64_ok i"
proof (cases s)
  case (Cons c cs)
  then show "Atoi s = Inr i \<Longrightarrow> int64_ok i"
    by (simp only: Atoi.simps split: if_split_asm) (auto dest: parse_magnitude_range)
qed simp

section \<open>A weakest-precondition calculus for the state monad\<close>

text \<open>
  \<open>wp m Q s\<close>: running \<open>m\<close> from state \<open>s\<close> ends with a result and a state that satisfy
  \<open>Q\<close>. Every computation here is total and deterministic in its state, so this is total
  correctness; whatever the world does is a function of the hidden part of the state.
\<close>

definition wp :: "('s, 'a) state \<Rightarrow> ('a \<Rightarrow> 's \<Rightarrow> bool) \<Rightarrow> 's \<Rightarrow> bool" where
  "wp m Q s = (case run_state m s of (a, s') \<Rightarrow> Q a s')"

lemma wp_return [wp_simps]: "wp (State_Monad.return x) Q s \<longleftrightarrow> Q x s"
  by (simp add: wp_def)

lemma wp_bind [wp_simps]: "wp (State_Monad.bind m f) Q s \<longleftrightarrow> wp m (\<lambda>a. wp (f a) Q) s"
  by (auto simp: wp_def split: prod.splits)

lemma wp_mono: "wp m P s \<Longrightarrow> (\<And>a s'. P a s' \<Longrightarrow> Q a s') \<Longrightarrow> wp m Q s"
  by (auto simp: wp_def split: prod.splits)

lemma wp_conj: "wp m (\<lambda>a s. P a s \<and> Q a s) s \<longleftrightarrow> wp m P s \<and> wp m Q s"
  by (auto simp: wp_def split: prod.splits)

text \<open>What holds whatever the computation does.\<close>

lemma wp_any: "(\<And>a s'. Q a s') \<Longrightarrow> wp m Q s"
  by (auto simp: wp_def split: prod.splits)

lemma wp_run: "wp m Q s \<longleftrightarrow> Q (fst (run_state m s)) (snd (run_state m s))"
  by (auto simp: wp_def split: prod.splits)

lemma wpD: "wp m Q s \<Longrightarrow> run_state m s = (a, s') \<Longrightarrow> Q a s'"
  by (simp add: wp_def)

text \<open>
  Sequencing of computations that may panic, and a pointer dereference: the rest of the
  function runs only if there was no panic.
\<close>

definition gobind :: "('s, 'a go) state \<Rightarrow> ('a \<Rightarrow> ('s, 'b go) state) \<Rightarrow> ('s, 'b go) state" where
  "gobind m f = do { r \<leftarrow> m; case r of Ret a \<Rightarrow> f a | Panic \<Rightarrow> State_Monad.return Panic }"

definition gret :: "'a \<Rightarrow> ('s, 'a go) state" where
  "gret a = State_Monad.return (Ret a)"

definition golift :: "'a go \<Rightarrow> ('s, 'a go) state" where
  "golift r = State_Monad.return r"

definition deref :: "'a option \<Rightarrow> 'a go" where
  "deref p = (case p of None \<Rightarrow> Panic | Some v \<Rightarrow> Ret v)"

lemma deref_simps [simp]: "deref None = Panic" "deref (Some v) = Ret v"
  by (simp_all add: deref_def)

lemma wp_gret [wp_simps]: "wp (gret x) Q s \<longleftrightarrow> Q (Ret x) s"
  by (simp add: gret_def wp_def)

lemma wp_golift [wp_simps]: "wp (golift r) Q s \<longleftrightarrow> Q r s"
  by (simp add: golift_def wp_def)

lemma wp_gobind [wp_simps]:
  "wp (gobind m f) Q s \<longleftrightarrow>
     wp m (\<lambda>r s'. case r of Ret a \<Rightarrow> wp (f a) Q s' | Panic \<Rightarrow> Q Panic s') s"
  by (auto simp: gobind_def wp_def split: prod.splits go.splits)

lemma run_gobind [simp]:
  "run_state (gobind m f) s =
     (case run_state m s of (Ret a, s') \<Rightarrow> run_state (f a) s' | (Panic, s') \<Rightarrow> (Panic, s'))"
  by (auto simp: gobind_def split: prod.splits go.splits)

lemma run_gret [simp]: "run_state (gret x) s = (Ret x, s)"
  by (simp add: gret_def)

lemma run_golift [simp]: "run_state (golift r) s = (r, s)"
  by (simp add: golift_def)

lemma wp_if [wp_simps]: "wp (if b then m else n) Q s \<longleftrightarrow> (if b then wp m Q s else wp n Q s)"
  by simp

lemma wp_case_sum [wp_simps]:
  "wp (case r of Inl e \<Rightarrow> f e | Inr x \<Rightarrow> g x) Q s \<longleftrightarrow>
     (case r of Inl e \<Rightarrow> wp (f e) Q s | Inr x \<Rightarrow> wp (g x) Q s)"
  by (cases r) auto

lemma wp_case_option [wp_simps]:
  "wp (case r of None \<Rightarrow> m | Some x \<Rightarrow> g x) Q s \<longleftrightarrow>
     (case r of None \<Rightarrow> wp m Q s | Some x \<Rightarrow> wp (g x) Q s)"
  by (cases r) auto

lemma wp_case_go [wp_simps]:
  "wp (case r of Ret x \<Rightarrow> g x | Panic \<Rightarrow> m) Q s \<longleftrightarrow>
     (case r of Ret x \<Rightarrow> wp (g x) Q s | Panic \<Rightarrow> wp m Q s)"
  by (cases r) auto

lemma wp_case_prod [wp_simps]:
  "wp (case p of (x, y) \<Rightarrow> f x y) Q s \<longleftrightarrow> (case p of (x, y) \<Rightarrow> wp (f x y) Q s)"
  by (cases p) auto

lemma wp_Let [wp_simps]: "wp (let x = v in f x) Q s \<longleftrightarrow> (let x = v in wp (f x) Q s)"
  by simp

lemmas go_splits = prod.splits sum.splits option.splits go.splits if_splits

end
