(* ===== verification/K8s_Types.thy ===== *)
theory K8s_Types
  imports Prelude
begin

text \<open>
  The data of the operator. The Kubernetes API types (\<open>k8s.io/api\<close>) are records of the fields
  the operator reads or writes; the fields it only carries along are one opaque string
  (\<open>*_Rest\<close>, their serialised form), so that equality of two records is equality of the two
  objects. A pointer is an \<open>option\<close>, a \<open>map[string]string\<close> a \<open>gomap\<close>. The custom resource
  of \<open>pkg/kube/apis/quarksstatefulset/v1alpha1/types.go\<close> follows with its constants.
\<close>

section \<open>Kubernetes objects\<close>

record env_var =
  env_Name :: string
  env_Value :: string
  env_ValueFrom :: "string option"

record container =
  con_Name :: string
  con_Env :: "env_var list"
  con_Rest :: string

record secret_source =
  ss_SecretName :: string
  ss_Rest :: string

record volume =
  vol_Name :: string
  vol_Secret :: "secret_source option"
  vol_Rest :: string

record node_selector_requirement =
  nsr_Key :: string
  nsr_Operator :: string
  nsr_Values :: "string list"

record node_selector_term =
  nst_MatchExpressions :: "node_selector_requirement list"
  nst_MatchFields :: "node_selector_requirement list"

text \<open>\<open>na_Required\<close> is \<open>RequiredDuringSchedulingIgnoredDuringExecution.NodeSelectorTerms\<close>.\<close>

record node_affinity =
  na_Required :: "node_selector_term list option"
  na_Rest :: string

record affinity =
  aff_NodeAffinity :: "node_affinity option"
  aff_Rest :: string

record pod_spec =
  ps_Containers :: "container list"
  ps_InitContainers :: "container list"
  ps_Volumes :: "volume list"
  ps_Affinity :: "affinity option"
  ps_Rest :: string

record pod_template =
  pt_Labels :: gomap
  pt_Annotations :: gomap
  pt_Spec :: pod_spec
  pt_Rest :: string

record rolling_update =
  ru_Partition :: "int option"

record update_strategy =
  us_Type :: string
  us_RollingUpdate :: "rolling_update option"

text \<open>\<open>spec_Selector\<close> is the pointer \<open>*LabelSelector\<close>, read and written as its \<open>MatchLabels\<close>.\<close>

record sts_spec =
  spec_Replicas :: "int option"
  spec_Selector :: "gomap option"
  spec_Template :: pod_template
  spec_VolumeClaimTemplates :: string
  spec_UpdateStrategy :: update_strategy
  spec_Rest :: string

record sts_status =
  st_Replicas :: int
  st_ReadyReplicas :: int
  st_UpdatedReplicas :: int
  st_UpdateRevision :: string
  st_Rest :: string

record owner_ref =
  or_Kind :: string
  or_Name :: string
  or_UID :: string
  or_Controller :: "bool option"

record statefulset =
  sts_Name :: string
  sts_Namespace :: string
  sts_Labels :: gomap
  sts_Annotations :: gomap
  sts_OwnerReferences :: "owner_ref list"
  sts_Spec :: sts_spec
  sts_Status :: sts_status

record pod =
  pod_Name :: string
  pod_Namespace :: string
  pod_Labels :: gomap
  pod_Status :: string
  pod_Rest :: string

record secret =
  sec_Name :: string
  sec_Namespace :: string
  sec_Labels :: gomap
  sec_Data :: gomap

record config_map =
  cm_Name :: string
  cm_Namespace :: string
  cm_Data :: gomap

text \<open>\<open>types.NamespacedName\<close>.\<close>

record nsname =
  nn_Namespace :: string
  nn_Name :: string

text \<open>The zero values of the API types, as \<open>&appsv1.StatefulSet{}\<close> has them.\<close>

definition zero_pod_spec :: pod_spec where
  "zero_pod_spec = \<lparr>ps_Containers = [], ps_InitContainers = [], ps_Volumes = [],
     ps_Affinity = None, ps_Rest = ''''\<rparr>"

definition zero_pod_template :: pod_template where
  "zero_pod_template = \<lparr>pt_Labels = None, pt_Annotations = None, pt_Spec = zero_pod_spec,
     pt_Rest = ''''\<rparr>"

definition zero_statefulset :: statefulset where
  "zero_statefulset = \<lparr>sts_Name = '''', sts_Namespace = '''', sts_Labels = None,
     sts_Annotations = None, sts_OwnerReferences = [],
     sts_Spec = \<lparr>spec_Replicas = None, spec_Selector = None, spec_Template = zero_pod_template,
       spec_VolumeClaimTemplates = '''', spec_UpdateStrategy = \<lparr>us_Type = '''', us_RollingUpdate = None\<rparr>,
       spec_Rest = ''''\<rparr>,
     sts_Status = \<lparr>st_Replicas = 0, st_ReadyReplicas = 0, st_UpdatedReplicas = 0,
       st_UpdateRevision = '''', st_Rest = ''''\<rparr>\<rparr>"

lemmas zero_defs = zero_statefulset_def zero_pod_template_def zero_pod_spec_def

section \<open>The QuarksStatefulSet resource\<close>

text \<open>A \<open>corev1.Probe\<close>: the command of its \<open>Exec\<close> action, a pointer, and the period.\<close>

record probe =
  pr_Exec :: "string list option"
  pr_PeriodSeconds :: int

text \<open>
  \<open>map[string]corev1.Probe\<close>: the entries in the order in which a \<open>range\<close> over the map
  visits them, which the Go runtime chooses; the keys are distinct. \<open>None\<close> is the nil map.
\<close>

type_synonym probe_map = "(string \<times> probe) list option"

record qsts_spec =
  qs_UpdateOnConfigChange :: bool
  qs_ZoneNodeLabel :: string
  qs_Zones :: "string list"
  qs_Template :: statefulset
  qs_ActivePassiveProbes :: probe_map
  qs_InjectReplicasEnv :: "bool option"

record qsts_status =
  qst_LastReconcile :: "int option"
  qst_Ready :: bool

record quarks_statefulset =
  q_Name :: string
  q_Namespace :: string
  q_UID :: string
  q_Labels :: gomap
  q_Annotations :: gomap
  q_Spec :: qsts_spec
  q_Status :: qsts_status

definition GetNamespacedName :: "quarks_statefulset \<Rightarrow> string" where
  "GetNamespacedName q = q_Namespace q @ ''/'' @ q_Name q"

text \<open>\<open>GetMaxAvailableVersion\<close> ranges over a \<open>map[int]bool\<close>, in any order.\<close>

fun maxAvailable :: "int \<Rightarrow> (int \<times> bool) list \<Rightarrow> int" where
  "maxAvailable m [] = m"
| "maxAvailable m ((version, available) # vs) =
     maxAvailable (if available \<and> version > m then version else m) vs"

definition GetMaxAvailableVersion :: "(int \<times> bool) list \<Rightarrow> int" where
  "GetMaxAvailableVersion versions = maxAvailable 0 versions"

lemma maxAvailable_Max:
  "maxAvailable m vs = Max (insert m {v. (v, True) \<in> set vs})"
proof (induction m vs rule: maxAvailable.induct)
  case (1 m)
  then show ?case by simp
next
  case (2 m version available vs)
  have fin: "finite {v. (v, True) \<in> set vs}"
    by (rule finite_subset [of _ "fst ` set vs"]) force+
  show ?case
  proof (cases available)
    case True
    then have "{v. (v, True) \<in> set ((version, available) # vs)} = insert version {v. (v, True) \<in> set vs}"
      by auto
    with 2 True fin show ?thesis
      by (cases "{v. (v, True) \<in> set vs} = {}") (auto simp: max_def insert_commute)
  next
    case False
    with 2 show ?thesis by simp
  qed
qed

section \<open>Annotation and label names\<close>

text \<open>
  The names are \<open>fmt.Sprintf("%s/...", apis.GroupName)\<close>; the group name itself comes from
  \<open>quarks-utils\<close> and is the parameter \<open>gn\<close>.
\<close>

definition DefaultZoneNodeLabel :: string where
  "DefaultZoneNodeLabel = ''failure-domain.beta.kubernetes.io/zone''"

definition AnnotationVersion :: "string \<Rightarrow> string" where
  [key_defs]: "AnnotationVersion gn = gn @ ''/version''"

definition AnnotationZones :: "string \<Rightarrow> string" where
  [key_defs]: "AnnotationZones gn = gn @ ''/zones''"

definition LabelAZIndex :: "string \<Rightarrow> string" where
  [key_defs]: "LabelAZIndex gn = gn @ ''/az-index''"

definition LabelAZName :: "string \<Rightarrow> string" where
  [key_defs]: "LabelAZName gn = gn @ ''/az-name''"

definition LabelPodOrdinal :: "string \<Rightarrow> string" where
  [key_defs]: "LabelPodOrdinal gn = gn @ ''/pod-ordinal''"

definition LabelQStsName :: "string \<Rightarrow> string" where
  [key_defs]: "LabelQStsName gn = gn @ ''/quarks-statefulset-name''"

definition LabelActivePod :: "string \<Rightarrow> string" where
  [key_defs]: "LabelActivePod gn = gn @ ''/pod-active''"

end
