(* ===== verification/World.thy ===== *)
theory World
  imports K8s_Types
begin

text \<open>
  The world outside the repository, as parameters. \<open>lib\<close> holds the pure functions and
  constants the operator imports from \<open>quarks-utils\<close> and the Kubernetes libraries; \<open>world\<close>
  holds the effectful ones: the API client, the clock, the secret store and the remote
  executor, each a computation over an arbitrary state \<open>'s\<close>. Nothing is assumed about
  either; a property that relies on documented behaviour names it as a hypothesis.
  \<open>recording W\<close> is the world \<open>W\<close> with every call written to a trace, so that a property can
  speak of which calls a reconciler makes, in which order and with what answers.
\<close>

section \<open>Errors and reconcile results\<close>

text \<open>
  \<open>StatusError\<close> is \<open>*apierrors.StatusError\<close> with its HTTP code; \<open>Wrapf\<close> is
  \<open>errors.Wrapf\<close> with the message format.
\<close>

datatype go_error =
    StatusError nat string
  | NumErr num_error
  | Errorf string
  | Wrapf go_error string

record reconcile_result =
  Requeue :: bool
  RequeueAfter :: int

definition empty_result :: reconcile_result where
  "empty_result = \<lparr>Requeue = False, RequeueAfter = 0\<rparr>"

definition requeue_after :: "int \<Rightarrow> reconcile_result" where
  "requeue_after d = \<lparr>Requeue = False, RequeueAfter = d\<rparr>"

type_synonym reconcile_out = "(reconcile_result \<times> go_error option) go"

text \<open>Durations are nanoseconds, as \<open>time.Duration\<close> counts them; times are Unix nanoseconds.\<close>

definition time_Second :: int where [go_simps]: "time_Second = 1000000000"
definition time_Millisecond :: int where [go_simps]: "time_Millisecond = 1000000"
definition time_Minute :: int where [go_simps]: "time_Minute = 60 * time_Second"

section \<open>Library functions\<close>

record lib =
  names_GroupName :: string
  apierrors_IsNotFound :: "go_error \<Rightarrow> bool"
  crc_IgnoreNotFound :: "go_error \<Rightarrow> go_error option"
  util_MinInt32 :: "int \<Rightarrow> int \<Rightarrow> int"
  util_UnionMaps :: "gomap \<Rightarrow> gomap \<Rightarrow> gomap"
  names_OrdinalFromPodName :: "string \<Rightarrow> int"
  podutil_IsPodReady :: "pod \<Rightarrow> bool"
  meltdown_AnnotationWindow_Contains :: "int \<Rightarrow> gomap \<Rightarrow> int \<Rightarrow> bool"
  meltdown_Window_Contains :: "int \<Rightarrow> int \<Rightarrow> int \<Rightarrow> bool"
  meltdown_SetLastReconcile :: "gomap \<Rightarrow> int \<Rightarrow> gomap"
  metav1_IsControlledBy :: "statefulset \<Rightarrow> quarks_statefulset \<Rightarrow> bool"
  setReference :: "quarks_statefulset \<Rightarrow> statefulset \<Rightarrow> go_error + statefulset"
  vss_IsVersionedSecret :: "secret \<Rightarrow> bool"
  vss_ContainsSecretName :: "string list \<Rightarrow> string \<Rightarrow> bool"
  vss_ContainsOutdatedSecretVersion :: "string list \<Rightarrow> string \<Rightarrow> bool"
  podref_GetConfMapRefFromPod :: "pod_spec \<Rightarrow> (string \<times> bool) list"
  podref_GetSecretRefFromPodSpec :: "pod_spec \<Rightarrow> (string \<times> bool) list"
  appsv1_StatefulSetRevisionLabel :: string
  appsv1_StatefulSetPodNameLabel :: string
  appsv1_RollingUpdateStatefulSetStrategyType :: string
  corev1_NodeSelectorOpIn :: string

abbreviation gname :: "lib \<Rightarrow> string" where
  "gname L \<equiv> names_GroupName L"

text \<open>The part of \<open>config.Config\<close> the reconcilers read.\<close>

record config =
  MeltdownDuration :: int
  MeltdownRequeueAfter :: int
  MonitoredID :: string
  OperatorNamespace :: string
  MaxQuarksStatefulSetWorkers :: int

section \<open>Effects\<close>

text \<open>
  \<open>w_CreateOrUpdate\<close> is \<open>controllerutil.CreateOrUpdate\<close>: it takes the object and the mutate
  function and returns the error with the object as the call left it; a panic of the mutate
  function is a panic of the call. \<open>w_SetSecretReferences\<close> changes the pod spec it is given.
  \<open>w_Exec\<close> runs a command in a container of a pod; it fails to build the executor or while
  the executor streams.
\<close>

datatype exec_failure = NoExecutor go_error | StreamFailed go_error

record 's world =
  w_GetSts :: "nsname \<Rightarrow> ('s, go_error + statefulset) state"
  w_GetPod :: "nsname \<Rightarrow> ('s, go_error + pod) state"
  w_GetQsts :: "nsname \<Rightarrow> ('s, go_error + quarks_statefulset) state"
  w_GetSecret :: "nsname \<Rightarrow> ('s, go_error + secret) state"
  w_ListSts :: "string \<Rightarrow> ('s, go_error + statefulset list) state"
  w_ListPods :: "string \<Rightarrow> string \<times> string \<Rightarrow> ('s, go_error + pod list) state"
  w_ListQsts :: "string \<Rightarrow> ('s, go_error + quarks_statefulset list) state"
  w_CreateOrUpdate ::
    "statefulset \<Rightarrow> (statefulset \<Rightarrow> statefulset go) \<Rightarrow> ('s, (go_error option \<times> statefulset) go) state"
  w_UpdatePod :: "pod \<Rightarrow> ('s, go_error option) state"
  w_DeletePod :: "pod \<Rightarrow> ('s, go_error option) state"
  w_UpdateQstsStatus :: "quarks_statefulset \<Rightarrow> ('s, go_error option) state"
  w_Now :: "('s, int) state"
  w_LatestSecret :: "string \<Rightarrow> string \<Rightarrow> ('s, go_error + secret) state"
  w_SetSecretReferences :: "string \<Rightarrow> pod_spec \<Rightarrow> ('s, go_error option \<times> pod_spec) state"
  w_Exec :: "pod \<Rightarrow> string \<Rightarrow> string list \<Rightarrow> ('s, exec_failure option) state"

section \<open>The recorded trace\<close>

datatype event =
    GotSts nsname "go_error + statefulset"
  | GotPod nsname "go_error + pod"
  | GotQsts nsname "go_error + quarks_statefulset"
  | GotSecret nsname "go_error + secret"
  | ListedSts string "go_error + statefulset list"
  | ListedPods string "string \<times> string" "go_error + pod list"
  | ListedQsts string "go_error + quarks_statefulset list"
  | WroteSts statefulset "statefulset \<Rightarrow> statefulset go" "(go_error option \<times> statefulset) go"
  | UpdatedPod pod "go_error option"
  | DeletedPod pod "go_error option"
  | UpdatedQstsStatus quarks_statefulset "go_error option"
  | Clock int
  | GotLatestSecret string string "go_error + secret"
  | SetReferences string pod_spec "go_error option \<times> pod_spec"
  | Executed pod string "string list" "exec_failure option"

definition logged :: "('s, 'a) state \<Rightarrow> ('a \<Rightarrow> event) \<Rightarrow> ('s \<times> event list, 'a) state" where
  "logged m ev = State (\<lambda>(s, tr). case run_state m s of (a, s') \<Rightarrow> (a, (s', tr @ [ev a])))"

definition recording :: "'s world \<Rightarrow> ('s \<times> event list) world" where
  "recording W = \<lparr>
     w_GetSts = (\<lambda>k. logged (w_GetSts W k) (GotSts k)),
     w_GetPod = (\<lambda>k. logged (w_GetPod W k) (GotPod k)),
     w_GetQsts = (\<lambda>k. logged (w_GetQsts W k) (GotQsts k)),
     w_GetSecret = (\<lambda>k. logged (w_GetSecret W k) (GotSecret k)),
     w_ListSts = (\<lambda>n. logged (w_ListSts W n) (ListedSts n)),
     w_ListPods = (\<lambda>n l. logged (w_ListPods W n l) (ListedPods n l)),
     w_ListQsts = (\<lambda>n. logged (w_ListQsts W n) (ListedQsts n)),
     w_CreateOrUpdate = (\<lambda>x f. logged (w_CreateOrUpdate W x f) (WroteSts x f)),
     w_UpdatePod = (\<lambda>p. logged (w_UpdatePod W p) (UpdatedPod p)),
     w_DeletePod = (\<lambda>p. logged (w_DeletePod W p) (DeletedPod p)),
     w_UpdateQstsStatus = (\<lambda>q. logged (w_UpdateQstsStatus W q) (UpdatedQstsStatus q)),
     w_Now = logged (w_Now W) Clock,
     w_LatestSecret = (\<lambda>n x. logged (w_LatestSecret W n x) (GotLatestSecret n x)),
     w_SetSecretReferences = (\<lambda>n p. logged (w_SetSecretReferences W n p) (SetReferences n p)),
     w_Exec = (\<lambda>p c cmd. logged (w_Exec W p c cmd) (Executed p c cmd))\<rparr>"

lemma run_logged [simp]:
  "run_state (logged m ev) (s, tr) =
     (case run_state m s of (a, s') \<Rightarrow> (a, (s', tr @ [ev a])))"
  by (simp add: logged_def)

lemma wp_logged [wp_simps]:
  "wp (logged m ev) Q (s, tr) \<longleftrightarrow> (case run_state m s of (a, s') \<Rightarrow> Q a (s', tr @ [ev a]))"
  by (auto simp: wp_def split: prod.splits)

lemma recording_simps [simp]:
  "w_GetSts (recording W) k = logged (w_GetSts W k) (GotSts k)"
  "w_GetPod (recording W) k = logged (w_GetPod W k) (GotPod k)"
  "w_GetQsts (recording W) k = logged (w_GetQsts W k) (GotQsts k)"
  "w_GetSecret (recording W) k = logged (w_GetSecret W k) (GotSecret k)"
  "w_ListSts (recording W) n = logged (w_ListSts W n) (ListedSts n)"
  "w_ListPods (recording W) n l = logged (w_ListPods W n l) (ListedPods n l)"
  "w_ListQsts (recording W) n = logged (w_ListQsts W n) (ListedQsts n)"
  "w_CreateOrUpdate (recording W) x f = logged (w_CreateOrUpdate W x f) (WroteSts x f)"
  "w_UpdatePod (recording W) p = logged (w_UpdatePod W p) (UpdatedPod p)"
  "w_DeletePod (recording W) p = logged (w_DeletePod W p) (DeletedPod p)"
  "w_UpdateQstsStatus (recording W) q = logged (w_UpdateQstsStatus W q) (UpdatedQstsStatus q)"
  "w_Now (recording W) = logged (w_Now W) Clock"
  "w_LatestSecret (recording W) n nm = logged (w_LatestSecret W n nm) (GotLatestSecret n nm)"
  "w_SetSecretReferences (recording W) n ps = logged (w_SetSecretReferences W n ps) (SetReferences n ps)"
  "w_Exec (recording W) p c cmd = logged (w_Exec W p c cmd) (Executed p c cmd)"
  by (simp_all add: recording_def)

text \<open>The events that change the cluster.\<close>

fun is_write :: "event \<Rightarrow> bool" where
  "is_write (WroteSts x f r) = True"
| "is_write (UpdatedPod p e) = True"
| "is_write (DeletedPod p e) = True"
| "is_write (UpdatedQstsStatus q e) = True"
| "is_write _ = False"

definition writes :: "event list \<Rightarrow> event list" where
  "writes tr = filter is_write tr"

lemma writes_simps [simp]:
  "writes [] = []"
  "writes (e # tr) = (if is_write e then e # writes tr else writes tr)"
  "writes (tr @ tr') = writes tr @ writes tr'"
  by (simp_all add: writes_def)

text \<open>A write that the API server refused.\<close>

fun failed_write :: "event \<Rightarrow> bool" where
  "failed_write (WroteSts x f r) = (case r of Ret (e, y) \<Rightarrow> e \<noteq> None | Panic \<Rightarrow> False)"
| "failed_write (UpdatedPod p e) = (e \<noteq> None)"
| "failed_write (DeletedPod p e) = (e \<noteq> None)"
| "failed_write (UpdatedQstsStatus q e) = (e \<noteq> None)"
| "failed_write _ = False"

definition refused :: "event list \<Rightarrow> bool" where
  "refused ev \<longleftrightarrow> list_ex failed_write ev"

lemma refused_simps [simp]:
  "\<not> refused []" "refused (e # ev) \<longleftrightarrow> failed_write e \<or> refused ev"
  "refused (ev @ ev') \<longleftrightarrow> refused ev \<or> refused ev'"
  by (simp_all add: refused_def)

lemma refused_quiet: "writes ev = [] \<Longrightarrow> \<not> refused ev"
  by (induction ev) (auto split: if_splits elim: failed_write.elims)

section \<open>Reasoning about traces\<close>

text \<open>
  \<open>emits m Q\<close>: from every state, \<open>m\<close> appends to the trace some events \<open>ev\<close> and returns
  some \<open>a\<close> with \<open>Q a ev\<close>. The rules are those of a weakest precondition, with the trace
  so far split off; what a call of the world answers is arbitrary.
\<close>

definition emits :: "('s \<times> event list, 'a) state \<Rightarrow> ('a \<Rightarrow> event list \<Rightarrow> bool) \<Rightarrow> bool" where
  "emits m Q \<longleftrightarrow>
     (\<forall>s tr. \<exists>a s' ev. run_state m (s, tr) = (a, (s', tr @ ev)) \<and> Q a ev)"

lemma emits_mono: "emits m P \<Longrightarrow> (\<And>a ev. P a ev \<Longrightarrow> Q a ev) \<Longrightarrow> emits m Q"
  unfolding emits_def by blast

lemma emits_return [emits_rules]: "Q x [] \<Longrightarrow> emits (State_Monad.return x) Q"
  by (auto simp: emits_def)

lemma emits_gret [emits_rules]: "Q (Ret x) [] \<Longrightarrow> emits (gret x) Q"
  by (auto simp: emits_def)

lemma emits_golift [emits_rules]: "Q r [] \<Longrightarrow> emits (golift r) Q"
  by (auto simp: emits_def)

lemma emits_logged [emits_rules]: "(\<And>a. Q a [ev a]) \<Longrightarrow> emits (logged m ev) Q"
  by (auto simp: emits_def split: prod.splits)

text \<open>The same rule under a law \<open>K\<close> about the answers of the call.\<close>

lemma emits_logged_law:
  "(\<And>s. K (fst (run_state m s))) \<Longrightarrow> (\<And>a. K a \<Longrightarrow> Q a [ev a]) \<Longrightarrow> emits (logged m ev) Q"
  by (auto simp: emits_def split: prod.splits) (metis fst_conv)

lemma emits_bind [emits_rules]:
  assumes "emits m (\<lambda>a ev. emits (f a) (\<lambda>b ev'. Q b (ev @ ev')))"
  shows "emits (State_Monad.bind m f) Q"
  unfolding emits_def
proof (intro allI)
  fix s tr
  from assms obtain a s' ev where 1: "run_state m (s, tr) = (a, (s', tr @ ev))"
    and "emits (f a) (\<lambda>b ev'. Q b (ev @ ev'))"
    unfolding emits_def by blast
  then obtain b s'' ev' where 2: "run_state (f a) (s', tr @ ev) = (b, (s'', (tr @ ev) @ ev'))"
    and Q: "Q b (ev @ ev')"
    unfolding emits_def by blast
  from 1 2 have "run_state (State_Monad.bind m f) (s, tr) = (b, (s'', tr @ (ev @ ev')))"
    by simp
  with Q show "\<exists>a s' ev. run_state (State_Monad.bind m f) (s, tr) = (a, (s', tr @ ev)) \<and> Q a ev"
    by blast
qed

lemma emits_gobind [emits_rules]:
  assumes "emits m (\<lambda>r ev. case r of Ret a \<Rightarrow> emits (f a) (\<lambda>b ev'. Q b (ev @ ev')) | Panic \<Rightarrow> Q Panic ev)"
  shows "emits (gobind m f) Q"
  unfolding gobind_def
proof (rule emits_bind, rule emits_mono [OF assms])
  fix r ev
  assume "case r of Ret a \<Rightarrow> emits (f a) (\<lambda>b ev'. Q b (ev @ ev')) | Panic \<Rightarrow> Q Panic ev"
  then show "emits (case r of Ret a \<Rightarrow> f a | Panic \<Rightarrow> State_Monad.return Panic) (\<lambda>b ev'. Q b (ev @ ev'))"
    by (cases r) (auto intro: emits_return)
qed

lemma emits_if [emits_rules]:
  "(b \<Longrightarrow> emits m Q) \<Longrightarrow> (\<not> b \<Longrightarrow> emits n Q) \<Longrightarrow> emits (if b then m else n) Q"
  by simp

lemma emits_case_sum [emits_rules]:
  "(\<And>e. r = Inl e \<Longrightarrow> emits (f e) Q) \<Longrightarrow> (\<And>x. r = Inr x \<Longrightarrow> emits (g x) Q) \<Longrightarrow>
   emits (case r of Inl e \<Rightarrow> f e | Inr x \<Rightarrow> g x) Q"
  by (cases r) auto

lemma emits_case_option [emits_rules]:
  "(r = None \<Longrightarrow> emits m Q) \<Longrightarrow> (\<And>x. r = Some x \<Longrightarrow> emits (g x) Q) \<Longrightarrow>
   emits (case r of None \<Rightarrow> m | Some x \<Rightarrow> g x) Q"
  by (cases r) auto

lemma emits_case_prod [emits_rules]:
  "(\<And>x y. p = (x, y) \<Longrightarrow> emits (f x y) Q) \<Longrightarrow> emits (case p of (x, y) \<Rightarrow> f x y) Q"
  by (cases p) auto

lemma emits_case_go [emits_rules]:
  "(\<And>x. r = Ret x \<Longrightarrow> emits (g x) Q) \<Longrightarrow> (r = Panic \<Longrightarrow> emits m Q) \<Longrightarrow>
   emits (case r of Ret x \<Rightarrow> g x | Panic \<Rightarrow> m) Q"
  by (cases r) auto

lemma case_goI [emits_rules]:
  "(\<And>x. r = Ret x \<Longrightarrow> A x) \<Longrightarrow> (r = Panic \<Longrightarrow> B) \<Longrightarrow> case r of Ret x \<Rightarrow> A x | Panic \<Rightarrow> B"
  by (cases r) auto

section \<open>Traces and results of runs\<close>

text \<open>The trace and the result of a recorded run from a given state.\<close>

definition trace_of :: "('s \<times> event list, 'a) state \<Rightarrow> 's \<Rightarrow> event list" where
  "trace_of m s = snd (snd (run_state m (s, [])))"

definition result_of :: "('s \<times> event list, 'a) state \<Rightarrow> 's \<Rightarrow> 'a" where
  "result_of m s = fst (run_state m (s, []))"

lemma emits_trace: "emits m Q \<Longrightarrow> Q (result_of m s) (trace_of m s)"
  unfolding emits_def trace_of_def result_of_def
  by (metis append_Nil fst_conv snd_conv)

text \<open>The first event of a run that begins with a call is that call, with its answer.\<close>

lemma hd_trace_bind:
  assumes "\<And>a. emits (f a) (\<lambda>b ev. True)"
  shows "hd (trace_of (State_Monad.bind (logged m ev) f) s) = ev (fst (run_state m s))"
proof -
  obtain a s' where m: "run_state m s = (a, s')" by fastforce
  from assms [of a] obtain b s'' ev' where "run_state (f a) (s', [ev a]) = (b, (s'', [ev a] @ ev'))"
    unfolding emits_def by blast
  then show ?thesis by (simp add: trace_of_def m)
qed

end
