(* ===== verification/Sample_World.thy ===== *)
theory Sample_World
  imports World "HOL-Library.AList"
begin

text \<open>
  One concrete library and one concrete world, used only by the witnesses: they show that the
  hypotheses of the properties can hold together. The world keeps its objects in association
  lists and behaves as the Kubernetes API documents (a read returns the stored object,
  \<open>CreateOrUpdate\<close> applies the mutate function to the stored object and stores the result).
  No property is about these definitions.
\<close>

record mem =
  m_Sts :: "(nsname \<times> statefulset) list"
  m_Pods :: "(nsname \<times> pod) list"
  m_Qsts :: "(nsname \<times> quarks_statefulset) list"
  m_Secrets :: "(nsname \<times> secret) list"
  m_Now :: int

definition not_found :: go_error where
  "not_found = StatusError 404 ''not found''"

definition found :: "'a option \<Rightarrow> go_error + 'a" where
  "found r = (case r of None \<Rightarrow> Inl not_found | Some x \<Rightarrow> Inr x)"

definition sts_key :: "statefulset \<Rightarrow> nsname" where
  "sts_key x = \<lparr>nn_Namespace = sts_Namespace x, nn_Name = sts_Name x\<rparr>"

definition pod_key :: "pod \<Rightarrow> nsname" where
  "pod_key p = \<lparr>nn_Namespace = pod_Namespace p, nn_Name = pod_Name p\<rparr>"

definition qsts_key :: "quarks_statefulset \<Rightarrow> nsname" where
  "qsts_key q = \<lparr>nn_Namespace = q_Namespace q, nn_Name = q_Name q\<rparr>"

definition in_ns :: "string \<Rightarrow> (nsname \<times> 'a) list \<Rightarrow> 'a list" where
  "in_ns n xs = map snd (filter (\<lambda>e. nn_Namespace (fst e) = n) xs)"

definition mem_world :: "mem world" where
  "mem_world = \<lparr>
     w_GetSts = (\<lambda>k. State (\<lambda>s. (found (map_of (m_Sts s) k), s))),
     w_GetPod = (\<lambda>k. State (\<lambda>s. (found (map_of (m_Pods s) k), s))),
     w_GetQsts = (\<lambda>k. State (\<lambda>s. (found (map_of (m_Qsts s) k), s))),
     w_GetSecret = (\<lambda>k. State (\<lambda>s. (found (map_of (m_Secrets s) k), s))),
     w_ListSts = (\<lambda>n. State (\<lambda>s. (Inr (in_ns n (m_Sts s)), s))),
     w_ListPods = (\<lambda>n (k, v). State (\<lambda>s.
        (Inr (filter (\<lambda>p. gmap (pod_Labels p) k = Some v) (in_ns n (m_Pods s))), s))),
     w_ListQsts = (\<lambda>n. State (\<lambda>s. (Inr (in_ns n (m_Qsts s)), s))),
     w_CreateOrUpdate = (\<lambda>x f. State (\<lambda>s.
        case f (case map_of (m_Sts s) (sts_key x) of None \<Rightarrow> x | Some b \<Rightarrow> b) of
          Panic \<Rightarrow> (Panic, s)
        | Ret y \<Rightarrow> (Ret (None, y), s\<lparr>m_Sts := AList.update (sts_key x) y (m_Sts s)\<rparr>))),
     w_UpdatePod = (\<lambda>p. State (\<lambda>s. (None, s\<lparr>m_Pods := AList.update (pod_key p) p (m_Pods s)\<rparr>))),
     w_DeletePod = (\<lambda>p. State (\<lambda>s. (None, s\<lparr>m_Pods := AList.delete (pod_key p) (m_Pods s)\<rparr>))),
     w_UpdateQstsStatus = (\<lambda>q. State (\<lambda>s.
        (None, s\<lparr>m_Qsts := AList.map_entry (qsts_key q) (\<lambda>old. old\<lparr>q_Status := q_Status q\<rparr>) (m_Qsts s)\<rparr>))),
     w_Now = State (\<lambda>s. (m_Now s, s)),
     w_LatestSecret = (\<lambda>n nm. State (\<lambda>s.
        (found (map_of (m_Secrets s) \<lparr>nn_Namespace = n, nn_Name = nm @ ''-v2''\<rparr>), s))),
     w_SetSecretReferences = (\<lambda>n ps. State_Monad.return (None, ps)),
     w_Exec = (\<lambda>p c cmd. State_Monad.return
        (if pod_Status p = ''active'' then None else Some (StreamFailed (Errorf ''exit status 1''))))\<rparr>"

definition sample_lib :: lib where
  "sample_lib = \<lparr>
     names_GroupName = ''quarks.cloudfoundry.org'',
     apierrors_IsNotFound = (\<lambda>e. case e of StatusError c _ \<Rightarrow> c = 404 | _ \<Rightarrow> False),
     crc_IgnoreNotFound = (\<lambda>e. case e of StatusError c _ \<Rightarrow> if c = 404 then None else Some e | _ \<Rightarrow> Some e),
     util_MinInt32 = min,
     util_UnionMaps = (\<lambda>a b. Some (gmap a ++ gmap b)),
     names_OrdinalFromPodName = (\<lambda>s. case Atoi (rev (takeWhile (\<lambda>c. c \<noteq> CHR ''-'') (rev s))) of Inl _ \<Rightarrow> -1 | Inr i \<Rightarrow> i),
     podutil_IsPodReady = (\<lambda>p. pod_Status p \<noteq> ''''),
     meltdown_AnnotationWindow_Contains = (\<lambda>d m t. False),
     meltdown_Window_Contains = (\<lambda>d last t. t < last + d),
     meltdown_SetLastReconcile = (\<lambda>m t. Some ((gmap m)(''quarks.cloudfoundry.org/last-reconcile'' \<mapsto> Itoa t))),
     metav1_IsControlledBy = (\<lambda>x q. \<exists>r \<in> set (sts_OwnerReferences x). or_Controller r = Some True \<and> or_UID r = q_UID q),
     setReference = (\<lambda>q x. Inr (x\<lparr>sts_OwnerReferences :=
        [\<lparr>or_Kind = ''QuarksStatefulSet'', or_Name = q_Name q, or_UID = q_UID q, or_Controller = Some True\<rparr>]\<rparr>)),
     vss_IsVersionedSecret = (\<lambda>s. gmap (sec_Labels s) ''version'' \<noteq> None),
     vss_ContainsSecretName = (\<lambda>ks n. n \<in> set ks),
     vss_ContainsOutdatedSecretVersion = (\<lambda>ks n. n \<notin> set ks),
     podref_GetConfMapRefFromPod = (\<lambda>ps. []),
     podref_GetSecretRefFromPodSpec = (\<lambda>ps.
        concat (map (\<lambda>v. case vol_Secret v of None \<Rightarrow> [] | Some s \<Rightarrow> [(ss_SecretName s, True)]) (ps_Volumes ps))),
     appsv1_StatefulSetRevisionLabel = ''controller-revision-hash'',
     appsv1_StatefulSetPodNameLabel = ''statefulset.kubernetes.io/pod-name'',
     appsv1_RollingUpdateStatefulSetStrategyType = ''RollingUpdate'',
     corev1_NodeSelectorOpIn = ''In''\<rparr>"

definition sample_config :: config where
  "sample_config = \<lparr>MeltdownDuration = 0, MeltdownRequeueAfter = 0, MonitoredID = ''default'',
     OperatorNamespace = ''default'', MaxQuarksStatefulSetWorkers = 1\<rparr>"

definition empty_mem :: mem where
  "empty_mem = \<lparr>m_Sts = [], m_Pods = [], m_Qsts = [], m_Secrets = [], m_Now = 0\<rparr>"

lemmas sample_defs =
  sample_lib_def sample_config_def mem_world_def empty_mem_def found_def not_found_def
  sts_key_def pod_key_def qsts_key_def in_ns_def

text \<open>
  Two predicates that let a witness find a write in a computed trace.
\<close>

definition is_sts_write :: "(statefulset \<Rightarrow> (statefulset \<Rightarrow> statefulset go) \<Rightarrow> bool) \<Rightarrow> event \<Rightarrow> bool" where
  "is_sts_write P e = (case e of WroteSts x f r \<Rightarrow> P x f | _ \<Rightarrow> False)"

definition go_sat :: "('a \<Rightarrow> bool) \<Rightarrow> 'a go \<Rightarrow> bool" where
  "go_sat P m = (case m of Ret a \<Rightarrow> P a | Panic \<Rightarrow> False)"

lemma list_ex_sts_write:
  assumes "list_ex (is_sts_write P) tr"
  obtains x f r where "WroteSts x f r \<in> set tr" "P x f"
proof -
  from assms obtain e where e: "e \<in> set tr" "is_sts_write P e" by (auto simp: list_ex_iff)
  show thesis by (cases e) (use e in \<open>auto simp: is_sts_write_def intro: that\<close>)
qed

lemma go_satE:
  assumes "go_sat P m"
  obtains a where "m = Ret a" "P a"
  using assms by (auto simp: go_sat_def split: go.splits)

end
