(* ===== verification/Versions.thy ===== *)
theory Versions
  imports Sample_World
begin

text \<open>
  The versions of the StatefulSets of a QuarksStatefulSet
  (\<open>pkg/kube/controllers/quarksstatefulset/util.go\<close>): listing the owned StatefulSets and
  selecting those with the highest version annotation.
\<close>

section \<open>Listing and filtering\<close>

fun filterByOwner :: "lib \<Rightarrow> quarks_statefulset \<Rightarrow> statefulset list \<Rightarrow> statefulset list" where
  "filterByOwner L q [] = []"
| "filterByOwner L q (x # xs) =
     (if metav1_IsControlledBy L x q then x # filterByOwner L q xs else filterByOwner L q xs)"

lemma filterByOwner_filter: "filterByOwner L q xs = filter (\<lambda>x. metav1_IsControlledBy L x q) xs"
  by (induction xs) auto

text \<open>
  \<open>listStatefulSetsFromInformer\<close> and \<open>listStatefulSetsFromAPIClient\<close> differ in the client
  they ask only; the second is asked by the create predicate.
\<close>

definition listStatefulSetsFromInformer ::
  "lib \<Rightarrow> 's world \<Rightarrow> quarks_statefulset \<Rightarrow> ('s, go_error + statefulset list) state" where
  "listStatefulSetsFromInformer L W q = do {
     r \<leftarrow> w_ListSts W (q_Namespace q);
     State_Monad.return (case r of Inl err \<Rightarrow> Inl err | Inr items \<Rightarrow> Inr (filterByOwner L q items)) }"

definition listStatefulSetsFromAPIClient ::
  "lib \<Rightarrow> (string \<Rightarrow> ('s, go_error + statefulset list) state) \<Rightarrow> quarks_statefulset \<Rightarrow>
   ('s, go_error + statefulset list) state" where
  "listStatefulSetsFromAPIClient L list_sts q = do {
     r \<leftarrow> list_sts (q_Namespace q);
     State_Monad.return (case r of Inl err \<Rightarrow> Inl err | Inr items \<Rightarrow> Inr (filterByOwner L q items)) }"

section \<open>The maximal version\<close>

definition defaultSts :: "lib \<Rightarrow> statefulset" where
  "defaultSts L = zero_statefulset\<lparr>sts_Annotations := Some [AnnotationVersion (gname L) \<mapsto> ''0'']\<rparr>"

text \<open>The version of a StatefulSet, or the error with which the loop returns.\<close>

definition versionOf :: "lib \<Rightarrow> statefulset \<Rightarrow> go_error + int" where
  "versionOf L x =
     (let strVersion = gget (sts_Annotations x) (AnnotationVersion (gname L)) in
      if strVersion = '''' then
        Inl (Errorf ''The statefulset '%s/%s' does not have the annotation(%s), a version could not be retrieved.'')
      else case Atoi strVersion of Inl err \<Rightarrow> Inl (NumErr err) | Inr version \<Rightarrow> Inr version)"

text \<open>The loop over the StatefulSets, with \<open>result\<close> and \<open>maxVersion\<close>.\<close>

fun maxVersionLoop ::
  "lib \<Rightarrow> statefulset list \<Rightarrow> int \<Rightarrow> statefulset list \<Rightarrow> go_error + (statefulset list \<times> int)" where
  "maxVersionLoop L result maxVersion [] = Inr (result, maxVersion)"
| "maxVersionLoop L result maxVersion (ss # rest) =
     (case versionOf L ss of
        Inl err \<Rightarrow> Inl err
      | Inr version \<Rightarrow>
          if sts_Annotations ss \<noteq> None then
            (if version > maxVersion then maxVersionLoop L [ss] version rest
             else if version = maxVersion then maxVersionLoop L (result @ [ss]) maxVersion rest
             else maxVersionLoop L result maxVersion rest)
          else maxVersionLoop L result maxVersion rest)"

definition maxVersionResult :: "lib \<Rightarrow> statefulset list \<Rightarrow> go_error + (statefulset list \<times> int)" where
  "maxVersionResult L xs =
     (case maxVersionLoop L [] 0 xs of
        Inl err \<Rightarrow> Inl err
      | Inr (result, maxVersion) \<Rightarrow>
          Inr (if length result = 0 then [defaultSts L] else result, maxVersion))"

definition GetMaxStatefulSetVersion ::
  "lib \<Rightarrow> 's world \<Rightarrow> quarks_statefulset \<Rightarrow> ('s, go_error + (statefulset list \<times> int)) state" where
  "GetMaxStatefulSetVersion L W q =
     (if q_Namespace q = '''' then State_Monad.return (Inr ([defaultSts L], 0))
      else do {
        r \<leftarrow> listStatefulSetsFromInformer L W q;
        State_Monad.return (case r of Inl err \<Rightarrow> Inl err | Inr xs \<Rightarrow> maxVersionResult L xs) })"

section \<open>What the loop computes\<close>

lemma versionOf_nonnil: "versionOf L x = Inr v \<Longrightarrow> \<exists>f. sts_Annotations x = Some f"
  by (auto simp: versionOf_def Let_def intro: gget_nonempty_nonnil split: if_splits)

text \<open>\<open>versions L xs\<close>: the versions of \<open>xs\<close>, if every one of them has one.\<close>

definition versions :: "lib \<Rightarrow> statefulset list \<Rightarrow> int set" where
  "versions L xs = {v. \<exists>x \<in> set xs. versionOf L x = Inr v}"

definition versioned :: "lib \<Rightarrow> statefulset list \<Rightarrow> bool" where
  "versioned L xs \<longleftrightarrow> (\<forall>x \<in> set xs. \<exists>v. versionOf L x = Inr v)"

definition at_version :: "lib \<Rightarrow> int \<Rightarrow> statefulset list \<Rightarrow> statefulset list" where
  "at_version L v xs = filter (\<lambda>x. versionOf L x = Inr v) xs"

lemma versions_simps [simp]:
  "versions L [] = {}"
  "versionOf L x = Inr v \<Longrightarrow> versions L (x # xs) = insert v (versions L xs)"
  by (auto simp: versions_def)

lemma finite_versions [simp]: "finite (versions L xs)"
proof (induction xs)
  case (Cons x xs)
  have "versions L (x # xs) = versions L [x] \<union> versions L xs" by (auto simp: versions_def)
  moreover have "finite (versions L [x])"
    by (cases "versionOf L x") (auto simp: versions_def)
  ultimately show ?case using Cons by simp
qed simp

lemma versioned_simps [simp]:
  "versioned L []"
  "versioned L (x # xs) \<longleftrightarrow> (\<exists>v. versionOf L x = Inr v) \<and> versioned L xs"
  by (auto simp: versioned_def)

lemma at_version_none: "(\<And>w. w \<in> versions L xs \<Longrightarrow> w \<noteq> v) \<Longrightarrow> at_version L v xs = []"
  by (auto simp: at_version_def versions_def filter_empty_conv)

text \<open>The loop in one step: what is kept of \<open>result\<close> and what of the rest.\<close>

lemma maxVersionLoop_eq:
  "versioned L xs \<Longrightarrow>
   maxVersionLoop L result m xs =
     (let M = Max (insert m (versions L xs)) in
      Inr ((if M = m then result else []) @ at_version L M xs, M))"
proof (induction xs arbitrary: result m)
  case Nil
  then show ?case by (simp add: at_version_def)
next
  case (Cons x xs)
  then obtain v f where v: "versionOf L x = Inr v" and f: "sts_Annotations x = Some f"
    using versionOf_nonnil by force
  let ?V = "versions L xs"
  have le: "v \<le> Max (insert v ?V)" "m \<le> Max (insert m ?V)" by simp_all
  have at: "at_version L M (x # xs) = (if v = M then x # at_version L M xs else at_version L M xs)" for M
    using v by (auto simp: at_version_def)
  have larger: "Max (insert m (insert v ?V)) = Max (insert v ?V)" if "m \<le> v"
    using that by (cases "?V = {}") (auto simp: max_def)
  have smaller: "Max (insert m (insert v ?V)) = Max (insert m ?V)" if "v \<le> m"
    using that by (cases "?V = {}") (auto simp: max_def)
  consider "v > m" | "v = m" | "v < m" by linarith
  then show ?case
  proof cases
    case 1
    with Cons v f le larger show ?thesis by (auto simp: Let_def at)
  next
    case 2
    with Cons v f le show ?thesis by (auto simp: Let_def at)
  next
    case 3
    then have "v \<noteq> Max (insert m ?V)" using le by linarith
    with 3 Cons v f smaller show ?thesis by (simp add: Let_def at)
  qed
qed

lemma maxVersionLoop_error:
  "(\<exists>e. maxVersionLoop L result m xs = Inl e) \<longleftrightarrow> \<not> versioned L xs"
proof (induction xs arbitrary: result m)
  case (Cons x xs)
  then show ?case by (cases "versionOf L x") auto
qed simp

section \<open>Properties\<close>

text \<open>
  C15: the maximal version. Of the StatefulSets of the namespace that the QuarksStatefulSet
  controls, GetMaxStatefulSetVersion returns the greatest version that is not negative (0 if
  there is none) with exactly the StatefulSets at that version, in list order, or the default
  StatefulSet if there is none; it fails if and only if one of them has no valid version.
\<close>

theorem GetMaxStatefulSetVersion_spec:
  assumes "q_Namespace q \<noteq> ''''" and "run_state (w_ListSts W (q_Namespace q)) s = (Inr items, s')"
    and "owned = filter (\<lambda>x. metav1_IsControlledBy L x q) items"
    and "M = Max (insert 0 (versions L owned))"
  shows "(if versioned L owned
     then run_state (GetMaxStatefulSetVersion L W q) s =
       (Inr (if at_version L M owned = [] then [defaultSts L] else at_version L M owned, M), s')
     else \<exists>e. run_state (GetMaxStatefulSetVersion L W q) s = (Inl e, s'))"
proof -
  have run: "run_state (GetMaxStatefulSetVersion L W q) s = (maxVersionResult L owned, s')"
    using assms(1-3)
    by (simp add: GetMaxStatefulSetVersion_def listStatefulSetsFromInformer_def filterByOwner_filter)
  show ?thesis
  proof (cases "versioned L owned")
    case True
    then show ?thesis
      unfolding run maxVersionResult_def maxVersionLoop_eq [OF True] assms(4)
      by (auto simp: Let_def)
  next
    case False
    then obtain e where "maxVersionLoop L [] 0 owned = Inl e"
      using maxVersionLoop_error by metis
    with False show ?thesis by (simp add: run maxVersionResult_def)
  qed
qed

definition sample_qsts :: quarks_statefulset where
  "sample_qsts = \<lparr>q_Name = ''foo'', q_Namespace = ''default'', q_UID = ''uid-1'', q_Labels = None,
     q_Annotations = None,
     q_Spec = \<lparr>qs_UpdateOnConfigChange = True, qs_ZoneNodeLabel = '''', qs_Zones = [],
       qs_Template = zero_statefulset, qs_ActivePassiveProbes = None, qs_InjectReplicasEnv = None\<rparr>,
     q_Status = \<lparr>qst_LastReconcile = None, qst_Ready = False\<rparr>\<rparr>"

definition sample_owned :: "string \<Rightarrow> int \<Rightarrow> statefulset" where
  "sample_owned name version = zero_statefulset\<lparr>sts_Name := name, sts_Namespace := ''default'',
     sts_Annotations := Some [''quarks.cloudfoundry.org/version'' \<mapsto> Itoa version],
     sts_OwnerReferences := [\<lparr>or_Kind = ''QuarksStatefulSet'', or_Name = ''foo'', or_UID = ''uid-1'',
       or_Controller = Some True\<rparr>]\<rparr>"

definition sample_versions_mem :: mem where
  "sample_versions_mem = empty_mem\<lparr>m_Sts :=
     [(\<lparr>nn_Namespace = ''default'', nn_Name = ''foo-z0''\<rparr>, sample_owned ''foo-z0'' 2),
      (\<lparr>nn_Namespace = ''default'', nn_Name = ''foo-z1''\<rparr>, sample_owned ''foo-z1'' 1),
      (\<lparr>nn_Namespace = ''default'', nn_Name = ''bar''\<rparr>, zero_statefulset)]\<rparr>"

lemma sample_owned_version [simp]:
  "int64_ok v \<Longrightarrow> versionOf sample_lib (sample_owned n v) = Inr v"
  by (simp add: versionOf_def sample_owned_def sample_lib_def key_defs gget_def Atoi_Itoa)

lemma sample_owned_list:
  "filter (\<lambda>x. metav1_IsControlledBy sample_lib x sample_qsts)
     [sample_owned ''foo-z0'' 2, sample_owned ''foo-z1'' 1, zero_statefulset] =
   [sample_owned ''foo-z0'' 2, sample_owned ''foo-z1'' 1]"
  by (simp add: sample_lib_def sample_owned_def sample_qsts_def zero_defs)

theorem GetMaxStatefulSetVersion_spec_witness:
  "run_state (GetMaxStatefulSetVersion sample_lib mem_world sample_qsts) sample_versions_mem =
     (Inr ([sample_owned ''foo-z0'' 2], 2), sample_versions_mem)"
proof -
  have list: "run_state (w_ListSts mem_world (q_Namespace sample_qsts)) sample_versions_mem =
      (Inr [sample_owned ''foo-z0'' 2, sample_owned ''foo-z1'' 1, zero_statefulset], sample_versions_mem)"
    by (simp add: mem_world_def in_ns_def sample_versions_mem_def sample_qsts_def empty_mem_def)
  have "q_Namespace sample_qsts \<noteq> ''''" by (simp add: sample_qsts_def)
  from GetMaxStatefulSetVersion_spec [OF this list sample_owned_list [symmetric] refl]
  show ?thesis by (simp add: int64_ok_def at_version_def)
qed

end
