(* ===== verification/Rollout.thy ===== *)
theory Rollout
  imports World
begin

text \<open>
  The canary rollout of \<open>pkg/kube/controllers/statefulset\<close>: the states and annotations, the
  time-outs, the helpers on pods, the \<open>Reconcile\<close> of \<open>ReconcileStatefulSetRollout\<close> with the
  functions it is split into, and the two configuration functions of the webhook.
\<close>

section \<open>States and annotations\<close>

definition rolloutStatePending :: string where "rolloutStatePending = ''Pending''"
definition rolloutStateCanary :: string where "rolloutStateCanary = ''Canary''"
definition rolloutStateRollout :: string where "rolloutStateRollout = ''Rollout''"
definition rolloutStateDone :: string where "rolloutStateDone = ''Done''"
definition rolloutStateFailed :: string where "rolloutStateFailed = ''Failed''"
definition rolloutStateCanaryUpscale :: string where "rolloutStateCanaryUpscale = ''CanaryUpscale''"

lemmas rollout_states =
  rolloutStatePending_def rolloutStateCanary_def rolloutStateRollout_def rolloutStateDone_def
  rolloutStateFailed_def rolloutStateCanaryUpscale_def

definition AnnotationCanaryRolloutEnabled :: "string \<Rightarrow> string" where
  [key_defs]: "AnnotationCanaryRolloutEnabled gn = gn @ ''/canary-rollout-enabled''"

definition AnnotationCanaryRollout :: "string \<Rightarrow> string" where
  [key_defs]: "AnnotationCanaryRollout gn = gn @ ''/canary-rollout''"

definition AnnotationCanaryWatchTime :: "string \<Rightarrow> string" where
  [key_defs]: "AnnotationCanaryWatchTime gn = gn @ ''/canary-watch-time-ms''"

definition AnnotationUpdateWatchTime :: "string \<Rightarrow> string" where
  [key_defs]: "AnnotationUpdateWatchTime gn = gn @ ''/update-watch-time-ms''"

definition AnnotationUpdateStartTime :: "string \<Rightarrow> string" where
  [key_defs]: "AnnotationUpdateStartTime gn = gn @ ''/update-start-time''"

abbreviation canary_state :: "lib \<Rightarrow> statefulset \<Rightarrow> string" where
  "canary_state L x \<equiv> gget (sts_Annotations x) (AnnotationCanaryRollout (gname L))"

section \<open>The partition\<close>

text \<open>
  \<open>statefulSet.Spec.UpdateStrategy.RollingUpdate.Partition\<close>, a pointer behind a pointer:
  reading the field panics if \<open>RollingUpdate\<close> is nil, and dereferencing it if \<open>Partition\<close>
  is nil.
\<close>

definition partitionPtr :: "statefulset \<Rightarrow> int option go" where
  "partitionPtr x =
     (case us_RollingUpdate (spec_UpdateStrategy (sts_Spec x)) of
        None \<Rightarrow> Panic | Some ru \<Rightarrow> Ret (ru_Partition ru))"

definition partitionVal :: "statefulset \<Rightarrow> int go" where
  "partitionVal x = (case partitionPtr x of Panic \<Rightarrow> Panic | Ret p \<Rightarrow> deref p)"

text \<open>Storing a pointer to \<open>p\<close> in the field; the caller has read the field before.\<close>

definition withPartition :: "int \<Rightarrow> statefulset \<Rightarrow> statefulset" where
  "withPartition p x =
     x\<lparr>sts_Spec := (sts_Spec x)\<lparr>spec_UpdateStrategy :=
        (spec_UpdateStrategy (sts_Spec x))\<lparr>us_RollingUpdate :=
           map_option (\<lambda>ru. ru\<lparr>ru_Partition := Some p\<rparr>)
             (us_RollingUpdate (spec_UpdateStrategy (sts_Spec x)))\<rparr>\<rparr>\<rparr>"

lemma partitionVal_Ret: "partitionVal x = Ret p \<Longrightarrow> partitionPtr x = Ret (Some p)"
  by (auto simp: partitionVal_def deref_def split: go.splits option.splits)

lemma partitionVal_Some: "partitionPtr x = Ret (Some p) \<Longrightarrow> partitionVal x = Ret p"
  by (simp add: partitionVal_def)

lemma partitionPtr_with [simp]:
  "partitionPtr (withPartition p x) = (case partitionPtr x of Panic \<Rightarrow> Panic | Ret _ \<Rightarrow> Ret (Some p))"
  by (auto simp: partitionPtr_def withPartition_def split: option.splits)

lemma withPartition_frame [simp]:
  "sts_Name (withPartition p x) = sts_Name x"
  "sts_Namespace (withPartition p x) = sts_Namespace x"
  "sts_Labels (withPartition p x) = sts_Labels x"
  "sts_Annotations (withPartition p x) = sts_Annotations x"
  "sts_OwnerReferences (withPartition p x) = sts_OwnerReferences x"
  "sts_Status (withPartition p x) = sts_Status x"
  "spec_Replicas (sts_Spec (withPartition p x)) = spec_Replicas (sts_Spec x)"
  "spec_Template (sts_Spec (withPartition p x)) = spec_Template (sts_Spec x)"
  by (simp_all add: withPartition_def)

section \<open>Pods of a StatefulSet\<close>

definition podNameOf :: "statefulset \<Rightarrow> int \<Rightarrow> string" where
  "podNameOf x index = sts_Name x @ ''-'' @ Itoa index"

definition podKey :: "statefulset \<Rightarrow> int \<Rightarrow> nsname" where
  "podKey x index = \<lparr>nn_Namespace = sts_Namespace x, nn_Name = podNameOf x index\<rparr>"

text \<open>\<open>getPodWithIndex\<close>: a missing pod is no error, but no pod and not ready.\<close>

definition getPodWithIndex ::
  "lib \<Rightarrow> 's world \<Rightarrow> statefulset \<Rightarrow> int \<Rightarrow> ('s, go_error + (pod option \<times> bool)) state" where
  "getPodWithIndex L W x index = do {
     r \<leftarrow> w_GetPod W (podKey x index);
     State_Monad.return (case r of
       Inl err \<Rightarrow> (if crc_IgnoreNotFound L err = None then Inr (None, False) else Inl err)
     | Inr pod \<Rightarrow> Inr (Some pod, podutil_IsPodReady L pod)) }"

text \<open>\<open>CleanupNonReadyPod\<close> deletes the pod with the given index unless it is ready.\<close>

definition CleanupNonReadyPod ::
  "lib \<Rightarrow> 's world \<Rightarrow> statefulset \<Rightarrow> int \<Rightarrow> ('s, go_error option) state" where
  "CleanupNonReadyPod L W x index = do {
     r \<leftarrow> getPodWithIndex L W x index;
     case r of
       Inl err \<Rightarrow> State_Monad.return (Some err)
     | Inr (p, ready) \<Rightarrow>
         (case p of
            None \<Rightarrow> State_Monad.return None
          | Some pod \<Rightarrow> (if ready then State_Monad.return None else w_DeletePod W pod)) }"

text \<open>\<open>partitionPodIsReadyAndUpdated\<close> looks at the pod whose index is the partition.\<close>

definition podIsUpdated :: "lib \<Rightarrow> statefulset \<Rightarrow> pod \<Rightarrow> bool" where
  "podIsUpdated L x pod \<longleftrightarrow>
     gget (pod_Labels pod) (appsv1_StatefulSetRevisionLabel L) = st_UpdateRevision (sts_Status x)"

definition partitionPodIsReadyAndUpdated ::
  "lib \<Rightarrow> 's world \<Rightarrow> statefulset \<Rightarrow> ('s, (go_error + bool) go) state" where
  "partitionPodIsReadyAndUpdated L W x =
     (if us_RollingUpdate (spec_UpdateStrategy (sts_Spec x)) \<noteq> None
      then gobind (golift (partitionVal x)) (\<lambda>part. do {
        r \<leftarrow> getPodWithIndex L W x part;
        case r of
          Inl err \<Rightarrow> gret (Inl err)
        | Inr (p, podReady) \<Rightarrow>
            (if podReady
             then gobind (golift (deref p)) (\<lambda>pod. gret (Inr (podIsUpdated L x pod)))
             else gret (Inr False)) })
      else gret (Inr False))"

section \<open>Time-outs\<close>

text \<open>
  \<open>time.Unix(sec, 0)\<close> and \<open>Time.Add\<close> keep the seconds, counted from year 1, in an
  \<open>int64\<close>; \<open>time.Until\<close> saturates at the ends of \<open>time.Duration\<close>.
\<close>

definition unixToInternal :: int where "unixToInternal = 62135596800"

definition norm_time :: "int \<Rightarrow> int" where
  "norm_time t = (wrap64 (t div 10 ^ 9 + unixToInternal) - unixToInternal) * 10 ^ 9 + t mod 10 ^ 9"

definition time_Unix :: "int \<Rightarrow> int" where
  "time_Unix sec = norm_time (sec * 10 ^ 9)"

definition time_Add :: "int \<Rightarrow> int \<Rightarrow> int" where
  "time_Add t d = norm_time (t + d)"

definition sat64 :: "int \<Rightarrow> int" where
  "sat64 d = max (- (2 ^ 63)) (min (2 ^ 63 - 1) d)"

definition time_Until :: "int \<Rightarrow> int \<Rightarrow> int" where
  "time_Until now t = sat64 (t - now)"

text \<open>
  \<open>getTimeOut\<close>: 0 never times out, a negative value has timed out. A missing or empty watch
  time never times out; a malformed watch or start time has timed out.
\<close>

definition getTimeOut :: "lib \<Rightarrow> 's world \<Rightarrow> statefulset \<Rightarrow> string \<Rightarrow> ('s, int) state" where
  "getTimeOut L W x watchTimeAnnotation =
     (let watchTimeStr = gget (sts_Annotations x) watchTimeAnnotation in
      if \<not> ghas (sts_Annotations x) watchTimeAnnotation \<or> watchTimeStr = ''''
      then State_Monad.return 0
      else case Atoi watchTimeStr of
        Inl err \<Rightarrow> State_Monad.return (-1)
      | Inr watchTime \<Rightarrow>
          (case Atoi (gget (sts_Annotations x) (AnnotationUpdateStartTime (gname L))) of
             Inl err \<Rightarrow> State_Monad.return (-1)
           | Inr updateStartTimeUnix \<Rightarrow> do {
               now \<leftarrow> w_Now W;
               let timeLeft = time_Until now
                 (time_Add (time_Unix updateStartTimeUnix) (wrap64 (time_Millisecond * watchTime)));
               State_Monad.return (if timeLeft = 0 then -1 else timeLeft) }))"

section \<open>Writing the StatefulSet\<close>

text \<open>The mutate function \<open>updateStatefulSet\<close> hands to \<open>CreateOrUpdate\<close>.\<close>

definition rolloutMutate :: "lib \<Rightarrow> int \<Rightarrow> string \<Rightarrow> statefulset \<Rightarrow> statefulset go" where
  "rolloutMutate L part state x =
     (case partitionPtr x of
        Panic \<Rightarrow> Panic
      | Ret _ \<Rightarrow>
          (case gset (sts_Annotations x) (AnnotationCanaryRollout (gname L)) state of
             Panic \<Rightarrow> Panic
           | Ret m \<Rightarrow> Ret ((withPartition part x)\<lparr>sts_Annotations := m\<rparr>)))"

fun isConflict :: "go_error \<Rightarrow> bool" where
  "isConflict (StatusError code msg) = (code = 409)"
| "isConflict _ = False"

definition updateStatefulSet ::
  "lib \<Rightarrow> 's world \<Rightarrow> statefulset \<Rightarrow> ('s, (go_error option \<times> statefulset) go) state" where
  "updateStatefulSet L W x = do {
     now \<leftarrow> w_Now W;
     let x1 = x\<lparr>sts_Annotations := meltdown_SetLastReconcile L (sts_Annotations x) now\<rparr>;
     gobind (golift (partitionVal x1)) (\<lambda>part.
       let state = canary_state L x1 in
       gobind (w_CreateOrUpdate W x1 (rolloutMutate L part state)) (\<lambda>(err, x2).
         case err of
           None \<Rightarrow> gret (None, x2)
         | Some e \<Rightarrow>
             (if isConflict e
              then gret (Some (Wrapf e ''Conflict while updating stateful set''), x2)
              else gret (Some e, x2)))) }"

definition updateWithPartitionMove ::
  "lib \<Rightarrow> 's world \<Rightarrow> statefulset \<Rightarrow> int \<Rightarrow> ('s, go_error option go) state" where
  "updateWithPartitionMove L W x oldPartition =
     gobind (updateStatefulSet L W x) (\<lambda>(err, x1).
       case err of
         Some e \<Rightarrow> gret (Some e)
       | None \<Rightarrow>
           gobind (golift (partitionVal x1)) (\<lambda>p.
             if oldPartition \<noteq> p
             then do { err \<leftarrow> CleanupNonReadyPod L W x1 p; gret err }
             else gret None))"

definition failIfTimedOut ::
  "lib \<Rightarrow> 's world \<Rightarrow> statefulset \<Rightarrow> string \<Rightarrow> ('s, (bool \<times> go_error option) go) state" where
  "failIfTimedOut L W x timeout = do {
     d \<leftarrow> getTimeOut L W x timeout;
     if d < 0
     then gobind (golift (gset (sts_Annotations x) (AnnotationCanaryRollout (gname L)) rolloutStateFailed))
       (\<lambda>m. gobind (updateStatefulSet L W (x\<lparr>sts_Annotations := m\<rparr>)) (\<lambda>(err, x1). gret (True, err)))
     else gret (False, None) }"

section \<open>Reconcile\<close>

text \<open>
  The \<open>switch\<close> ends with the local variables it has assigned: the StatefulSet, \<open>newStatus\<close>,
  \<open>dirty\<close> and \<open>resultWithRetrigger\<close>; or with an error that \<open>Reconcile\<close> returns.
\<close>

datatype switch_out =
    SwitchErr go_error
  | SwitchOk statefulset string bool reconcile_result

text \<open>Case \<open>rolloutStateCanaryUpscale\<close>.\<close>

definition caseCanaryUpscale ::
  "statefulset \<Rightarrow> string \<Rightarrow> reconcile_result \<Rightarrow> ('s, switch_out go) state" where
  "caseCanaryUpscale x status res =
     gobind (golift (deref (spec_Replicas (sts_Spec x)))) (\<lambda>replicas.
       if st_Replicas (sts_Status x) = replicas \<and> st_ReadyReplicas (sts_Status x) = replicas
       then gobind (golift (partitionVal x)) (\<lambda>p.
         if p = 0 then gret (SwitchOk x rolloutStateDone False res)
         else gret (SwitchOk (withPartition (dec32 p) x) rolloutStateRollout False res))
       else gret (SwitchOk x status False res))"

text \<open>Case \<open>rolloutStateRollout\<close>, into which case \<open>rolloutStateCanary\<close> falls through.\<close>

definition caseRollout ::
  "lib \<Rightarrow> 's world \<Rightarrow> statefulset \<Rightarrow> string \<Rightarrow> reconcile_result \<Rightarrow> ('s, switch_out go) state" where
  "caseRollout L W x status res =
     (let res1 = (if RequeueAfter res > time_Minute then res\<lparr>RequeueAfter := time_Minute\<rparr> else res) in
      gobind (partitionPodIsReadyAndUpdated L W x) (\<lambda>r.
        case r of
          Inl err \<Rightarrow> gret (SwitchErr err)
        | Inr ready \<Rightarrow>
            gobind (golift (partitionVal x)) (\<lambda>p.
              if p = 0
              then gret (SwitchOk x (if ready then rolloutStateDone else status) False res1)
              else if \<not> ready then gret (SwitchOk x status False res1)
              else gret (SwitchOk (withPartition (dec32 p) x) rolloutStateRollout True
                          (res1\<lparr>Requeue := True\<rparr>)))))"

definition caseCanary ::
  "lib \<Rightarrow> 's world \<Rightarrow> statefulset \<Rightarrow> string \<Rightarrow> reconcile_result \<Rightarrow> ('s, switch_out go) state" where
  "caseCanary L W x status res = do {
     d \<leftarrow> getTimeOut L W x (AnnotationCanaryWatchTime (gname L));
     if d < 0 then gret (SwitchOk x rolloutStateFailed False res)
     else caseRollout L W x status res }"

text \<open>Case \<open>rolloutStatePending\<close>.\<close>

definition casePending ::
  "lib \<Rightarrow> 's world \<Rightarrow> statefulset \<Rightarrow> string \<Rightarrow> reconcile_result \<Rightarrow> ('s, switch_out go) state" where
  "casePending L W x status res =
     gobind (golift (deref (spec_Replicas (sts_Spec x)))) (\<lambda>replicas.
       if st_Replicas (sts_Status x) < replicas
       then gobind (golift (partitionVal x)) (\<lambda>p. do {
         let x1 = (if p > 0 then withPartition (dec32 p) x else x);
         d \<leftarrow> getTimeOut L W x1 (AnnotationUpdateWatchTime (gname L));
         gret (SwitchOk x1 rolloutStateCanaryUpscale False (res\<lparr>RequeueAfter := d\<rparr>)) })
       else do {
         d \<leftarrow> getTimeOut L W x (AnnotationCanaryWatchTime (gname L));
         gobind (golift (partitionVal x)) (\<lambda>p.
           gret (SwitchOk (withPartition (dec32 p) x) rolloutStateCanary True
                  (res\<lparr>RequeueAfter := d\<rparr>))) })"

definition rolloutSwitch ::
  "lib \<Rightarrow> 's world \<Rightarrow> statefulset \<Rightarrow> string \<Rightarrow> reconcile_result \<Rightarrow> ('s, switch_out go) state" where
  "rolloutSwitch L W x status res =
     (if status = rolloutStateCanaryUpscale then caseCanaryUpscale x status res
      else if status = rolloutStateCanary then caseCanary L W x status res
      else if status = rolloutStateRollout then caseRollout L W x status res
      else if status = rolloutStatePending then casePending L W x status res
      else gret (SwitchOk x status False res))"

text \<open>What follows the \<open>switch\<close>: the state annotation and the write.\<close>

definition rolloutFinish ::
  "lib \<Rightarrow> 's world \<Rightarrow> statefulset \<Rightarrow> string \<Rightarrow> bool \<Rightarrow> int \<Rightarrow> reconcile_result \<Rightarrow> ('s, reconcile_out) state" where
  "rolloutFinish L W x newStatus dirty0 oldPartition res =
     (let statusChanged = (newStatus \<noteq> canary_state L x);
          dirty = (statusChanged \<or> dirty0) in
      gobind (golift (if statusChanged
                then gset (sts_Annotations x) (AnnotationCanaryRollout (gname L)) newStatus
                else Ret (sts_Annotations x))) (\<lambda>m.
        if dirty
        then gobind (updateWithPartitionMove L W (x\<lparr>sts_Annotations := m\<rparr>) oldPartition) (\<lambda>err.
          case err of
            Some e \<Rightarrow> gret (empty_result, Some e)
          | None \<Rightarrow> gret (res, None))
        else gret (res, None)))"

text \<open>From the test of the final states to the end.\<close>

definition rolloutAdvance :: "lib \<Rightarrow> 's world \<Rightarrow> statefulset \<Rightarrow> ('s, reconcile_out) state" where
  "rolloutAdvance L W x =
     (let status = canary_state L x in
      if status = rolloutStateFailed \<or> status = rolloutStateDone
      then gret (empty_result, None)
      else gobind (golift (partitionPtr x)) (\<lambda>ptr.
        let oldPartition = (case ptr of None \<Rightarrow> -1 | Some p \<Rightarrow> p) in
        gobind (failIfTimedOut L W x (AnnotationUpdateWatchTime (gname L))) (\<lambda>(timedOut, err).
          if timedOut \<or> err \<noteq> None then gret (empty_result, err)
          else do {
            d \<leftarrow> getTimeOut L W x (AnnotationUpdateWatchTime (gname L));
            gobind (rolloutSwitch L W x status (requeue_after d)) (\<lambda>out.
              case out of
                SwitchErr e \<Rightarrow> gret (empty_result, Some e)
              | SwitchOk x1 newStatus dirty res \<Rightarrow>
                  rolloutFinish L W x1 newStatus dirty oldPartition res) })))"

definition rolloutReconcile ::
  "lib \<Rightarrow> config \<Rightarrow> 's world \<Rightarrow> nsname \<Rightarrow> ('s, reconcile_out) state" where
  "rolloutReconcile L cfg W request = do {
     r \<leftarrow> w_GetSts W request;
     case r of
       Inl err \<Rightarrow> gret (empty_result, Some err)
     | Inr x \<Rightarrow> do {
         now \<leftarrow> w_Now W;
         if meltdown_AnnotationWindow_Contains L (MeltdownDuration cfg) (sts_Annotations x) now
         then gret (requeue_after (MeltdownRequeueAfter cfg), None)
         else rolloutAdvance L W x } }"

section \<open>Configuration by the webhook\<close>

definition withUpdateStrategy :: "update_strategy \<Rightarrow> statefulset \<Rightarrow> statefulset" where
  "withUpdateStrategy u x = x\<lparr>sts_Spec := (sts_Spec x)\<lparr>spec_UpdateStrategy := u\<rparr>\<rparr>"

text \<open>The start time is \<open>strconv.FormatInt(time.Now().Unix(), 10)\<close>.\<close>

definition unixSeconds :: "int \<Rightarrow> int" where
  "unixSeconds now = now div 10 ^ 9"

definition startRollout :: "lib \<Rightarrow> string \<Rightarrow> int \<Rightarrow> int \<Rightarrow> statefulset \<Rightarrow> statefulset go" where
  "startRollout L state part now x =
     (case gset (sts_Annotations x) (AnnotationCanaryRollout (gname L)) state of
        Panic \<Rightarrow> Panic
      | Ret m1 \<Rightarrow>
          (case gset m1 (AnnotationUpdateStartTime (gname L)) (Itoa (unixSeconds now)) of
             Panic \<Rightarrow> Panic
           | Ret m2 \<Rightarrow>
               Ret ((withUpdateStrategy
                      \<lparr>us_Type = appsv1_RollingUpdateStatefulSetStrategyType L,
                       us_RollingUpdate = Some \<lparr>ru_Partition = Some part\<rparr>\<rparr> x)
                    \<lparr>sts_Annotations := m2\<rparr>)))"

definition ConfigureStatefulSetForRollout :: "lib \<Rightarrow> int \<Rightarrow> statefulset \<Rightarrow> statefulset go" where
  "ConfigureStatefulSetForRollout L now x =
     (case deref (spec_Replicas (sts_Spec x)) of
        Panic \<Rightarrow> Panic
      | Ret replicas \<Rightarrow>
          startRollout L rolloutStatePending
            (util_MinInt32 L replicas (st_Replicas (sts_Status x))) now x)"

definition ConfigureStatefulSetForInitialRollout :: "lib \<Rightarrow> int \<Rightarrow> statefulset \<Rightarrow> statefulset go" where
  "ConfigureStatefulSetForInitialRollout L now x =
     startRollout L rolloutStateCanaryUpscale 0 now x"

end
