(* ===== verification/Json.thy ===== *)
theory Json
  imports Prelude
begin

text \<open>
  \<open>json.Marshal\<close> of a \<open>[]string\<close>, as Go's standard library does it: a Go string is a
  sequence of bytes, read as UTF-8; the quote, the backslash, control characters and the HTML
  characters are escaped, U+2028 and U+2029 too, and an invalid byte becomes the replacement
  character. Then the round trip for names that need no escape, which zone names are.
\<close>

section \<open>UTF-8\<close>

definition in_range :: "nat \<Rightarrow> nat \<Rightarrow> nat \<Rightarrow> bool" where
  "in_range lo hi b \<longleftrightarrow> lo \<le> b \<and> b \<le> hi"

text \<open>
  The number of bytes of the character that starts with the lead byte \<open>b\<close> (above 127), or 0
  if it is invalid: the second byte has a range of its own, the others are 0x80 to 0xBF.
\<close>

definition utf8_second :: "nat \<Rightarrow> (nat \<times> nat \<times> nat) option" where
  "utf8_second b =
     (if in_range 194 223 b then Some (2, 128, 191)
      else if b = 224 then Some (3, 160, 191)
      else if b = 237 then Some (3, 128, 159)
      else if in_range 225 239 b then Some (3, 128, 191)
      else if b = 240 then Some (4, 144, 191)
      else if in_range 241 243 b then Some (4, 128, 191)
      else if b = 244 then Some (4, 128, 143)
      else None)"

definition utf8_size :: "nat \<Rightarrow> nat list \<Rightarrow> nat" where
  "utf8_size b bs =
     (case utf8_second b of
        None \<Rightarrow> 0
      | Some (n, lo, hi) \<Rightarrow>
          (case take (n - 1) bs of
             [] \<Rightarrow> 0
           | c # cs \<Rightarrow> if length cs = n - 2 \<and> in_range lo hi c \<and> list_all (in_range 128 191) cs then n else 0))"

section \<open>Encoding of strings\<close>

definition bytes :: "string \<Rightarrow> nat list" where
  "bytes s = map of_char s"

definition json_quote :: char where "json_quote = CHR 0x22"

definition json_backslash :: char where "json_backslash = CHR 0x5C"

definition hex_digit :: "nat \<Rightarrow> char" where
  "hex_digit d = ''0123456789abcdef'' ! d"

text \<open>Byte values: 34 is the quote, 92 the backslash, 10, 13, 9 the escapes with a letter,
  38, 60, 62 the HTML characters.\<close>

definition json_escape_ascii :: "nat \<Rightarrow> string" where
  "json_escape_ascii b =
     (if b = 34 \<or> b = 92 then [json_backslash, char_of b]
      else if b = 10 then [json_backslash, CHR ''n'']
      else if b = 13 then [json_backslash, CHR ''r'']
      else if b = 9 then [json_backslash, CHR ''t'']
      else if b < 32 \<or> b = 38 \<or> b = 60 \<or> b = 62
      then json_backslash # ''u00'' @ [hex_digit (b div 16), hex_digit (b mod 16)]
      else [char_of b])"

function json_escape :: "nat list \<Rightarrow> string" where
  "json_escape [] = []"
| "json_escape (b # bs) =
     (if b < 128 then json_escape_ascii b @ json_escape bs
      else
        let n = utf8_size b bs in
        if n = 0 then json_backslash # ''ufffd'' @ json_escape bs
        else
          let cs = b # take (n - 1) bs in
          (if cs = [226, 128, 168] then json_backslash # ''u2028''
           else if cs = [226, 128, 169] then json_backslash # ''u2029''
           else map char_of cs) @ json_escape (drop (n - 1) bs))"
  by pat_completeness auto
termination by (relation "measure length") auto

definition json_Marshal_string :: "string \<Rightarrow> string" where
  "json_Marshal_string s = json_quote # json_escape (bytes s) @ [json_quote]"

fun json_elements :: "string list \<Rightarrow> string" where
  "json_elements [] = []"
| "json_elements [s] = json_Marshal_string s"
| "json_elements (s # ss) = json_Marshal_string s @ '','' @ json_elements ss"

text \<open>\<open>json.Marshal\<close> of a slice of strings that is not nil; it never fails.\<close>

definition json_Marshal_strings :: "string list \<Rightarrow> string" where
  "json_Marshal_strings ss = ''['' @ json_elements ss @ '']''"

section \<open>Reading plain arrays back\<close>

text \<open>A character that JSON stores as it is; letters, digits, dash, dot and underscore are.\<close>

definition plain_char :: "char \<Rightarrow> bool" where
  "plain_char c \<longleftrightarrow> (let b = of_char c :: nat in
     32 \<le> b \<and> b < 128 \<and> b \<noteq> 34 \<and> b \<noteq> 92 \<and> b \<noteq> 38 \<and> b \<noteq> 60 \<and> b \<noteq> 62)"

definition plain :: "string \<Rightarrow> bool" where
  "plain s \<longleftrightarrow> list_all plain_char s"

lemma plain_simps [simp]: "plain []" "plain (c # s) \<longleftrightarrow> plain_char c \<and> plain s"
  by (simp_all add: plain_def)

lemma plain_escape: "plain s \<Longrightarrow> json_escape (bytes s) = s"
  by (induction s) (auto simp: bytes_def plain_char_def json_escape_ascii_def Let_def)

lemma plain_no_quote: "plain s \<Longrightarrow> json_quote \<notin> set s"
  by (induction s) (auto simp: plain_char_def json_quote_def)

text \<open>The strings of an array without escapes: the text between each pair of quotes.\<close>

function read_strings :: "string \<Rightarrow> string list" where
  "read_strings [] = []"
| "read_strings (c # cs) =
     (if c = json_quote
      then takeWhile (\<lambda>d. d \<noteq> json_quote) cs # read_strings (tl (dropWhile (\<lambda>d. d \<noteq> json_quote) cs))
      else read_strings cs)"
  by pat_completeness auto
termination
  by (relation "measure length") (auto simp: less_Suc_eq_le intro: order_trans [OF diff_le_self length_dropWhile_le])

lemma read_marshalled:
  "plain s \<Longrightarrow> read_strings (json_Marshal_string s @ rest) = s # read_strings rest"
proof -
  assume "plain s"
  then have "takeWhile (\<lambda>d. d \<noteq> json_quote) s = s" "dropWhile (\<lambda>d. d \<noteq> json_quote) s = []"
    using plain_no_quote [of s] by (auto simp: takeWhile_eq_all_conv)
  with \<open>plain s\<close> show ?thesis
    by (simp add: json_Marshal_string_def plain_escape takeWhile_append dropWhile_append)
qed

lemma read_elements: "list_all plain ss \<Longrightarrow> read_strings (json_elements ss @ '']'') = ss"
  by (induction ss rule: json_elements.induct) (auto simp: read_marshalled json_quote_def)

lemma read_Marshal: "list_all plain ss \<Longrightarrow> read_strings (json_Marshal_strings ss) = ss"
  by (simp add: json_Marshal_strings_def read_elements json_quote_def)

lemma Marshal_inj:
  "list_all plain xs \<Longrightarrow> list_all plain ys \<Longrightarrow> json_Marshal_strings xs = json_Marshal_strings ys \<longleftrightarrow> xs = ys"
  by (metis read_Marshal)

end
