(* ===== verification/Generate.thy ===== *)
theory Generate
  imports Versions Rollout Json
begin

text \<open>
  The StatefulSets a QuarksStatefulSet wants
  (\<open>quarksstatefulset_reconciler.go\<close>, from \<open>calculateDesiredStatefulSets\<close> down): the
  environment of the containers, the affinity to a zone, one StatefulSet per zone.
\<close>

section \<open>Environment variables\<close>

definition EnvKubeAz :: string where "EnvKubeAz = ''KUBE_AZ''"
definition EnvBoshAz :: string where "EnvBoshAz = ''BOSH_AZ''"
definition EnvReplicas :: string where "EnvReplicas = ''REPLICAS''"
definition EnvCfOperatorAz :: string where "EnvCfOperatorAz = ''CF_OPERATOR_AZ''"
definition EnvCFOperatorAZIndex :: string where "EnvCFOperatorAZIndex = ''AZ_INDEX''"

lemmas env_names = EnvKubeAz_def EnvBoshAz_def EnvReplicas_def EnvCfOperatorAz_def EnvCFOperatorAZIndex_def

text \<open>\<open>upsertEnvs\<close> sets the value of the first variable of that name, or appends one.\<close>

fun upsertEnvs :: "env_var list \<Rightarrow> string \<Rightarrow> string \<Rightarrow> env_var list" where
  "upsertEnvs [] name val = [\<lparr>env_Name = name, env_Value = val, env_ValueFrom = None\<rparr>]"
| "upsertEnvs (env # envs) name val =
     (if env_Name env = name then env\<lparr>env_Value := val\<rparr> # envs else env # upsertEnvs envs name val)"

text \<open>The loop body of \<open>injectContainerEnv\<close>; \<open>*replicas\<close> panics if it is nil.\<close>

definition injectEnvs ::
  "int \<Rightarrow> string \<Rightarrow> int option \<Rightarrow> bool option \<Rightarrow> env_var list \<Rightarrow> env_var list go" where
  "injectEnvs zoneIndex zoneName replicas injectReplicasEnv envs0 =
     (let envs =
        (if zoneIndex \<ge> 0 then
           (let envs1 = upsertEnvs envs0 EnvKubeAz zoneName;
                envs2 = upsertEnvs envs1 EnvBoshAz zoneName;
                envs3 = upsertEnvs envs2 EnvCfOperatorAz zoneName
            in upsertEnvs envs3 EnvCFOperatorAZIndex (Itoa (wrap64 (zoneIndex + 1))))
         else upsertEnvs envs0 EnvCFOperatorAZIndex ''1'')
      in if injectReplicasEnv = None \<or> injectReplicasEnv = Some True
         then (case deref replicas of Panic \<Rightarrow> Panic
               | Ret r \<Rightarrow> Ret (upsertEnvs envs EnvReplicas (Itoa r)))
         else Ret envs)"

fun injectContainers ::
  "(env_var list \<Rightarrow> env_var list go) \<Rightarrow> container list \<Rightarrow> container list go" where
  "injectContainers f [] = Ret []"
| "injectContainers f (c # cs) =
     (case f (con_Env c) of Panic \<Rightarrow> Panic
      | Ret envs \<Rightarrow>
          (case injectContainers f cs of Panic \<Rightarrow> Panic
           | Ret cs' \<Rightarrow> Ret (c\<lparr>con_Env := envs\<rparr> # cs')))"

definition injectContainerEnv ::
  "pod_spec \<Rightarrow> int \<Rightarrow> string \<Rightarrow> int option \<Rightarrow> bool option \<Rightarrow> pod_spec go" where
  "injectContainerEnv ps zoneIndex zoneName replicas injectReplicasEnv =
     (let f = injectEnvs zoneIndex zoneName replicas injectReplicasEnv in
      case injectContainers f (ps_Containers ps) of Panic \<Rightarrow> Panic
      | Ret cs \<Rightarrow>
          (case injectContainers f (ps_InitContainers ps) of Panic \<Rightarrow> Panic
           | Ret ics \<Rightarrow> Ret (ps\<lparr>ps_Containers := cs, ps_InitContainers := ics\<rparr>)))"

section \<open>Affinity\<close>

definition withAffinity :: "affinity \<Rightarrow> statefulset \<Rightarrow> statefulset" where
  "withAffinity a x = x\<lparr>sts_Spec := (sts_Spec x)\<lparr>spec_Template := (spec_Template (sts_Spec x))
     \<lparr>pt_Spec := (pt_Spec (spec_Template (sts_Spec x)))\<lparr>ps_Affinity := Some a\<rparr>\<rparr>\<rparr>\<rparr>"

definition zoneTerm :: "lib \<Rightarrow> string \<Rightarrow> string \<Rightarrow> node_selector_term" where
  "zoneTerm L zoneNodeLabel zoneName =
     \<lparr>nst_MatchExpressions =
        [\<lparr>nsr_Key = zoneNodeLabel, nsr_Operator = corev1_NodeSelectorOpIn L, nsr_Values = [zoneName]\<rparr>],
      nst_MatchFields = []\<rparr>"

definition updateAffinity :: "lib \<Rightarrow> statefulset \<Rightarrow> string \<Rightarrow> string \<Rightarrow> statefulset" where
  "updateAffinity L x zoneNodeLabel zoneName =
     (let affinity = (case ps_Affinity (pt_Spec (spec_Template (sts_Spec x))) of
            None \<Rightarrow> \<lparr>aff_NodeAffinity = None, aff_Rest = ''''\<rparr> | Some a \<Rightarrow> a);
          nodeAffinity = (case aff_NodeAffinity affinity of
            None \<Rightarrow> \<lparr>na_Required = None, na_Rest = ''''\<rparr> | Some n \<Rightarrow> n);
          terms = (case na_Required nodeAffinity of
            None \<Rightarrow> [zoneTerm L zoneNodeLabel zoneName]
          | Some ts \<Rightarrow> ts @ [zoneTerm L zoneNodeLabel zoneName])
      in withAffinity (affinity\<lparr>aff_NodeAffinity := Some (nodeAffinity\<lparr>na_Required := Some terms\<rparr>)\<rparr>) x)"

section \<open>One StatefulSet\<close>

definition zonePrefix :: "quarks_statefulset \<Rightarrow> int \<Rightarrow> string \<Rightarrow> string" where
  "zonePrefix q zoneIndex zoneName =
     (if zoneName \<noteq> '''' then q_Name q @ ''-z'' @ Itoa zoneIndex else q_Name q)"

text \<open>The maps \<open>labels\<close> and \<open>annotations\<close> before the version is added.\<close>

definition zoneLabels :: "lib \<Rightarrow> quarks_statefulset \<Rightarrow> int \<Rightarrow> string \<Rightarrow> (string \<rightharpoonup> string)" where
  "zoneLabels L q zoneIndex zoneName =
     ((if zoneName \<noteq> '''' then [LabelAZName (gname L) \<mapsto> zoneName] else Map.empty)
        (LabelAZIndex (gname L) \<mapsto> Itoa zoneIndex,
         LabelQStsName (gname L) \<mapsto> zonePrefix q zoneIndex zoneName))"

definition zoneAnnotations :: "lib \<Rightarrow> quarks_statefulset \<Rightarrow> string \<Rightarrow> (string \<rightharpoonup> string)" where
  "zoneAnnotations L q zoneName =
     ((if zoneName \<noteq> '''' then [AnnotationZones (gname L) \<mapsto> json_Marshal_strings (qs_Zones (q_Spec q))]
       else Map.empty)
        (AnnotationCanaryRolloutEnabled (gname L) \<mapsto> ''true''))"

text \<open>The template with the affinity to its zone, if it has one.\<close>

definition zonedTemplate :: "lib \<Rightarrow> quarks_statefulset \<Rightarrow> statefulset \<Rightarrow> string \<Rightarrow> statefulset" where
  "zonedTemplate L q template zoneName =
     (if zoneName \<noteq> '''' then updateAffinity L template (qs_ZoneNodeLabel (q_Spec q)) zoneName
      else template)"

text \<open>
  \<open>generateSingleStatefulSet\<close>. Its only error is that of marshalling the zones, which cannot
  fail for strings, so the result is the StatefulSet or a panic.
\<close>

definition generateSingleStatefulSet ::
  "lib \<Rightarrow> quarks_statefulset \<Rightarrow> statefulset \<Rightarrow> int \<Rightarrow> string \<Rightarrow> int \<Rightarrow> statefulset go" where
  "generateSingleStatefulSet L q template zoneIndex zoneName version =
     (let labels = zoneLabels L q zoneIndex zoneName;
          annotations = zoneAnnotations L q zoneName;
          x1 = zonedTemplate L q template zoneName;
          t1 = spec_Template (sts_Spec x1);
          t2 = t1\<lparr>pt_Labels := util_UnionMaps L (pt_Labels t1) (Some labels),
                  pt_Annotations := util_UnionMaps L (pt_Annotations t1) (Some annotations)\<rparr>
      in case injectContainerEnv (pt_Spec t2) zoneIndex zoneName
           (spec_Replicas (sts_Spec (qs_Template (q_Spec q)))) (qs_InjectReplicasEnv (q_Spec q)) of
        Panic \<Rightarrow> Panic
      | Ret ps \<Rightarrow> Ret (x1\<lparr>
          sts_Name := zonePrefix q zoneIndex zoneName,
          sts_Labels := util_UnionMaps L (sts_Labels x1) (Some labels),
          sts_Annotations := util_UnionMaps L (sts_Annotations x1)
            (Some (annotations(AnnotationVersion (gname L) \<mapsto> Itoa version))),
          sts_Spec := (sts_Spec x1)\<lparr>spec_Selector := Some (Some labels),
            spec_Template := t2\<lparr>pt_Spec := ps\<rparr>\<rparr>\<rparr>))"

section \<open>All StatefulSets\<close>

fun generateZones ::
  "lib \<Rightarrow> quarks_statefulset \<Rightarrow> statefulset \<Rightarrow> int \<Rightarrow> int \<Rightarrow> string list \<Rightarrow> statefulset list go" where
  "generateZones L q template version zoneIndex [] = Ret []"
| "generateZones L q template version zoneIndex (zoneName # zones) =
     (case generateSingleStatefulSet L q template zoneIndex zoneName version of
        Panic \<Rightarrow> Panic
      | Ret x \<Rightarrow>
          (case generateZones L q template version (zoneIndex + 1) zones of
             Panic \<Rightarrow> Panic
           | Ret xs \<Rightarrow> Ret (x # xs)))"

text \<open>\<open>calculateDesiredStatefulSets\<close> also sets the default zone label on the resource it is given.\<close>

definition withZoneNodeLabel :: "quarks_statefulset \<Rightarrow> quarks_statefulset" where
  "withZoneNodeLabel q =
     (if qs_ZoneNodeLabel (q_Spec q) = ''''
      then q\<lparr>q_Spec := (q_Spec q)\<lparr>qs_ZoneNodeLabel := DefaultZoneNodeLabel\<rparr>\<rparr> else q)"

definition desiredStatefulSets :: "lib \<Rightarrow> quarks_statefulset \<Rightarrow> int \<Rightarrow> statefulset list go" where
  "desiredStatefulSets L q desiredVersion =
     (let template = (qs_Template (q_Spec q))\<lparr>sts_Namespace := q_Namespace q\<rparr> in
      if length (qs_Zones (q_Spec q)) > 0
      then generateZones L q template desiredVersion 0 (qs_Zones (q_Spec q))
      else (case generateSingleStatefulSet L q template 0 '''' desiredVersion of
              Panic \<Rightarrow> Panic | Ret x \<Rightarrow> Ret [x]))"

definition calculateDesiredStatefulSets ::
  "lib \<Rightarrow> 's world \<Rightarrow> quarks_statefulset \<Rightarrow>
   ('s, ((go_error + statefulset list) \<times> quarks_statefulset) go) state" where
  "calculateDesiredStatefulSets L W q = do {
     r \<leftarrow> GetMaxStatefulSetVersion L W q;
     case r of
       Inl err \<Rightarrow> gret (Inl err, q)
     | Inr (_, currentVersion) \<Rightarrow>
         let q1 = withZoneNodeLabel q in
         gobind (golift (desiredStatefulSets L q1 (wrap64 (currentVersion + 1)))) (\<lambda>xs. gret (Inr xs, q1)) }"

end
