(* ===== verification/Qsts.thy ===== *)
theory Qsts
  imports Generate
begin

text \<open>
  The reconciler of QuarksStatefulSets (\<open>quarksstatefulset_reconciler.go\<close>): the versions of
  the secrets it mounts, the meltdown window, and the creation or update of the desired
  StatefulSets with the mutate function of \<open>pkg/kube/util/mutate/mutate.go\<close>.
\<close>

section \<open>Strings\<close>

text \<open>\<open>strings.Split\<close> and \<open>strings.Join\<close> for a separator of one character.\<close>

fun strings_Split :: "char \<Rightarrow> string \<Rightarrow> string list" where
  "strings_Split sep [] = [[]]"
| "strings_Split sep (c # cs) =
     (if c = sep then [] # strings_Split sep cs
      else (case strings_Split sep cs of [] \<Rightarrow> [[c]] | w # ws \<Rightarrow> (c # w) # ws))"

fun strings_Join :: "char \<Rightarrow> string list \<Rightarrow> string" where
  "strings_Join sep [] = []"
| "strings_Join sep [w] = w"
| "strings_Join sep (w # ws) = w @ sep # strings_Join sep ws"

text \<open>\<open>secretNameSplitted[0:len(secretNameSplitted)-1]\<close>, joined again.\<close>

definition secretPrefix :: "string \<Rightarrow> string" where
  "secretPrefix name = strings_Join (CHR ''-'') (butlast (strings_Split (CHR ''-'') name))"

section \<open>Versions of secrets\<close>

text \<open>
  The loop of \<open>UpdateVersions\<close> over the volumes. The secret of a volume is a pointer into the
  list of volumes, so setting its name changes the volume.
\<close>

fun updateVolumes ::
  "'s world \<Rightarrow> lib \<Rightarrow> string \<Rightarrow> volume list \<Rightarrow> ('s, go_error + volume list) state" where
  "updateVolumes W L ns [] = State_Monad.return (Inr [])"
| "updateVolumes W L ns (v # vs) =
     (let continue = (\<lambda>v'. do {
          r \<leftarrow> updateVolumes W L ns vs;
          State_Monad.return (case r of Inl err \<Rightarrow> Inl err | Inr vs' \<Rightarrow> Inr (v' # vs')) })
      in case vol_Secret v of
           None \<Rightarrow> continue v
         | Some src \<Rightarrow> do {
             r \<leftarrow> w_GetSecret W \<lparr>nn_Namespace = ns, nn_Name = ss_SecretName src\<rparr>;
             case r of
               Inl err \<Rightarrow> State_Monad.return (Inl err)
             | Inr secret \<Rightarrow>
                 (if vss_IsVersionedSecret L secret
                  then do {
                    l \<leftarrow> w_LatestSecret W ns (secretPrefix (sec_Name secret));
                    case l of
                      Inl err \<Rightarrow> State_Monad.return (Inl (Wrapf err
                        (''failed to read latest versioned secret '%s' for QuarksStatefulSet '%s'' @ [CHR 0x27])))
                    | Inr latestSecret \<Rightarrow>
                        continue (v\<lparr>vol_Secret := Some (src\<lparr>ss_SecretName := sec_Name latestSecret\<rparr>)\<rparr>) }
                  else continue v) })"

definition podSpecOf :: "quarks_statefulset \<Rightarrow> pod_spec" where
  "podSpecOf q = pt_Spec (spec_Template (sts_Spec (qs_Template (q_Spec q))))"

definition withPodSpec :: "pod_spec \<Rightarrow> quarks_statefulset \<Rightarrow> quarks_statefulset" where
  "withPodSpec ps q = q\<lparr>q_Spec := (q_Spec q)\<lparr>qs_Template := (qs_Template (q_Spec q))
     \<lparr>sts_Spec := (sts_Spec (qs_Template (q_Spec q)))\<lparr>spec_Template :=
        (spec_Template (sts_Spec (qs_Template (q_Spec q))))\<lparr>pt_Spec := ps\<rparr>\<rparr>\<rparr>\<rparr>\<rparr>"

definition UpdateVersions ::
  "lib \<Rightarrow> 's world \<Rightarrow> quarks_statefulset \<Rightarrow> ('s, go_error + quarks_statefulset) state" where
  "UpdateVersions L W q = do {
     r \<leftarrow> updateVolumes W L (q_Namespace q) (ps_Volumes (podSpecOf q));
     State_Monad.return (case r of
       Inl err \<Rightarrow> Inl err
     | Inr vs \<Rightarrow> Inr (withPodSpec ((podSpecOf q)\<lparr>ps_Volumes := vs\<rparr>) q)) }"

section \<open>Creation of a StatefulSet\<close>

text \<open>\<open>StatefulSetMutateFn\<close>: \<open>updated\<close> is the copy made before the object is read.\<close>

definition StatefulSetMutateFn :: "statefulset \<Rightarrow> statefulset \<Rightarrow> statefulset go" where
  "StatefulSetMutateFn updated sfs =
     Ret (sfs\<lparr>sts_Labels := sts_Labels updated, sts_Annotations := sts_Annotations updated,
       sts_Spec := (sts_Spec sfs)\<lparr>
         spec_Replicas := spec_Replicas (sts_Spec updated),
         spec_Template := spec_Template (sts_Spec updated),
         spec_UpdateStrategy := spec_UpdateStrategy (sts_Spec updated)\<rparr>\<rparr>)"

definition createStatefulSet ::
  "lib \<Rightarrow> 's world \<Rightarrow> quarks_statefulset \<Rightarrow> statefulset \<Rightarrow> ('s, go_error option go) state" where
  "createStatefulSet L W q x =
     (case setReference L q x of
        Inl err \<Rightarrow> gret (Some (Wrapf err (''could not set owner for StatefulSet '%s' to QuarksStatefulSet '%s'' @ [CHR 0x27])))
      | Inr x1 \<Rightarrow>
          gobind (w_CreateOrUpdate W x1 (StatefulSetMutateFn x1)) (\<lambda>(err, _).
            gret (case err of
              None \<Rightarrow> None
            | Some e \<Rightarrow> Some (Wrapf e (''could not create or update StatefulSet '%s' for QuarksStatefulSet '%s'' @ [CHR 0x27])))))"

section \<open>Reconcile\<close>

definition ReconcileSkipDuration :: int where
  "ReconcileSkipDuration = 10 * time_Second"

definition withReady :: "bool \<Rightarrow> quarks_statefulset \<Rightarrow> quarks_statefulset" where
  "withReady b q = q\<lparr>q_Status := (q_Status q)\<lparr>qst_Ready := b\<rparr>\<rparr>"

definition withLastReconcile :: "int \<Rightarrow> quarks_statefulset \<Rightarrow> quarks_statefulset" where
  "withLastReconcile t q = q\<lparr>q_Status := (q_Status q)\<lparr>qst_LastReconcile := Some t\<rparr>\<rparr>"

text \<open>The loop over the desired StatefulSets; the ready flag is reset on the local object only.\<close>

fun createAll ::
  "lib \<Rightarrow> 's world \<Rightarrow> nsname \<Rightarrow> quarks_statefulset \<Rightarrow> statefulset list \<Rightarrow> ('s, reconcile_out) state" where
  "createAll L W request q [] = gret (empty_result, None)"
| "createAll L W request q (x # xs) = do {
     (err, ps) \<leftarrow> w_SetSecretReferences W (nn_Namespace request) (podSpecOf q);
     case err of
       Some e \<Rightarrow> gret (empty_result,
         Some (Errorf ''Could not update versioned secret references in pod spec for QuarksStatefulSet''))
     | None \<Rightarrow>
         let q1 = withPodSpec ps q in
         gobind (createStatefulSet L W q1 x) (\<lambda>err.
           case err of
             Some e \<Rightarrow> gret (empty_result, Some (Errorf ''Could not create StatefulSet for QuarksStatefulSet''))
           | None \<Rightarrow> createAll L W request (withReady False q1) xs) }"

text \<open>After the meltdown window: calculate and create.\<close>

definition qstsApply ::
  "lib \<Rightarrow> 's world \<Rightarrow> nsname \<Rightarrow> quarks_statefulset \<Rightarrow> ('s, reconcile_out) state" where
  "qstsApply L W request q =
     gobind (calculateDesiredStatefulSets L W q) (\<lambda>(r, q1).
       case r of
         Inl err \<Rightarrow> gret (empty_result,
           Some (Errorf ''Could not calculate StatefulSet owned by QuarksStatefulSet''))
       | Inr desired \<Rightarrow> createAll L W request q1 desired)"

text \<open>From the resource with its secret versions updated on.\<close>

definition qstsWindow ::
  "lib \<Rightarrow> 's world \<Rightarrow> nsname \<Rightarrow> quarks_statefulset \<Rightarrow> ('s, reconcile_out) state" where
  "qstsWindow L W request q =
     (case qst_LastReconcile (q_Status q) of
        None \<Rightarrow> do {
          now \<leftarrow> w_Now W;
          err \<leftarrow> w_UpdateQstsStatus W (withLastReconcile now q);
          case err of
            Some e \<Rightarrow> gret (empty_result, Some (Errorf ''failed to update reconcile timestamp on bdpl '%s' (%v): %s''))
          | None \<Rightarrow> gret (requeue_after ReconcileSkipDuration, None) }
      | Some lastReconcile \<Rightarrow> do {
          now \<leftarrow> w_Now W;
          if meltdown_Window_Contains L ReconcileSkipDuration lastReconcile now
          then gret (empty_result, None)
          else qstsApply L W request q })"

text \<open>From the resource read on.\<close>

definition qstsRest :: "lib \<Rightarrow> 's world \<Rightarrow> nsname \<Rightarrow> quarks_statefulset \<Rightarrow> ('s, reconcile_out) state" where
  "qstsRest L W request q0 = do {
     u \<leftarrow> UpdateVersions L W q0;
     case u of
       Inl err \<Rightarrow>
         (if apierrors_IsNotFound L err then gret (requeue_after ReconcileSkipDuration, None)
          else gret (empty_result, Some err))
     | Inr q \<Rightarrow> qstsWindow L W request q }"

definition qstsReconcile ::
  "lib \<Rightarrow> 's world \<Rightarrow> nsname \<Rightarrow> ('s, reconcile_out) state" where
  "qstsReconcile L W request = do {
     r \<leftarrow> w_GetQsts W request;
     case r of
       Inl err \<Rightarrow>
         (if apierrors_IsNotFound L err then gret (empty_result, None)
          else gret (empty_result, Some err))
     | Inr q \<Rightarrow> qstsRest L W request q }"

section \<open>Strings: the prefix of a versioned name\<close>

lemma Split_nonempty [simp]: "strings_Split sep s \<noteq> []"
  by (induction s) (auto split: list.splits)

lemma Join_Cons: "ws \<noteq> [] \<Longrightarrow> strings_Join sep (w # ws) = w @ sep # strings_Join sep ws"
  by (cases ws) auto

lemma Join_Split: "strings_Join sep (strings_Split sep s) = s"
proof (induction s)
  case (Cons c s)
  obtain w ws where "strings_Split sep s = w # ws"
    using Split_nonempty by (meson neq_Nil_conv)
  with Cons show ?case by (cases ws) (auto simp: Join_Cons)
qed simp

lemma Split_append_last:
  "sep \<notin> set v \<Longrightarrow> strings_Split sep (b @ sep # v) = strings_Split sep b @ [v]"
proof (induction b)
  case Nil
  have "strings_Split sep v = [v]" using Nil by (induction v) auto
  then show ?case by simp
next
  case (Cons c b)
  then show ?case by (cases "strings_Split sep b") auto
qed

text \<open>The name \<open>base-version\<close> of a versioned secret gives \<open>base\<close>, dashes in it included.\<close>

lemma secretPrefix_version: "CHR ''-'' \<notin> set v \<Longrightarrow> secretPrefix (b @ ''-'' @ v) = b"
  by (simp add: secretPrefix_def Split_append_last Join_Split)

end
