(* ===== verification/Generate_Properties.thy ===== *)
theory Generate_Properties
  imports Generate
begin

text \<open>
  What holds of the generated StatefulSets: the environment of their containers, by the laws
  of a store of variables (locale \<open>env_store\<close>, interpreted for \<open>upsertEnvs\<close>); names,
  selectors, affinity and versions.
\<close>

section \<open>Stores with an upsert\<close>

definition upserts :: "('e \<Rightarrow> 'k \<Rightarrow> 'v \<Rightarrow> 'e) \<Rightarrow> 'e \<Rightarrow> ('k \<times> 'v) list \<Rightarrow> 'e" where
  "upserts up e kvs = foldl (\<lambda>e (k, v). up e k v) e kvs"

lemma upserts_simps [simp]:
  "upserts up e [] = e" "upserts up e ((k, v) # kvs) = upserts up (up e k v) kvs"
  by (simp_all add: upserts_def)

locale env_store =
  fixes upsert :: "'e \<Rightarrow> 'k \<Rightarrow> 'v \<Rightarrow> 'e"
    and look :: "'e \<Rightarrow> 'k \<Rightarrow> 'v option"
  assumes look_upsert: "look (upsert e k v) k' = (if k' = k then Some v else look e k')"
    and upsert_same: "look e k = Some v \<Longrightarrow> upsert e k v = e"
begin

lemma look_upserts:
  "distinct (map fst kvs) \<Longrightarrow>
     look (upserts upsert e kvs) k = (case map_of kvs k of None \<Rightarrow> look e k | Some v \<Rightarrow> Some v)"
proof (induction kvs arbitrary: e)
  case (Cons kv kvs)
  obtain k1 v1 where kv: "kv = (k1, v1)" by fastforce
  with Cons have "map_of kvs k1 = None" by (auto simp: map_of_eq_None_iff)
  with Cons kv show ?case by (auto simp: look_upsert split: option.splits)
qed simp

lemma upserts_fixed: "(\<forall>(k, v) \<in> set kvs. look e k = Some v) \<Longrightarrow> upserts upsert e kvs = e"
  by (induction kvs) (auto simp: upsert_same)

lemma upserts_idem:
  assumes "distinct (map fst kvs)"
  shows "upserts upsert (upserts upsert e kvs) kvs = upserts upsert e kvs"
proof (rule upserts_fixed, clarify)
  fix k v
  assume "(k, v) \<in> set kvs"
  with assms show "look (upserts upsert e kvs) k = Some v"
    by (simp add: look_upserts)
qed

end

text \<open>The value of a variable: that of its first entry, the one \<open>upsertEnvs\<close> finds.\<close>

fun lookupEnv :: "env_var list \<Rightarrow> string \<Rightarrow> string option" where
  "lookupEnv [] name = None"
| "lookupEnv (env # envs) name = (if env_Name env = name then Some (env_Value env) else lookupEnv envs name)"

lemma lookupEnv_upsert:
  "lookupEnv (upsertEnvs envs n v) n' = (if n' = n then Some v else lookupEnv envs n')"
  by (induction envs) auto

lemma upsertEnvs_same: "lookupEnv envs n = Some v \<Longrightarrow> upsertEnvs envs n v = envs"
  by (induction envs) (auto split: if_splits)

interpretation env: env_store upsertEnvs lookupEnv
  by unfold_locales (auto simp: lookupEnv_upsert upsertEnvs_same)

section \<open>Injection into containers\<close>

text \<open>The variables set for zone \<open>zoneIndex\<close> (from 0) with \<open>r\<close> replicas, if they are injected.\<close>

definition azEnv :: "int \<Rightarrow> string \<Rightarrow> int option \<Rightarrow> (string \<times> string) list" where
  "azEnv zoneIndex zoneName replicas =
     [(EnvKubeAz, zoneName), (EnvBoshAz, zoneName), (EnvCfOperatorAz, zoneName),
      (EnvCFOperatorAZIndex, Itoa (wrap64 (zoneIndex + 1)))] @
     (case replicas of None \<Rightarrow> [] | Some r \<Rightarrow> [(EnvReplicas, Itoa r)])"

abbreviation injects :: "bool option \<Rightarrow> bool" where
  "injects b \<equiv> b = None \<or> b = Some True"

lemma distinct_azEnv: "distinct (map fst (azEnv zoneIndex zoneName replicas))"
  by (simp add: azEnv_def env_names split: option.splits)

lemma injectEnvs_upserts:
  assumes "0 \<le> zoneIndex"
  shows "injectEnvs zoneIndex zoneName replicas injR envs =
    (if injects injR \<and> replicas = None then Panic
     else Ret (upserts upsertEnvs envs (azEnv zoneIndex zoneName (if injects injR then replicas else None))))"
  using assms by (auto simp: injectEnvs_def azEnv_def Let_def)

lemma injectContainers_all2:
  "injectContainers f cs = Ret cs' \<Longrightarrow>
     list_all2 (\<lambda>c c'. \<exists>envs. f (con_Env c) = Ret envs \<and> c' = c\<lparr>con_Env := envs\<rparr>) cs cs'"
  by (induction cs arbitrary: cs') (auto split: go.splits)

lemma injectContainers_Panic: "injectContainers f cs = Panic \<longleftrightarrow> (\<exists>c \<in> set cs. f (con_Env c) = Panic)"
  by (induction cs) (auto split: go.splits)

text \<open>
  C28: the environment. In every container and init container the zone variables and, if they
  are injected, the replicas have the value of this StatefulSet; every other variable keeps
  its value, and nothing else of the container changes.
\<close>

theorem injectContainerEnv_spec:
  assumes "injectContainerEnv ps zoneIndex zoneName replicas injR = Ret ps'" "0 \<le> zoneIndex"
    and "vars = map_of (azEnv zoneIndex zoneName (if injects injR then replicas else None))"
  shows "list_all2 (\<lambda>c c'. (\<forall>n. lookupEnv (con_Env c') n =
       (case vars n of None \<Rightarrow> lookupEnv (con_Env c) n | Some v \<Rightarrow> Some v)) \<and>
       c'\<lparr>con_Env := con_Env c\<rparr> = c)
     (ps_Containers ps @ ps_InitContainers ps) (ps_Containers ps' @ ps_InitContainers ps')"
proof -
  have look: "\<forall>n. lookupEnv envs n = (case vars n of None \<Rightarrow> lookupEnv e n | Some v \<Rightarrow> Some v)"
    if "injectEnvs zoneIndex zoneName replicas injR e = Ret envs" for e envs
    using that unfolding injectEnvs_upserts [OF assms(2)] assms(3)
    by (auto simp: env.look_upserts [OF distinct_azEnv] split: if_splits)
  from assms(1) obtain cs ics where
    "injectContainers (injectEnvs zoneIndex zoneName replicas injR) (ps_Containers ps) = Ret cs"
    "injectContainers (injectEnvs zoneIndex zoneName replicas injR) (ps_InitContainers ps) = Ret ics"
    "ps' = ps\<lparr>ps_Containers := cs, ps_InitContainers := ics\<rparr>"
    by (auto simp: injectContainerEnv_def Let_def split: go.splits)
  then show ?thesis
    by (auto dest!: injectContainers_all2 look intro!: list_all2_appendI elim!: list_all2_mono)
qed

theorem injectContainerEnv_spec_witness:
  "\<exists>ps' :: pod_spec. lookupEnv (con_Env (hd (ps_Containers ps'))) ''BOSH_AZ'' = Some ''z1'' \<and>
     lookupEnv (con_Env (hd (ps_Containers ps'))) ''HOME'' = Some ''/root''"
proof -
  let ?c = "\<lparr>con_Name = ''nginx'', con_Env = [\<lparr>env_Name = ''HOME'', env_Value = ''/root'', env_ValueFrom = None\<rparr>,
      \<lparr>env_Name = ''BOSH_AZ'', env_Value = ''old'', env_ValueFrom = None\<rparr>], con_Rest = ''''\<rparr>"
  let ?ps = "zero_pod_spec\<lparr>ps_Containers := [?c]\<rparr>"
  have "go_sat (\<lambda>ps'. length (ps_Containers ps') = 1) (injectContainerEnv ?ps 0 ''z1'' (Some 2) None)"
    by code_simp
  then obtain ps' c' where ps': "injectContainerEnv ?ps 0 ''z1'' (Some 2) None = Ret ps'"
    "ps_Containers ps' = [c']"
    by (elim go_satE) (auto simp: length_Suc_conv)
  have "azEnv 0 ''z1'' (Some 2) = [(''KUBE_AZ'', ''z1''), (''BOSH_AZ'', ''z1''), (''CF_OPERATOR_AZ'', ''z1''),
      (''AZ_INDEX'', ''1''), (''REPLICAS'', ''2'')]"
    by code_simp
  with injectContainerEnv_spec [OF ps'(1) _ refl] have
    "lookupEnv (con_Env c') n = (case map_of [(''KUBE_AZ'', ''z1''), (''BOSH_AZ'', ''z1''),
        (''CF_OPERATOR_AZ'', ''z1''), (''AZ_INDEX'', ''1''), (''REPLICAS'', ''2'')] n of
        None \<Rightarrow> lookupEnv (con_Env ?c) n | Some v \<Rightarrow> Some v)" for n
    unfolding ps'(2) by (simp add: zero_pod_spec_def)
  from this [of "''BOSH_AZ''"] this [of "''HOME''"] ps'(2) show ?thesis by - (rule exI [of _ ps'], simp)
qed

section \<open>One StatefulSet\<close>

lemma injectContainerEnv_frame:
  "injectContainerEnv ps zi zn r b = Ret ps' \<Longrightarrow>
     ps_Affinity ps' = ps_Affinity ps \<and> ps_Volumes ps' = ps_Volumes ps \<and> ps_Rest ps' = ps_Rest ps"
  by (auto simp: injectContainerEnv_def Let_def split: go.splits)

lemma updateAffinity_frame [simp]:
  "sts_Namespace (updateAffinity L x l z) = sts_Namespace x"
  "sts_Annotations (updateAffinity L x l z) = sts_Annotations x"
  "sts_Labels (updateAffinity L x l z) = sts_Labels x"
  "spec_Replicas (sts_Spec (updateAffinity L x l z)) = spec_Replicas (sts_Spec x)"
  "pt_Labels (spec_Template (sts_Spec (updateAffinity L x l z))) = pt_Labels (spec_Template (sts_Spec x))"
  "pt_Annotations (spec_Template (sts_Spec (updateAffinity L x l z))) =
     pt_Annotations (spec_Template (sts_Spec x))"
  "ps_Containers (pt_Spec (spec_Template (sts_Spec (updateAffinity L x l z)))) =
     ps_Containers (pt_Spec (spec_Template (sts_Spec x)))"
  "ps_InitContainers (pt_Spec (spec_Template (sts_Spec (updateAffinity L x l z)))) =
     ps_InitContainers (pt_Spec (spec_Template (sts_Spec x)))"
  by (simp_all add: updateAffinity_def withAffinity_def Let_def)

text \<open>
  \<open>util.UnionMaps\<close> joins its maps; where keys coincide the later map wins.
\<close>

definition union_maps_law :: "lib \<Rightarrow> bool" where
  "union_maps_law L \<longleftrightarrow> (\<forall>a b. gmap (util_UnionMaps L a b) = gmap a ++ gmap b)"

lemma sample_union: "union_maps_law sample_lib"
  by (simp add: union_maps_law_def sample_lib_def)

lemma zonedTemplate_frame [simp]:
  "sts_Namespace (zonedTemplate L q x z) = sts_Namespace x"
  "sts_Annotations (zonedTemplate L q x z) = sts_Annotations x"
  "sts_Labels (zonedTemplate L q x z) = sts_Labels x"
  "pt_Labels (spec_Template (sts_Spec (zonedTemplate L q x z))) = pt_Labels (spec_Template (sts_Spec x))"
  "pt_Annotations (spec_Template (sts_Spec (zonedTemplate L q x z))) =
     pt_Annotations (spec_Template (sts_Spec x))"
  "ps_Containers (pt_Spec (spec_Template (sts_Spec (zonedTemplate L q x z)))) =
     ps_Containers (pt_Spec (spec_Template (sts_Spec x)))"
  "ps_InitContainers (pt_Spec (spec_Template (sts_Spec (zonedTemplate L q x z)))) =
     ps_InitContainers (pt_Spec (spec_Template (sts_Spec x)))"
  by (simp_all add: zonedTemplate_def)

lemma generated_fields:
  assumes "generateSingleStatefulSet L q template zi zn v = Ret x"
  shows "sts_Name x = zonePrefix q zi zn" "sts_Namespace x = sts_Namespace template"
    "spec_Selector (sts_Spec x) = Some (Some (zoneLabels L q zi zn))"
    "sts_Annotations x = util_UnionMaps L (sts_Annotations template)
       (Some ((zoneAnnotations L q zn)(AnnotationVersion (gname L) \<mapsto> Itoa v)))"
    "pt_Labels (spec_Template (sts_Spec x)) =
       util_UnionMaps L (pt_Labels (spec_Template (sts_Spec template))) (Some (zoneLabels L q zi zn))"
    "pt_Annotations (spec_Template (sts_Spec x)) =
       util_UnionMaps L (pt_Annotations (spec_Template (sts_Spec template))) (Some (zoneAnnotations L q zn))"
    "ps_Affinity (pt_Spec (spec_Template (sts_Spec x))) =
       ps_Affinity (pt_Spec (spec_Template (sts_Spec (zonedTemplate L q template zn))))"
  using assms
  by (auto simp: generateSingleStatefulSet_def Let_def dest: injectContainerEnv_frame split: go.splits)

text \<open>
  The selector matches. The selector of a generated StatefulSet is contained in the labels
  of its pod template, as Kubernetes demands, whatever labels the template had.
\<close>

theorem generated_selector_matches:
  assumes "generateSingleStatefulSet L q template zi zn v = Ret x" "union_maps_law L"
  shows "\<exists>sel. spec_Selector (sts_Spec x) = Some (Some sel) \<and>
    sel \<subseteq>\<^sub>m gmap (pt_Labels (spec_Template (sts_Spec x))) \<and>
    sel (LabelAZIndex (gname L)) = Some (Itoa zi) \<and> sel (LabelQStsName (gname L)) = Some (sts_Name x)"
  using generated_fields(1,3,5) [OF assms(1)] assms(2)
  by (simp add: union_maps_law_def zoneLabels_def key_defs del: map_add_Some_iff)

theorem generated_selector_matches_witness:
  "\<exists>(x :: statefulset) sel. spec_Selector (sts_Spec x) = Some (Some sel) \<and>
    sel \<subseteq>\<^sub>m gmap (pt_Labels (spec_Template (sts_Spec x))) \<and>
    sel (LabelAZIndex (gname sample_lib)) = Some (Itoa 0) \<and>
    sel (LabelQStsName (gname sample_lib)) = Some (sts_Name x)"
proof -
  have "go_sat (\<lambda>x. True) (generateSingleStatefulSet sample_lib sample_qsts zero_statefulset 0 ''a'' 1)"
    by code_simp
  then obtain x where "generateSingleStatefulSet sample_lib sample_qsts zero_statefulset 0 ''a'' 1 = Ret x"
    by (elim go_satE)
  from generated_selector_matches [OF this sample_union] show ?thesis by blast
qed

text \<open>
  C29: the version round trip. A generated StatefulSet carries the version it was generated
  with, so that GetMaxStatefulSetVersion reads back what was written.
\<close>

theorem generated_version_roundtrip:
  assumes "generateSingleStatefulSet L q template zi zn v = Ret x" "union_maps_law L" "int64_ok v"
  shows "versionOf L x = Inr v"
  using generated_fields(4) [OF assms(1)] assms(2,3)
  by (simp add: versionOf_def union_maps_law_def gget_def Atoi_Itoa)

theorem generated_version_roundtrip_witness:
  "\<exists>x. versionOf sample_lib x = Inr 7 \<and>
     generateSingleStatefulSet sample_lib sample_qsts zero_statefulset 0 '''' 7 = Ret x"
proof -
  have "go_sat (\<lambda>x. True) (generateSingleStatefulSet sample_lib sample_qsts zero_statefulset 0 '''' 7)"
    by code_simp
  then obtain x where x: "generateSingleStatefulSet sample_lib sample_qsts zero_statefulset 0 '''' 7 = Ret x"
    by (elim go_satE)
  from generated_version_roundtrip [OF x sample_union] x show ?thesis by (auto simp: int64_ok_def)
qed

text \<open>
  The version does not reach the pods. Generating with another version gives the same pod
  template, name, labels and replicas, so a Reconcile that only counts the version up does not
  start a rollout.
\<close>

theorem generated_template_ignores_version:
  assumes "generateSingleStatefulSet L q template zi zn v = Ret x"
  shows "\<exists>y. generateSingleStatefulSet L q template zi zn w = Ret y \<and>
    sts_Spec y = sts_Spec x \<and> sts_Name y = sts_Name x \<and> sts_Labels y = sts_Labels x"
  using assms by (auto simp: generateSingleStatefulSet_def Let_def split: go.splits)

theorem generated_template_ignores_version_witness:
  "\<exists>x y. generateSingleStatefulSet sample_lib sample_qsts zero_statefulset 0 ''a'' 1 = Ret x \<and>
     generateSingleStatefulSet sample_lib sample_qsts zero_statefulset 0 ''a'' 2 = Ret y \<and>
     sts_Spec y = sts_Spec x \<and> sts_Name y = sts_Name x \<and> sts_Labels y = sts_Labels x"
proof -
  have "go_sat (\<lambda>x. True) (generateSingleStatefulSet sample_lib sample_qsts zero_statefulset 0 ''a'' 1)"
    by code_simp
  then obtain x where "generateSingleStatefulSet sample_lib sample_qsts zero_statefulset 0 ''a'' 1 = Ret x"
    by (elim go_satE)
  from generated_template_ignores_version [OF this, of 2] this show ?thesis by blast
qed

section \<open>All StatefulSets\<close>

lemma generateZones_nth:
  "generateZones L q template v k zones = Ret xs \<Longrightarrow>
     length xs = length zones \<and>
     (\<forall>i < length zones. generateSingleStatefulSet L q template (k + int i) (zones ! i) v = Ret (xs ! i))"
proof (induction zones arbitrary: k xs)
  case (Cons z zones)
  then obtain x ys where x: "generateSingleStatefulSet L q template k z v = Ret x"
    and ys: "generateZones L q template v (k + 1) zones = Ret ys" "xs = x # ys"
    by (auto split: go.splits)
  from Cons.IH [OF ys(1)] x ys(2) show ?case
    by (auto simp: nth_Cons split: nat.splits) (metis add.commute add.left_commute)
qed simp

lemma zonePrefix_inj:
  "z \<noteq> '''' \<Longrightarrow> z' \<noteq> '''' \<Longrightarrow> zonePrefix q i z = zonePrefix q j z' \<longleftrightarrow> i = j"
  by (simp add: zonePrefix_def Itoa_inj)

text \<open>The zones for which StatefulSets are generated.\<close>

definition zonesOf :: "quarks_statefulset \<Rightarrow> string list" where
  "zonesOf q = (if qs_Zones (q_Spec q) = [] then [''''] else qs_Zones (q_Spec q))"

lemma desired_nth:
  assumes "desiredStatefulSets L q v = Ret xs"
  shows "length xs = length (zonesOf q) \<and>
    (\<forall>i < length xs. generateSingleStatefulSet L q
       ((qs_Template (q_Spec q))\<lparr>sts_Namespace := q_Namespace q\<rparr>) (int i) (zonesOf q ! i) v = Ret (xs ! i))"
proof (cases "qs_Zones (q_Spec q) = []")
  case False
  then show ?thesis
    using assms generateZones_nth [of L q _ v 0 "qs_Zones (q_Spec q)" xs]
    by (simp add: desiredStatefulSets_def zonesOf_def Let_def)
qed (use assms in \<open>auto simp: desiredStatefulSets_def zonesOf_def Let_def split: go.splits\<close>)

lemma desired_names:
  assumes "desiredStatefulSets L q v = Ret xs"
  shows "map sts_Name xs = map (\<lambda>i. zonePrefix q (int i) (zonesOf q ! i)) [0..<length (zonesOf q)]"
    "\<forall>x \<in> set xs. sts_Namespace x = q_Namespace q"
    "'''' \<notin> set (qs_Zones (q_Spec q)) \<Longrightarrow> distinct (map sts_Name xs)"
proof -
  have len: "length xs = length (zonesOf q)"
    and gen: "\<And>i. i < length xs \<Longrightarrow> generateSingleStatefulSet L q
       ((qs_Template (q_Spec q))\<lparr>sts_Namespace := q_Namespace q\<rparr>) (int i) (zonesOf q ! i) v = Ret (xs ! i)"
    using desired_nth [OF assms] by blast+
  show names: "map sts_Name xs = map (\<lambda>i. zonePrefix q (int i) (zonesOf q ! i)) [0..<length (zonesOf q)]"
    by (rule nth_equalityI) (use len generated_fields(1) [OF gen] in auto)
  show "distinct (map sts_Name xs)" if ne: "'''' \<notin> set (qs_Zones (q_Spec q))"
  proof (cases "qs_Zones (q_Spec q) = []")
    case True
    then show ?thesis using names by (simp add: zonesOf_def)
  next
    case False
    then have "\<And>i. i < length (zonesOf q) \<Longrightarrow> zonesOf q ! i \<noteq> ''''"
      using ne by (metis nth_mem zonesOf_def)
    then show ?thesis
      unfolding names by (auto simp: distinct_map inj_on_def zonePrefix_inj)
  qed
  show "\<forall>x \<in> set xs. sts_Namespace x = q_Namespace q"
    using generated_fields(2) [OF gen] by (auto simp: in_set_conv_nth)
qed

text \<open>
  C17: one StatefulSet per zone (one in all without zones), in the order of the zones, each in
  the namespace of the QuarksStatefulSet; and if no zone has the empty name, no two have the
  same name.
\<close>

theorem desired_one_per_zone:
  assumes "desiredStatefulSets L q v = Ret xs"
  shows "map sts_Name xs = map (\<lambda>i. zonePrefix q (int i) (zonesOf q ! i)) [0..<length (zonesOf q)] \<and>
    (\<forall>x \<in> set xs. sts_Namespace x = q_Namespace q) \<and>
    ('''' \<notin> set (qs_Zones (q_Spec q)) \<longrightarrow> distinct (map sts_Name xs))"
  using desired_names [OF assms] by blast

definition zoned_qsts :: quarks_statefulset where
  "zoned_qsts = sample_qsts\<lparr>q_Spec := (q_Spec sample_qsts)\<lparr>qs_Zones := [''a'', ''b'']\<rparr>\<rparr>"

theorem desired_one_per_zone_witness:
  "\<exists>xs. desiredStatefulSets sample_lib zoned_qsts 1 = Ret xs \<and> distinct (map sts_Name xs) \<and>
     map sts_Name xs = [''foo-z0'', ''foo-z1'']"
proof -
  have "go_sat (\<lambda>xs. True) (desiredStatefulSets sample_lib zoned_qsts 1)"
    by code_simp
  then obtain xs where xs: "desiredStatefulSets sample_lib zoned_qsts 1 = Ret xs"
    by (elim go_satE)
  have "map (\<lambda>i. zonePrefix zoned_qsts (int i) (zonesOf zoned_qsts ! i)) [0..<length (zonesOf zoned_qsts)] =
      [''foo-z0'', ''foo-z1'']" "list_all (\<lambda>z. z \<noteq> '''') (qs_Zones (q_Spec zoned_qsts))"
    by code_simp+
  with desired_one_per_zone [OF xs] xs show ?thesis by (auto simp: list_all_iff)
qed

section \<open>Affinity to the zone\<close>

definition requiredTerms :: "statefulset \<Rightarrow> node_selector_term list option" where
  "requiredTerms x =
     (case ps_Affinity (pt_Spec (spec_Template (sts_Spec x))) of None \<Rightarrow> None
      | Some a \<Rightarrow> (case aff_NodeAffinity a of None \<Rightarrow> None | Some n \<Rightarrow> na_Required n))"

lemma requiredTerms_update:
  "requiredTerms (updateAffinity L x l z) =
     Some ((case requiredTerms x of None \<Rightarrow> [] | Some ts \<Rightarrow> ts) @ [zoneTerm L l z])"
  by (auto simp: requiredTerms_def updateAffinity_def withAffinity_def Let_def split: option.splits)

lemma requiredTerms_generated:
  assumes "generateSingleStatefulSet L q template zi zn v = Ret x"
  shows "requiredTerms x = requiredTerms (zonedTemplate L q template zn)"
  using generated_fields(7) [OF assms] by (simp add: requiredTerms_def)

text \<open>
  What is relied on of Kubernetes: \<open>matches\<close> says which nodes satisfy a node selector term, and a term
  with a single requirement, that a label is in a list of one value, is satisfied by the nodes
  with that label and value. Nothing is said of any other term. A node may be used if it
  satisfies one of the required terms.
\<close>

definition matching_law :: "lib \<Rightarrow> ('node \<Rightarrow> string \<rightharpoonup> string) \<Rightarrow> ('node \<Rightarrow> node_selector_term \<Rightarrow> bool) \<Rightarrow> bool" where
  "matching_law L label matches \<longleftrightarrow> (\<forall>node k v.
     matches node \<lparr>nst_MatchExpressions = [\<lparr>nsr_Key = k, nsr_Operator = corev1_NodeSelectorOpIn L, nsr_Values = [v]\<rparr>],
       nst_MatchFields = []\<rparr> \<longleftrightarrow> label node k = Some v)"

text \<open>
  C30: the zone. The required node selector terms of a generated StatefulSet are those of the
  template followed by one for the zone. Terms are alternatives, so a node may be used if the
  template's own terms allow it, in whatever zone it is, or if it is in the zone. The zone is
  therefore enforced exactly if no term of the template admits a node outside the zone; without
  such terms it is.
\<close>

theorem generated_zone_affinity:
  assumes "generateSingleStatefulSet L q template zi zn v = Ret x" "zn \<noteq> ''''"
    and "matching_law L label matches"
    and "own = (case requiredTerms template of None \<Rightarrow> [] | Some ts \<Rightarrow> ts)"
    and "in_zone = (\<lambda>node. label node (qs_ZoneNodeLabel (q_Spec q)) = Some zn)"
  shows "\<exists>terms. requiredTerms x = Some terms \<and> butlast terms = own \<and>
    (\<forall>node. (\<exists>t\<in>set terms. matches node t) \<longleftrightarrow> (\<exists>t\<in>set own. matches node t) \<or> in_zone node) \<and>
    ((\<forall>node. (\<exists>t\<in>set terms. matches node t) \<longrightarrow> in_zone node) \<longleftrightarrow>
     (\<forall>node. \<forall>t\<in>set own. matches node t \<longrightarrow> in_zone node))"
proof -
  let ?zone = "zoneTerm L (qs_ZoneNodeLabel (q_Spec q)) zn"
  have zone: "matches node ?zone \<longleftrightarrow> in_zone node" for node
    using assms(3) by (simp add: matching_law_def zoneTerm_def assms(5))
  have "requiredTerms x = Some (own @ [?zone])"
    using assms(2,4) requiredTerms_generated [OF assms(1)]
    by (auto simp: zonedTemplate_def requiredTerms_update)
  then show ?thesis by (intro exI [of _ "own @ [?zone]"]) (auto simp: zone)
qed

text \<open>Nodes are their labels, and a term the conjunction of its requirements \<open>In\<close>.\<close>

definition sample_matches :: "(string \<rightharpoonup> string) \<Rightarrow> node_selector_term \<Rightarrow> bool" where
  "sample_matches node t \<longleftrightarrow> nst_MatchExpressions t \<noteq> [] \<and> list_all (\<lambda>r. nsr_Operator r = ''In'' \<and>
     (case node (nsr_Key r) of None \<Rightarrow> False | Some v \<Rightarrow> v \<in> set (nsr_Values r))) (nst_MatchExpressions t)"

lemma sample_matching: "matching_law sample_lib id sample_matches"
  by (auto simp: matching_law_def sample_matches_def sample_lib_def split: option.splits)

theorem generated_zone_affinity_witness:
  "\<exists>x terms. requiredTerms x = Some terms \<and>
    (\<forall>node. (\<exists>t\<in>set terms. sample_matches node t) \<longleftrightarrow> node DefaultZoneNodeLabel = Some ''a'')"
proof -
  have "go_sat (\<lambda>x. True) (generateSingleStatefulSet sample_lib (withZoneNodeLabel zoned_qsts) zero_statefulset 0 ''a'' 1)"
    by code_simp
  then obtain x where x: "generateSingleStatefulSet sample_lib (withZoneNodeLabel zoned_qsts) zero_statefulset 0 ''a'' 1 = Ret x"
    by (elim go_satE)
  have "requiredTerms zero_statefulset = None" "qs_ZoneNodeLabel (q_Spec (withZoneNodeLabel zoned_qsts)) = DefaultZoneNodeLabel"
    by code_simp+
  with generated_zone_affinity [OF x _ sample_matching refl refl] show ?thesis by auto
qed

lemma injectContainerEnv_Panic:
  assumes "0 \<le> zi"
  shows "injectContainerEnv ps zi zn r b = Panic \<longleftrightarrow>
    r = None \<and> injects b \<and> ps_Containers ps @ ps_InitContainers ps \<noteq> []"
proof -
  have "injectContainers (injectEnvs zi zn r b) cs = Panic \<longleftrightarrow> r = None \<and> injects b \<and> cs \<noteq> []" for cs
    unfolding injectContainers_Panic injectEnvs_upserts [OF assms] by (cases cs) auto
  moreover have "injectContainerEnv ps zi zn r b = Panic \<longleftrightarrow>
      injectContainers (injectEnvs zi zn r b) (ps_Containers ps) = Panic \<or>
      injectContainers (injectEnvs zi zn r b) (ps_InitContainers ps) = Panic"
    by (auto simp: injectContainerEnv_def Let_def split: go.splits)
  ultimately show ?thesis by auto
qed

text \<open>The only panic: a number of replicas that is missing, is to be injected, and has a container to go to.\<close>

definition lacks_replicas :: "quarks_statefulset \<Rightarrow> bool" where
  "lacks_replicas q \<longleftrightarrow>
     spec_Replicas (sts_Spec (qs_Template (q_Spec q))) = None \<and> injects (qs_InjectReplicasEnv (q_Spec q)) \<and>
     (let ps = pt_Spec (spec_Template (sts_Spec (qs_Template (q_Spec q)))) in
      ps_Containers ps @ ps_InitContainers ps \<noteq> [])"

lemma generateSingle_Panic:
  assumes "0 \<le> zi"
  shows "generateSingleStatefulSet L q ((qs_Template (q_Spec q))\<lparr>sts_Namespace := ns\<rparr>) zi zn v = Panic \<longleftrightarrow>
    lacks_replicas q"
proof -
  let ?x = "zonedTemplate L q ((qs_Template (q_Spec q))\<lparr>sts_Namespace := ns\<rparr>) zn"
  have "generateSingleStatefulSet L q ((qs_Template (q_Spec q))\<lparr>sts_Namespace := ns\<rparr>) zi zn v = Panic \<longleftrightarrow>
      injectContainerEnv (pt_Spec (spec_Template (sts_Spec ?x))) zi zn
        (spec_Replicas (sts_Spec (qs_Template (q_Spec q)))) (qs_InjectReplicasEnv (q_Spec q)) = Panic"
    by (auto simp: generateSingleStatefulSet_def Let_def split: go.splits)
  then show ?thesis by (simp add: injectContainerEnv_Panic [OF assms] lacks_replicas_def Let_def)
qed

lemma generateZones_Panic:
  "0 \<le> k \<Longrightarrow> generateZones L q ((qs_Template (q_Spec q))\<lparr>sts_Namespace := ns\<rparr>) v k zs = Panic \<longleftrightarrow>
     zs \<noteq> [] \<and> lacks_replicas q"
proof (induction zs arbitrary: k)
  case (Cons z zs)
  let ?t = "(qs_Template (q_Spec q))\<lparr>sts_Namespace := ns\<rparr>"
  have "generateZones L q ?t v k (z # zs) = Panic \<longleftrightarrow>
      generateSingleStatefulSet L q ?t k z v = Panic \<or> generateZones L q ?t v (k + 1) zs = Panic"
    by (auto split: go.splits)
  with generateSingle_Panic [OF Cons.prems] Cons.IH [of "k + 1"] Cons.prems show ?case by auto
qed simp

lemma desired_Panic: "desiredStatefulSets L q v = Panic \<longleftrightarrow> lacks_replicas q"
proof -
  let ?t = "(qs_Template (q_Spec q))\<lparr>sts_Namespace := q_Namespace q\<rparr>"
  have one: "(case generateSingleStatefulSet L q ?t 0 '''' v of Panic \<Rightarrow> Panic | Ret x \<Rightarrow> Ret [x]) = Panic \<longleftrightarrow>
      lacks_replicas q"
    using generateSingle_Panic [of 0 L q "q_Namespace q" "''''" v]
    by (cases "generateSingleStatefulSet L q ?t 0 '''' v") simp_all
  show ?thesis
    using generateZones_Panic [of 0 L q "q_Namespace q" v "qs_Zones (q_Spec q)"] one
    by (cases "qs_Zones (q_Spec q) = []") (simp_all add: desiredStatefulSets_def)
qed

lemma desired_total:
  assumes "spec_Replicas (sts_Spec (qs_Template (q_Spec q))) \<noteq> None"
  obtains xs where "desiredStatefulSets L q v = Ret xs"
  using assms desired_Panic [of L q v] that by (cases "desiredStatefulSets L q v") (auto simp: lacks_replicas_def)

text \<open>
  C31: panics. Generating the StatefulSets panics if and only if the number of replicas is
  missing, is to be injected, and there is a container to inject it into.
\<close>

theorem desired_panics:
  "desiredStatefulSets L q v = Panic \<longleftrightarrow>
     spec_Replicas (sts_Spec (qs_Template (q_Spec q))) = None \<and> injects (qs_InjectReplicasEnv (q_Spec q)) \<and>
     (let ps = pt_Spec (spec_Template (sts_Spec (qs_Template (q_Spec q)))) in
      ps_Containers ps @ ps_InitContainers ps \<noteq> [])"
  unfolding desired_Panic lacks_replicas_def by (rule refl)

end
