(* ===== verification/Rollout_Machine.thy ===== *)
theory Rollout_Machine
  imports Rollout
begin

text \<open>
  The abstract rollout: a machine over a phase and a partition, with the steps the controller
  may take. It counts down (locale \<open>countdown\<close>, interpreted for it), so a rollout ends after
  a bounded number of steps. The refinement of \<open>rolloutReconcile\<close> to this machine is in
  \<open>Rollout_Refinement\<close>.
\<close>

section \<open>Machines that count down\<close>

text \<open>
  An invariant that every step keeps and a rank that every step lowers: every run is at most
  as long as the rank of its first state, and none is infinite.
\<close>

locale countdown =
  fixes step :: "'s \<Rightarrow> 's \<Rightarrow> bool"
    and inv :: "'s \<Rightarrow> bool"
    and rank :: "'s \<Rightarrow> nat"
  assumes inv_step: "inv s \<Longrightarrow> step s t \<Longrightarrow> inv t"
    and rank_step: "inv s \<Longrightarrow> step s t \<Longrightarrow> rank t < rank s"
begin

lemma inv_run: "step\<^sup>*\<^sup>* s t \<Longrightarrow> inv s \<Longrightarrow> inv t"
  by (induction rule: rtranclp_induct) (auto dest: inv_step)

lemma run_bound: "(step ^^ n) s t \<Longrightarrow> inv s \<Longrightarrow> n + rank t \<le> rank s"
proof (induction n arbitrary: t)
  case (Suc n)
  then obtain u where u: "(step ^^ n) s u" "step u t" by auto
  then have "step\<^sup>*\<^sup>* s u" by (simp add: relpowp_imp_rtranclp)
  then have "inv u" using Suc.prems by (simp add: inv_run)
  then have "rank t < rank u" using u(2) by (rule rank_step)
  with Suc u(1) show ?case by fastforce
qed simp

lemma no_infinite_run: "inv (f 0) \<Longrightarrow> \<not> (\<forall>i. step (f i) (f (Suc i)))"
proof
  assume "inv (f 0)" and run: "\<forall>i. step (f i) (f (Suc i))"
  have "(step ^^ n) (f 0) (f n)" for n
    by (induction n) (use run in auto)
  from run_bound [OF this [of "Suc (rank (f 0))"] \<open>inv (f 0)\<close>] show False by simp
qed

end

section \<open>The rollout machine\<close>

datatype phase = Pending | CanaryUpscale | Canary | Rollout | Done | Failed | Unmanaged string

definition phase_of :: "string \<Rightarrow> phase" where
  "phase_of s =
     (if s = rolloutStatePending then Pending
      else if s = rolloutStateCanaryUpscale then CanaryUpscale
      else if s = rolloutStateCanary then Canary
      else if s = rolloutStateRollout then Rollout
      else if s = rolloutStateDone then Done
      else if s = rolloutStateFailed then Failed
      else Unmanaged s)"

lemma phase_of_states [simp]:
  "phase_of rolloutStatePending = Pending"
  "phase_of rolloutStateCanaryUpscale = CanaryUpscale"
  "phase_of rolloutStateCanary = Canary"
  "phase_of rolloutStateRollout = Rollout"
  "phase_of rolloutStateDone = Done"
  "phase_of rolloutStateFailed = Failed"
  by (simp_all add: phase_of_def rollout_states)

lemma phase_of_iffs:
  "phase_of s = Pending \<longleftrightarrow> s = rolloutStatePending"
  "phase_of s = CanaryUpscale \<longleftrightarrow> s = rolloutStateCanaryUpscale"
  "phase_of s = Canary \<longleftrightarrow> s = rolloutStateCanary"
  "phase_of s = Rollout \<longleftrightarrow> s = rolloutStateRollout"
  "phase_of s = Done \<longleftrightarrow> s = rolloutStateDone"
  "phase_of s = Failed \<longleftrightarrow> s = rolloutStateFailed"
  by (simp_all add: phase_of_def rollout_states)

text \<open>
  A step is what one \<open>Reconcile\<close> may write: the next phase and the next partition. The
  partition is never raised, and lowered by at most one.
\<close>

inductive rollout_step :: "phase \<times> int \<Rightarrow> phase \<times> int \<Rightarrow> bool" where
  fail: "ph \<noteq> Done \<Longrightarrow> ph \<noteq> Failed \<Longrightarrow> rollout_step (ph, p) (Failed, p)"
| pending_upscale: "p \<le> 0 \<Longrightarrow> rollout_step (Pending, p) (CanaryUpscale, p)"
| pending_upscale_dec: "p > 0 \<Longrightarrow> rollout_step (Pending, p) (CanaryUpscale, dec32 p)"
| pending_canary: "rollout_step (Pending, p) (Canary, dec32 p)"
| upscale_move: "p \<noteq> 0 \<Longrightarrow> rollout_step (CanaryUpscale, p) (Rollout, dec32 p)"
| move: "ph = Canary \<or> ph = Rollout \<Longrightarrow> p \<noteq> 0 \<Longrightarrow> rollout_step (ph, p) (Rollout, dec32 p)"
| finish: "ph = CanaryUpscale \<or> ph = Canary \<or> ph = Rollout \<Longrightarrow> rollout_step (ph, 0) (Done, 0)"

inductive_cases rollout_stepE: "rollout_step (ph, p) (ph', p')"

inductive_simps rollout_step_final:
  "rollout_step (Done, p) t"
  "rollout_step (Failed, p) t"

text \<open>
  The invariant: the partition is a non-negative \<open>int32\<close>, positive while the rollout is
  pending (with partition 0 a pending rollout may underflow, see \<open>pending_zero_underflow\<close>),
  and 0 when it is done.
\<close>

fun rollout_inv :: "phase \<times> int \<Rightarrow> bool" where
  "rollout_inv (ph, p) \<longleftrightarrow>
     0 \<le> p \<and> int32_ok p \<and> (ph = Pending \<longrightarrow> 1 \<le> p) \<and> (ph = Done \<longrightarrow> p = 0)"

fun rollout_rank :: "phase \<times> int \<Rightarrow> nat" where
  "rollout_rank (Done, p) = 0"
| "rollout_rank (Failed, p) = 0"
| "rollout_rank (Rollout, p) = nat p + 1"
| "rollout_rank (Canary, p) = nat p + 2"
| "rollout_rank (CanaryUpscale, p) = nat p + 2"
| "rollout_rank (Pending, p) = nat p + 3"
| "rollout_rank (Unmanaged s, p) = 1"

lemma rollout_inv_step: "rollout_step s t \<Longrightarrow> rollout_inv s \<Longrightarrow> rollout_inv t"
  by (induction rule: rollout_step.induct) (auto simp: dec32_pos int32_ok_def)

lemma rollout_rank_step: "rollout_step s t \<Longrightarrow> rollout_inv s \<Longrightarrow> rollout_rank t < rollout_rank s"
proof (induction rule: rollout_step.induct)
  case (fail ph p)
  then show ?case by (cases ph) auto
qed (auto simp: dec32_pos)

interpretation rollout: countdown rollout_step rollout_inv rollout_rank
  by unfold_locales (auto intro: rollout_inv_step rollout_rank_step)

text \<open>
  How far a rollout has come orders the phases: the two ways to begin are incomparable, and so
  are the two ways to end.
\<close>

fun progress :: "phase \<Rightarrow> nat" where
  "progress (Unmanaged s) = 0"
| "progress Pending = 0"
| "progress CanaryUpscale = 1"
| "progress Canary = 1"
| "progress Rollout = 2"
| "progress Done = 3"
| "progress Failed = 3"

instantiation phase :: order
begin

definition less_eq_phase :: "phase \<Rightarrow> phase \<Rightarrow> bool" where
  "less_eq_phase a b \<longleftrightarrow> a = b \<or> progress a < progress b"

definition less_phase :: "phase \<Rightarrow> phase \<Rightarrow> bool" where
  "less_phase a b \<longleftrightarrow> progress a < progress b"

instance
  by standard (auto simp: less_eq_phase_def less_phase_def)

end

lemma rollout_step_monotone:
  "rollout_step (ph, p) (ph', p') \<Longrightarrow> ph \<le> ph' \<and> (0 \<le> p \<longrightarrow> int32_ok p \<longrightarrow> p' \<le> p)"
proof (elim rollout_stepE)
  show "ph \<noteq> Done \<Longrightarrow> ph \<noteq> Failed \<Longrightarrow> ph' = Failed \<Longrightarrow> p' = p \<Longrightarrow> ?thesis"
    by (cases ph) (auto simp: less_eq_phase_def)
qed (auto simp: less_eq_phase_def dec32_pos)

lemma rollout_step_partition:
  "rollout_step (ph, p) (ph', p') \<Longrightarrow> p' = p \<or> p' = dec32 p"
  by (auto elim: rollout_stepE)

text \<open>
  The rollout terminates. From a pending rollout with partition p there are at most p + 3
  steps until no step is possible, and no infinite run starts from a state that satisfies the
  invariant.
\<close>

theorem rollout_terminates:
  assumes "rollout_inv s"
  shows "(\<forall>n t. (rollout_step ^^ n) s t \<longrightarrow> n + rollout_rank t \<le> rollout_rank s) \<and>
         \<not> (\<exists>f. f 0 = s \<and> (\<forall>i. rollout_step (f i) (f (Suc i))))"
  using rollout.run_bound rollout.no_infinite_run assms by blast

theorem rollout_terminates_witness:
  "(rollout_step ^^ 2) (Pending, 1) (Done, 0) \<and> 2 + rollout_rank (Done, 0) \<le> rollout_rank (Pending, 1)"
proof -
  have "rollout_inv (Pending, 1)" by (simp add: int32_ok_def)
  moreover have "rollout_step (Pending, 1) (Canary, 0)"
    using rollout_step.pending_canary [of 1] by (simp add: dec32_pos int32_ok_def)
  then have "(rollout_step ^^ 2) (Pending, 1) (Done, 0)"
    by (auto simp: numeral_2_eq_2 intro: rollout_step.finish)
  ultimately show ?thesis using rollout_terminates by blast
qed

end
