(* ===== verification/Rollout_Refinement.thy ===== *)
theory Rollout_Refinement
  imports Rollout_Machine
begin

text \<open>
  The controller implements the machine: whatever the cluster answers, one \<open>Reconcile\<close> writes
  the StatefulSet at most once, and what it writes is one step of \<open>rollout_step\<close> from the
  state it read. One lemma per function of \<open>statefulset_rollout_reconciler.go\<close> says which
  events the function emits; the properties combine them.
\<close>

section \<open>Frame lemmas of the write\<close>

text \<open>
  \<open>meltdown.SetLastReconcile\<close> sets its own annotation only; in particular it leaves the
  rollout state alone.
\<close>

definition meltdown_keeps_state :: "lib \<Rightarrow> bool" where
  "meltdown_keeps_state L \<longleftrightarrow>
     (\<forall>m t. gget (meltdown_SetLastReconcile L m t) (AnnotationCanaryRollout (gname L)) =
            gget m (AnnotationCanaryRollout (gname L)))"

lemma gset_gget: "gset m k v = Ret m' \<Longrightarrow> gget m' k = v"
  by (cases m) auto

lemma gset_other: "gset m k v = Ret m' \<Longrightarrow> k' \<noteq> k \<Longrightarrow> gmap m' k' = gmap m k'"
  by (cases m) auto

lemma partition_frame [simp]:
  "partitionVal (x\<lparr>sts_Annotations := m\<rparr>) = partitionVal x"
  "partitionPtr (x\<lparr>sts_Annotations := m\<rparr>) = partitionPtr x"
  by (simp_all add: partitionVal_def partitionPtr_def)

lemma partitionVal_with: "partitionVal x = Ret p \<Longrightarrow> partitionVal (withPartition p' x) = Ret p'"
  by (auto simp: partitionVal_def split: go.splits)

lemma podKey_frame [simp]:
  "podKey (x\<lparr>sts_Annotations := m\<rparr>) p = podKey x p"
  "podKey (withPartition p' x) p = podKey x p"
  by (simp_all add: podKey_def podNameOf_def)

text \<open>What the mutate function changes: the partition and the state annotation.\<close>

lemma rolloutMutate_Ret:
  assumes "rolloutMutate L part st y = Ret z"
  shows "partitionVal z = Ret part" and "canary_state L z = st"
    and "k \<noteq> AnnotationCanaryRollout (gname L) \<Longrightarrow> gmap (sts_Annotations z) k = gmap (sts_Annotations y) k"
    and "z = (withPartition part y)\<lparr>sts_Annotations := sts_Annotations z\<rparr>"
  using assms
  by (auto simp: rolloutMutate_def partitionVal_def gset_gget gset_other split: go.splits)

text \<open>Where the mutate function panics: on a stored object it cannot store into.\<close>

lemma rolloutMutate_panics:
  "rolloutMutate L p st y = Panic \<longleftrightarrow> partitionPtr y = Panic \<or> sts_Annotations y = None"
  by (cases "sts_Annotations y") (auto simp: rolloutMutate_def split: go.splits)

lemma partitionPtr_panics: "partitionPtr y = Panic \<longleftrightarrow> us_RollingUpdate (spec_UpdateStrategy (sts_Spec y)) = None"
  by (auto simp: partitionPtr_def split: option.splits)

lemma rolloutMutate_defined:
  "rolloutMutate L p st y = Panic \<longleftrightarrow>
     sts_Annotations y = None \<or> us_RollingUpdate (spec_UpdateStrategy (sts_Spec y)) = None"
  by (auto simp: rolloutMutate_panics partitionPtr_panics)

section \<open>Events of the helpers\<close>

text \<open>
  \<open>ready_seen L x ev\<close>: among the events is a read of the pod at the partition of \<open>x\<close>, and
  that pod was ready and at the update revision.
\<close>

definition ready_seen :: "lib \<Rightarrow> statefulset \<Rightarrow> event list \<Rightarrow> bool" where
  "ready_seen L x ev \<longleftrightarrow>
     (\<exists>p pod. partitionVal x = Ret p \<and> GotPod (podKey x p) (Inr pod) \<in> set ev \<and>
        podutil_IsPodReady L pod \<and> podIsUpdated L x pod)"

text \<open>\<open>delete_ok L ev\<close>: every pod deleted had been read, not ready, at the written partition.\<close>

definition delete_ok :: "lib \<Rightarrow> event list \<Rightarrow> bool" where
  "delete_ok L ev \<longleftrightarrow>
     (\<forall>pod e. DeletedPod pod e \<in> set ev \<longrightarrow> \<not> podutil_IsPodReady L pod \<and>
        (\<exists>x f y p. WroteSts x f (Ret (None, y)) \<in> set ev \<and> partitionVal y = Ret p \<and>
           GotPod (podKey y p) (Inr pod) \<in> set ev))"

definition wrote :: "lib \<Rightarrow> statefulset \<Rightarrow> int \<Rightarrow> string \<Rightarrow> event list \<Rightarrow> bool" where
  "wrote L x p st ws \<longleftrightarrow>
     (\<exists>x' r ds. ws = WroteSts x' (rolloutMutate L p st) r # ds \<and>
        sts_Name x' = sts_Name x \<and> sts_Namespace x' = sts_Namespace x \<and>
        (ds = [] \<or> (\<exists>pod e. ds = [DeletedPod pod e])))"

lemma quiet_no_delete: "writes ev = [] \<Longrightarrow> DeletedPod pod e \<notin> set ev"
  by (induction ev) (auto split: if_splits)

lemma delete_ok_quiet: "writes ev = [] \<Longrightarrow> delete_ok L ev"
  by (simp add: delete_ok_def quiet_no_delete)

lemma delete_ok_append: "delete_ok L ev \<Longrightarrow> delete_ok L ev' \<Longrightarrow> delete_ok L (ev @ ev')"
  unfolding delete_ok_def by (simp only: set_append Un_iff) blast

lemma getTimeOut_emits: "emits (getTimeOut L (recording W) x k) (\<lambda>d ev. writes ev = [])"
  unfolding getTimeOut_def Let_def recording_simps
  by (intro emits_rules) simp_all

lemma partitionPodIsReady_emits:
  "emits (partitionPodIsReadyAndUpdated L (recording W) x)
     (\<lambda>r ev. writes ev = [] \<and> (r = Ret (Inr True) \<longrightarrow> ready_seen L x ev))"
  unfolding partitionPodIsReadyAndUpdated_def getPodWithIndex_def recording_simps
  by (intro emits_rules) (auto simp: ready_seen_def split: if_splits sum.splits)

lemma CleanupNonReadyPod_emits:
  "emits (CleanupNonReadyPod L (recording W) x k)
     (\<lambda>e ev. writes ev = [] \<or>
        (\<exists>pod e. writes ev = [DeletedPod pod e] \<and>
           ev = [GotPod (podKey x k) (Inr pod), DeletedPod pod e] \<and> \<not> podutil_IsPodReady L pod))"
  unfolding CleanupNonReadyPod_def getPodWithIndex_def recording_simps
  by (intro emits_rules) (auto split: if_splits sum.splits)

lemma updateStatefulSet_emits:
  assumes "meltdown_keeps_state L"
  shows "emits (updateStatefulSet L (recording W) x)
    (\<lambda>q ev. (partitionVal x = Panic \<and> q = Panic \<and> writes ev = []) \<or>
      (\<exists>p x' r t. partitionVal x = Ret p \<and> sts_Name x' = sts_Name x \<and>
         sts_Namespace x' = sts_Namespace x \<and>
         ev = [Clock t, WroteSts x' (rolloutMutate L p (canary_state L x)) r] \<and>
         (\<forall>y. q = Ret (None, y) \<longrightarrow> r = Ret (None, y))))"
  using assms
  unfolding updateStatefulSet_def Let_def recording_simps
  by (intro emits_rules)
     (auto simp: meltdown_keeps_state_def partitionVal_def partitionPtr_def split: go_splits)

lemma updateWithPartitionMove_emits:
  assumes "meltdown_keeps_state L"
  shows "emits (updateWithPartitionMove L (recording W) x old)
    (\<lambda>r ev. delete_ok L ev \<and>
       (writes ev = [] \<or> (\<exists>p. partitionVal x = Ret p \<and> wrote L x p (canary_state L x) (writes ev))))"
  unfolding updateWithPartitionMove_def
  by (intro emits_rules emits_mono [OF updateStatefulSet_emits [OF assms]]
        emits_mono [OF CleanupNonReadyPod_emits])
     (auto simp: wrote_def delete_ok_def quiet_no_delete)

lemma failIfTimedOut_emits:
  assumes "meltdown_keeps_state L"
  shows "emits (failIfTimedOut L (recording W) x k)
    (\<lambda>q ev. delete_ok L ev \<and>
       (writes ev = [] \<or> ((\<exists>e. q = Ret (True, e) \<or> q = Panic) \<and>
         (\<exists>p. partitionVal x = Ret p \<and> wrote L x p rolloutStateFailed (writes ev)))))"
  unfolding failIfTimedOut_def
  by (intro emits_rules emits_mono [OF getTimeOut_emits]
        emits_mono [OF updateStatefulSet_emits [OF assms]])
     (auto simp: wrote_def gset_gget delete_ok_def quiet_no_delete)

section \<open>Events of the switch\<close>

definition all_ready :: "statefulset \<Rightarrow> bool" where
  "all_ready x \<longleftrightarrow>
     spec_Replicas (sts_Spec x) = Some (st_Replicas (sts_Status x)) \<and>
     spec_Replicas (sts_Spec x) = Some (st_ReadyReplicas (sts_Status x))"

text \<open>
  What the controller must have seen before it moves to \<open>Rollout\<close> or \<open>Done\<close>: the pod at the
  partition ready and updated, or all replicas ready when it scales up.
\<close>

definition justified :: "lib \<Rightarrow> statefulset \<Rightarrow> event list \<Rightarrow> phase \<Rightarrow> phase \<Rightarrow> bool" where
  "justified L x ev ph ph' \<longleftrightarrow>
     (ph' = Rollout \<or> ph' = Done \<longrightarrow>
        (if ph = CanaryUpscale then all_ready x else ready_seen L x ev))"

definition switch_ok ::
  "lib \<Rightarrow> statefulset \<Rightarrow> string \<Rightarrow> event list \<Rightarrow> statefulset \<Rightarrow> string \<Rightarrow> bool \<Rightarrow> bool" where
  "switch_ok L x status ev x1 ns dirty \<longleftrightarrow>
     sts_Annotations x1 = sts_Annotations x \<and> sts_Name x1 = sts_Name x \<and>
     sts_Namespace x1 = sts_Namespace x \<and>
     ((ns = status \<and> \<not> dirty) \<or>
      (justified L x ev (phase_of status) (phase_of ns) \<and>
       (\<forall>p'. partitionVal x1 = Ret p' \<longrightarrow>
          (\<exists>p. partitionVal x = Ret p \<and> rollout_step (phase_of status, p) (phase_of ns, p')))))"

definition switch_post ::
  "lib \<Rightarrow> statefulset \<Rightarrow> string \<Rightarrow> switch_out go \<Rightarrow> event list \<Rightarrow> bool" where
  "switch_post L x status q ev \<longleftrightarrow> writes ev = [] \<and>
     (\<forall>x1 ns dirty res. q = Ret (SwitchOk x1 ns dirty res) \<longrightarrow> switch_ok L x status ev x1 ns dirty)"

lemmas switch_defs = switch_post_def switch_ok_def justified_def partitionVal_with

lemma ready_seen_mono: "ready_seen L x ev \<Longrightarrow> set ev \<subseteq> set ev' \<Longrightarrow> ready_seen L x ev'"
  by (auto simp: ready_seen_def)

lemma justified_mono: "justified L x ev ph ph' \<Longrightarrow> set ev \<subseteq> set ev' \<Longrightarrow> justified L x ev' ph ph'"
  unfolding justified_def by (metis ready_seen_mono)

lemma switch_ok_mono:
  "switch_ok L x status ev x1 ns d \<Longrightarrow> set ev \<subseteq> set ev' \<Longrightarrow> switch_ok L x status ev' x1 ns d"
  unfolding switch_ok_def by (metis justified_mono)

lemma switch_post_append:
  "switch_post L x status q ev' \<Longrightarrow> writes ev = [] \<Longrightarrow> switch_post L x status q (ev @ ev')"
  by (auto simp: switch_post_def intro: switch_ok_mono)

lemma caseCanaryUpscale_emits:
  "emits (caseCanaryUpscale x rolloutStateCanaryUpscale res) (switch_post L x rolloutStateCanaryUpscale)"
  unfolding caseCanaryUpscale_def
  by (intro emits_rules)
     (auto simp: switch_defs all_ready_def deref_def intro: rollout_step.intros split: option.splits)

lemma caseRollout_emits:
  assumes "phase_of status = Canary \<or> phase_of status = Rollout"
  shows "emits (caseRollout L (recording W) x status res) (switch_post L x status)"
  unfolding caseRollout_def Let_def
  by (intro emits_rules emits_mono [OF partitionPodIsReady_emits])
     (use assms in \<open>auto simp: switch_defs intro: rollout_step.intros\<close>)

lemma caseCanary_emits:
  "emits (caseCanary L (recording W) x rolloutStateCanary res) (switch_post L x rolloutStateCanary)"
  unfolding caseCanary_def
proof (intro emits_rules emits_mono [OF getTimeOut_emits])
  fix d :: int and ev
  assume ev: "writes ev = []"
  then show "switch_post L x rolloutStateCanary (Ret (SwitchOk x rolloutStateFailed False res)) (ev @ [])"
    by (auto simp: switch_defs intro: rollout_step.intros)
  show "emits (caseRollout L (recording W) x rolloutStateCanary res)
          (\<lambda>b ev'. switch_post L x rolloutStateCanary b (ev @ ev'))"
    by (rule emits_mono [OF caseRollout_emits]) (auto intro: switch_post_append ev)
qed

lemma casePending_emits:
  "emits (casePending L (recording W) x rolloutStatePending res) (switch_post L x rolloutStatePending)"
  unfolding casePending_def Let_def
  by (intro emits_rules emits_mono [OF getTimeOut_emits])
     (auto simp: switch_defs intro: rollout_step.intros)

lemma rolloutSwitch_emits:
  "emits (rolloutSwitch L (recording W) x status res) (switch_post L x status)"
  unfolding rolloutSwitch_def
  by (intro emits_rules)
     (auto intro: caseCanaryUpscale_emits caseCanary_emits caseRollout_emits casePending_emits,
      auto simp: switch_post_def switch_ok_def)

section \<open>Events of Reconcile\<close>

text \<open>
  Either nothing is written, or the StatefulSet read is written once, by a mutate function
  that stores a legal next phase and partition, with the evidence the step needs.
\<close>

definition legal_write :: "lib \<Rightarrow> statefulset \<Rightarrow> event list \<Rightarrow> bool" where
  "legal_write L x ev \<longleftrightarrow> writes ev = [] \<or>
     (\<exists>p p' st. partitionVal x = Ret p \<and> wrote L x p' st (writes ev) \<and>
        rollout_step (phase_of (canary_state L x), p) (phase_of st, p') \<and>
        justified L x ev (phase_of (canary_state L x)) (phase_of st))"

lemma legal_writeI:
  assumes "partitionVal x = Ret p" "wrote L x p' st (writes ev)"
    and "rollout_step (phase_of (canary_state L x), p) (phase_of st, p')"
    and "justified L x ev' (phase_of (canary_state L x)) (phase_of st)" "set ev' \<subseteq> set ev"
  shows "legal_write L x ev"
  using assms justified_mono unfolding legal_write_def by blast

lemma legal_quiet: "writes ev = [] \<Longrightarrow> legal_write L x ev"
  by (simp add: legal_write_def)

lemma legal_write_append:
  assumes "legal_write L x ev'" "writes ev = []"
  shows "legal_write L x (ev @ ev')"
  using assms(1) unfolding legal_write_def [of L x ev']
proof (elim disjE exE conjE)
  fix p p' st
  assume "partitionVal x = Ret p" "wrote L x p' st (writes ev')"
    "rollout_step (phase_of (canary_state L x), p) (phase_of st, p')"
    "justified L x ev' (phase_of (canary_state L x)) (phase_of st)"
  then show ?thesis
    using assms(2) by (intro legal_writeI) auto
qed (simp add: assms(2) legal_quiet)

lemma finish_state:
  "(if ns \<noteq> gget m k then gset m k ns else Ret m) = Ret m' \<Longrightarrow> gget m' k = ns"
  by (auto simp: gset_gget split: if_splits)

lemma switch_legal:
  assumes ok: "switch_ok L x (canary_state L x) ev0 x1 ns dirty"
    and move: "ns \<noteq> canary_state L x \<or> dirty"
    and p: "partitionVal x1 = Ret p"
    and w: "wrote L x1 p ns (writes ev)"
    and ev0: "writes ev0 = []"
  shows "legal_write L x (ev0 @ ev)"
proof -
  from ok move p obtain q where "partitionVal x = Ret q"
    "rollout_step (phase_of (canary_state L x), q) (phase_of ns, p)"
    "justified L x ev0 (phase_of (canary_state L x)) (phase_of ns)"
    unfolding switch_ok_def by blast
  moreover have "wrote L x p ns (writes (ev0 @ ev))"
    using w ok ev0 by (auto simp: switch_ok_def wrote_def)
  ultimately show ?thesis by (intro legal_writeI) auto
qed

lemma legal_fail:
  assumes "canary_state L x \<noteq> rolloutStateFailed" "canary_state L x \<noteq> rolloutStateDone"
    and "partitionVal x = Ret p" "wrote L x p rolloutStateFailed (writes ev)"
  shows "legal_write L x ev"
proof (rule legal_writeI [OF assms(3,4)])
  show "rollout_step (phase_of (canary_state L x), p) (phase_of rolloutStateFailed, p)"
    using assms(1,2) by (simp add: phase_of_iffs rollout_step.fail)
  show "justified L x [] (phase_of (canary_state L x)) (phase_of rolloutStateFailed)"
    by (simp add: justified_def)
qed simp

lemma rolloutFinish_emits:
  assumes keeps: "meltdown_keeps_state L"
    and ok: "switch_ok L x (canary_state L x) ev0 x1 ns dirty" and ev0: "writes ev0 = []"
  shows "emits (rolloutFinish L (recording W) x1 ns dirty old res)
           (\<lambda>r ev. delete_ok L ev \<and> legal_write L x (ev0 @ ev))"
proof -
  have ann: "sts_Annotations x1 = sts_Annotations x"
    using ok by (simp add: switch_ok_def)
  have quiet: "writes ev = [] \<Longrightarrow> legal_write L x (ev0 @ ev)" for ev
    using ev0 by (simp add: legal_quiet)
  have wr: "legal_write L x (ev0 @ ev)"
    if m: "(if ns \<noteq> canary_state L x then gset (sts_Annotations x) (AnnotationCanaryRollout (gname L)) ns
            else Ret (sts_Annotations x)) = Ret m"
      and move: "ns \<noteq> canary_state L x \<or> dirty"
      and post: "writes ev = [] \<or> (\<exists>p. partitionVal (x1\<lparr>sts_Annotations := m\<rparr>) = Ret p \<and>
        wrote L (x1\<lparr>sts_Annotations := m\<rparr>) p (canary_state L (x1\<lparr>sts_Annotations := m\<rparr>)) (writes ev))"
    for m ev
    using post
  proof (elim disjE exE conjE)
    fix p
    assume p: "partitionVal (x1\<lparr>sts_Annotations := m\<rparr>) = Ret p"
      and w: "wrote L (x1\<lparr>sts_Annotations := m\<rparr>) p (canary_state L (x1\<lparr>sts_Annotations := m\<rparr>)) (writes ev)"
    have "canary_state L (x1\<lparr>sts_Annotations := m\<rparr>) = ns"
      using finish_state [OF m] by simp
    with w have "wrote L x1 p ns (writes ev)" by (simp add: wrote_def)
    with p show ?thesis by (intro switch_legal [OF ok move]) (simp_all add: ev0)
  qed (rule quiet)
  show ?thesis
    unfolding rolloutFinish_def Let_def ann
    by (intro emits_rules emits_mono [OF updateWithPartitionMove_emits [OF keeps]])
       (simp_all add: quiet wr ev0 legal_quiet delete_ok_quiet)
qed

lemma emits_case_switch [emits_rules]:
  "(\<And>e. r = SwitchErr e \<Longrightarrow> emits (f e) Q) \<Longrightarrow>
   (\<And>x ns d res. r = SwitchOk x ns d res \<Longrightarrow> emits (g x ns d res) Q) \<Longrightarrow>
   emits (case r of SwitchErr e \<Rightarrow> f e | SwitchOk x ns d res \<Rightarrow> g x ns d res) Q"
  by (cases r) auto

lemma rolloutAdvance_emits:
  assumes keeps: "meltdown_keeps_state L"
  shows "emits (rolloutAdvance L (recording W) x) (\<lambda>r ev. delete_ok L ev \<and> legal_write L x ev)"
  unfolding rolloutAdvance_def Let_def
  by (intro emits_rules emits_mono [OF failIfTimedOut_emits [OF keeps]]
        emits_mono [OF getTimeOut_emits] emits_mono [OF rolloutSwitch_emits])
     (auto simp: legal_quiet switch_post_def legal_write_append delete_ok_quiet delete_ok_append
        intro: legal_fail intro!: emits_mono [OF rolloutFinish_emits [OF keeps]])

lemma rolloutReconcile_emits:
  assumes keeps: "meltdown_keeps_state L"
  shows "emits (rolloutReconcile L cfg (recording W) req)
     (\<lambda>r ev. \<exists>g ev'. ev = GotSts req g # ev' \<and> delete_ok L ev \<and>
        (\<forall>e. g = Inl e \<longrightarrow> writes ev = []) \<and> (\<forall>x. g = Inr x \<longrightarrow> legal_write L x ev))"
proof -
  have del: "delete_ok L (GotSts req g # ev)" if "delete_ok L ev" for g ev
    using that delete_ok_append [of L "[GotSts req g]" ev] by (simp add: delete_ok_quiet)
  have del2: "delete_ok L (GotSts req g # Clock t # ev)" if "delete_ok L ev" for g t ev
    using that delete_ok_append [of L "[GotSts req g, Clock t]" ev] by (simp add: delete_ok_quiet)
  have legal: "legal_write L x (GotSts req g # Clock t # ev)" if "legal_write L x ev" for x g t ev
    using legal_write_append [OF that, of "[GotSts req g, Clock t]"] by simp
  show ?thesis
    unfolding rolloutReconcile_def recording_simps
    by (intro emits_rules emits_mono [OF rolloutAdvance_emits [OF keeps]])
       (simp_all add: del2 legal legal_quiet delete_ok_quiet)
qed

end
