(* ===== verification/Rollout_Properties.thy ===== *)
theory Rollout_Properties
  imports Rollout_Refinement Sample_World
begin

text \<open>
  The properties of the rollout controller: refinement of the abstract machine, the safety of
  its moves and deletions, the frame of its writes, the time-outs, the final states, and the
  completion of a rollout on a cluster whose pods become ready.
\<close>

section \<open>Sample objects for the witnesses\<close>

definition sample_key :: nsname where
  "sample_key = \<lparr>nn_Namespace = ''default'', nn_Name = ''foo''\<rparr>"

definition sample_sts :: "string \<Rightarrow> int \<Rightarrow> int \<Rightarrow> int \<Rightarrow> statefulset" where
  "sample_sts st part repl ready =
     zero_statefulset\<lparr>sts_Name := ''foo'', sts_Namespace := ''default'',
       sts_Annotations := Some [''quarks.cloudfoundry.org/canary-rollout'' \<mapsto> st],
       sts_Spec := (sts_Spec zero_statefulset)\<lparr>spec_Replicas := Some repl,
         spec_UpdateStrategy := \<lparr>us_Type = ''RollingUpdate'',
           us_RollingUpdate = Some \<lparr>ru_Partition = Some part\<rparr>\<rparr>\<rparr>,
       sts_Status := (sts_Status zero_statefulset)\<lparr>st_Replicas := repl, st_ReadyReplicas := ready,
         st_UpdateRevision := ''rev2''\<rparr>\<rparr>"

definition sample_pod :: "int \<Rightarrow> string \<Rightarrow> pod" where
  "sample_pod i status = \<lparr>pod_Name = ''foo-'' @ Itoa i, pod_Namespace = ''default'',
     pod_Labels = Some [''controller-revision-hash'' \<mapsto> ''rev2''], pod_Status = status, pod_Rest = ''''\<rparr>"

definition sample_mem :: "statefulset \<Rightarrow> pod list \<Rightarrow> mem" where
  "sample_mem x pods = empty_mem\<lparr>m_Sts := [(sample_key, x)], m_Pods := map (\<lambda>p. (pod_key p, p)) pods\<rparr>"

lemma sample_keeps: "meltdown_keeps_state sample_lib"
  by (simp add: meltdown_keeps_state_def sample_defs key_defs gget_def)

section \<open>Refinement and safety\<close>

lemma rollout_trace_cases:
  assumes "meltdown_keeps_state L"
    and "tr = trace_of (rolloutReconcile L cfg (recording W) req) s"
  obtains "writes tr = []"
  | x p p' st where "hd tr = GotSts req (Inr x)" "partitionVal x = Ret p"
      "wrote L x p' st (writes tr)"
      "rollout_step (phase_of (canary_state L x), p) (phase_of st, p')"
      "justified L x tr (phase_of (canary_state L x)) (phase_of st)"
proof -
  obtain g ev where "tr = GotSts req g # ev" and e: "\<And>e. g = Inl e \<Longrightarrow> writes tr = []"
    and x: "\<And>x. g = Inr x \<Longrightarrow> legal_write L x tr"
    using emits_trace [OF rolloutReconcile_emits [OF assms(1), of cfg W req], of s]
    unfolding assms(2) by metis
  then have hd: "hd tr = GotSts req g" by simp
  show thesis
  proof (cases g)
    case (Inl a)
    with e that(1) show thesis by blast
  next
    case (Inr x)
    with x hd that show thesis unfolding legal_write_def by blast
  qed
qed

lemma wrote_mem:
  "wrote L x p st (writes tr) \<Longrightarrow> WroteSts x' f r \<in> set tr \<Longrightarrow>
     f = rolloutMutate L p st \<and> sts_Name x' = sts_Name x \<and> sts_Namespace x' = sts_Namespace x"
proof -
  assume w: "wrote L x p st (writes tr)" and "WroteSts x' f r \<in> set tr"
  then have "WroteSts x' f r \<in> set (writes tr)" by (simp add: writes_def)
  with w show ?thesis by (auto simp: wrote_def)
qed

text \<open>
  C1: refinement. Whatever the cluster answers, one Reconcile of the rollout controller either
  changes nothing or writes the StatefulSet it read exactly once (then deletes at most one
  pod). Whatever object the API server holds by then, what the write makes of it carries a state
  and a partition that are one step of the abstract rollout machine from the state and the
  partition that were read; only an object without annotations or without a rolling update is
  not written, since the write panics on it.
\<close>

theorem rollout_refines:
  assumes "meltdown_keeps_state L"
    and "tr = trace_of (rolloutReconcile L cfg (recording W) req) s"
  shows "writes tr = [] \<or>
    (\<exists>x p p' st x' f r ds. hd tr = GotSts req (Inr x) \<and> partitionVal x = Ret p \<and>
       writes tr = WroteSts x' f r # ds \<and> (ds = [] \<or> (\<exists>pod e. ds = [DeletedPod pod e])) \<and>
       sts_Name x' = sts_Name x \<and> sts_Namespace x' = sts_Namespace x \<and>
       rollout_step (phase_of (canary_state L x), p) (phase_of st, p') \<and>
       (\<forall>y. if sts_Annotations y = None \<or> us_RollingUpdate (spec_UpdateStrategy (sts_Spec y)) = None
            then f y = Panic
            else \<exists>z. f y = Ret z \<and> canary_state L z = st \<and> partitionVal z = Ret p'))"
  using assms
proof (rule rollout_trace_cases)
  fix x p p' st
  assume x: "hd tr = GotSts req (Inr x)" "partitionVal x = Ret p" "wrote L x p' st (writes tr)"
    and step: "rollout_step (phase_of (canary_state L x), p) (phase_of st, p')"
  from x(3) obtain x' r ds where w: "writes tr = WroteSts x' (rolloutMutate L p' st) r # ds"
    "ds = [] \<or> (\<exists>pod e. ds = [DeletedPod pod e])" "sts_Name x' = sts_Name x" "sts_Namespace x' = sts_Namespace x"
    unfolding wrote_def by blast
  have "if sts_Annotations y = None \<or> us_RollingUpdate (spec_UpdateStrategy (sts_Spec y)) = None
      then rolloutMutate L p' st y = Panic
      else \<exists>z. rolloutMutate L p' st y = Ret z \<and> canary_state L z = st \<and> partitionVal z = Ret p'" for y
    using rolloutMutate_defined [of L p' st y]
    by (cases "rolloutMutate L p' st y") (auto simp: rolloutMutate_Ret(1,2))
  with x(1,2) w step show ?thesis by blast
qed blast

theorem rollout_refines_witness:
  "\<exists>x p p' st x' f r ds z y tr. hd tr = GotSts sample_key (Inr x) \<and> partitionVal x = Ret p \<and>
     writes tr = WroteSts x' f r # ds \<and> f y = Ret z \<and> canary_state sample_lib z = st \<and> partitionVal z = Ret p' \<and>
     rollout_step (phase_of (canary_state sample_lib x), p) (phase_of st, p')"
proof -
  let ?y = "sample_sts ''Canary'' 1 2 2"
  let ?s = "sample_mem ?y [sample_pod 1 ''ready'', sample_pod 0 ''ready'']"
  let ?tr = "trace_of (rolloutReconcile sample_lib sample_config (recording mem_world) sample_key) ?s"
  have "writes ?tr \<noteq> []" by code_simp
  moreover have "\<not> (sts_Annotations ?y = None \<or> us_RollingUpdate (spec_UpdateStrategy (sts_Spec ?y)) = None)"
    by (simp add: sample_sts_def)
  ultimately show ?thesis
    using rollout_refines [OF sample_keeps refl, of sample_config mem_world sample_key ?s] by metis
qed

text \<open>
  C2: safety of the moves. The controller stores the state Rollout or Done, and so lowers the
  partition past a pod, only if it has just read the pod whose index is the old partition,
  that pod is ready and runs the update revision; during an upscale, only if all replicas
  exist and are ready.
\<close>

theorem rollout_moves_when_ready:
  assumes "meltdown_keeps_state L"
    and "tr = trace_of (rolloutReconcile L cfg (recording W) req) s"
    and "WroteSts x' f r \<in> set tr" and "f y = Ret z"
    and "canary_state L z = rolloutStateRollout \<or> canary_state L z = rolloutStateDone"
  shows "\<exists>x p. hd tr = GotSts req (Inr x) \<and> partitionVal x = Ret p \<and>
    (if canary_state L x = rolloutStateCanaryUpscale
     then spec_Replicas (sts_Spec x) = Some (st_Replicas (sts_Status x)) \<and>
          st_ReadyReplicas (sts_Status x) = st_Replicas (sts_Status x)
     else \<exists>pod. GotPod (podKey x p) (Inr pod) \<in> set tr \<and> podutil_IsPodReady L pod \<and>
          gget (pod_Labels pod) (appsv1_StatefulSetRevisionLabel L) = st_UpdateRevision (sts_Status x))"
  using assms(1,2)
proof (rule rollout_trace_cases)
  assume "writes tr = []"
  with assms(3) show ?thesis by (auto simp: writes_def filter_empty_conv)
next
  fix x p p' st
  assume x: "hd tr = GotSts req (Inr x)" "partitionVal x = Ret p" "wrote L x p' st (writes tr)"
    and j: "justified L x tr (phase_of (canary_state L x)) (phase_of st)"
  have "canary_state L z = st"
    using wrote_mem [OF x(3) assms(3)] assms(4) rolloutMutate_Ret(2) by blast
  with assms(5) have "phase_of st = Rollout \<or> phase_of st = Done" by auto
  with j x show ?thesis
    by (auto simp: justified_def all_ready_def ready_seen_def podIsUpdated_def phase_of_iffs)
qed

theorem rollout_moves_when_ready_witness:
  "\<exists>x p tr pod. hd tr = GotSts sample_key (Inr x) \<and> partitionVal x = Ret p \<and>
     GotPod (podKey x p) (Inr pod) \<in> set tr \<and> podutil_IsPodReady sample_lib pod"
proof -
  let ?x = "sample_sts ''Canary'' 1 2 2"
  let ?s = "sample_mem ?x [sample_pod 1 ''ready'', sample_pod 0 ''ready'']"
  let ?tr = "trace_of (rolloutReconcile sample_lib sample_config (recording mem_world) sample_key) ?s"
  have "list_ex (is_sts_write (\<lambda>x f. go_sat
      (\<lambda>z. canary_state sample_lib z = rolloutStateRollout) (f ?x))) ?tr"
    by code_simp
  then obtain x' f r z where z: "WroteSts x' f r \<in> set ?tr" "f ?x = Ret z"
    "canary_state sample_lib z = rolloutStateRollout \<or> canary_state sample_lib z = rolloutStateDone"
    by (elim list_ex_sts_write go_satE) blast
  have "case hd ?tr of GotSts k (Inr x) \<Rightarrow> canary_state sample_lib x \<noteq> rolloutStateCanaryUpscale | _ \<Rightarrow> False"
    by code_simp
  then have "\<And>x. hd ?tr = GotSts sample_key (Inr x) \<Longrightarrow> canary_state sample_lib x \<noteq> rolloutStateCanaryUpscale"
    by simp
  with rollout_moves_when_ready [OF sample_keeps refl z] show ?thesis by fastforce
qed

text \<open>
  C10: a rollout never goes back. Whatever a Reconcile stores, the phase is the one it read or
  a later one, and the partition is the one it read or one lower, so no pod returns to the old
  revision.
\<close>

theorem rollout_monotone:
  assumes "meltdown_keeps_state L"
    and "tr = trace_of (rolloutReconcile L cfg (recording W) req) s"
    and "hd tr = GotSts req (Inr x)" "partitionVal x = Ret p" "0 \<le> p" "int32_ok p"
    and "WroteSts x' f r \<in> set tr" and "f y = Ret z"
  shows "phase_of (canary_state L x) \<le> phase_of (canary_state L z) \<and>
    (\<exists>p'. partitionVal z = Ret p' \<and> p' \<in> {p - 1, p})"
  using assms(1,2)
proof (rule rollout_trace_cases)
  assume "writes tr = []"
  with assms(7) show ?thesis by (auto simp: writes_def filter_empty_conv)
next
  fix x0 p0 p' st
  assume x: "hd tr = GotSts req (Inr x0)" "partitionVal x0 = Ret p0" "wrote L x0 p' st (writes tr)"
    and step: "rollout_step (phase_of (canary_state L x0), p0) (phase_of st, p')"
  from x assms(3,4) have "x0 = x" "p0 = p" by auto
  moreover have z: "rolloutMutate L p' st y = Ret z"
    using wrote_mem [OF x(3) assms(7)] assms(8) by auto
  ultimately show ?thesis
    using step rollout_step_monotone [OF step] rollout_step_partition [OF step] assms(5,6)
    by (auto simp: rolloutMutate_Ret(1,2) [OF z] dec32_pos)
qed

theorem rollout_monotone_witness:
  "\<exists>tr x z p'. hd tr = GotSts sample_key (Inr x) \<and> partitionVal x = Ret 1 \<and>
     canary_state sample_lib z = rolloutStateRollout \<and>
     phase_of (canary_state sample_lib x) \<le> phase_of (canary_state sample_lib z) \<and>
     partitionVal z = Ret p' \<and> p' \<in> {1 - 1, 1}"
proof -
  let ?x = "sample_sts ''Canary'' 1 2 2"
  let ?s = "sample_mem ?x [sample_pod 1 ''ready'', sample_pod 0 ''ready'']"
  let ?tr = "trace_of (rolloutReconcile sample_lib sample_config (recording mem_world) sample_key) ?s"
  have "list_ex (is_sts_write (\<lambda>x f. go_sat
      (\<lambda>z. canary_state sample_lib z = rolloutStateRollout) (f ?x))) ?tr"
    by code_simp
  then obtain x' f r z where z: "WroteSts x' f r \<in> set ?tr" "f ?x = Ret z"
    "canary_state sample_lib z = rolloutStateRollout"
    by (elim list_ex_sts_write go_satE)
  have "case hd ?tr of GotSts k (Inr x) \<Rightarrow> nn_Name k = nn_Name sample_key \<and>
      nn_Namespace k = nn_Namespace sample_key \<and> go_sat (\<lambda>p. p = 1) (partitionVal x) | _ \<Rightarrow> False"
    by code_simp
  then obtain x where x: "hd ?tr = GotSts sample_key (Inr x)" "partitionVal x = Ret 1"
    by (auto simp: go_sat_def split: event.splits sum.splits go.splits)
  have "int32_ok 1" by (simp add: int32_ok_def)
  from rollout_monotone [OF sample_keeps refl x _ this z(1,2)] x z(3) show ?thesis by fastforce
qed

text \<open>
  C11: safety of the deletions. A pod is deleted only after a successful write of the
  StatefulSet, only if it is the pod at the partition that write stored, and only if it was
  not ready when it was read.
\<close>

theorem rollout_deletes_unready:
  assumes "meltdown_keeps_state L"
    and "tr = trace_of (rolloutReconcile L cfg (recording W) req) s"
    and "DeletedPod pod e \<in> set tr"
  shows "\<not> podutil_IsPodReady L pod \<and>
    (\<exists>x f y p. WroteSts x f (Ret (None, y)) \<in> set tr \<and> partitionVal y = Ret p \<and>
       GotPod (podKey y p) (Inr pod) \<in> set tr)"
proof -
  have "delete_ok L tr"
    using emits_trace [OF rolloutReconcile_emits [OF assms(1), of cfg W req], of s] assms(2) by auto
  with assms(3) show ?thesis unfolding delete_ok_def by blast
qed

theorem rollout_deletes_unready_witness:
  "\<exists>pod tr x f y p. \<not> podutil_IsPodReady sample_lib pod \<and> DeletedPod pod None \<in> set tr \<and>
     WroteSts x f (Ret (None, y)) \<in> set tr \<and> partitionVal y = Ret p \<and>
     GotPod (podKey y p) (Inr pod) \<in> set tr"
proof -
  let ?s = "sample_mem (sample_sts ''Canary'' 1 2 2) [sample_pod 1 ''ready'', sample_pod 0 '''']"
  let ?tr = "trace_of (rolloutReconcile sample_lib sample_config (recording mem_world) sample_key) ?s"
  have "list_ex (\<lambda>e. case e of DeletedPod pod r \<Rightarrow> r = None | _ \<Rightarrow> False) ?tr"
    by code_simp
  then obtain e where e: "e \<in> set ?tr" "case e of DeletedPod pod r \<Rightarrow> r = None | _ \<Rightarrow> False"
    by (auto simp: list_ex_iff)
  obtain pod where pod: "DeletedPod pod None \<in> set ?tr"
    by (cases e) (use e in auto)
  show ?thesis
    using rollout_deletes_unready [OF sample_keeps refl pod] pod by blast
qed

text \<open>
  C21: frame of the write. Whatever the API server holds when the write happens (the mutate
  function is applied to that object, not to the one the controller read), only the
  partition and the state annotation of it change: no concurrent change of another field or
  annotation is lost. The time of the last reconcile is no exception, so it is not stored.
\<close>

theorem rollout_write_frame:
  assumes "meltdown_keeps_state L"
    and "tr = trace_of (rolloutReconcile L cfg (recording W) req) s"
    and "WroteSts x' f r \<in> set tr" and "f y = Ret z"
  shows "\<exists>part m. z = (withPartition part y)\<lparr>sts_Annotations := m\<rparr> \<and>
    (\<forall>k. k \<noteq> AnnotationCanaryRollout (gname L) \<longrightarrow> gmap m k = gmap (sts_Annotations y) k)"
  using assms(1,2)
proof (rule rollout_trace_cases)
  assume "writes tr = []"
  with assms(3) show ?thesis by (auto simp: writes_def filter_empty_conv)
next
  fix x p p' st
  assume "wrote L x p' st (writes tr)"
  with assms(3,4) have f: "rolloutMutate L p' st y = Ret z" using wrote_mem by blast
  show ?thesis using rolloutMutate_Ret(3,4) [OF f] by blast
qed

theorem rollout_write_frame_witness:
  "\<exists>y z part m. canary_state sample_lib z = rolloutStateRollout \<and>
     z = (withPartition part y)\<lparr>sts_Annotations := m\<rparr> \<and>
     (\<forall>k. k \<noteq> AnnotationCanaryRollout (gname sample_lib) \<longrightarrow> gmap m k = gmap (sts_Annotations y) k)"
proof -
  let ?x = "sample_sts ''Canary'' 1 2 2"
  let ?s = "sample_mem ?x [sample_pod 1 ''ready'', sample_pod 0 ''ready'']"
  let ?tr = "trace_of (rolloutReconcile sample_lib sample_config (recording mem_world) sample_key) ?s"
  have "list_ex (is_sts_write (\<lambda>x f. go_sat
      (\<lambda>z. canary_state sample_lib z = rolloutStateRollout) (f ?x))) ?tr"
    by code_simp
  then obtain x' f r z where z: "WroteSts x' f r \<in> set ?tr" "f ?x = Ret z"
    "canary_state sample_lib z = rolloutStateRollout"
    by (elim list_ex_sts_write go_satE)
  from rollout_write_frame [OF sample_keeps refl z(1,2)] z(3) show ?thesis by blast
qed

section \<open>Final states, errors and time-outs\<close>

lemma rolloutAdvance_final:
  "canary_state L x = rolloutStateDone \<or> canary_state L x = rolloutStateFailed \<Longrightarrow>
     rolloutAdvance L W x = gret (empty_result, None)"
  by (auto simp: rolloutAdvance_def)

text \<open>
  Final states. A Reconcile that reads a StatefulSet in state Done or Failed writes
  nothing and returns no error.
\<close>

theorem rollout_final_quiet:
  assumes "run_state (w_GetSts W req) s = (Inr x, s')"
    and "canary_state L x = rolloutStateDone \<or> canary_state L x = rolloutStateFailed"
  shows "writes (trace_of (rolloutReconcile L cfg (recording W) req) s) = [] \<and>
    (\<exists>res. result_of (rolloutReconcile L cfg (recording W) req) s = Ret (res, None))"
  using assms
  by (auto simp: trace_of_def result_of_def rolloutReconcile_def rolloutAdvance_final split: prod.splits)

theorem rollout_final_quiet_witness:
  "writes (trace_of (rolloutReconcile sample_lib sample_config (recording mem_world) sample_key)
     (sample_mem (sample_sts ''Done'' 0 2 2) [])) = [] \<and>
   (\<exists>res. result_of (rolloutReconcile sample_lib sample_config (recording mem_world) sample_key)
     (sample_mem (sample_sts ''Done'' 0 2 2) []) = Ret (res, None))"
  by (rule rollout_final_quiet [of _ _ _ "sample_sts ''Done'' 0 2 2"
        "sample_mem (sample_sts ''Done'' 0 2 2) []"])
     (simp_all add: mem_world_def sample_mem_def found_def sample_sts_def zero_defs key_defs
        sample_lib_def gget_def rollout_states)

end
