(* ===== verification/Webhook.thy ===== *)
theory Webhook
  imports World
begin

text \<open>
  Admission webhooks: the requests and responses the two mutators
  (\<open>statefulset_webhook.go\<close>, \<open>pod_mutator.go\<close>) exchange with the API server, and the webhook
  registrations; and the events of a watch. The decoder (\<open>admission.Decoder\<close>) and the JSON encoding of the Kubernetes
  types are code outside the repository: the parameter \<open>codec\<close>.
\<close>

datatype operation = Create | Update | Delete | Connect

text \<open>The events of a watch, which the predicates of the controllers filter (\<open>event.CreateEvent\<close> etc.).\<close>

datatype 'o watch_event =
    CreateEvent 'o
  | DeleteEvent 'o
  | GenericEvent 'o
  | UpdateEvent 'o 'o

record admission_request =
  req_Operation :: operation
  req_Namespace :: string
  req_Object :: string
  req_OldObject :: string

text \<open>\<open>admission.Errored(code, err)\<close> and \<open>admission.PatchResponseFromRaw(original, current)\<close>.\<close>

datatype admission_response =
    Errored nat go_error
  | PatchResponseFromRaw string string

record codec =
  dec_Sts :: "string \<Rightarrow> go_error + statefulset"
  dec_Pod :: "string \<Rightarrow> go_error + pod"
  enc_Sts :: "statefulset \<Rightarrow> go_error + string"
  enc_Pod :: "pod \<Rightarrow> go_error + string"

definition http_StatusBadRequest :: nat where "http_StatusBadRequest = 400"
definition http_StatusInternalServerError :: nat where "http_StatusInternalServerError = 500"

text \<open>The registration of a webhook, \<open>wh.OperatorWebhook\<close>, without its handler.\<close>

record webhook_rule =
  wr_APIGroups :: "string list"
  wr_APIVersions :: "string list"
  wr_Resources :: "string list"
  wr_Scope :: string
  wr_Operations :: "string list"

record operator_webhook =
  wh_FailurePolicy :: string
  wh_Rules :: "webhook_rule list"
  wh_Path :: string
  wh_Name :: string
  wh_NamespaceSelector :: "(string \<times> string) list"

text \<open>
  How both mutators end: marshal the object and answer with the patch from the raw object of
  the request.
\<close>

definition patch_response :: "('o \<Rightarrow> go_error + string) \<Rightarrow> admission_request \<Rightarrow> 'o \<Rightarrow> admission_response" where
  "patch_response enc req x =
     (case enc x of
        Inl err \<Rightarrow> Errored http_StatusInternalServerError err
      | Inr marshaled \<Rightarrow> PatchResponseFromRaw (req_Object req) marshaled)"

text \<open>
  The API server applies a patch from \<open>original\<close> to \<open>current\<close> to \<open>original\<close>: the object
  admitted is \<open>current\<close> decoded.
\<close>

fun admitted :: "('o \<Rightarrow> go_error + string) \<Rightarrow> 'o \<Rightarrow> admission_response go \<Rightarrow> bool" where
  "admitted enc x (Ret (PatchResponseFromRaw original current)) \<longleftrightarrow> enc x = Inr current"
| "admitted enc x _ \<longleftrightarrow> False"

end
