(* ===== verification/Rollout_Webhook.thy ===== *)
theory Rollout_Webhook
  imports Rollout_Properties Webhook
begin

text \<open>
  How a rollout starts: the mutator of StatefulSets (\<open>statefulset_webhook.go\<close>) and the update
  predicate of the rollout controller (\<open>statefulset_rollout_controller.go\<close>).
\<close>

section \<open>The update predicate\<close>

definition CheckUpdate :: "lib \<Rightarrow> statefulset \<Rightarrow> statefulset \<Rightarrow> bool" where
  "CheckUpdate L oldSts newSts =
     (let state = canary_state L newSts in
      if \<not> ghas (sts_Annotations newSts) (AnnotationCanaryRollout (gname L)) \<or>
         state = rolloutStateDone \<or> state = rolloutStateFailed then False
      else if state = rolloutStatePending then True
      else if st_ReadyReplicas (sts_Status oldSts) = st_ReadyReplicas (sts_Status newSts) \<and>
              st_UpdatedReplicas (sts_Status oldSts) = st_UpdatedReplicas (sts_Status newSts) \<and>
              st_Replicas (sts_Status oldSts) = st_Replicas (sts_Status newSts) then False
      else True)"

text \<open>\<open>statefulSetPredicates\<close> of \<open>AddStatefulSetRolloutReconciler\<close>.\<close>

fun rolloutPredicate :: "lib \<Rightarrow> statefulset watch_event \<Rightarrow> bool" where
  "rolloutPredicate L (CreateEvent x) = False"
| "rolloutPredicate L (DeleteEvent x) = False"
| "rolloutPredicate L (GenericEvent x) = False"
| "rolloutPredicate L (UpdateEvent old new) = CheckUpdate L old new"

section \<open>The mutator\<close>

definition isControlledRolloutStatefulSet :: "lib \<Rightarrow> statefulset \<Rightarrow> bool" where
  "isControlledRolloutStatefulSet L x \<longleftrightarrow>
     ghas (sts_Annotations x) (AnnotationCanaryRolloutEnabled (gname L)) \<and>
     gget (sts_Annotations x) (AnnotationCanaryRolloutEnabled (gname L)) = ''true''"

text \<open>\<open>Mutator.Handle\<close> at time \<open>now\<close>; \<open>reflect.DeepEqual\<close> of the templates is equality.\<close>

definition rolloutHandle ::
  "lib \<Rightarrow> codec \<Rightarrow> int \<Rightarrow> admission_request \<Rightarrow> admission_response go" where
  "rolloutHandle L C now req =
     (case dec_Sts C (req_Object req) of
        Inl err \<Rightarrow> Ret (Errored http_StatusBadRequest err)
      | Inr x \<Rightarrow>
          let answer = (\<lambda>m. case m of Panic \<Rightarrow> Panic | Ret y \<Rightarrow> Ret (patch_response (enc_Sts C) req y)) in
          if isControlledRolloutStatefulSet L x then
            if req_Operation req = Create
            then answer (ConfigureStatefulSetForInitialRollout L now x)
            else (case dec_Sts C (req_OldObject req) of
                Inl err \<Rightarrow> Ret (Errored http_StatusBadRequest err)
              | Inr old \<Rightarrow>
                  if spec_Template (sts_Spec x) \<noteq> spec_Template (sts_Spec old)
                  then answer (ConfigureStatefulSetForRollout L now x)
                  else answer (Ret x))
          else answer (Ret x))"

definition NewStatefulSetRolloutMutator :: "lib \<Rightarrow> config \<Rightarrow> string \<Rightarrow> operator_webhook" where
  "NewStatefulSetRolloutMutator L cfg label_ns = \<lparr>
     wh_FailurePolicy = ''Fail'',
     wh_Rules = [\<lparr>wr_APIGroups = [''apps''], wr_APIVersions = [''v1''], wr_Resources = [''statefulsets''],
                  wr_Scope = ''Namespaced'', wr_Operations = [''CREATE'', ''UPDATE'']\<rparr>],
     wh_Path = ''/mutate-statefulsets'',
     wh_Name = ''mutate-statefulsets.'' @ gname L,
     wh_NamespaceSelector = [(label_ns, MonitoredID cfg)]\<rparr>"

section \<open>What the configuration functions store\<close>

lemma startRollout_Ret:
  assumes "startRollout L st p now x = Ret y"
  shows "canary_state L y = st" "partitionVal y = Ret p"
    "sts_Name y = sts_Name x" "sts_Namespace y = sts_Namespace x"
    "spec_Template (sts_Spec y) = spec_Template (sts_Spec x)"
    "spec_Replicas (sts_Spec y) = spec_Replicas (sts_Spec x)" "sts_Status y = sts_Status x"
    "gget (sts_Annotations y) (AnnotationUpdateStartTime (gname L)) = Itoa (unixSeconds now)"
    "us_Type (spec_UpdateStrategy (sts_Spec y)) = appsv1_RollingUpdateStatefulSetStrategyType L"
  using assms
  by (cases "sts_Annotations x"; force simp: startRollout_def withUpdateStrategy_def key_defs
      partitionVal_def partitionPtr_def)+

lemma startRollout_keys:
  assumes "startRollout L st p now x = Ret y"
  shows "gmap (sts_Annotations y) (AnnotationCanaryRollout (gname L)) = Some st"
    "gmap (sts_Annotations y) (AnnotationCanaryRolloutEnabled (gname L)) =
       gmap (sts_Annotations x) (AnnotationCanaryRolloutEnabled (gname L))"
  using assms by (cases "sts_Annotations x"; force simp: startRollout_def key_defs)+

lemma startRollout_total: "sts_Annotations x = Some f \<Longrightarrow> \<exists>y. startRollout L st p now x = Ret y"
  by (simp add: startRollout_def)

lemma controlled_nonnil: "isControlledRolloutStatefulSet L x \<Longrightarrow> \<exists>f. sts_Annotations x = Some f"
  by (auto simp: isControlledRolloutStatefulSet_def intro: ghas_nonnil)

lemma admitted_patch: "enc y = Inr m \<Longrightarrow> admitted enc y (Ret (patch_response enc req y))"
  by (simp add: patch_response_def)

text \<open>
  A new StatefulSet with rollouts enabled is admitted in state CanaryUpscale with partition
  0, which satisfies the invariant of the rollout machine; template and replicas are untouched.
\<close>

theorem webhook_initial_rollout:
  assumes "dec_Sts C (req_Object req) = Inr x" "isControlledRolloutStatefulSet L x"
    and "req_Operation req = Create" and "\<And>y. \<exists>m. enc_Sts C y = Inr m"
  shows "\<exists>y. admitted (enc_Sts C) y (rolloutHandle L C now req) \<and>
    partitionVal y = Ret 0 \<and> phase_of (canary_state L y) = CanaryUpscale \<and>
    rollout_inv (phase_of (canary_state L y), 0) \<and>
    spec_Template (sts_Spec y) = spec_Template (sts_Spec x) \<and>
    spec_Replicas (sts_Spec y) = spec_Replicas (sts_Spec x)"
proof -
  obtain y where y: "startRollout L rolloutStateCanaryUpscale 0 now x = Ret y"
    using startRollout_total controlled_nonnil [OF assms(2)] by blast
  obtain m where "enc_Sts C y = Inr m" using assms(4) by blast
  with assms(1-3) y startRollout_Ret [OF y] show ?thesis
    by (intro exI [of _ y])
       (simp add: rolloutHandle_def ConfigureStatefulSetForInitialRollout_def admitted_patch int32_ok_def)
qed

text \<open>The codec of the witnesses: raw objects are names of sample objects.\<close>

definition sample_controlled :: "string \<Rightarrow> statefulset" where
  "sample_controlled img = (sample_sts ''Done'' 0 2 2)\<lparr>
     sts_Annotations := Some [''quarks.cloudfoundry.org/canary-rollout-enabled'' \<mapsto> ''true''],
     sts_Spec := (sts_Spec (sample_sts ''Done'' 0 2 2))\<lparr>
       spec_Template := zero_pod_template\<lparr>pt_Rest := img\<rparr>\<rparr>\<rparr>"

definition sample_codec :: codec where
  "sample_codec = \<lparr>dec_Sts = (\<lambda>raw. if raw = '''' then Inl (Errorf ''there is no content to decode'')
       else Inr (sample_controlled raw)),
     dec_Pod = (\<lambda>raw. Inr (sample_pod 0 raw)), enc_Sts = (\<lambda>x. Inr ''{}''), enc_Pod = (\<lambda>x. Inr ''{}'')\<rparr>"

definition sample_request :: "operation \<Rightarrow> string \<Rightarrow> string \<Rightarrow> admission_request" where
  "sample_request op new old = \<lparr>req_Operation = op, req_Namespace = ''default'',
     req_Object = new, req_OldObject = old\<rparr>"

lemmas sample_webhook_defs = sample_codec_def sample_request_def sample_controlled_def sample_sts_def

lemma sample_controlled [simp]: "isControlledRolloutStatefulSet sample_lib (sample_controlled img)"
  by (simp add: isControlledRolloutStatefulSet_def sample_controlled_def sample_lib_def key_defs
      ghas_def gget_def)

theorem webhook_initial_rollout_witness:
  "\<exists>y. admitted (enc_Sts sample_codec) y
       (rolloutHandle sample_lib sample_codec 0 (sample_request Create ''v1'' '''')) \<and>
     partitionVal y = Ret 0 \<and> phase_of (canary_state sample_lib y) = CanaryUpscale \<and>
     rollout_inv (phase_of (canary_state sample_lib y), 0) \<and>
     spec_Template (sts_Spec y) = spec_Template (sts_Spec (sample_controlled ''v1'')) \<and>
     spec_Replicas (sts_Spec y) = spec_Replicas (sts_Spec (sample_controlled ''v1''))"
  by (rule webhook_initial_rollout) (simp_all add: sample_request_def sample_codec_def)

lemma rollout_started:
  assumes "dec_Sts C (req_Object req) = Inr x" "isControlledRolloutStatefulSet L x"
    and "req_Operation req \<noteq> Create" and "dec_Sts C (req_OldObject req) = Inr old"
    and "spec_Template (sts_Spec x) \<noteq> spec_Template (sts_Spec old)"
    and "spec_Replicas (sts_Spec x) = Some r" "0 < r" "0 < st_Replicas (sts_Status x)" "int32_ok r"
    and "util_MinInt32 L = min" and "\<And>y. \<exists>m. enc_Sts C y = Inr m"
  shows "\<exists>y p. admitted (enc_Sts C) y (rolloutHandle L C now req) \<and>
    p = min r (st_Replicas (sts_Status x)) \<and> partitionVal y = Ret p \<and>
    phase_of (canary_state L y) = Pending \<and> rollout_inv (phase_of (canary_state L y), p)"
proof -
  let ?p = "min r (st_Replicas (sts_Status x))"
  obtain y where y: "startRollout L rolloutStatePending ?p now x = Ret y"
    using startRollout_total controlled_nonnil [OF assms(2)] by blast
  obtain m where "enc_Sts C y = Inr m" using assms(11) by blast
  moreover have "int32_ok ?p" using assms(7-9) by (auto simp: int32_ok_def)
  ultimately show ?thesis
    using assms(1-10) y startRollout_Ret [OF y]
    by (intro exI [of _ y] exI [of _ ?p])
       (simp add: rolloutHandle_def ConfigureStatefulSetForRollout_def admitted_patch)
qed

text \<open>
  C26: a changed pod template of a StatefulSet with pods starts a rollout: state Pending with
  the partition at the number of replicas (of the spec or the status, the smaller), which
  satisfies the invariant of the rollout machine, so the rollout it starts terminates.
\<close>

theorem webhook_starts_rollout:
  assumes "dec_Sts C (req_Object req) = Inr x" "isControlledRolloutStatefulSet L x"
    and "req_Operation req \<noteq> Create" and "dec_Sts C (req_OldObject req) = Inr old"
    and "spec_Template (sts_Spec x) \<noteq> spec_Template (sts_Spec old)"
    and "spec_Replicas (sts_Spec x) = Some r" "0 < r" "0 < st_Replicas (sts_Status x)" "int32_ok r"
    and "util_MinInt32 L = min" and "\<And>y. \<exists>m. enc_Sts C y = Inr m"
  shows "\<exists>y p. admitted (enc_Sts C) y (rolloutHandle L C now req) \<and>
    p = min r (st_Replicas (sts_Status x)) \<and> partitionVal y = Ret p \<and>
    phase_of (canary_state L y) = Pending \<and> rollout_inv (phase_of (canary_state L y), p)"
  using assms by (rule rollout_started)

theorem webhook_starts_rollout_witness:
  "\<exists>y p. admitted (enc_Sts sample_codec) y
       (rolloutHandle sample_lib sample_codec 0 (sample_request Update ''v2'' ''v1'')) \<and>
     p = min 2 (st_Replicas (sts_Status (sample_controlled ''v2''))) \<and> partitionVal y = Ret p \<and>
     phase_of (canary_state sample_lib y) = Pending \<and>
     rollout_inv (phase_of (canary_state sample_lib y), p)"
  by (rule webhook_starts_rollout [where x = "sample_controlled ''v2''" and old = "sample_controlled ''v1''"])
     (simp_all add: sample_request_def sample_codec_def,
      simp_all add: sample_controlled_def sample_sts_def zero_defs sample_lib_def int32_ok_def)

text \<open>
  The mutator leaves alone what it does not roll out: a StatefulSet without the enabling
  annotation, or an update that does not change the pod template, is admitted as it came.
\<close>

theorem webhook_leaves_alone:
  assumes "dec_Sts C (req_Object req) = Inr x" "enc_Sts C x = Inr m"
    and "\<not> isControlledRolloutStatefulSet L x \<or>
      (req_Operation req \<noteq> Create \<and> (\<exists>old. dec_Sts C (req_OldObject req) = Inr old \<and>
         spec_Template (sts_Spec x) = spec_Template (sts_Spec old)))"
  shows "rolloutHandle L C now req = Ret (PatchResponseFromRaw (req_Object req) m)"
  using assms by (auto simp: rolloutHandle_def patch_response_def Let_def)

theorem webhook_leaves_alone_witness:
  "rolloutHandle sample_lib sample_codec 0 (sample_request Update ''v1'' ''v1'') =
     Ret (PatchResponseFromRaw ''v1'' ''{}'')"
  using webhook_leaves_alone [of sample_codec "sample_request Update ''v1'' ''v1''"
      "sample_controlled ''v1''" "''{}''" sample_lib 0]
  by (simp add: sample_codec_def sample_request_def)

text \<open>
  C40: errors of the mutator. It panics exactly if an update of a StatefulSet that is opted in,
  but has no spec.replicas, changes the template, and answers 400 if it cannot decode the object.
\<close>

theorem webhook_errors:
  shows "(rolloutHandle L C now req = Panic \<longleftrightarrow>
     (\<exists>x old. dec_Sts C (req_Object req) = Inr x \<and> isControlledRolloutStatefulSet L x \<and>
        req_Operation req \<noteq> Create \<and> dec_Sts C (req_OldObject req) = Inr old \<and>
        spec_Template (sts_Spec x) \<noteq> spec_Template (sts_Spec old) \<and> spec_Replicas (sts_Spec x) = None)) \<and>
   (\<forall>e. dec_Sts C (req_Object req) = Inl e \<longrightarrow> rolloutHandle L C now req = Ret (Errored 400 e))"
proof -
  have init: "ConfigureStatefulSetForInitialRollout L now x \<noteq> Panic"
    if "isControlledRolloutStatefulSet L x" for x
    using controlled_nonnil [OF that] by (auto simp: ConfigureStatefulSetForInitialRollout_def startRollout_def)
  have roll: "ConfigureStatefulSetForRollout L now x = Panic \<longleftrightarrow> spec_Replicas (sts_Spec x) = None"
    if "isControlledRolloutStatefulSet L x" for x
    using controlled_nonnil [OF that]
    by (auto simp: ConfigureStatefulSetForRollout_def startRollout_def deref_def split: option.splits)
  show ?thesis
    by (auto simp: rolloutHandle_def http_StatusBadRequest_def Let_def init dest: roll split: sum.splits go.splits if_splits)
qed

theorem webhook_errors_witness:
  "rolloutHandle sample_lib sample_codec 0 (sample_request Update '''' ''v1'') =
     Ret (Errored 400 (Errorf ''there is no content to decode''))"
  using webhook_errors [of sample_lib sample_codec 0 "sample_request Update '''' ''v1''"]
  by (simp add: sample_codec_def sample_request_def)

text \<open>
  What the update predicate lets through: a pending rollout always; a running one whenever
  a replica count of the status changed; never a final one or a StatefulSet without a state.
\<close>

theorem CheckUpdate_phases:
  "CheckUpdate L old new \<longleftrightarrow>
     ghas (sts_Annotations new) (AnnotationCanaryRollout (gname L)) \<and>
     (case phase_of (canary_state L new) of
        Pending \<Rightarrow> True | Done \<Rightarrow> False | Failed \<Rightarrow> False
      | _ \<Rightarrow> (st_ReadyReplicas (sts_Status old), st_UpdatedReplicas (sts_Status old), st_Replicas (sts_Status old)) \<noteq>
            (st_ReadyReplicas (sts_Status new), st_UpdatedReplicas (sts_Status new), st_Replicas (sts_Status new)))"
  by (auto simp: CheckUpdate_def Let_def phase_of_def rollout_states)

end
