(* ===== verification/Admission.thy ===== *)
theory Admission
  imports Rollout_Webhook
begin

text \<open>
  What becomes of a StatefulSet a client writes: the API server decodes the request, hands it to
  the mutator (\<open>statefulset_webhook.go\<close>), decodes what the mutator answers, validates it and
  stores it. The two decodings fill in defaults; the encoding drops nothing the rollout reads.
\<close>

section \<open>JSON\<close>

text \<open>A template as it comes out of JSON, with the defaults filled in.\<close>

inductive settled :: "codec \<Rightarrow> pod_template \<Rightarrow> bool" for C where
  settled: "enc_Sts C w = Inr raw \<Longrightarrow> dec_Sts C raw = Inr x \<Longrightarrow> settled C (spec_Template (sts_Spec x))"

text \<open>
  What is relied on: encoding and decoding keep the two annotations of the rollout and a
  partition that is there (a missing one may be filled in), and change a template only by
  filling in defaults, so not one that has them already.
\<close>

definition codec_law :: "lib \<Rightarrow> codec \<Rightarrow> bool" where
  "codec_law L C \<longleftrightarrow> (\<forall>x raw y. enc_Sts C x = Inr raw \<longrightarrow> dec_Sts C raw = Inr y \<longrightarrow>
     gmap (sts_Annotations y) (AnnotationCanaryRollout (gname L)) =
       gmap (sts_Annotations x) (AnnotationCanaryRollout (gname L)) \<and>
     gmap (sts_Annotations y) (AnnotationCanaryRolloutEnabled (gname L)) =
       gmap (sts_Annotations x) (AnnotationCanaryRolloutEnabled (gname L)) \<and>
     (\<forall>p. partitionVal x = Ret p \<longrightarrow> partitionVal y = Ret p) \<and>
     (settled C (spec_Template (sts_Spec x)) \<longrightarrow>
        spec_Template (sts_Spec y) = spec_Template (sts_Spec x)))"

lemma codec_lawD:
  assumes "codec_law L C" "enc_Sts C x = Inr raw" "dec_Sts C raw = Inr y"
  shows "gmap (sts_Annotations y) (AnnotationCanaryRollout (gname L)) =
      gmap (sts_Annotations x) (AnnotationCanaryRollout (gname L))"
    "gmap (sts_Annotations y) (AnnotationCanaryRolloutEnabled (gname L)) =
      gmap (sts_Annotations x) (AnnotationCanaryRolloutEnabled (gname L))"
    "partitionVal x = Ret p \<Longrightarrow> partitionVal y = Ret p"
    "settled C (spec_Template (sts_Spec x)) \<Longrightarrow> spec_Template (sts_Spec y) = spec_Template (sts_Spec x)"
  using assms unfolding codec_law_def by metis+

section \<open>Validation and admission\<close>

text \<open>
  What the validation of the API server guarantees: replicas that are not negative, and of a
  rolling update, if there is one, a partition that is not negative. There need not be one: the
  strategy \<open>OnDelete\<close> forbids it, and \<open>RollingUpdate\<close> does not demand it.
\<close>

definition api_valid :: "statefulset \<Rightarrow> bool" where
  "api_valid x \<longleftrightarrow>
     (case spec_Replicas (sts_Spec x) of None \<Rightarrow> False | Some r \<Rightarrow> 0 \<le> r \<and> int32_ok r) \<and>
     (case us_RollingUpdate (spec_UpdateStrategy (sts_Spec x)) of
        None \<Rightarrow> True
      | Some ru \<Rightarrow> us_Type (spec_UpdateStrategy (sts_Spec x)) \<noteq> ''OnDelete'' \<and>
          (case ru_Partition ru of None \<Rightarrow> False | Some p \<Rightarrow> 0 \<le> p \<and> int32_ok p))"

lemma api_valid_status [simp]: "api_valid (x\<lparr>sts_Status := st\<rparr>) = api_valid x"
  by (simp add: api_valid_def split: option.split)

lemma api_valid_partition:
  "api_valid x \<Longrightarrow> partitionVal x = Ret p \<Longrightarrow> 0 \<le> p \<and> int32_ok p"
  by (auto simp: api_valid_def partitionVal_def partitionPtr_def deref_def split: option.splits)

text \<open>
  \<open>admits L C op old w y\<close>: a client hands in \<open>w\<close> when \<open>old\<close> is stored, and \<open>y\<close> is stored. An error or
  a panic of the mutator refuses the request (its failure policy is \<open>Fail\<close>). What is stored has
  been decoded before, so its template has its defaults.
\<close>

inductive admits ::
  "lib \<Rightarrow> codec \<Rightarrow> operation \<Rightarrow> statefulset option \<Rightarrow> statefulset \<Rightarrow> statefulset \<Rightarrow> bool"
  for L C where
  admits: "req_Operation req = op \<Longrightarrow> enc_Sts C w = Inr (req_Object req) \<Longrightarrow>
    (\<forall>o'. old = Some o' \<longrightarrow>
       settled C (spec_Template (sts_Spec o')) \<and> dec_Sts C (req_OldObject req) = Inr o') \<Longrightarrow>
    rolloutHandle L C now req = Ret (PatchResponseFromRaw raw current) \<Longrightarrow>
    dec_Sts C current = Inr y \<Longrightarrow> api_valid y \<Longrightarrow> admits L C op old w y"

definition request_op :: "statefulset option \<Rightarrow> operation" where
  "request_op old = (if old = None then Create else Update)"

lemma patch_response_raw:
  "patch_response enc req x = PatchResponseFromRaw raw current \<Longrightarrow> enc x = Inr current"
  by (auto simp: patch_response_def split: sum.splits)

lemma admits_valid: "admits L C op old w y \<Longrightarrow> api_valid y"
  by (erule admits.cases) simp

lemma admits_decodes: "admits L C op old w y \<Longrightarrow> \<exists>raw x. enc_Sts C w = Inr raw \<and> dec_Sts C raw = Inr x"
  by (erule admits.cases) (auto simp: rolloutHandle_def split: sum.splits)

lemma admits_settled: "admits L C op (Some o') w y \<Longrightarrow> settled C (spec_Template (sts_Spec o'))"
  by (erule admits.cases) auto

lemma controlled_cong:
  "gmap (sts_Annotations x) (AnnotationCanaryRolloutEnabled (gname L)) =
     gmap (sts_Annotations y) (AnnotationCanaryRolloutEnabled (gname L)) \<Longrightarrow>
   isControlledRolloutStatefulSet L x \<longleftrightarrow> isControlledRolloutStatefulSet L y"
  by (simp add: isControlledRolloutStatefulSet_def ghas_def gget_def)

text \<open>
  The three outcomes of an admission, over the object \<open>x\<close> the request decodes to: the rollout as
  handed in, an initial rollout, or a restart because the template has changed. The template
  is that of the request in each case.
\<close>

lemma admits_cases:
  assumes "admits L C op old w y" "codec_law L C" "op = request_op old"
    and "enc_Sts C w = Inr raw" "dec_Sts C raw = Inr x"
  obtains (kept) "gmap (sts_Annotations y) (AnnotationCanaryRollout (gname L)) =
        gmap (sts_Annotations w) (AnnotationCanaryRollout (gname L))"
      "\<And>p. partitionVal w = Ret p \<Longrightarrow> partitionVal y = Ret p"
      "spec_Template (sts_Spec y) = spec_Template (sts_Spec x)"
      "isControlledRolloutStatefulSet L w \<Longrightarrow>
         \<exists>o'. old = Some o' \<and> spec_Template (sts_Spec x) = spec_Template (sts_Spec o')"
  | (initial) "old = None" "isControlledRolloutStatefulSet L w"
      "canary_state L y = rolloutStateCanaryUpscale" "partitionVal y = Ret 0"
      "spec_Template (sts_Spec y) = spec_Template (sts_Spec x)"
  | (restart) o' p where "old = Some o'" "isControlledRolloutStatefulSet L w"
      "spec_Template (sts_Spec x) \<noteq> spec_Template (sts_Spec o')"
      "canary_state L y = rolloutStatePending" "partitionVal y = Ret p"
      "spec_Template (sts_Spec y) = spec_Template (sts_Spec x)"
  using assms(1)
proof (cases rule: admits.cases)
  case (admits req now raw' current)
  from admits(2) assms(4) have raw: "req_Object req = raw" by simp
  note law = codec_lawD [OF assms(2)] and wx = codec_lawD [OF assms(2,4,5)]
  have settled: "settled C (spec_Template (sts_Spec x))" using assms(4,5) by (rule settled.intros)
  have dec: "dec_Sts C (req_Object req) = Inr x" using raw assms(5) by simp
  have con: "isControlledRolloutStatefulSet L x = isControlledRolloutStatefulSet L w"
    using wx(2) by (rule controlled_cong)
  have enc: "enc_Sts C u = Inr current"
    if "rolloutHandle L C now req = Ret (patch_response (enc_Sts C) req u)" for u
    using that admits(4) by (auto dest: patch_response_raw [OF sym])
  consider (plain) "rolloutHandle L C now req = Ret (patch_response (enc_Sts C) req x)"
      "isControlledRolloutStatefulSet L x \<Longrightarrow> op \<noteq> Create \<and>
         (\<exists>o'. dec_Sts C (req_OldObject req) = Inr o' \<and> spec_Template (sts_Spec x) = spec_Template (sts_Spec o'))"
    | (init) u where "op = Create" "isControlledRolloutStatefulSet L x"
        "ConfigureStatefulSetForInitialRollout L now x = Ret u"
        "rolloutHandle L C now req = Ret (patch_response (enc_Sts C) req u)"
    | (roll) u o' where "op \<noteq> Create" "isControlledRolloutStatefulSet L x"
        "dec_Sts C (req_OldObject req) = Inr o'"
        "spec_Template (sts_Spec x) \<noteq> spec_Template (sts_Spec o')"
        "ConfigureStatefulSetForRollout L now x = Ret u"
        "rolloutHandle L C now req = Ret (patch_response (enc_Sts C) req u)"
    using admits(1,4) dec
    by (auto simp: rolloutHandle_def Let_def split: if_splits sum.splits go.splits)
  then show thesis
  proof cases
    case plain
    note e = law [OF enc [OF plain(1)] admits(5)]
    show thesis
    proof (rule kept)
      show "gmap (sts_Annotations y) (AnnotationCanaryRollout (gname L)) =
          gmap (sts_Annotations w) (AnnotationCanaryRollout (gname L))" using e(1) wx(1) by simp
      show "partitionVal w = Ret p \<Longrightarrow> partitionVal y = Ret p" for p using e(3) wx(3) by blast
      show "spec_Template (sts_Spec y) = spec_Template (sts_Spec x)" using e(4) settled by blast
      show "\<exists>o'. old = Some o' \<and> spec_Template (sts_Spec x) = spec_Template (sts_Spec o')"
        if "isControlledRolloutStatefulSet L w"
        using that plain(2) con admits(1,3) assms(3)
        by (cases old) (auto simp: request_op_def)
    qed
  next
    case init
    from init(3) have u: "startRollout L rolloutStateCanaryUpscale 0 now x = Ret u"
      by (simp add: ConfigureStatefulSetForInitialRollout_def)
    note e = law [OF enc [OF init(4)] admits(5)] and s = startRollout_Ret [OF u]
    show thesis
    proof (rule initial)
      show "old = None" using init(1) assms(3) by (auto simp: request_op_def split: if_splits)
      show "canary_state L y = rolloutStateCanaryUpscale" using e(1) s(1) by (simp add: gget_def)
      show "partitionVal y = Ret 0" using e(3) s(2) by blast
      show "spec_Template (sts_Spec y) = spec_Template (sts_Spec x)" using e(4) s(5) settled by simp
    qed (use init(2) con in simp)
  next
    case roll
    from roll(1) assms(3) obtain old' where old': "old = Some old'"
      by (auto simp: request_op_def split: if_splits)
    with admits(3) roll(3) have o': "old = Some o'" by auto
    obtain p where u: "startRollout L rolloutStatePending p now x = Ret u"
      using roll(5) by (auto simp: ConfigureStatefulSetForRollout_def split: go.splits)
    note e = law [OF enc [OF roll(6)] admits(5)] and s = startRollout_Ret [OF u]
    show thesis
    proof (rule restart [OF o' _ roll(4)])
      show "canary_state L y = rolloutStatePending" using e(1) s(1) by (simp add: gget_def)
      show "partitionVal y = Ret p" using e(3) s(2) by blast
      show "spec_Template (sts_Spec y) = spec_Template (sts_Spec x)" using e(4) s(5) settled by simp
    qed (use roll(2) con in simp)
  qed
qed

end
