(* ===== verification/Qsts_Properties.thy ===== *)
theory Qsts_Properties
  imports Qsts Generate_Properties Admission "HOL-Library.Sublist"
begin

text \<open>
  What the reconciler of QuarksStatefulSets does to the cluster, one lemma per function on the
  events it emits, and how its writes interact with a running rollout.
\<close>

section \<open>Reads\<close>

lemma GetMaxStatefulSetVersion_emits:
  "emits (GetMaxStatefulSetVersion L (recording W) q) (\<lambda>r ev. writes ev = [])"
  unfolding GetMaxStatefulSetVersion_def listStatefulSetsFromInformer_def recording_simps
  by (intro emits_rules) auto

lemma calculateDesired_emits:
  "emits (calculateDesiredStatefulSets L (recording W) q)
     (\<lambda>r ev. writes ev = [] \<and>
        (\<forall>xs q1. r = Ret (Inr xs, q1) \<longrightarrow>
           q1 = withZoneNodeLabel q \<and> (\<exists>v. desiredStatefulSets L q1 v = Ret xs)))"
  unfolding calculateDesiredStatefulSets_def Let_def
  by (intro emits_rules emits_mono [OF GetMaxStatefulSetVersion_emits]) auto

text \<open>
  What \<open>UpdateVersions\<close> makes of a volume: the latest version of its secret if the secret was
  read and is versioned, else nothing.
\<close>

definition volume_updated :: "lib \<Rightarrow> string \<Rightarrow> event list \<Rightarrow> volume \<Rightarrow> volume \<Rightarrow> bool" where
  "volume_updated L ns ev v v' \<longleftrightarrow>
     (case vol_Secret v of
        None \<Rightarrow> v' = v
      | Some src \<Rightarrow> \<exists>secret.
          GotSecret \<lparr>nn_Namespace = ns, nn_Name = ss_SecretName src\<rparr> (Inr secret) \<in> set ev \<and>
          (if vss_IsVersionedSecret L secret
           then \<exists>latest. GotLatestSecret ns (secretPrefix (sec_Name secret)) (Inr latest) \<in> set ev \<and>
                  v' = v\<lparr>vol_Secret := Some (src\<lparr>ss_SecretName := sec_Name latest\<rparr>)\<rparr>
           else v' = v))"

lemma volume_plain: "vol_Secret v = None \<Longrightarrow> volume_updated L ns ev v v"
  by (simp add: volume_updated_def)

lemma volume_unversioned:
  "vol_Secret v = Some src \<Longrightarrow> \<not> vss_IsVersionedSecret L secret \<Longrightarrow>
   GotSecret \<lparr>nn_Namespace = ns, nn_Name = ss_SecretName src\<rparr> (Inr secret) \<in> set ev \<Longrightarrow>
   volume_updated L ns ev v v"
  by (auto simp: volume_updated_def)

lemma volume_latest:
  "vol_Secret v = Some src \<Longrightarrow> vss_IsVersionedSecret L secret \<Longrightarrow>
   GotSecret \<lparr>nn_Namespace = ns, nn_Name = ss_SecretName src\<rparr> (Inr secret) \<in> set ev \<Longrightarrow>
   GotLatestSecret ns (secretPrefix (sec_Name secret)) (Inr latest) \<in> set ev \<Longrightarrow>
   volume_updated L ns ev v (v\<lparr>vol_Secret := Some (src\<lparr>ss_SecretName := sec_Name latest\<rparr>)\<rparr>)"
  by (auto simp: volume_updated_def)

lemma volume_updated_mono:
  "volume_updated L ns ev v v' \<Longrightarrow> set ev \<subseteq> set ev' \<Longrightarrow> volume_updated L ns ev' v v'"
  unfolding volume_updated_def by (auto split: option.splits if_splits)

lemma volumes_updated_mono:
  "list_all2 (volume_updated L ns ev) vs vs' \<Longrightarrow> set ev \<subseteq> set ev' \<Longrightarrow> list_all2 (volume_updated L ns ev') vs vs'"
  by (erule list_all2_mono) (rule volume_updated_mono)

lemma updateVolumes_emits:
  "emits (updateVolumes (recording W) L ns vs)
     (\<lambda>r ev. writes ev = [] \<and> (\<forall>vs'. r = Inr vs' \<longrightarrow> list_all2 (volume_updated L ns ev) vs vs'))"
proof (induction vs)
  case Nil
  then show ?case by (auto intro: emits_return)
next
  case (Cons v vs)
  show ?case
    unfolding updateVolumes.simps Let_def recording_simps
    by (intro emits_rules emits_mono [OF Cons])
       (auto elim!: volumes_updated_mono intro: volume_latest volume_plain volume_unversioned split: sum.splits)
qed

lemma UpdateVersions_emits:
  "emits (UpdateVersions L (recording W) q)
     (\<lambda>r ev. writes ev = [] \<and> (\<forall>q'. r = Inr q' \<longrightarrow>
        (\<exists>vs. list_all2 (volume_updated L (q_Namespace q) ev) (ps_Volumes (podSpecOf q)) vs \<and>
           q' = withPodSpec ((podSpecOf q)\<lparr>ps_Volumes := vs\<rparr>) q)))"
  unfolding UpdateVersions_def
  by (intro emits_rules emits_mono [OF updateVolumes_emits]) (auto split: sum.splits)

section \<open>Writes\<close>

lemma withPodSpec_status [simp]: "q_Status (withPodSpec ps q) = q_Status q"
  by (simp add: withPodSpec_def)

text \<open>
  The write of a desired StatefulSet \<open>x\<close>: \<open>CreateOrUpdate\<close> of \<open>x\<close> with its owner set, with the
  mutate function of that object.
\<close>

definition same_resource :: "quarks_statefulset \<Rightarrow> quarks_statefulset \<Rightarrow> bool" where
  "same_resource q q' \<longleftrightarrow> q_Name q' = q_Name q \<and> q_Namespace q' = q_Namespace q \<and> q_UID q' = q_UID q \<and>
     qst_LastReconcile (q_Status q') = qst_LastReconcile (q_Status q) \<and>
     qs_Zones (q_Spec q') = qs_Zones (q_Spec q) \<and>
     sts_Annotations (qs_Template (q_Spec q')) = sts_Annotations (qs_Template (q_Spec q)) \<and>
     spec_UpdateStrategy (sts_Spec (qs_Template (q_Spec q'))) =
       spec_UpdateStrategy (sts_Spec (qs_Template (q_Spec q)))"

lemma same_resource_simps [simp]:
  "same_resource q q"
  "same_resource q (withPodSpec ps q') \<longleftrightarrow> same_resource q q'"
  "same_resource q (withReady b q') \<longleftrightarrow> same_resource q q'"
  "same_resource q (withZoneNodeLabel q') \<longleftrightarrow> same_resource q q'"
  by (auto simp: same_resource_def withPodSpec_def withReady_def withZoneNodeLabel_def)

lemma same_resource_trans: "same_resource p q \<Longrightarrow> same_resource q r \<Longrightarrow> same_resource p r"
  by (simp add: same_resource_def)

definition wrote_desired :: "lib \<Rightarrow> quarks_statefulset \<Rightarrow> statefulset \<Rightarrow> event \<Rightarrow> bool" where
  "wrote_desired L q x e \<longleftrightarrow>
     (\<exists>q' x1 r. same_resource q q' \<and> setReference L q' x = Inr x1 \<and>
        e = WroteSts x1 (StatefulSetMutateFn x1) r)"

lemma wrote_desired_same: "same_resource q q' \<Longrightarrow> wrote_desired L q' x e \<Longrightarrow> wrote_desired L q x e"
  unfolding wrote_desired_def by (blast intro: same_resource_trans)

definition wrote_prefix ::
  "lib \<Rightarrow> quarks_statefulset \<Rightarrow> statefulset list \<Rightarrow> reconcile_out \<Rightarrow> event list \<Rightarrow> bool" where
  "wrote_prefix L q xs r ws \<longleftrightarrow>
     (\<exists>ys. prefix ys xs \<and> list_all2 (wrote_desired L q) ys ws \<and>
        (r = Ret (empty_result, None) \<longrightarrow> ys = xs))"

lemma wrote_prefix_Nil: "r \<noteq> Ret (empty_result, None) \<Longrightarrow> wrote_prefix L q xs r []"
  by (auto simp: wrote_prefix_def)

lemma wrote_prefix_one:
  "wrote_desired L q x w \<Longrightarrow> r \<noteq> Ret (empty_result, None) \<Longrightarrow> wrote_prefix L q (x # xs) r [w]"
  unfolding wrote_prefix_def by (intro exI [of _ "[x]"]) auto

lemma wrote_prefix_Cons:
  assumes "wrote_desired L q x w" "wrote_prefix L q xs r ws"
  shows "wrote_prefix L q (x # xs) r (w # ws)"
proof -
  from assms(2) obtain ys where "prefix ys xs" "list_all2 (wrote_desired L q) ys ws"
    "r = Ret (empty_result, None) \<longrightarrow> ys = xs"
    unfolding wrote_prefix_def by blast
  with assms(1) show ?thesis
    unfolding wrote_prefix_def by (intro exI [of _ "x # ys"]) auto
qed

lemma wrote_prefix_mem:
  assumes "wrote_prefix L q xs r ws" "w \<in> set ws"
  obtains x where "x \<in> set xs" "wrote_desired L q x w"
proof -
  from assms(1) obtain ys where ys: "prefix ys xs" "list_all2 (wrote_desired L q) ys ws"
    unfolding wrote_prefix_def by blast
  from ys(2) assms(2) obtain x where "x \<in> set ys" "wrote_desired L q x w"
    by (induction rule: list_all2_induct) auto
  with ys(1) that show thesis by (meson set_mono_prefix subsetD)
qed

lemma wrote_prefix_same: "wrote_prefix L q' xs r ws \<Longrightarrow> same_resource q q' \<Longrightarrow> wrote_prefix L q xs r ws"
  unfolding wrote_prefix_def by (metis (no_types, lifting) list_all2_mono wrote_desired_same)

lemma createStatefulSet_emits:
  "emits (createStatefulSet L (recording W) q x)
     (\<lambda>r ev. (ev = [] \<and> (\<exists>e. r = Ret (Some e))) \<or>
        (\<exists>w. ev = [w] \<and> is_write w \<and> wrote_desired L q x w \<and> (failed_write w \<longrightarrow> (\<exists>e. r = Ret (Some e)))))"
  unfolding createStatefulSet_def recording_simps
  by (intro emits_rules) (auto simp: wrote_desired_def split: option.splits intro: same_resource_simps(1))

lemma createAll_emits:
  "emits (createAll L (recording W) request q xs)
     (\<lambda>r ev. wrote_prefix L q xs r (writes ev) \<and> (refused ev \<longrightarrow> (\<exists>res e. r = Ret (res, Some e))))"
proof (induction xs arbitrary: q)
  case Nil
  then show ?case by (auto intro!: emits_gret simp: wrote_prefix_def)
next
  case (Cons x xs)
  have IH: "wrote_prefix L q (x # xs) r (w # writes ev)"
    if "wrote_desired L (withPodSpec ps q) x w" "wrote_prefix L (withReady False (withPodSpec ps q)) xs r (writes ev)"
    for ps w r ev
    using that by (auto intro!: wrote_prefix_Cons elim!: wrote_desired_same [rotated] wrote_prefix_same)
  have one: "wrote_prefix L q (x # xs) r [w]"
    if "wrote_desired L (withPodSpec ps q) x w" "r \<noteq> Ret (empty_result, None)" for ps w r
    using that by (auto intro!: wrote_prefix_one elim!: wrote_desired_same [rotated])
  show ?case
    unfolding createAll.simps Let_def recording_simps
    by (intro emits_rules emits_mono [OF createStatefulSet_emits] emits_mono [OF Cons])
       (auto simp: wrote_prefix_Nil intro: one IH)
qed

lemma qstsApply_emits:
  "emits (qstsApply L (recording W) request q)
     (\<lambda>r ev. (refused ev \<longrightarrow> (\<exists>res e. r = Ret (res, Some e))) \<and>
        (writes ev = [] \<or> (\<exists>v xs. desiredStatefulSets L (withZoneNodeLabel q) v = Ret xs \<and>
           wrote_prefix L (withZoneNodeLabel q) xs r (writes ev))))"
  unfolding qstsApply_def
  by (intro emits_rules emits_mono [OF calculateDesired_emits] emits_mono [OF createAll_emits])
     (auto simp: refused_quiet)

text \<open>The two kinds of writes of one Reconcile of the resource \<open>q0\<close>.\<close>

definition qsts_written :: "lib \<Rightarrow> quarks_statefulset \<Rightarrow> reconcile_out \<Rightarrow> event list \<Rightarrow> bool" where
  "qsts_written L q0 r ws \<longleftrightarrow> ws = [] \<or>
     (\<exists>q t e. same_resource q0 q \<and> q_Status q = q_Status q0 \<and> qst_LastReconcile (q_Status q0) = None \<and>
        ws = [UpdatedQstsStatus (withLastReconcile t q) e]) \<or>
     (\<exists>q v xs. same_resource q0 q \<and> qst_LastReconcile (q_Status q0) \<noteq> None \<and>
        desiredStatefulSets L q v = Ret xs \<and> wrote_prefix L q xs r ws)"

lemma qstsWindow_emits:
  assumes "same_resource q0 q" "q_Status q = q_Status q0"
  shows "emits (qstsWindow L (recording W) request q)
    (\<lambda>r ev. qsts_written L q0 r (writes ev) \<and> (refused ev \<longrightarrow> (\<exists>res e. r = Ret (res, Some e))))"
proof -
  have status: "qsts_written L q0 r [UpdatedQstsStatus (withLastReconcile t q) e]"
    if "qst_LastReconcile (q_Status q) = None" for r t e
    using that assms unfolding qsts_written_def by (metis same_resource_def)
  have applied: "qsts_written L q0 r ws"
    if "qst_LastReconcile (q_Status q) = Some t" "desiredStatefulSets L (withZoneNodeLabel q) v = Ret xs"
      "wrote_prefix L (withZoneNodeLabel q) xs r ws" for r t v xs ws
    using that assms unfolding qsts_written_def
    by (metis option.discI same_resource_def same_resource_simps(4))
  have quiet: "qsts_written L q0 r []" for r by (simp add: qsts_written_def)
  show ?thesis
    unfolding qstsWindow_def recording_simps
    by (intro emits_rules emits_mono [OF qstsApply_emits]) (auto intro: status applied simp: quiet assms(2))
qed

lemma qstsReconcile_emits:
  "emits (qstsReconcile L (recording W) request)
     (\<lambda>r ev. \<exists>g ev'. ev = GotQsts request g # ev' \<and>
        (\<forall>q0. g = Inr q0 \<longrightarrow> qsts_written L q0 r (writes ev)) \<and> (\<forall>e. g = Inl e \<longrightarrow> writes ev = []) \<and>
        (refused ev \<longrightarrow> (\<exists>res e. r = Ret (res, Some e))))"
proof -
  have quiet: "qsts_written L q0 r []" for q0 r by (simp add: qsts_written_def)
  show ?thesis
    unfolding qstsReconcile_def qstsRest_def recording_simps
    by (intro emits_rules emits_mono [OF UpdateVersions_emits] emits_mono [OF qstsWindow_emits])
       (auto simp: quiet refused_quiet)
qed

section \<open>Properties\<close>

text \<open>
  C12: the writes. One Reconcile of a QuarksStatefulSet either writes nothing; or, if it has
  never been reconciled, only its status with the time of this Reconcile; or else creates or
  updates the desired StatefulSets in their order, all of them if it returns success.
\<close>

theorem qsts_writes:
  assumes "tr = trace_of (qstsReconcile L (recording W) request) s"
    and "r = result_of (qstsReconcile L (recording W) request) s" and "writes tr \<noteq> []"
  shows "\<exists>q0 q. hd tr = GotQsts request (Inr q0) \<and> same_resource q0 q \<and>
    (case qst_LastReconcile (q_Status q0) of
       None \<Rightarrow> q_Status q = q_Status q0 \<and> (\<exists>t e. writes tr = [UpdatedQstsStatus (withLastReconcile t q) e])
     | Some t \<Rightarrow> \<exists>v xs. desiredStatefulSets L q v = Ret xs \<and> wrote_prefix L q xs r (writes tr))"
proof -
  obtain g ev where tr: "tr = GotQsts request g # ev" and "\<And>e. g = Inl e \<Longrightarrow> writes tr = []"
    and w: "\<And>q0. g = Inr q0 \<Longrightarrow> qsts_written L q0 r (writes tr)"
    using emits_trace [OF qstsReconcile_emits, of L W request s] unfolding assms(1,2) by metis
  then obtain q0 where "g = Inr q0" using assms(3) by (cases g) auto
  with w tr have hd: "hd tr = GotQsts request (Inr q0)" and "qsts_written L q0 r (writes tr)" by simp_all
  from this(2) assms(3) show ?thesis
    unfolding qsts_written_def
  proof (elim disjE exE conjE)
    fix q t e
    assume "same_resource q0 q" "q_Status q = q_Status q0" "qst_LastReconcile (q_Status q0) = None"
      "writes tr = [UpdatedQstsStatus (withLastReconcile t q) e]"
    with hd show ?thesis by - (rule exI [of _ q0], rule exI [of _ q], clarsimp, blast?)
  next
    fix q v xs
    assume "same_resource q0 q" "qst_LastReconcile (q_Status q0) \<noteq> None"
      "desiredStatefulSets L q v = Ret xs" "wrote_prefix L q xs r (writes tr)"
    with hd show ?thesis by - (rule exI [of _ q0], rule exI [of _ q], clarsimp, blast?)
  qed simp
qed

text \<open>The sample resource after its meltdown, with two zones, in a world that holds it.\<close>

definition sample_reconciled :: quarks_statefulset where
  "sample_reconciled = withLastReconcile 0 zoned_qsts"

definition sample_qsts_mem :: "quarks_statefulset \<Rightarrow> mem" where
  "sample_qsts_mem q = empty_mem\<lparr>m_Qsts := [(sample_key, q)], m_Now := 60 * 10 ^ 9\<rparr>"

theorem qsts_writes_witness:
  "\<exists>q0 q tr r v xs. hd tr = GotQsts sample_key (Inr q0) \<and> same_resource q0 q \<and> length (writes tr) = 2 \<and>
     desiredStatefulSets sample_lib q v = Ret xs \<and> wrote_prefix sample_lib q xs r (writes tr)"
proof -
  let ?R = "qstsReconcile sample_lib (recording mem_world) sample_key"
  let ?s = "sample_qsts_mem sample_reconciled"
  have len: "length (writes (trace_of ?R ?s)) = 2"
    by code_simp
  have hd: "case hd (trace_of ?R ?s) of GotQsts k (Inr q) \<Rightarrow> qst_LastReconcile (q_Status q) = Some 0 | _ \<Rightarrow> False"
    by code_simp
  have "writes (trace_of ?R ?s) \<noteq> []" using len by auto
  from qsts_writes [OF refl refl this] obtain q0 q where
    q: "hd (trace_of ?R ?s) = GotQsts sample_key (Inr q0)" "same_resource q0 q"
    and w: "case qst_LastReconcile (q_Status q0) of
       None \<Rightarrow> q_Status q = q_Status q0 \<and>
         (\<exists>t e. writes (trace_of ?R ?s) = [UpdatedQstsStatus (withLastReconcile t q) e])
     | Some t \<Rightarrow> \<exists>v xs. desiredStatefulSets sample_lib q v = Ret xs \<and>
         wrote_prefix sample_lib q xs (result_of ?R ?s) (writes (trace_of ?R ?s))"
    by blast
  have "qst_LastReconcile (q_Status q0) = Some 0" using hd q(1) by simp
  with q w len show ?thesis by (simp, blast)
qed

text \<open>
  C32: errors. If the API server refuses a write, Reconcile of a QuarksStatefulSet returns an
  error, so the request is tried again.
\<close>

theorem qsts_errors_surface:
  assumes "tr = trace_of (qstsReconcile L (recording W) request) s"
    and "ev \<in> set tr" "failed_write ev"
  shows "\<exists>res e. result_of (qstsReconcile L (recording W) request) s = Ret (res, Some e)"
  using emits_trace [OF qstsReconcile_emits, of L W request s] assms
  by (auto simp: refused_def list_ex_iff)

theorem qsts_errors_surface_witness:
  "\<exists>res e. result_of (qstsReconcile sample_lib
       (recording (mem_world\<lparr>w_UpdateQstsStatus := (\<lambda>q. State_Monad.return (Some (StatusError 409 ''conflict'')))\<rparr>))
       sample_key) (sample_qsts_mem zoned_qsts) = Ret (res, Some e)"
proof -
  let ?R = "qstsReconcile sample_lib
       (recording (mem_world\<lparr>w_UpdateQstsStatus := (\<lambda>q. State_Monad.return (Some (StatusError 409 ''conflict'')))\<rparr>))
       sample_key"
  have "list_ex failed_write (trace_of ?R (sample_qsts_mem zoned_qsts))" by code_simp
  then obtain ev where "ev \<in> set (trace_of ?R (sample_qsts_mem zoned_qsts))" "failed_write ev"
    by (auto simp: list_ex_iff)
  then show ?thesis by (rule qsts_errors_surface [OF refl])
qed

text \<open>
  The versions of secrets. UpdateVersions keeps the number and order of the volumes; the
  secret of a volume is replaced by its latest version if it is versioned, every other volume
  stays as it is, and nothing else of the resource changes.
\<close>

theorem UpdateVersions_spec:
  assumes "result_of (UpdateVersions L (recording W) q) s = Inr q'"
    and "tr = trace_of (UpdateVersions L (recording W) q) s"
  shows "writes tr = [] \<and>
    (\<exists>vs. list_all2 (volume_updated L (q_Namespace q) tr) (ps_Volumes (podSpecOf q)) vs \<and>
       q' = withPodSpec ((podSpecOf q)\<lparr>ps_Volumes := vs\<rparr>) q)"
  using emits_trace [OF UpdateVersions_emits, of L W q s] assms by auto

definition sample_volume :: "string \<Rightarrow> volume" where
  "sample_volume n = \<lparr>vol_Name = ''data'', vol_Secret = Some \<lparr>ss_SecretName = n, ss_Rest = ''''\<rparr>, vol_Rest = ''''\<rparr>"

definition sample_secret :: "string \<Rightarrow> nsname \<times> secret" where
  "sample_secret n = (\<lparr>nn_Namespace = ''default'', nn_Name = n\<rparr>,
     \<lparr>sec_Name = n, sec_Namespace = ''default'', sec_Labels = Some [''version'' \<mapsto> ''''], sec_Data = None\<rparr>)"

theorem UpdateVersions_spec_witness:
  "\<exists>q' vs tr. result_of (UpdateVersions sample_lib (recording mem_world)
       (withPodSpec (zero_pod_spec\<lparr>ps_Volumes := [sample_volume ''my-cert-v1'']\<rparr>) sample_qsts))
       (empty_mem\<lparr>m_Secrets := [sample_secret ''my-cert-v1'', sample_secret ''my-cert-v2'']\<rparr>) = Inr q' \<and>
     list_all2 (volume_updated sample_lib ''default'' tr) [sample_volume ''my-cert-v1''] vs \<and>
     map vol_Secret (ps_Volumes (podSpecOf q')) = [Some \<lparr>ss_SecretName = ''my-cert-v2'', ss_Rest = ''''\<rparr>]"
proof -
  let ?q = "withPodSpec (zero_pod_spec\<lparr>ps_Volumes := [sample_volume ''my-cert-v1'']\<rparr>) sample_qsts"
  let ?m = "UpdateVersions sample_lib (recording mem_world) ?q"
  let ?s = "empty_mem\<lparr>m_Secrets := [sample_secret ''my-cert-v1'', sample_secret ''my-cert-v2'']\<rparr>"
  have "case result_of ?m ?s of Inl e \<Rightarrow> False
      | Inr q' \<Rightarrow> map vol_Secret (ps_Volumes (podSpecOf q')) = [Some \<lparr>ss_SecretName = ''my-cert-v2'', ss_Rest = ''''\<rparr>]"
    by code_simp
  then obtain q' where q': "result_of ?m ?s = Inr q'"
    "map vol_Secret (ps_Volumes (podSpecOf q')) = [Some \<lparr>ss_SecretName = ''my-cert-v2'', ss_Rest = ''''\<rparr>]"
    by (auto split: sum.splits)
  have "q_Namespace ?q = ''default''" "ps_Volumes (podSpecOf ?q) = [sample_volume ''my-cert-v1'']"
    by (simp_all add: withPodSpec_def podSpecOf_def sample_qsts_def)
  with UpdateVersions_spec [OF q'(1) refl] q' show ?thesis by auto
qed

section \<open>The StatefulSets written\<close>

text \<open>The first event of a Reconcile is its read of the resource.\<close>

lemma qstsReconcile_hd:
  "hd (trace_of (qstsReconcile L (recording W) request) s) = GotQsts request (fst (run_state (w_GetQsts W request) s))"
  unfolding qstsReconcile_def recording_simps
  by (rule hd_trace_bind, unfold qstsRest_def)
     (intro emits_rules emits_mono [OF UpdateVersions_emits]
       emits_mono [OF qstsWindow_emits [OF same_resource_simps(1) refl]]; simp)

text \<open>
  Whatever StatefulSet a Reconcile writes was generated from the resource it read, whose
  template annotations and update strategy the generation has seen unchanged.
\<close>

lemma qsts_wrote_generated:
  assumes "WroteSts x1 f r \<in> set (trace_of (qstsReconcile L (recording W) request) s)"
  obtains q0 q q' template zi zn v x where
    "hd (trace_of (qstsReconcile L (recording W) request) s) = GotQsts request (Inr q0)"
    "same_resource q0 q" "generateSingleStatefulSet L q template zi zn v = Ret x"
    "template = (qs_Template (q_Spec q))\<lparr>sts_Namespace := q_Namespace q\<rparr>"
    "setReference L q' x = Inr x1" "f = StatefulSetMutateFn x1"
proof -
  let ?tr = "trace_of (qstsReconcile L (recording W) request) s"
  let ?r = "result_of (qstsReconcile L (recording W) request) s"
  have w: "WroteSts x1 f r \<in> set (writes ?tr)" using assms by (simp add: writes_def)
  obtain g ev where tr: "?tr = GotQsts request g # ev" and "\<And>e. g = Inl e \<Longrightarrow> writes ?tr = []"
    and q0: "\<And>q0. g = Inr q0 \<Longrightarrow> qsts_written L q0 ?r (writes ?tr)"
    using emits_trace [OF qstsReconcile_emits, of L W request s] by metis
  with w obtain q0 where g: "g = Inr q0" by (cases g) auto
  from q0 [OF g] w obtain q v xs where q: "same_resource q0 q" "desiredStatefulSets L q v = Ret xs"
    "wrote_prefix L q xs ?r (writes ?tr)"
    unfolding qsts_written_def by auto
  from q(3) w obtain x where x: "x \<in> set xs" "wrote_desired L q x (WroteSts x1 f r)"
    by (elim wrote_prefix_mem)
  then obtain q' where own: "setReference L q' x = Inr x1" "f = StatefulSetMutateFn x1"
    unfolding wrote_desired_def by auto
  from x(1) obtain i where i: "i < length xs" "x = xs ! i" by (auto simp: in_set_conv_nth)
  have hd: "hd ?tr = GotQsts request (Inr q0)" by (simp add: tr g)
  have gen: "generateSingleStatefulSet L q ((qs_Template (q_Spec q))\<lparr>sts_Namespace := q_Namespace q\<rparr>)
      (int i) (zonesOf q ! i) v = Ret x"
    using desired_nth [OF q(2)] i by simp
  show thesis by (rule that [OF hd q(1) gen refl own])
qed

section \<open>A Reconcile during a rollout\<close>

text \<open>\<open>controllerutil.SetControllerReference\<close> changes the owner references only.\<close>

definition owner_law :: "lib \<Rightarrow> bool" where
  "owner_law L \<longleftrightarrow> (\<forall>q x x1. setReference L q x = Inr x1 \<longrightarrow>
     x1 = x\<lparr>sts_OwnerReferences := sts_OwnerReferences x1\<rparr>)"

lemma sample_owner_law: "owner_law sample_lib"
  by (simp add: owner_law_def sample_lib_def)

lemma owner_frame:
  assumes "owner_law L" "setReference L q x = Inr x1"
  shows "sts_Annotations x1 = sts_Annotations x" "sts_Spec x1 = sts_Spec x" "sts_Labels x1 = sts_Labels x"
proof -
  have x1: "x1 = x\<lparr>sts_OwnerReferences := sts_OwnerReferences x1\<rparr>"
    using assms unfolding owner_law_def by blast
  show "sts_Annotations x1 = sts_Annotations x" "sts_Spec x1 = sts_Spec x" "sts_Labels x1 = sts_Labels x"
    by (subst x1, simp)+
qed

lemma generated_strategy:
  "generateSingleStatefulSet L q template zi zn v = Ret x \<Longrightarrow>
     spec_UpdateStrategy (sts_Spec x) = spec_UpdateStrategy (sts_Spec template)"
  by (auto simp: generateSingleStatefulSet_def Let_def zonedTemplate_def updateAffinity_def
      withAffinity_def split: go.splits if_splits)

text \<open>Every generated StatefulSet opts in to rollouts, whatever its template says.\<close>

lemma generated_controlled:
  assumes "generateSingleStatefulSet L q template zi zn v = Ret x" "union_maps_law L"
    and "sts_Annotations z = sts_Annotations x"
  shows "isControlledRolloutStatefulSet L z"
  using assms(2) generated_fields(4) [OF assms(1)]
  by (simp add: assms(3) isControlledRolloutStatefulSet_def union_maps_law_def zoneAnnotations_def
      key_defs ghas_def gget_def)

lemma generated_no_state:
  assumes "generateSingleStatefulSet L q template zi zn v = Ret x" "union_maps_law L"
    and "gmap (sts_Annotations template) (AnnotationCanaryRollout (gname L)) = None"
  shows "gmap (sts_Annotations x) (AnnotationCanaryRollout (gname L)) = None"
  using assms(2,3) generated_fields(4) [OF assms(1)]
  by (simp add: union_maps_law_def zoneAnnotations_def key_defs)

text \<open>What a Reconcile hands to the API server over the stored StatefulSet \<open>cur\<close>.\<close>

lemma qsts_handed_in:
  assumes "union_maps_law L" "owner_law L"
    and "WroteSts x1 f r \<in> set (trace_of (qstsReconcile L (recording W) request) s)" "f cur = Ret z"
    and "hd (trace_of (qstsReconcile L (recording W) request) s) = GotQsts request (Inr q0)"
  shows "isControlledRolloutStatefulSet L z"
    and "spec_UpdateStrategy (sts_Spec z) = spec_UpdateStrategy (sts_Spec (qs_Template (q_Spec q0)))"
    and "gmap (sts_Annotations (qs_Template (q_Spec q0))) (AnnotationCanaryRollout (gname L)) = None \<Longrightarrow>
      gmap (sts_Annotations z) (AnnotationCanaryRollout (gname L)) = None"
proof -
  obtain q q' template zi zn v x where g: "same_resource q0 q"
    "generateSingleStatefulSet L q template zi zn v = Ret x"
    "template = (qs_Template (q_Spec q))\<lparr>sts_Namespace := q_Namespace q\<rparr>"
    "setReference L q' x = Inr x1" "f = StatefulSetMutateFn x1"
    using qsts_wrote_generated [OF assms(3)] assms(5) by (metis event.inject(3) sum.inject(2))
  have z: "sts_Annotations z = sts_Annotations x"
    "spec_UpdateStrategy (sts_Spec z) = spec_UpdateStrategy (sts_Spec x)"
    using assms(4) g(5) owner_frame(1,2) [OF assms(2) g(4)] by (auto simp: StatefulSetMutateFn_def)
  show "isControlledRolloutStatefulSet L z" by (rule generated_controlled [OF g(2) assms(1) z(1)])
  show "spec_UpdateStrategy (sts_Spec z) = spec_UpdateStrategy (sts_Spec (qs_Template (q_Spec q0)))"
    using z(2) g(1,3) generated_strategy [OF g(2)] by (simp add: same_resource_def)
  show "gmap (sts_Annotations z) (AnnotationCanaryRollout (gname L)) = None"
    if "gmap (sts_Annotations (qs_Template (q_Spec q0))) (AnnotationCanaryRollout (gname L)) = None"
    using generated_no_state [OF g(2) assms(1)] that z(1) g(1,3) by (simp add: same_resource_def)
qed

text \<open>
  C27: a Reconcile of the QuarksStatefulSet ends a running rollout. Let it write over a stored
  StatefulSet, in whatever state of its rollout, and let the template of the resource name no
  state. What it hands to the API server has lost the state, and has the update strategy of
  the template. If the pod template is the stored one, that is what is stored, with the
  partition of the template, and the rollout controller is not triggered: the rollout is over
  although pods may run the old revision. If the pod template differs, the mutator starts the
  rollout again from Pending, and the controller is triggered.
\<close>

theorem qsts_write_ends_rollout:
  assumes "union_maps_law L" "owner_law L" "codec_law L C"
    and "tr = trace_of (qstsReconcile L (recording W) request) s" "hd tr = GotQsts request (Inr q0)"
    and "gmap (sts_Annotations (qs_Template (q_Spec q0))) (AnnotationCanaryRollout (gname L)) = None"
    and "WroteSts x f r \<in> set tr" "f cur = Ret z" "admits L C Update (Some cur) z z'"
    and "enc_Sts C z = Inr raw" "dec_Sts C raw = Inr w"
  shows "canary_state L z = '''' \<and>
    spec_UpdateStrategy (sts_Spec z) = spec_UpdateStrategy (sts_Spec (qs_Template (q_Spec q0))) \<and>
    (if spec_Template (sts_Spec w) = spec_Template (sts_Spec cur)
     then canary_state L z' = '''' \<and> \<not> CheckUpdate L cur z' \<and>
       (\<forall>p. partitionVal (qs_Template (q_Spec q0)) = Ret p \<longrightarrow> partitionVal z' = Ret p)
     else canary_state L z' = rolloutStatePending \<and> CheckUpdate L cur z')"
proof -
  note handed = qsts_handed_in [OF assms(1,2) assms(7) [unfolded assms(4)] assms(8) assms(5) [unfolded assms(4)]]
  have none: "gmap (sts_Annotations z) (AnnotationCanaryRollout (gname L)) = None"
    by (rule handed(3) [OF assms(6)])
  have part: "partitionVal (qs_Template (q_Spec q0)) = partitionVal z"
    using handed(2) by (simp add: partitionVal_def partitionPtr_def)
  have "Update = request_op (Some cur)" by (simp add: request_op_def)
  from assms(9,3) this assms(10,11) show ?thesis
  proof (cases rule: admits_cases)
    case kept
    with handed(1) have same: "spec_Template (sts_Spec w) = spec_Template (sts_Spec cur)" by auto
    from kept(1) none have "canary_state L z' = ''''" "\<not> CheckUpdate L cur z'"
      by (simp_all add: gget_def CheckUpdate_def ghas_def)
    with same kept(2) part none handed(2) show ?thesis by (simp add: gget_def)
  next
    case (restart o' p)
    then have "CheckUpdate L cur z'"
      using gget_nonempty_has [of "sts_Annotations z'"] by (simp add: CheckUpdate_def rollout_states)
    with restart none handed(2) show ?thesis by (simp add: gget_def)
  qed simp
qed

text \<open>A codec for one object and what is stored before it.\<close>

definition one_codec :: "lib \<Rightarrow> statefulset \<Rightarrow> statefulset \<Rightarrow> codec" where
  "one_codec L z old = \<lparr>dec_Sts = (\<lambda>raw. Inr (if raw = ''new'' then z else old)),
     dec_Pod = (\<lambda>raw. Inl (Errorf ''no pod'')),
     enc_Sts = (\<lambda>x. if gmap (sts_Annotations x) (AnnotationCanaryRollout (gname L)) =
           gmap (sts_Annotations z) (AnnotationCanaryRollout (gname L)) \<and>
         gmap (sts_Annotations x) (AnnotationCanaryRolloutEnabled (gname L)) =
           gmap (sts_Annotations z) (AnnotationCanaryRolloutEnabled (gname L)) \<and>
         partitionVal x = partitionVal z then Inr ''new'' else Inl (Errorf ''another object'')),
     enc_Pod = (\<lambda>p. Inl (Errorf ''no pod''))\<rparr>"

lemma one_codec_settled: "settled (one_codec L z old) t \<longleftrightarrow> t = spec_Template (sts_Spec z)"
proof
  show "t = spec_Template (sts_Spec z) \<Longrightarrow> settled (one_codec L z old) t"
    using settled.intros [of "one_codec L z old" z "''new''" z] by (simp add: one_codec_def)
qed (auto elim!: settled.cases simp: one_codec_def split: if_splits)

lemma one_codec_law: "codec_law L (one_codec L z old)"
  by (simp add: codec_law_def one_codec_settled) (simp add: one_codec_def split: if_splits)

text \<open>A resource with replicas; what is stored is its StatefulSet, in the middle of a rollout.\<close>

definition replicated_qsts :: quarks_statefulset where
  "replicated_qsts = sample_reconciled\<lparr>q_Spec := (q_Spec sample_reconciled)\<lparr>
     qs_Template := zero_statefulset\<lparr>sts_Spec := (sts_Spec zero_statefulset)\<lparr>spec_Replicas := Some 2\<rparr>\<rparr>\<rparr>\<rparr>"

definition with_template_of :: "statefulset \<Rightarrow> statefulset \<Rightarrow> statefulset" where
  "with_template_of z x = x\<lparr>sts_Spec := (sts_Spec x)\<lparr>spec_Template := spec_Template (sts_Spec z)\<rparr>\<rparr>"

theorem qsts_write_ends_rollout_witness:
  "\<exists>x f r cur z z' C. WroteSts x f r \<in> set (trace_of (qstsReconcile sample_lib (recording mem_world) sample_key)
       (sample_qsts_mem replicated_qsts)) \<and>
     canary_state sample_lib cur = rolloutStateCanary \<and> partitionVal cur = Ret 1 \<and> f cur = Ret z \<and>
     admits sample_lib C Update (Some cur) z z' \<and> canary_state sample_lib z' = '''' \<and>
     \<not> CheckUpdate sample_lib cur z'"
proof -
  let ?tr = "trace_of (qstsReconcile sample_lib (recording mem_world) sample_key) (sample_qsts_mem replicated_qsts)"
  let ?x = "sample_sts ''Canary'' 1 2 2"
  have hd: "hd ?tr = GotQsts sample_key (Inr replicated_qsts)"
    by (simp add: qstsReconcile_hd sample_qsts_mem_def mem_world_def found_def)
  have "list_ex (is_sts_write (\<lambda>x f. go_sat api_valid (f ?x))) ?tr" by code_simp
  then obtain x f r z where w: "WroteSts x f r \<in> set ?tr" and fz: "f ?x = Ret z" and valid: "api_valid z"
    by (elim list_ex_sts_write go_satE) blast
  obtain x1 where f: "f = StatefulSetMutateFn x1" using qsts_wrote_generated [OF w] by metis
  let ?cur = "with_template_of z ?x"
  let ?C = "one_codec sample_lib z ?cur"
  have cur: "f ?cur = Ret z" "canary_state sample_lib ?cur = rolloutStateCanary" "partitionVal ?cur = Ret 1"
    using fz by (simp_all add: f StatefulSetMutateFn_def with_template_of_def sample_sts_def sample_lib_def
        key_defs gget_def zero_defs partitionVal_def partitionPtr_def rollout_states)
  have tmpl: "spec_Template (sts_Spec ?cur) = spec_Template (sts_Spec z)" by (simp add: with_template_of_def)
  have enc: "enc_Sts ?C z = Inr ''new''" "dec_Sts ?C ''new'' = Inr z" by (simp_all add: one_codec_def)
  have "rolloutHandle sample_lib ?C 0 (sample_request Update ''new'' ''old'') = Ret (PatchResponseFromRaw ''new'' ''new'')"
    using tmpl by (simp add: rolloutHandle_def patch_response_def sample_request_def one_codec_def Let_def)
  then have adm: "admits sample_lib ?C Update (Some ?cur) z z"
    using enc valid tmpl
    by (intro admits.intros [where now = 0 and req = "sample_request Update ''new'' ''old''"])
       (auto simp: sample_request_def one_codec_settled, simp add: one_codec_def)
  have "gmap (sts_Annotations (qs_Template (q_Spec replicated_qsts))) (AnnotationCanaryRollout (gname sample_lib)) = None"
    by (simp add: replicated_qsts_def zero_statefulset_def)
  from qsts_write_ends_rollout [OF sample_union sample_owner_law one_codec_law refl hd this w cur(1) adm enc] tmpl
  have "canary_state sample_lib z = '''' \<and> \<not> CheckUpdate sample_lib ?cur z" by simp
  with w cur adm show ?thesis
    by (intro exI [of _ x] exI [of _ f] exI [of _ r] exI [of _ ?cur] exI [of _ z] exI [of _ z] exI [of _ ?C]) simp
qed

end
