(* ===== verification/Cluster.thy ===== *)
theory Cluster
  imports Qsts_Properties
begin

text \<open>
  The controllers on one cluster. The StatefulSets the API server stores are shared by the
  rollout reconciler, the reconciler of QuarksStatefulSets, the mutator that admits every
  write, the StatefulSet controller of Kubernetes and the users; their steps interleave. A
  Reconcile of the rollout controller is two steps: it reads a StatefulSet through the cache of
  the manager's client, which may be behind, and later \<open>CreateOrUpdate\<close> reads what is stored by
  then and writes the mutated object. That second read goes through the same cache, but it and
  the write are one step on the object stored: the API server refuses an update whose object
  has changed since it was read, and a creation of an object that carries a resource version.
  The work queue hands one request at a time to a worker, so there is at most one Reconcile in
  flight per StatefulSet.

  The theory gives the labelled steps and what they are to one StatefulSet: a step of the
  small machine \<open>shared_step\<close> over the rollouts stored, stored in the past and read.
\<close>

section \<open>Steps of the cluster\<close>

text \<open>
  What is stored under each name, everything ever stored there (so whatever a cache may still
  hold), and what the Reconcile in flight has read.
\<close>

record cluster =
  cl_Sts :: "nsname \<Rightarrow> statefulset option"
  cl_Past :: "nsname \<Rightarrow> statefulset list"
  cl_Read :: "nsname \<Rightarrow> statefulset option"

text \<open>
  \<open>Read\<close>, \<open>ReadOld\<close>, \<open>Write\<close> and \<open>Return\<close> are steps of a Reconcile of the rollout controller;
  \<open>ReadOld\<close> is a read from a cache that is behind. \<open>Generate\<close> is a write of the QuarksStatefulSet
  reconciler, \<open>Submit\<close> a write of a user or of any other client, both with the object handed to
  the API server; \<open>SetStatus\<close> is one of the StatefulSet controller.
\<close>

datatype action =
    Read nsname
  | ReadOld nsname
  | Write nsname
  | Return nsname
  | Generate nsname statefulset
  | Submit nsname statefulset
  | SetStatus nsname
  | Remove nsname

definition store :: "nsname \<Rightarrow> statefulset \<Rightarrow> cluster \<Rightarrow> cluster" where
  "store k x c = c\<lparr>cl_Sts := (cl_Sts c)(k \<mapsto> x), cl_Past := (cl_Past c)(k := x # cl_Past c k)\<rparr>"

definition reading :: "nsname \<Rightarrow> statefulset \<Rightarrow> cluster \<Rightarrow> cluster" where
  "reading k x c = c\<lparr>cl_Read := (cl_Read c)(k \<mapsto> x)\<rparr>"

definition unread :: "nsname \<Rightarrow> cluster \<Rightarrow> cluster" where
  "unread k c = c\<lparr>cl_Read := (cl_Read c)(k := None)\<rparr>"

definition forget :: "nsname \<Rightarrow> cluster \<Rightarrow> cluster" where
  "forget k c = c\<lparr>cl_Sts := (cl_Sts c)(k := None)\<rparr>"

text \<open>
  A \<open>Return\<close> is every end of a Reconcile that stores nothing: nothing to do, an error, a refused
  write, a panic.
\<close>

inductive cluster_step ::
  "lib \<Rightarrow> config \<Rightarrow> codec \<Rightarrow> 's world \<Rightarrow> cluster \<Rightarrow> action \<Rightarrow> cluster \<Rightarrow> bool"
  for L cfg C W where
  begin_reconcile: "cl_Sts c k = Some x \<Longrightarrow> cl_Read c k = None \<Longrightarrow>
    cluster_step L cfg C W c (Read k) (reading k x c)"
| begin_old: "x \<in> set (cl_Past c k) \<Longrightarrow> cl_Read c k = None \<Longrightarrow>
    cluster_step L cfg C W c (ReadOld k) (reading k x c)"
| write_back: "cl_Read c k = Some x \<Longrightarrow>
    tr = trace_of (rolloutReconcile L cfg (recording W) k) s \<Longrightarrow> hd tr = GotSts k (Inr x) \<Longrightarrow>
    WroteSts x' f r \<in> set tr \<Longrightarrow> cl_Sts c k = Some y \<Longrightarrow> f y = Ret z \<Longrightarrow>
    admits L C Update (Some y) z z' \<Longrightarrow>
    cluster_step L cfg C W c (Write k) (unread k (store k z' c))"
| give_up: "cl_Read c k = Some x \<Longrightarrow> cluster_step L cfg C W c (Return k) (unread k c)"
| generate: "WroteSts x f r \<in> set (trace_of (qstsReconcile L (recording W) req) s) \<Longrightarrow>
    k = \<lparr>nn_Namespace = sts_Namespace x, nn_Name = sts_Name x\<rparr> \<Longrightarrow>
    f (case cl_Sts c k of None \<Rightarrow> x | Some y \<Rightarrow> y) = Ret z \<Longrightarrow>
    admits L C (request_op (cl_Sts c k)) (cl_Sts c k) z z' \<Longrightarrow>
    cluster_step L cfg C W c (Generate k z) (store k z' c)"
| submit: "admits L C (request_op (cl_Sts c k)) (cl_Sts c k) w y \<Longrightarrow>
    cluster_step L cfg C W c (Submit k w) (store k y c)"
| set_status: "cl_Sts c k = Some x \<Longrightarrow>
    cluster_step L cfg C W c (SetStatus k) (store k (x\<lparr>sts_Status := st\<rparr>) c)"
| remove: "cl_Sts c k = Some x \<Longrightarrow>
    cluster_step L cfg C W c (Remove k) (forget k c)"

inductive_cases cluster_stepE: "cluster_step L cfg C W c a c'"

text \<open>A run: the actions in their order. \<open>reachable\<close>: from the empty cluster.\<close>

inductive cluster_run ::
  "lib \<Rightarrow> config \<Rightarrow> codec \<Rightarrow> 's world \<Rightarrow> cluster \<Rightarrow> action list \<Rightarrow> cluster \<Rightarrow> bool"
  for L cfg C W where
  run_Nil: "cluster_run L cfg C W c [] c"
| run_Cons: "cluster_step L cfg C W c a c' \<Longrightarrow> cluster_run L cfg C W c' as c'' \<Longrightarrow>
    cluster_run L cfg C W c (a # as) c''"

inductive_simps cluster_run_simps:
  "cluster_run L cfg C W c [] c'"
  "cluster_run L cfg C W c (a # as) c'"

definition empty_cluster :: cluster where
  "empty_cluster = \<lparr>cl_Sts = (\<lambda>k. None), cl_Past = (\<lambda>k. []), cl_Read = (\<lambda>k. None)\<rparr>"

definition reachable :: "lib \<Rightarrow> config \<Rightarrow> codec \<Rightarrow> 's world \<Rightarrow> cluster \<Rightarrow> bool" where
  "reachable L cfg C W c \<longleftrightarrow> (\<exists>as. cluster_run L cfg C W empty_cluster as c)"

section \<open>The rollout of one StatefulSet\<close>

text \<open>
  The phase and the partition an object carries; -1 stands for no partition (the controller
  itself uses it so, and no valid partition is negative).
\<close>

definition rollout_at :: "lib \<Rightarrow> statefulset \<Rightarrow> phase \<times> int" where
  "rollout_at L x =
     (phase_of (canary_state L x), case partitionVal x of Panic \<Rightarrow> -1 | Ret p \<Rightarrow> p)"

record shared =
  sh_Stored :: "(phase \<times> int) option"
  sh_Past :: "(phase \<times> int) list"
  sh_Read :: "(phase \<times> int) option"

definition shared_at :: "lib \<Rightarrow> nsname \<Rightarrow> cluster \<Rightarrow> shared" where
  "shared_at L k c = \<lparr>sh_Stored = map_option (rollout_at L) (cl_Sts c k),
     sh_Past = map (rollout_at L) (cl_Past c k), sh_Read = map_option (rollout_at L) (cl_Read c k)\<rparr>"

definition sh_store :: "phase \<times> int \<Rightarrow> shared \<Rightarrow> shared" where
  "sh_store v s = s\<lparr>sh_Stored := Some v, sh_Past := v # sh_Past s\<rparr>"

text \<open>
  The machine. A Reconcile takes the rollout stored, or an old one, and puts back a step from
  what it took, whatever is stored by then. Any other client authors a rollout \<open>v\<close>: it is stored
  as it is, with a default for a missing partition; or the mutator begins an initial rollout, or
  restarts it.
\<close>

datatype shared_action =
    Idle
  | Take
  | TakeOld
  | Put
  | Leave
  | Author "phase \<times> int"
  | Touch
  | Drop

inductive shared_step :: "shared \<Rightarrow> shared_action \<Rightarrow> shared \<Rightarrow> bool" where
  idle: "shared_step s Idle s"
| take: "sh_Stored s = Some v \<Longrightarrow> sh_Read s = None \<Longrightarrow> shared_step s Take (s\<lparr>sh_Read := Some v\<rparr>)"
| take_old: "v \<in> set (sh_Past s) \<Longrightarrow> sh_Read s = None \<Longrightarrow>
    shared_step s TakeOld (s\<lparr>sh_Read := Some v\<rparr>)"
| put: "sh_Stored s = Some u \<Longrightarrow> sh_Read s = Some v \<Longrightarrow> rollout_step v v' \<Longrightarrow>
    shared_step s Put ((sh_store v' s)\<lparr>sh_Read := None\<rparr>)"
| leave: "sh_Read s = Some v \<Longrightarrow> shared_step s Leave (s\<lparr>sh_Read := None\<rparr>)"
| author: "fst v' = fst v \<Longrightarrow> snd v' = snd v \<or> snd v = -1 \<Longrightarrow> shared_step s (Author v) (sh_store v' s)"
| initial: "sh_Stored s = None \<Longrightarrow> shared_step s (Author v) (sh_store (CanaryUpscale, 0) s)"
| restart: "sh_Stored s = Some u \<Longrightarrow> 0 \<le> p \<Longrightarrow> int32_ok p \<Longrightarrow>
    shared_step s (Author v) (sh_store (Pending, p) s)"
| touch: "sh_Stored s = Some v \<Longrightarrow> shared_step s Touch (sh_store v s)"
| drop: "sh_Stored s = Some v \<Longrightarrow> shared_step s Drop (s\<lparr>sh_Stored := None\<rparr>)"

inductive_simps shared_put: "shared_step s Put t"

text \<open>What an action on the cluster is to the StatefulSet \<open>k\<close>.\<close>

fun act_key :: "action \<Rightarrow> nsname" where
  "act_key (Read k) = k"
| "act_key (ReadOld k) = k"
| "act_key (Write k) = k"
| "act_key (Return k) = k"
| "act_key (Generate k x) = k"
| "act_key (Submit k x) = k"
| "act_key (SetStatus k) = k"
| "act_key (Remove k) = k"

fun act_view :: "lib \<Rightarrow> action \<Rightarrow> shared_action" where
  "act_view L (Read k) = Take"
| "act_view L (ReadOld k) = TakeOld"
| "act_view L (Write k) = Put"
| "act_view L (Return k) = Leave"
| "act_view L (Generate k x) = Author (rollout_at L x)"
| "act_view L (Submit k x) = Author (rollout_at L x)"
| "act_view L (SetStatus k) = Touch"
| "act_view L (Remove k) = Drop"

definition view :: "lib \<Rightarrow> nsname \<Rightarrow> action \<Rightarrow> shared_action" where
  "view L k a = (if act_key a = k then act_view L a else Idle)"

text \<open>What the libraries and the codec are relied on for, all in all.\<close>

definition operator_laws :: "lib \<Rightarrow> codec \<Rightarrow> bool" where
  "operator_laws L C \<longleftrightarrow> meltdown_keeps_state L \<and> codec_law L C"

end
