(* ===== verification/Sample_Cluster.thy ===== *)
theory Sample_Cluster
  imports Cluster
begin

text \<open>
  Concrete clusters for the witnesses: a codec given by a table of encoded objects, and the
  steps of short runs. In one of them a user changes the template while a Reconcile is in
  flight, in another the update strategy. No property is about these definitions.
\<close>

section \<open>A codec from a table\<close>

definition same_view :: "lib \<Rightarrow> statefulset \<Rightarrow> statefulset \<Rightarrow> bool" where
  "same_view L x y \<longleftrightarrow>
     gmap (sts_Annotations x) (AnnotationCanaryRollout (gname L)) =
       gmap (sts_Annotations y) (AnnotationCanaryRollout (gname L)) \<and>
     gmap (sts_Annotations x) (AnnotationCanaryRolloutEnabled (gname L)) =
       gmap (sts_Annotations y) (AnnotationCanaryRolloutEnabled (gname L)) \<and>
     partitionVal x = partitionVal y \<and>
     pt_Rest (spec_Template (sts_Spec x)) = pt_Rest (spec_Template (sts_Spec y))"

definition table_codec :: "lib \<Rightarrow> (string \<times> statefulset) list \<Rightarrow> codec" where
  "table_codec L t = \<lparr>
     dec_Sts = (\<lambda>raw. case map_of t raw of None \<Rightarrow> Inl (Errorf ''no object'') | Some x \<Rightarrow> Inr x),
     dec_Pod = (\<lambda>raw. Inl (Errorf ''no pod'')),
     enc_Sts = (\<lambda>x. case find (\<lambda>e. same_view L x (snd e)) t of
        None \<Rightarrow> Inl (Errorf ''not in the table'') | Some e \<Rightarrow> Inr (fst e)),
     enc_Pod = (\<lambda>p. Inl (Errorf ''no pod''))\<rparr>"

definition plain_template :: "string \<Rightarrow> pod_template" where
  "plain_template img = zero_pod_template\<lparr>pt_Rest := img\<rparr>"

definition plain_table :: "(string \<times> statefulset) list \<Rightarrow> bool" where
  "plain_table t \<longleftrightarrow> list_all (\<lambda>e. spec_Template (sts_Spec (snd e)) =
     plain_template (pt_Rest (spec_Template (sts_Spec (snd e))))) t"

lemma table_decodes:
  assumes "distinct (map fst t)" "plain_table t"
    and "enc_Sts (table_codec L t) x = Inr raw" "dec_Sts (table_codec L t) raw = Inr y"
  shows "same_view L x y" "spec_Template (sts_Spec y) = plain_template (pt_Rest (spec_Template (sts_Spec x)))"
proof -
  from assms(3) obtain i where i: "i < length t" "same_view L x (snd (t ! i))" "raw = fst (t ! i)"
    by (auto simp: table_codec_def find_Some_iff split: option.splits)
  moreover from this assms(1) have "map_of t raw = Some (snd (t ! i))" by simp
  ultimately have y: "y = snd (t ! i)" using assms(4) by (simp add: table_codec_def)
  with i(2) show v: "same_view L x y" by simp
  have "spec_Template (sts_Spec y) = plain_template (pt_Rest (spec_Template (sts_Spec y)))"
    using assms(2) i(1) y by (simp add: plain_table_def list_all_length)
  with v show "spec_Template (sts_Spec y) = plain_template (pt_Rest (spec_Template (sts_Spec x)))"
    by (simp add: same_view_def)
qed

lemma table_codec_law:
  assumes "distinct (map fst t)" "plain_table t"
  shows "codec_law L (table_codec L t)"
  unfolding codec_law_def
proof (intro allI impI)
  fix x raw y
  assume e: "enc_Sts (table_codec L t) x = Inr raw" "dec_Sts (table_codec L t) raw = Inr y"
  have "spec_Template (sts_Spec x) = plain_template (pt_Rest (spec_Template (sts_Spec x)))"
    if "settled (table_codec L t) (spec_Template (sts_Spec x))"
    using that by (cases rule: settled.cases) (auto dest: table_decodes(2) [OF assms] simp: plain_template_def)
  with table_decodes [OF assms e] show
    "gmap (sts_Annotations y) (AnnotationCanaryRollout (gname L)) =
       gmap (sts_Annotations x) (AnnotationCanaryRollout (gname L)) \<and>
     gmap (sts_Annotations y) (AnnotationCanaryRolloutEnabled (gname L)) =
       gmap (sts_Annotations x) (AnnotationCanaryRolloutEnabled (gname L)) \<and>
     (\<forall>p. partitionVal x = Ret p \<longrightarrow> partitionVal y = Ret p) \<and>
     (settled (table_codec L t) (spec_Template (sts_Spec x)) \<longrightarrow>
        spec_Template (sts_Spec y) = spec_Template (sts_Spec x))"
    by (auto simp: same_view_def)
qed

section \<open>Objects and requests\<close>

definition roll_obj :: "string \<Rightarrow> int \<Rightarrow> string \<Rightarrow> statefulset" where
  "roll_obj st part img = (sample_controlled img)\<lparr>
     sts_Annotations := Some [''quarks.cloudfoundry.org/canary-rollout-enabled'' \<mapsto> ''true'',
       ''quarks.cloudfoundry.org/canary-rollout'' \<mapsto> st],
     sts_Spec := (sts_Spec (sample_controlled img))\<lparr>spec_UpdateStrategy :=
       \<lparr>us_Type = ''RollingUpdate'', us_RollingUpdate = Some \<lparr>ru_Partition = Some part\<rparr>\<rparr>\<rparr>\<rparr>"

text \<open>The same object with the update strategy \<open>OnDelete\<close>.\<close>

definition on_delete :: "string \<Rightarrow> string \<Rightarrow> statefulset" where
  "on_delete st img = (roll_obj st 0 img)\<lparr>
     sts_Spec := (sts_Spec (roll_obj st 0 img))\<lparr>spec_UpdateStrategy :=
       \<lparr>us_Type = ''OnDelete'', us_RollingUpdate = None\<rparr>\<rparr>\<rparr>"

definition sample_table :: "(string \<times> statefulset) list" where
  "sample_table = [
     (''new'', sample_controlled ''v1''),
     (''initial'', roll_obj ''CanaryUpscale'' 0 ''v1''),
     (''canary'', roll_obj ''Canary'' 1 ''v1''),
     (''moved'', roll_obj ''Rollout'' 0 ''v1''),
     (''submitted'', roll_obj ''Canary'' 1 ''v2''),
     (''manual'', on_delete ''CanaryUpscale'' ''v1''),
     (''pending'', roll_obj ''Pending'' 2 ''v2''),
     (''stale'', roll_obj ''Rollout'' 0 ''v2'')]"

abbreviation table :: codec where
  "table \<equiv> table_codec sample_lib sample_table"

lemma roll_obj_simps [simp]:
  "canary_state sample_lib (roll_obj st p img) = st"
  "partitionVal (roll_obj st p img) = Ret p"
  "partitionPtr (roll_obj st p img) = Ret (Some p)"
  "spec_Template (sts_Spec (roll_obj st p img)) = plain_template img"
  "spec_Replicas (sts_Spec (roll_obj st p img)) = Some 2"
  "isControlledRolloutStatefulSet sample_lib (roll_obj st p img)"
  "us_RollingUpdate (spec_UpdateStrategy (sts_Spec (roll_obj st p img))) = Some \<lparr>ru_Partition = Some p\<rparr>"
  by (simp_all add: roll_obj_def sample_controlled_def sample_sts_def sample_lib_def key_defs gget_def
      ghas_def zero_defs partitionVal_def partitionPtr_def isControlledRolloutStatefulSet_def plain_template_def)

lemma on_delete_simps [simp]:
  "canary_state sample_lib (on_delete st img) = st"
  "partitionVal (on_delete st img) = Panic"
  "spec_Template (sts_Spec (on_delete st img)) = plain_template img"
  "isControlledRolloutStatefulSet sample_lib (on_delete st img)"
  "us_RollingUpdate (spec_UpdateStrategy (sts_Spec (on_delete st img))) = None"
  "api_valid (on_delete st img)"
  by (simp_all add: on_delete_def partitionVal_def partitionPtr_def api_valid_def int32_ok_def,
      simp_all add: roll_obj_def sample_controlled_def sample_sts_def sample_lib_def key_defs gget_def
        ghas_def isControlledRolloutStatefulSet_def plain_template_def zero_defs)

lemma sample_controlled_simps [simp]:
  "canary_state sample_lib (sample_controlled img) = ''''"
  "partitionVal (sample_controlled img) = Ret 0"
  "spec_Template (sts_Spec (sample_controlled img)) = plain_template img"
  by (simp_all add: sample_controlled_def sample_sts_def sample_lib_def key_defs gget_def
      zero_defs partitionVal_def partitionPtr_def plain_template_def)

lemma plain_template_simps [simp]:
  "pt_Rest (plain_template img) = img" "plain_template a = plain_template b \<longleftrightarrow> a = b"
  by (auto simp: plain_template_def dest: arg_cong [where f = pt_Rest])

text \<open>The two annotations the codec keeps.\<close>

lemma sample_annotations [simp]:
  "gmap (sts_Annotations (roll_obj st p img)) (AnnotationCanaryRollout (gname sample_lib)) = Some st"
  "gmap (sts_Annotations (on_delete st img)) (AnnotationCanaryRollout (gname sample_lib)) = Some st"
  "gmap (sts_Annotations (sample_controlled img)) (AnnotationCanaryRollout (gname sample_lib)) = None"
  "gmap (sts_Annotations (roll_obj st p img)) (AnnotationCanaryRolloutEnabled (gname sample_lib)) = Some ''true''"
  "gmap (sts_Annotations (on_delete st img)) (AnnotationCanaryRolloutEnabled (gname sample_lib)) = Some ''true''"
  "gmap (sts_Annotations (sample_controlled img)) (AnnotationCanaryRolloutEnabled (gname sample_lib)) = Some ''true''"
  by (simp_all add: on_delete_def roll_obj_def sample_controlled_def sample_lib_def key_defs)

lemma sample_law: "codec_law sample_lib table"
  by (rule table_codec_law) (simp_all add: sample_table_def plain_table_def)

lemma sample_laws: "operator_laws sample_lib table"
  unfolding operator_laws_def by (intro conjI sample_keeps sample_law)

lemma roll_obj_valid: "0 \<le> p \<Longrightarrow> int32_ok p \<Longrightarrow> api_valid (roll_obj st p img)"
  by (simp add: api_valid_def int32_ok_def) (simp add: roll_obj_def)

lemma roll_obj_at: "rollout_at sample_lib (roll_obj st p img) = (phase_of st, p)"
  by (simp add: rollout_at_def)

text \<open>The mutate function of the rollout controller, on such an object.\<close>

lemma rolloutMutate_roll_obj:
  "rolloutMutate sample_lib p' st' (roll_obj st p img) = Ret (roll_obj st' p' img)"
  by (simp add: rolloutMutate_def roll_obj_def sample_controlled_def sample_sts_def sample_lib_def
      key_defs zero_defs partitionPtr_def withPartition_def)

section \<open>Admissions\<close>

lemma table_dec [simp]:
  "dec_Sts table ''new'' = Inr (sample_controlled ''v1'')"
  "dec_Sts table ''initial'' = Inr (roll_obj ''CanaryUpscale'' 0 ''v1'')"
  "dec_Sts table ''canary'' = Inr (roll_obj ''Canary'' 1 ''v1'')"
  "dec_Sts table ''moved'' = Inr (roll_obj ''Rollout'' 0 ''v1'')"
  "dec_Sts table ''submitted'' = Inr (roll_obj ''Canary'' 1 ''v2'')"
  "dec_Sts table ''manual'' = Inr (on_delete ''CanaryUpscale'' ''v1'')"
  "dec_Sts table ''pending'' = Inr (roll_obj ''Pending'' 2 ''v2'')"
  "dec_Sts table ''stale'' = Inr (roll_obj ''Rollout'' 0 ''v2'')"
  by (simp_all add: table_codec_def sample_table_def)

lemma table_enc:
  assumes "gmap (sts_Annotations x) (AnnotationCanaryRollout (gname sample_lib)) = st"
    and "gmap (sts_Annotations x) (AnnotationCanaryRolloutEnabled (gname sample_lib)) = Some ''true''"
    and "partitionVal x = p" "pt_Rest (spec_Template (sts_Spec x)) = img"
  shows "enc_Sts table x = (case find (\<lambda>e.
      gmap (sts_Annotations (snd e)) (AnnotationCanaryRollout (gname sample_lib)) = st \<and>
      gmap (sts_Annotations (snd e)) (AnnotationCanaryRolloutEnabled (gname sample_lib)) = Some ''true'' \<and>
      partitionVal (snd e) = p \<and> pt_Rest (spec_Template (sts_Spec (snd e))) = img) sample_table of
    None \<Rightarrow> Inl (Errorf ''not in the table'') | Some e \<Rightarrow> Inr (fst e))"
proof -
  have "same_view sample_lib x = (\<lambda>y.
      gmap (sts_Annotations y) (AnnotationCanaryRollout (gname sample_lib)) = st \<and>
      gmap (sts_Annotations y) (AnnotationCanaryRolloutEnabled (gname sample_lib)) = Some ''true'' \<and>
      partitionVal y = p \<and> pt_Rest (spec_Template (sts_Spec y)) = img)"
    using assms by (auto simp: same_view_def fun_eq_iff)
  then show ?thesis by (simp add: table_codec_def)
qed

lemma table_enc_simps [simp]:
  "enc_Sts table (sample_controlled ''v1'') = Inr ''new''"
  "enc_Sts table (roll_obj ''CanaryUpscale'' 0 ''v1'') = Inr ''initial''"
  "enc_Sts table (roll_obj ''Canary'' 1 ''v1'') = Inr ''canary''"
  "enc_Sts table (roll_obj ''Rollout'' 0 ''v1'') = Inr ''moved''"
  "enc_Sts table (roll_obj ''Canary'' 1 ''v2'') = Inr ''submitted''"
  "enc_Sts table (on_delete ''CanaryUpscale'' ''v1'') = Inr ''manual''"
  "enc_Sts table (roll_obj ''Pending'' 2 ''v2'') = Inr ''pending''"
  "enc_Sts table (roll_obj ''Rollout'' 0 ''v2'') = Inr ''stale''"
  by (subst table_enc [OF refl _ refl refl], simp, simp add: sample_table_def)+

lemma table_settled:
  "enc_Sts table x = Inr raw \<Longrightarrow> dec_Sts table raw = Inr x \<Longrightarrow> settled table (spec_Template (sts_Spec x))"
  by (rule settled.intros)

lemmas sample_settled [simp] =
  table_settled [OF table_enc_simps(2) table_dec(2), simplified]
  table_settled [OF table_enc_simps(7) table_dec(7), simplified]

text \<open>The creation of a StatefulSet, the change of its template, and writes that change neither.\<close>

lemma admit_initial:
  "admits sample_lib table Create None (sample_controlled ''v1'') (roll_obj ''CanaryUpscale'' 0 ''v1'')"
proof -
  obtain y where y: "startRollout sample_lib rolloutStateCanaryUpscale 0 0 (sample_controlled ''v1'') = Ret y"
    using startRollout_total controlled_nonnil [OF sample_controlled] by blast
  have "enc_Sts table y = Inr ''initial''"
    by (subst table_enc [OF startRollout_keys(1) [OF y] _ startRollout_Ret(2) [OF y] refl])
       (simp add: startRollout_keys(2) [OF y], simp add: sample_table_def startRollout_Ret(5) [OF y] rollout_states)
  with y have "rolloutHandle sample_lib table 0 (sample_request Create ''new'' '''') =
      Ret (PatchResponseFromRaw ''new'' ''initial'')"
    by (simp add: rolloutHandle_def sample_request_def patch_response_def
        ConfigureStatefulSetForInitialRollout_def)
  then show ?thesis
    by (rule admits.intros [rotated 3]) (simp_all add: sample_request_def roll_obj_valid int32_ok_def)
qed

lemma admit_restart:
  "admits sample_lib table Update (Some (roll_obj ''Canary'' 1 ''v1'')) (roll_obj ''Canary'' 1 ''v2'')
     (roll_obj ''Pending'' 2 ''v2'')"
proof -
  obtain y where y: "startRollout sample_lib rolloutStatePending 2 0 (roll_obj ''Canary'' 1 ''v2'') = Ret y"
    using startRollout_total [of "roll_obj ''Canary'' 1 ''v2''"] controlled_nonnil
    by (metis roll_obj_simps(6))
  have "enc_Sts table y = Inr ''pending''"
    by (subst table_enc [OF startRollout_keys(1) [OF y] _ startRollout_Ret(2) [OF y] refl])
       (simp add: startRollout_keys(2) [OF y], simp add: sample_table_def startRollout_Ret(5) [OF y] rollout_states)
  moreover have "util_MinInt32 sample_lib 2 (st_Replicas (sts_Status (roll_obj ''Canary'' 1 ''v2''))) = 2"
    by (simp add: sample_lib_def roll_obj_def sample_controlled_def sample_sts_def)
  ultimately have "rolloutHandle sample_lib table 0 (sample_request Update ''submitted'' ''canary'') =
      Ret (PatchResponseFromRaw ''submitted'' ''pending'')"
    using y by (simp add: rolloutHandle_def sample_request_def patch_response_def Let_def
        ConfigureStatefulSetForRollout_def)
  then show ?thesis
    by (rule admits.intros [rotated 3]) (simp_all add: sample_request_def roll_obj_valid int32_ok_def)
qed

lemma admit_unchanged:
  assumes "dec_Sts table raw = Inr z" "dec_Sts table raw0 = Inr y" "enc_Sts table z = Inr raw" "api_valid z"
    and "spec_Template (sts_Spec z) = spec_Template (sts_Spec y)" "settled table (spec_Template (sts_Spec y))"
  shows "admits sample_lib table Update (Some y) z z"
proof -
  have "rolloutHandle sample_lib table 0 (sample_request Update raw raw0) =
      Ret (PatchResponseFromRaw raw raw)"
    using assms by (simp add: sample_request_def rolloutHandle_def patch_response_def Let_def)
  then show ?thesis
    by (rule admits.intros [rotated 3]) (simp_all add: assms sample_request_def)
qed

section \<open>A Reconcile\<close>

text \<open>The first event of a Reconcile is the read of the StatefulSet.\<close>

lemma reconcile_hd:
  assumes "meltdown_keeps_state L" "run_state (w_GetSts W req) s = (Inr x, s')"
  shows "hd (trace_of (rolloutReconcile L cfg (recording W) req) s) = GotSts req (Inr x)"
proof -
  have "emits (do {
      now \<leftarrow> w_Now (recording W);
      if meltdown_AnnotationWindow_Contains L (MeltdownDuration cfg) (sts_Annotations x) now
      then gret (requeue_after (MeltdownRequeueAfter cfg), None)
      else rolloutAdvance L (recording W) x }) (\<lambda>a ev. True)"
    unfolding recording_simps by (intro emits_rules emits_mono [OF rolloutAdvance_emits [OF assms(1)]]) auto
  then obtain a s'' ev where "run_state (do {
      now \<leftarrow> w_Now (recording W);
      if meltdown_AnnotationWindow_Contains L (MeltdownDuration cfg) (sts_Annotations x) now
      then gret (requeue_after (MeltdownRequeueAfter cfg), None)
      else rolloutAdvance L (recording W) x }) (s', [GotSts req (Inr x)]) =
      (a, (s'', [GotSts req (Inr x)] @ ev))"
    unfolding emits_def by blast
  then show ?thesis
    by (simp add: trace_of_def rolloutReconcile_def assms(2))
qed

text \<open>The world in which \<open>x\<close> is stored and its pods are ready; the Reconcile of a canary.\<close>

definition world_of :: "statefulset \<Rightarrow> mem" where
  "world_of x = sample_mem x [sample_pod 1 ''ready'', sample_pod 0 ''ready'']"

definition trace_on :: "statefulset \<Rightarrow> event list" where
  "trace_on x = trace_of (rolloutReconcile sample_lib sample_config (recording mem_world) sample_key) (world_of x)"

lemma trace_on_hd: "hd (trace_on x) = GotSts sample_key (Inr x)"
  unfolding trace_on_def
  by (rule reconcile_hd [OF sample_keeps]) (simp add: mem_world_def world_of_def sample_mem_def found_def)

lemma canary_writes:
  "\<exists>x' r. WroteSts x' (rolloutMutate sample_lib 0 ''Rollout'') r \<in> set (trace_on (roll_obj ''Canary'' 1 ''v1''))"
proof -
  let ?y = "roll_obj ''Canary'' 1 ''v1''"
  have "list_ex (is_sts_write (\<lambda>x f. go_sat
      (\<lambda>z. canary_state sample_lib z = rolloutStateRollout \<and> partitionVal z = Ret 0) (f ?y))) (trace_on ?y)"
    by code_simp
  then obtain x' f r z where z: "WroteSts x' f r \<in> set (trace_on ?y)" "f ?y = Ret z"
    "canary_state sample_lib z = rolloutStateRollout" "partitionVal z = Ret 0"
    by (elim list_ex_sts_write go_satE) blast
  show ?thesis
  proof (rule rollout_trace_cases [OF sample_keeps trace_on_def])
    assume "writes (trace_on ?y) = []"
    with z(1) show ?thesis by (auto simp: writes_def filter_empty_conv)
  next
    fix x p p' st
    assume "wrote sample_lib x p' st (writes (trace_on ?y))"
    then have f: "f = rolloutMutate sample_lib p' st" using wrote_mem z(1) by blast
    with rolloutMutate_Ret(1,2) [of sample_lib p' st ?y z] z(2-4) have "p' = 0" "st = ''Rollout''"
      by (simp_all add: rollout_states)
    with f z(1) show ?thesis by blast
  qed
qed

text \<open>The steps: the write as it should be, and the write after the template has changed.\<close>

lemma sample_write:
  assumes "cl_Read c sample_key = Some (roll_obj ''Canary'' 1 ''v1'')"
    and "cl_Sts c sample_key = Some (roll_obj st p img)"
    and "dec_Sts table raw = Inr (roll_obj ''Rollout'' 0 img)" "dec_Sts table raw0 = Inr (roll_obj st p img)"
    and "enc_Sts table (roll_obj ''Rollout'' 0 img) = Inr raw" "settled table (plain_template img)"
  shows "\<exists>x' f r. WroteSts x' f r \<in> set (trace_on (roll_obj ''Canary'' 1 ''v1'')) \<and>
      f (roll_obj st p img) = Ret (roll_obj ''Rollout'' 0 img)"
    and "admits sample_lib table Update (Some (roll_obj st p img)) (roll_obj ''Rollout'' 0 img)
      (roll_obj ''Rollout'' 0 img)"
    and "cluster_step sample_lib sample_config table mem_world c (Write sample_key)
    (unread sample_key (store sample_key (roll_obj ''Rollout'' 0 img) c))"
proof -
  obtain x' r where w: "WroteSts x' (rolloutMutate sample_lib 0 ''Rollout'') r
      \<in> set (trace_on (roll_obj ''Canary'' 1 ''v1''))"
    using canary_writes by blast
  then show "\<exists>x' f r. WroteSts x' f r \<in> set (trace_on (roll_obj ''Canary'' 1 ''v1'')) \<and>
      f (roll_obj st p img) = Ret (roll_obj ''Rollout'' 0 img)"
    using rolloutMutate_roll_obj by blast
  show adm: "admits sample_lib table Update (Some (roll_obj st p img)) (roll_obj ''Rollout'' 0 img)
      (roll_obj ''Rollout'' 0 img)"
    by (rule admit_unchanged [OF assms(3-5)]) (simp_all add: assms(6) roll_obj_valid int32_ok_def)
  show "cluster_step sample_lib sample_config table mem_world c (Write sample_key)
      (unread sample_key (store sample_key (roll_obj ''Rollout'' 0 img) c))"
    by (rule cluster_step.write_back [OF assms(1) trace_on_def trace_on_hd w assms(2) rolloutMutate_roll_obj adm])
qed

lemmas sample_writes =
  sample_write [where st = "''Canary''" and p = 1 and img = "''v1''",
    OF _ _ table_dec(4,3) table_enc_simps(4) sample_settled(1)]
  sample_write [where st = "''Pending''" and p = 2 and img = "''v2''",
    OF _ _ table_dec(8,7) table_enc_simps(8) sample_settled(2)]

lemma sample_read:
  "cl_Sts c k = Some x \<Longrightarrow> cl_Read c k = None \<Longrightarrow> cluster_step L cfg C W c (Read k) (reading k x c)"
  by (rule cluster_step.begin_reconcile)

lemma sample_create:
  "cluster_step sample_lib sample_config table mem_world empty_cluster (Submit sample_key (sample_controlled ''v1''))
     (store sample_key (roll_obj ''CanaryUpscale'' 0 ''v1'') empty_cluster)"
  by (rule cluster_step.submit) (simp add: empty_cluster_def request_op_def admit_initial)

lemma sample_change:
  assumes "cl_Sts c sample_key = Some (roll_obj ''Canary'' 1 ''v1'')"
  shows "cluster_step sample_lib sample_config table mem_world c (Submit sample_key (roll_obj ''Canary'' 1 ''v2''))
     (store sample_key (roll_obj ''Pending'' 2 ''v2'') c)"
  by (rule cluster_step.submit) (simp add: assms request_op_def admit_restart)

text \<open>A user sets the update strategy to \<open>OnDelete\<close>.\<close>

lemma sample_manual:
  assumes "cl_Sts c sample_key = Some (roll_obj ''CanaryUpscale'' 0 ''v1'')"
  shows "cluster_step sample_lib sample_config table mem_world c
    (Submit sample_key (on_delete ''CanaryUpscale'' ''v1'')) (store sample_key (on_delete ''CanaryUpscale'' ''v1'') c)"
  by (rule cluster_step.submit)
     (simp add: assms request_op_def admit_unchanged [OF table_dec(6,2) table_enc_simps(6)])

end
