(* ===== verification/Rollout_Typing.thy ===== *)
theory Rollout_Typing
  imports Rollout_Properties
begin

text \<open>
  Where the rollout controller may panic. It dereferences the replicas and the partition of the
  StatefulSet it reads and stores into its annotations; on a StatefulSet that has them it
  panics only if the mutate function panics, which happens on a stored object without
  annotations or rolling update.
\<close>

definition well_typed :: "statefulset \<Rightarrow> bool" where
  "well_typed x \<longleftrightarrow> partitionVal x \<noteq> Panic \<and> spec_Replicas (sts_Spec x) \<noteq> None"

text \<open>The API server returns what it has stored, which has a partition as the mutate function set it.\<close>

definition update_law :: "'s world \<Rightarrow> bool" where
  "update_law W \<longleftrightarrow> (\<forall>x f s y. fst (run_state (w_CreateOrUpdate W x f) s) = Ret (None, y) \<longrightarrow>
     (\<exists>y0 y1. f y0 = Ret y1 \<and> partitionVal y = partitionVal y1))"

fun panicked_write :: "event \<Rightarrow> bool" where
  "panicked_write (WroteSts x f r) = (case r of Panic \<Rightarrow> True | Ret a \<Rightarrow> False)"
| "panicked_write _ = False"

definition excused :: "'a go \<Rightarrow> event list \<Rightarrow> bool" where
  "excused r ev \<longleftrightarrow> (r = Panic \<longrightarrow> list_ex panicked_write ev)"

lemma excused_Ret [simp]: "excused (Ret a) ev"
  by (simp add: excused_def)

lemma excused_Panic: "excused Panic ev \<longleftrightarrow> list_ex panicked_write ev"
  by (simp add: excused_def)

lemma excused_append: "excused r ev' \<Longrightarrow> excused r (ev @ ev')"
  by (auto simp: excused_def)

lemma excused_Cons: "excused r ev' \<Longrightarrow> excused r (e # ev')"
  by (auto simp: excused_def)

section \<open>The helpers\<close>

lemma getPodWithIndex_ready:
  "emits (getPodWithIndex L (recording W) x k) (\<lambda>r ev. \<forall>p. r = Inr (p, True) \<longrightarrow> p \<noteq> None)"
  unfolding getPodWithIndex_def recording_simps
  by (intro emits_rules) (auto split: sum.splits if_splits)

lemma podIsReady_typed:
  assumes "partitionVal x \<noteq> Panic"
  shows "emits (partitionPodIsReadyAndUpdated L (recording W) x) (\<lambda>r ev. excused r ev)"
  unfolding partitionPodIsReadyAndUpdated_def
  by (intro emits_rules emits_mono [OF getPodWithIndex_ready]) (use assms in \<open>auto simp: deref_def split: option.splits\<close>)

lemma getTimeOut_typed:
  "emits (getTimeOut L (recording W) x k) (\<lambda>d ev. d < 0 \<longrightarrow> sts_Annotations x \<noteq> None)"
  unfolding getTimeOut_def Let_def recording_simps
  by (intro emits_rules) (auto dest: ghas_nonnil)

lemma updateStatefulSet_typed:
  assumes "update_law W" "partitionVal x \<noteq> Panic"
  shows "emits (updateStatefulSet L (recording W) x)
    (\<lambda>r ev. excused r ev \<and> (\<forall>y. r = Ret (None, y) \<longrightarrow> partitionVal y \<noteq> Panic))"
proof -
  have call: "emits (w_CreateOrUpdate (recording W) x' (rolloutMutate L p st))
      (\<lambda>r ev. excused r ev \<and> (\<forall>y. r = Ret (None, y) \<longrightarrow> partitionVal y = Ret p))" for x' p st
    unfolding recording_simps
  proof (rule emits_logged_law [where K = "\<lambda>r. \<forall>y. r = Ret (None, y) \<longrightarrow> partitionVal y = Ret p"])
    show "\<forall>y. fst (run_state (w_CreateOrUpdate W x' (rolloutMutate L p st)) s) = Ret (None, y) \<longrightarrow>
        partitionVal y = Ret p" for s
      using assms(1) rolloutMutate_Ret(1) unfolding update_law_def by metis
  qed (auto simp: excused_def)
  show ?thesis
    unfolding updateStatefulSet_def Let_def recording_simps(12)
    by (intro emits_rules emits_mono [OF call]) (use assms(2) in \<open>auto simp: excused_def\<close>)
qed

lemma CleanupNonReadyPod_typed: "emits (CleanupNonReadyPod L (recording W) x k) (\<lambda>e ev. True)"
  by (rule emits_mono [OF CleanupNonReadyPod_emits]) simp

lemma updateWithPartitionMove_typed:
  assumes "update_law W" "partitionVal x \<noteq> Panic"
  shows "emits (updateWithPartitionMove L (recording W) x old) excused"
  unfolding updateWithPartitionMove_def
  by (intro emits_rules emits_mono [OF updateStatefulSet_typed [OF assms]]
        emits_mono [OF CleanupNonReadyPod_typed])
     (auto simp: excused_def)

lemma failIfTimedOut_typed:
  assumes "update_law W" "partitionVal x \<noteq> Panic"
  shows "emits (failIfTimedOut L (recording W) x k) excused"
proof -
  have upd: "emits (updateStatefulSet L (recording W) (x\<lparr>sts_Annotations := m\<rparr>))
    (\<lambda>r ev. excused r ev \<and> (\<forall>y. r = Ret (None, y) \<longrightarrow> partitionVal y \<noteq> Panic))" for m
    by (rule updateStatefulSet_typed) (simp_all add: assms)
  show ?thesis
    unfolding failIfTimedOut_def
    by (intro emits_rules emits_mono [OF getTimeOut_typed] emits_mono [OF upd])
       (auto simp: excused_def)
qed

section \<open>Reconcile\<close>

text \<open>The \<open>switch\<close> leaves a StatefulSet that is written back with a partition and annotations.\<close>

definition switch_typed :: "statefulset \<Rightarrow> string \<Rightarrow> switch_out go \<Rightarrow> event list \<Rightarrow> bool" where
  "switch_typed x status q ev \<longleftrightarrow> excused q ev \<and>
     (\<forall>x1 ns d res. q = Ret (SwitchOk x1 ns d res) \<longrightarrow>
        partitionVal x1 \<noteq> Panic \<and> sts_Annotations x1 = sts_Annotations x \<and>
        (status = '''' \<longrightarrow> ns = status))"

lemma partitionVal_with_typed: "partitionVal x \<noteq> Panic \<Longrightarrow> partitionVal (withPartition p x) \<noteq> Panic"
  by (cases "partitionVal x") (auto simp: partitionVal_with)

lemmas typed_simps = switch_typed_def partitionVal_with_typed deref_def

lemma caseRollout_typed:
  assumes "well_typed x" "status \<noteq> ''''"
  shows "emits (caseRollout L (recording W) x status res) (switch_typed x status)"
  unfolding caseRollout_def Let_def
  by (intro emits_rules emits_mono [OF podIsReady_typed])
     (use assms in \<open>auto simp: typed_simps well_typed_def excused_def\<close>)

lemma caseCanary_typed:
  assumes "well_typed x"
  shows "emits (caseCanary L (recording W) x rolloutStateCanary res) (switch_typed x rolloutStateCanary)"
proof -
  have "emits (caseRollout L (recording W) x rolloutStateCanary res)
      (\<lambda>b ev'. switch_typed x rolloutStateCanary b (ev @ ev'))" for ev
    by (rule emits_mono [OF caseRollout_typed])
       (auto simp: assms rollout_states switch_typed_def intro: excused_append)
  then show ?thesis
    unfolding caseCanary_def
    by (intro emits_rules emits_mono [OF getTimeOut_typed])
       (use assms in \<open>auto simp: typed_simps well_typed_def rollout_states\<close>)
qed

lemma rolloutSwitch_typed:
  assumes "well_typed x"
  shows "emits (rolloutSwitch L (recording W) x status res) (switch_typed x status)"
  unfolding rolloutSwitch_def caseCanaryUpscale_def casePending_def Let_def
  by (intro emits_rules emits_mono [OF getTimeOut_typed])
     (use assms in \<open>auto simp: typed_simps well_typed_def rollout_states
        intro: caseRollout_typed caseCanary_typed [unfolded rollout_states] split: option.splits\<close>)

lemma rolloutFinish_typed:
  assumes "update_law W" "partitionVal x \<noteq> Panic" "ns \<noteq> canary_state L x \<Longrightarrow> sts_Annotations x \<noteq> None"
  shows "emits (rolloutFinish L (recording W) x ns dirty old res) excused"
proof -
  have upd: "emits (updateWithPartitionMove L (recording W) (x\<lparr>sts_Annotations := m\<rparr>) old) excused" for m
    by (rule updateWithPartitionMove_typed) (simp_all add: assms)
  show ?thesis
    unfolding rolloutFinish_def Let_def
    by (intro emits_rules emits_mono [OF upd]) (use assms(3) in \<open>auto simp: excused_def split: if_splits\<close>)
qed

lemma rolloutReconcile_typed:
  assumes "update_law W" "meltdown_keeps_state L"
  shows "emits (rolloutReconcile L cfg (recording W) req)
    (\<lambda>r ev. \<forall>x. hd ev = GotSts req (Inr x) \<longrightarrow> well_typed x \<longrightarrow> excused r ev)"
proof -
  have advance: "emits (rolloutAdvance L (recording W) x) excused" if x: "well_typed x" for x
  proof -
    have fin: "emits (rolloutFinish L (recording W) x1 ns d old res) excused"
      if "switch_typed x (canary_state L x) (Ret (SwitchOk x1 ns d res')) ev'" for x1 ns d old res res' ev'
    proof (rule rolloutFinish_typed [OF assms(1)])
      show "ns \<noteq> canary_state L x1 \<Longrightarrow> sts_Annotations x1 \<noteq> None"
        using that by (cases "sts_Annotations x") (auto simp: switch_typed_def gget_def)
    qed (use that in \<open>auto simp: switch_typed_def\<close>)
    have panic: "list_ex panicked_write ev" if "switch_typed x st Panic ev" for st ev
      using that by (simp add: switch_typed_def excused_Panic)
    have ptr: "partitionPtr x \<noteq> Panic" "partitionVal x \<noteq> Panic"
      using x by (auto simp: well_typed_def partitionVal_def)
    show ?thesis
      unfolding rolloutAdvance_def Let_def
      by (intro emits_rules emits_mono [OF failIfTimedOut_typed [OF assms(1) ptr(2)]]
            emits_mono [OF getTimeOut_typed] emits_mono [OF rolloutSwitch_typed [OF x]])
         (use ptr in \<open>auto simp: excused_Panic intro!: emits_mono [OF fin] excused_append dest: panic\<close>)
  qed
  have adv: "emits (rolloutAdvance L (recording W) x) (\<lambda>r ev. well_typed x \<longrightarrow> excused r ev)" for x
    by (cases "well_typed x")
       (auto intro: emits_mono [OF advance] emits_mono [OF rolloutAdvance_emits [OF assms(2)]])
  show ?thesis
    unfolding rolloutReconcile_def recording_simps(1,12)
    by (intro emits_rules emits_mono [OF adv]) (auto intro: excused_Cons)
qed

text \<open>
  Without a rolling update (strategy \<open>OnDelete\<close>, or \<open>RollingUpdate\<close> without its parameters) the
  controller reads the clock, and then panics, unless a meltdown or a final state ends the
  Reconcile before it looks at the partition.
\<close>

lemma rolloutReconcile_no_update:
  assumes "meltdown_keeps_state L"
  shows "emits (rolloutReconcile L cfg (recording W) req)
    (\<lambda>r ev. \<forall>x. hd ev = GotSts req (Inr x) \<longrightarrow> us_RollingUpdate (spec_UpdateStrategy (sts_Spec x)) = None \<longrightarrow>
       (\<exists>t. ev = [GotSts req (Inr x), Clock t] \<and>
          (r = Panic \<longleftrightarrow> \<not> meltdown_AnnotationWindow_Contains L (MeltdownDuration cfg) (sts_Annotations x) t \<and>
             canary_state L x \<noteq> rolloutStateFailed \<and> canary_state L x \<noteq> rolloutStateDone)))"
proof -
  have adv: "emits (rolloutAdvance L (recording W) x)
      (\<lambda>r ev. us_RollingUpdate (spec_UpdateStrategy (sts_Spec x)) = None \<longrightarrow> ev = [] \<and>
        (r = Panic \<longleftrightarrow> canary_state L x \<noteq> rolloutStateFailed \<and> canary_state L x \<noteq> rolloutStateDone))" for x
  proof (cases "us_RollingUpdate (spec_UpdateStrategy (sts_Spec x))")
    case None
    then show ?thesis
      unfolding rolloutAdvance_def Let_def by (intro emits_rules) (auto simp: partitionPtr_def)
  next
    case (Some ru)
    then show ?thesis by (intro emits_mono [OF rolloutAdvance_emits [OF assms]]) simp
  qed
  show ?thesis
    unfolding rolloutReconcile_def recording_simps(1,12)
    by (intro emits_rules emits_mono [OF adv]) auto
qed

text \<open>
  On a well-typed StatefulSet the controller panics only in the mutate function, and the
  mutate function panics only on an object without annotations or without a rolling update.
\<close>

lemma rollout_panics:
  assumes "update_law W" "meltdown_keeps_state L"
    and "hd (trace_of (rolloutReconcile L cfg (recording W) req) s) = GotSts req (Inr x)" "well_typed x"
    and "result_of (rolloutReconcile L cfg (recording W) req) s = Panic"
  shows "\<exists>x' f. WroteSts x' f Panic \<in> set (trace_of (rolloutReconcile L cfg (recording W) req) s)"
proof -
  have "list_ex panicked_write (trace_of (rolloutReconcile L cfg (recording W) req) s)"
    using emits_trace [OF rolloutReconcile_typed [OF assms(1,2), of cfg req], of s] assms(3-5)
    by (simp add: excused_Panic)
  then obtain e where e: "e \<in> set (trace_of (rolloutReconcile L cfg (recording W) req) s)" "panicked_write e"
    by (auto simp: list_ex_iff)
  from e(2) obtain x' f where "e = WroteSts x' f Panic"
    by (cases e) (auto split: go.splits)
  with e(1) show ?thesis by blast
qed

end
