(* ===== verification/Cluster_Properties.thy ===== *)
theory Cluster_Properties
  imports Sample_Cluster Rollout_Typing
begin

text \<open>
  What the controllers do together, under any interleaving: every step of the cluster is a step
  of the shared machine; a rollout left alone comes to an end; where the rollout controller
  panics; and what a write does to an object that has changed since it was read.
\<close>

section \<open>Frames of the steps\<close>

lemma shared_at_store [simp]:
  "shared_at L k' (store k x c) =
     (if k' = k then sh_store (rollout_at L x) (shared_at L k c) else shared_at L k' c)"
  by (simp add: shared_at_def store_def sh_store_def)

lemma shared_at_reading [simp]:
  "shared_at L k' (reading k x c) =
     (if k' = k then (shared_at L k c)\<lparr>sh_Read := Some (rollout_at L x)\<rparr> else shared_at L k' c)"
  by (simp add: shared_at_def reading_def)

lemma shared_at_unread [simp]:
  "shared_at L k' (unread k c) =
     (if k' = k then (shared_at L k c)\<lparr>sh_Read := None\<rparr> else shared_at L k' c)"
  by (simp add: shared_at_def unread_def)

lemma shared_at_forget [simp]:
  "shared_at L k' (forget k c) =
     (if k' = k then (shared_at L k c)\<lparr>sh_Stored := None\<rparr> else shared_at L k' c)"
  by (simp add: shared_at_def forget_def)

lemma shared_at_simps [simp]:
  "sh_Stored (shared_at L k c) = map_option (rollout_at L) (cl_Sts c k)"
  "sh_Past (shared_at L k c) = map (rollout_at L) (cl_Past c k)"
  "sh_Read (shared_at L k c) = map_option (rollout_at L) (cl_Read c k)"
  by (simp_all add: shared_at_def)

lemma rollout_at_eq: "canary_state L y = st \<Longrightarrow> partitionVal y = Ret p \<Longrightarrow> rollout_at L y = (phase_of st, p)"
  by (simp add: rollout_at_def)

lemma rollout_at_status [simp]: "rollout_at L (x\<lparr>sts_Status := st\<rparr>) = rollout_at L x"
  by (simp add: rollout_at_def partitionVal_def partitionPtr_def)

lemma mutate_template:
  "rolloutMutate L p st y = Ret z \<Longrightarrow> spec_Template (sts_Spec z) = spec_Template (sts_Spec y)"
  by (auto simp: rolloutMutate_def withPartition_def split: go.splits)

section \<open>One step\<close>

text \<open>What is admitted is a rollout some client has authored, or one the mutator begins.\<close>

lemma admitted_step:
  assumes "admits L C (request_op (cl_Sts c k)) (cl_Sts c k) w y" "codec_law L C"
  shows "shared_step (shared_at L k c) (Author (rollout_at L w)) (sh_store (rollout_at L y) (shared_at L k c))"
proof -
  obtain raw x where "enc_Sts C w = Inr raw" "dec_Sts C raw = Inr x"
    using admits_decodes [OF assms(1)] by blast
  from assms refl this show ?thesis
  proof (cases rule: admits_cases)
    case kept
    have "canary_state L y = canary_state L w" using kept(1) by (simp add: gget_def)
    with kept(2) show ?thesis
      by (intro shared_step.author) (auto simp: rollout_at_def split: go.splits)
  next
    case initial
    then show ?thesis by (simp add: rollout_at_eq shared_step.initial)
  next
    case (restart o' p)
    with api_valid_partition [OF admits_valid [OF assms(1)] restart(5)] show ?thesis
      by (simp add: rollout_at_eq shared_step.restart)
  qed
qed

text \<open>
  A write of the rollout controller: a step from what was read, with its evidence, put on the
  template that is stored.
\<close>

lemma write_back_step:
  assumes "operator_laws L C"
    and "tr = trace_of (rolloutReconcile L cfg (recording W) k) s" "hd tr = GotSts k (Inr x)"
    and "WroteSts x' f r \<in> set tr" "f y = Ret z" "admits L C Update (Some y) z z'"
  shows "rollout_step (rollout_at L x) (rollout_at L z')"
    and "justified L x tr (fst (rollout_at L x)) (fst (rollout_at L z'))"
    and "spec_Template (sts_Spec z') = spec_Template (sts_Spec y)"
    and "partitionVal x \<noteq> Panic" "partitionVal z' \<noteq> Panic"
proof -
  from assms(1) have laws: "meltdown_keeps_state L" "codec_law L C" by (simp_all add: operator_laws_def)
  obtain raw w where w: "enc_Sts C z = Inr raw" "dec_Sts C raw = Inr w"
    using admits_decodes [OF assms(6)] by blast
  have "rollout_step (rollout_at L x) (rollout_at L z') \<and>
    justified L x tr (fst (rollout_at L x)) (fst (rollout_at L z')) \<and>
    spec_Template (sts_Spec z') = spec_Template (sts_Spec y) \<and>
    partitionVal x \<noteq> Panic \<and> partitionVal z' \<noteq> Panic"
    using laws(1) assms(2)
  proof (rule rollout_trace_cases)
    assume "writes tr = []"
    with assms(4) show ?thesis by (auto simp: writes_def filter_empty_conv)
  next
    fix x0 p p' st
    assume x0: "hd tr = GotSts k (Inr x0)" "partitionVal x0 = Ret p" "wrote L x0 p' st (writes tr)"
      and step: "rollout_step (phase_of (canary_state L x0), p) (phase_of st, p')"
      and j: "justified L x0 tr (phase_of (canary_state L x0)) (phase_of st)"
    have x: "x0 = x" using x0(1) assms(3) by simp
    have z: "rolloutMutate L p' st y = Ret z" using wrote_mem [OF x0(3) assms(4)] assms(5) by simp
    have tz: "spec_Template (sts_Spec w) = spec_Template (sts_Spec y)"
      using codec_lawD(4) [OF laws(2) w] admits_settled [OF assms(6)] mutate_template [OF z] by simp
    have "Update = request_op (Some y)" by (simp add: request_op_def)
    with assms(6) laws(2) have "canary_state L z' = st \<and> partitionVal z' = Ret p' \<and>
        spec_Template (sts_Spec z') = spec_Template (sts_Spec y)"
      by (cases rule: admits_cases [OF _ _ _ w])
         (use rolloutMutate_Ret(1,2) [OF z] tz in \<open>auto simp: gget_def\<close>)
    with step j x x0(2) show ?thesis by (simp add: rollout_at_eq)
  qed
  then show "rollout_step (rollout_at L x) (rollout_at L z')"
    "justified L x tr (fst (rollout_at L x)) (fst (rollout_at L z'))"
    "spec_Template (sts_Spec z') = spec_Template (sts_Spec y)"
    "partitionVal x \<noteq> Panic" "partitionVal z' \<noteq> Panic"
    by simp_all
qed

lemma cluster_shared_step:
  assumes "cluster_step L cfg C W c a c'" "operator_laws L C"
  shows "shared_step (shared_at L k c) (view L k a) (shared_at L k c')"
proof -
  from assms(2) have law: "codec_law L C" by (simp add: operator_laws_def)
  note idle = shared_step.idle [of "shared_at L k c"]
  from assms(1) show ?thesis
  proof (cases rule: cluster_step.cases)
    case (begin_reconcile k' x)
    then show ?thesis using idle by (auto simp: view_def intro: shared_step.take)
  next
    case (begin_old x k')
    then show ?thesis using idle by (auto simp: view_def intro: shared_step.take_old)
  next
    case (write_back k' x tr s x' f r y z z')
    from write_back_step(1) [OF assms(2) write_back(4-6,8,9)] write_back(1-3,7) idle
    show ?thesis by (auto simp: view_def intro: shared_step.put)
  next
    case (give_up k' x)
    then show ?thesis using idle by (auto simp: view_def intro: shared_step.leave)
  next
    case (generate x f r req s k' z z')
    with idle show ?thesis by (auto simp: view_def intro: admitted_step [OF _ law])
  next
    case (submit k' w y)
    with idle show ?thesis by (auto simp: view_def intro: admitted_step [OF _ law])
  next
    case (set_status k' x st)
    then show ?thesis using idle by (auto simp: view_def intro: shared_step.touch)
  next
    case (remove k' x)
    then show ?thesis using idle by (auto simp: view_def intro: shared_step.drop)
  qed
qed

section \<open>Runs\<close>

lemma run_invariant:
  assumes "cluster_run L cfg C W c as c'" "I c"
    and "\<And>c a c'. cluster_step L cfg C W c a c' \<Longrightarrow> I c \<Longrightarrow> I c'"
  shows "I c'"
  using assms(1,2) by (induction rule: cluster_run.induct) (use assms(3) in blast)+

text \<open>Whatever was ever stored, and so whatever a read may return, was validated.\<close>

definition past_valid :: "cluster \<Rightarrow> bool" where
  "past_valid c \<longleftrightarrow> (\<forall>k x. cl_Sts c k = Some x \<or> x \<in> set (cl_Past c k) \<longrightarrow> api_valid x)"

lemma past_valid_store [simp]: "past_valid c \<Longrightarrow> api_valid x \<Longrightarrow> past_valid (store k x c)"
  by (auto simp: past_valid_def store_def)

lemma past_valid_frame [simp]:
  "past_valid (reading k x c) = past_valid c" "past_valid (unread k c) = past_valid c"
  by (simp_all add: past_valid_def reading_def unread_def)

lemma step_keeps_valid:
  assumes "cluster_step L cfg C W c a c'" "past_valid c"
  shows "past_valid c'"
  using assms(1)
proof (cases rule: cluster_step.cases)
  case (set_status k x st)
  with assms(2) have "api_valid x" by (simp add: past_valid_def)
  then have "api_valid (x\<lparr>sts_Status := st\<rparr>)" by simp
  with set_status assms(2) show ?thesis by simp
next
  case (remove k x)
  with assms(2) show ?thesis by (auto simp: past_valid_def forget_def split: if_splits)
qed (auto simp: assms(2) dest: admits_valid)

lemma reachable_valid:
  assumes "reachable L cfg C W c" "x \<in> set (cl_Past c k)"
  shows "api_valid x"
proof -
  obtain as where "cluster_run L cfg C W empty_cluster as c"
    using assms(1) unfolding reachable_def by blast
  then have "past_valid c"
    by (rule run_invariant) (simp add: past_valid_def empty_cluster_def, rule step_keeps_valid)
  with assms(2) show ?thesis by (auto simp: past_valid_def)
qed

text \<open>
  A StatefulSet that only the rollout controller writes, with reads that are up to date: no
  user or other client and no reconciler of QuarksStatefulSets writes it, nobody deletes it, and
  no Reconcile reads it from a cache that is behind. Then the Reconcile in flight has read what
  is stored, so its write is a step of the rollout machine on the stored state.
\<close>

fun disturbs :: "nsname \<Rightarrow> action \<Rightarrow> bool" where
  "disturbs k (ReadOld k') \<longleftrightarrow> k' = k"
| "disturbs k (Generate k' x) \<longleftrightarrow> k' = k"
| "disturbs k (Submit k' x) \<longleftrightarrow> k' = k"
| "disturbs k (Remove k') \<longleftrightarrow> k' = k"
| "disturbs k _ \<longleftrightarrow> False"

definition undisturbed :: "nsname \<Rightarrow> action list \<Rightarrow> bool" where
  "undisturbed k as \<longleftrightarrow> \<not> list_ex (disturbs k) as"

definition coherent :: "lib \<Rightarrow> nsname \<Rightarrow> phase \<times> int \<Rightarrow> cluster \<Rightarrow> bool" where
  "coherent L k v c \<longleftrightarrow> map_option (rollout_at L) (cl_Sts c k) = Some v \<and>
     map_option (rollout_at L) (cl_Read c k) \<in> {None, Some v}"

lemma undisturbed_step:
  assumes "cluster_step L cfg C W c a c'" "operator_laws L C" "\<not> disturbs k a" "coherent L k v c"
  shows "\<exists>v'. coherent L k v' c' \<and> (if a = Write k then rollout_step v v' else v' = v)"
  using assms(1)
proof (cases rule: cluster_step.cases)
  case (write_back k' x tr s x' f r y z z')
  from write_back_step(1) [OF assms(2) write_back(4-6,8,9)] write_back(1-3,7) assms(4)
  show ?thesis
    by (auto simp: coherent_def unread_def store_def simp del: split_paired_Ex)
qed (use assms(3,4) in \<open>auto simp: coherent_def reading_def unread_def store_def forget_def simp del: split_paired_Ex\<close>)

lemma undisturbed_run:
  assumes "cluster_run L cfg C W c as c'" "operator_laws L C" "undisturbed k as" "coherent L k v c"
  shows "\<exists>v'. coherent L k v' c' \<and> (rollout_step ^^ count_list as (Write k)) v v'"
  using assms(1,3,4)
proof (induction arbitrary: v rule: cluster_run.induct)
  case (run_Nil c)
  then show ?case by (simp del: split_paired_Ex)
next
  case (run_Cons c a c' as c'')
  have "\<not> disturbs k a" "undisturbed k as" using run_Cons.prems(1) by (auto simp: undisturbed_def)
  with undisturbed_step [OF run_Cons.hyps(1) assms(2) _ run_Cons.prems(2)] run_Cons.IH
  obtain u v' where u: "if a = Write k then rollout_step v u else u = v"
    and v': "coherent L k v' c''" "(rollout_step ^^ count_list as (Write k)) u v'"
    by metis
  from u v'(2) have "(rollout_step ^^ count_list (a # as) (Write k)) v v'"
    by (cases "a = Write k") (auto intro: relpowp_Suc_I2 simp del: relpowp.simps)
  with v'(1) show ?case by blast
qed

lemma steps_monotone: "(rollout_step ^^ n) u v \<Longrightarrow> fst u \<le> fst v"
proof (induction n arbitrary: v)
  case (Suc n)
  then obtain w where "(rollout_step ^^ n) u w" "rollout_step w v" by auto
  with Suc.IH rollout_step_monotone [of "fst w" "snd w" "fst v" "snd v"] show ?case
    by (metis order_trans prod.collapse)
qed simp

section \<open>Properties\<close>

text \<open>
  C3: the controllers together. Whatever step the cluster takes, and whatever a user or another
  client hands in, the step is one of the shared machine: a Reconcile takes the rollout stored,
  or an older one from a cache that is behind; its write puts one step of the rollout machine
  from what it took, whatever is stored by then; a client, be it the QuarksStatefulSet
  reconciler or a user, stores the rollout its object carries, unless the mutator begins an
  initial rollout (nothing was stored) or restarts it from Pending (something was); a status
  update keeps the rollout. Steps on other StatefulSets do nothing.
\<close>

theorem cluster_refines:
  assumes "cluster_step L cfg C W c a c'" "operator_laws L C"
  shows "shared_step (shared_at L k c) (view L k a) (shared_at L k c')"
  using assms by (rule cluster_shared_step)

definition canary_cluster :: cluster where
  "canary_cluster = store sample_key (roll_obj ''Canary'' 1 ''v1'') empty_cluster"

lemmas sample_cluster_defs = canary_cluster_def reading_def store_def unread_def empty_cluster_def

lemma sample_phases:
  "phase_of ''Canary'' = Canary" "phase_of ''Rollout'' = Rollout" "phase_of ''Pending'' = Pending"
  by (simp_all add: phase_of_def rollout_states)

theorem cluster_refines_witness:
  "\<exists>c c'. cluster_step sample_lib sample_config table mem_world c (Write sample_key) c' \<and>
     sh_Stored (shared_at sample_lib sample_key c) = Some (Canary, 1) \<and>
     shared_step (shared_at sample_lib sample_key c) Put (shared_at sample_lib sample_key c') \<and>
     sh_Stored (shared_at sample_lib sample_key c') = Some (Rollout, 0)"
proof -
  let ?c = "reading sample_key (roll_obj ''Canary'' 1 ''v1'') canary_cluster"
  let ?c' = "unread sample_key (store sample_key (roll_obj ''Rollout'' 0 ''v1'') ?c)"
  have step: "cluster_step sample_lib sample_config table mem_world ?c (Write sample_key) ?c'"
    by (rule sample_writes(3)) (simp_all add: sample_cluster_defs)
  have "sh_Stored (shared_at sample_lib sample_key ?c) = Some (Canary, 1)"
    "sh_Stored (shared_at sample_lib sample_key ?c') = Some (Rollout, 0)"
    "view sample_lib sample_key (Write sample_key) = Put"
    by (simp_all add: sample_cluster_defs view_def roll_obj_at sample_phases)
  with cluster_refines [OF step sample_laws, of sample_key] step show ?thesis by metis
qed

text \<open>
  C8: where the rollout controller panics. A Reconcile reads some StatefulSet that was ever
  stored. If it has no rolling update, which the API server allows, the Reconcile panics at once
  unless the object is in a meltdown or its rollout is final. Otherwise the Reconcile panics
  only within its write, whose mutate function panics exactly on an object without annotations
  or without rolling update. The API server is assumed to answer a write with an object that
  has the partition written; what else it, the pods and the clock answer is arbitrary.
\<close>

theorem rollout_panics_where:
  assumes "reachable L cfg C W c" "operator_laws L C" "update_law W" "x \<in> set (cl_Past c k)"
    and "tr = trace_of (rolloutReconcile L cfg (recording W) k) s" "hd tr = GotSts k (Inr x)"
  shows "if us_RollingUpdate (spec_UpdateStrategy (sts_Spec x)) = None
    then \<exists>t. tr = [GotSts k (Inr x), Clock t] \<and>
      (result_of (rolloutReconcile L cfg (recording W) k) s = Panic \<longleftrightarrow>
         \<not> meltdown_AnnotationWindow_Contains L (MeltdownDuration cfg) (sts_Annotations x) t \<and>
         canary_state L x \<noteq> rolloutStateFailed \<and> canary_state L x \<noteq> rolloutStateDone)
    else result_of (rolloutReconcile L cfg (recording W) k) s = Panic \<longrightarrow>
      (\<exists>x' f. WroteSts x' f Panic \<in> set tr \<and>
         (\<forall>y. f y = Panic \<longleftrightarrow>
            sts_Annotations y = None \<or> us_RollingUpdate (spec_UpdateStrategy (sts_Spec y)) = None))"
proof -
  have keeps: "meltdown_keeps_state L" using assms(2) by (simp add: operator_laws_def)
  have panics: "\<exists>x' f. WroteSts x' f Panic \<in> set tr \<and> (\<forall>y. f y = Panic \<longleftrightarrow>
      sts_Annotations y = None \<or> us_RollingUpdate (spec_UpdateStrategy (sts_Spec y)) = None)"
    if p: "result_of (rolloutReconcile L cfg (recording W) k) s = Panic"
      and u: "us_RollingUpdate (spec_UpdateStrategy (sts_Spec x)) \<noteq> None"
  proof -
    have "well_typed x"
      using reachable_valid [OF assms(1,4)] u
      by (auto simp: well_typed_def api_valid_def partitionVal_def partitionPtr_def deref_def split: option.splits)
    then obtain x' f where w: "WroteSts x' f Panic \<in> set tr"
      using rollout_panics [OF assms(3) keeps, of cfg k s x] assms(6) p unfolding assms(5) by blast
    obtain p st where "f = rolloutMutate L p st"
      using keeps assms(5)
      by (rule rollout_trace_cases) (use w wrote_mem [OF _ w] in \<open>auto simp: writes_def filter_empty_conv\<close>)
    with w show ?thesis by (intro exI [of _ x'] exI [of _ f]) (simp add: rolloutMutate_defined)
  qed
  have "\<forall>x. hd tr = GotSts k (Inr x) \<longrightarrow> us_RollingUpdate (spec_UpdateStrategy (sts_Spec x)) = None \<longrightarrow>
      (\<exists>t. tr = [GotSts k (Inr x), Clock t] \<and>
        (result_of (rolloutReconcile L cfg (recording W) k) s = Panic \<longleftrightarrow>
         \<not> meltdown_AnnotationWindow_Contains L (MeltdownDuration cfg) (sts_Annotations x) t \<and>
         canary_state L x \<noteq> rolloutStateFailed \<and> canary_state L x \<noteq> rolloutStateDone))"
    unfolding assms(5) by (rule emits_trace [OF rolloutReconcile_no_update [OF keeps]])
  with assms(6) panics show ?thesis by auto
qed

lemma mem_update_law: "update_law mem_world"
  by (auto simp: update_law_def mem_world_def split: go.splits option.splits)

definition manual_cluster :: cluster where
  "manual_cluster = store sample_key (on_delete ''CanaryUpscale'' ''v1'')
     (store sample_key (roll_obj ''CanaryUpscale'' 0 ''v1'') empty_cluster)"

theorem rollout_panics_where_witness:
  "reachable sample_lib sample_config table mem_world manual_cluster \<and>
   cl_Sts manual_cluster sample_key = Some (on_delete ''CanaryUpscale'' ''v1'') \<and>
   result_of (rolloutReconcile sample_lib sample_config (recording mem_world) sample_key)
     (world_of (on_delete ''CanaryUpscale'' ''v1'')) = Panic"
proof -
  let ?x = "on_delete ''CanaryUpscale'' ''v1''"
  have "cluster_run sample_lib sample_config table mem_world empty_cluster
      [Submit sample_key (sample_controlled ''v1''), Submit sample_key ?x] manual_cluster"
    unfolding manual_cluster_def
    by (rule run_Cons [OF sample_create run_Cons [OF sample_manual run_Nil]]) (simp add: store_def)
  then have reach: "reachable sample_lib sample_config table mem_world manual_cluster"
    unfolding reachable_def by blast
  have stored: "cl_Sts manual_cluster sample_key = Some ?x" "?x \<in> set (cl_Past manual_cluster sample_key)"
    by (simp_all add: manual_cluster_def store_def)
  have no_meltdown: "\<not> meltdown_AnnotationWindow_Contains sample_lib d m t" for d m t
    by (simp add: sample_lib_def)
  have "hd (trace_on ?x) = GotSts sample_key (Inr ?x)" by (rule trace_on_hd)
  from rollout_panics_where [OF reach sample_laws mem_update_law stored(2) trace_on_def this]
  have "result_of (rolloutReconcile sample_lib sample_config (recording mem_world) sample_key) (world_of ?x) = Panic"
    using no_meltdown by (simp add: rollout_states)
  with reach stored(1) show ?thesis by blast
qed

text \<open>
  C7: a rollout left alone comes to an end. While no user or other client and no Reconcile of the
  QuarksStatefulSet writes the StatefulSet, it is not deleted, and no Reconcile reads it from a
  cache that is behind, however the Reconciles, the status updates and the work on other
  StatefulSets interleave, the rollout controller writes it at most as often as the rank of
  its rollout says, the phase never goes back, and with as many writes the rollout is final.
\<close>

theorem undisturbed_rollout_ends:
  assumes "cluster_run L cfg C W c as c'" "operator_laws L C" "undisturbed k as"
    and "cl_Sts c k = Some x" "cl_Read c k = None" "rollout_inv (rollout_at L x)"
  shows "\<exists>x'. cl_Sts c' k = Some x' \<and> fst (rollout_at L x) \<le> fst (rollout_at L x') \<and>
    count_list as (Write k) + rollout_rank (rollout_at L x') \<le> rollout_rank (rollout_at L x)"
proof -
  have "coherent L k (rollout_at L x) c" using assms(4,5) by (simp add: coherent_def)
  from undisturbed_run [OF assms(1-3) this] obtain v' where v':
    "coherent L k v' c'" "(rollout_step ^^ count_list as (Write k)) (rollout_at L x) v'"
    by blast
  from v'(1) obtain x' where "cl_Sts c' k = Some x'" "v' = rollout_at L x'"
    by (auto simp: coherent_def)
  with v'(2) steps_monotone rollout.run_bound [OF v'(2) assms(6)] show ?thesis by blast
qed

theorem undisturbed_rollout_ends_witness:
  "\<exists>c as c' x'. cluster_run sample_lib sample_config table mem_world c as c' \<and>
     undisturbed sample_key as \<and> cl_Sts c' sample_key = Some x' \<and>
     count_list as (Write sample_key) = 1 \<and> 1 + rollout_rank (rollout_at sample_lib x') \<le> 3"
proof -
  let ?x = "roll_obj ''Canary'' 1 ''v1''"
  let ?c = "reading sample_key ?x canary_cluster"
  let ?c' = "unread sample_key (store sample_key (roll_obj ''Rollout'' 0 ''v1'') ?c)"
  let ?as = "[Read sample_key, Write sample_key]"
  have "cluster_step sample_lib sample_config table mem_world canary_cluster (Read sample_key) ?c"
    by (rule sample_read) (simp_all add: sample_cluster_defs)
  moreover have "cluster_step sample_lib sample_config table mem_world ?c (Write sample_key) ?c'"
    by (rule sample_writes(3)) (simp_all add: sample_cluster_defs)
  ultimately have run: "cluster_run sample_lib sample_config table mem_world canary_cluster ?as ?c'"
    by (auto simp: cluster_run_simps)
  have u: "undisturbed sample_key ?as" by (simp add: undisturbed_def)
  have x: "rollout_at sample_lib ?x = (Canary, 1)" by (simp add: roll_obj_at sample_phases)
  have "rollout_inv (rollout_at sample_lib ?x)" by (simp add: x int32_ok_def)
  from undisturbed_rollout_ends [OF run sample_laws u _ _ this] x obtain x' where
    "cl_Sts ?c' sample_key = Some x'" "1 + rollout_rank (rollout_at sample_lib x') \<le> 3"
    by (auto simp: sample_cluster_defs)
  with run u show ?thesis
    by (intro exI [of _ canary_cluster] exI [of _ ?as] exI [of _ ?c'] exI [of _ x']) simp
qed

text \<open>
  C9: a template changed during a Reconcile loses its canary. Let a Reconcile have read x in
  state Canary or Rollout, and let its write meet whatever y is stored by then, say one with a
  new template that the mutator has just set to Pending. What is stored afterwards has the
  template of y and the state Rollout, Done or Failed: the new template is being rolled out, or
  given up, without having been through Pending and Canary. The partition is that of x or one
  lower, and if the rollout goes on, the ready pod this rests on ran the update revision of x,
  not one of the new template.
\<close>

theorem write_rests_on_read:
  assumes "operator_laws L C"
    and "tr = trace_of (rolloutReconcile L cfg (recording W) k) s" "hd tr = GotSts k (Inr x)"
    and "WroteSts x' f r \<in> set tr" "f y = Ret z" "admits L C Update (Some y) z z'"
    and "phase_of (canary_state L x) \<in> {Canary, Rollout}"
  shows "spec_Template (sts_Spec z') = spec_Template (sts_Spec y) \<and>
    phase_of (canary_state L z') \<in> {Rollout, Done, Failed} \<and>
    (\<exists>p p'. partitionVal x = Ret p \<and> partitionVal z' = Ret p' \<and> p' \<in> {p, dec32 p}) \<and>
    (phase_of (canary_state L z') \<noteq> Failed \<longrightarrow>
      (\<exists>p pod. partitionVal x = Ret p \<and> GotPod (podKey x p) (Inr pod) \<in> set tr \<and> podutil_IsPodReady L pod \<and>
         gget (pod_Labels pod) (appsv1_StatefulSetRevisionLabel L) = st_UpdateRevision (sts_Status x)))"
proof -
  note step = write_back_step [OF assms(1-6)]
  from step(4,5) obtain p p' where p: "partitionVal x = Ret p" "partitionVal z' = Ret p'"
    by (cases "partitionVal x"; cases "partitionVal z'") auto
  then have at: "rollout_at L x = (phase_of (canary_state L x), p)"
    "rollout_at L z' = (phase_of (canary_state L z'), p')" by (simp_all add: rollout_at_def)
  with step(1) have "rollout_step (phase_of (canary_state L x), p) (phase_of (canary_state L z'), p')" by simp
  with assms(7) have "phase_of (canary_state L z') \<in> {Rollout, Done, Failed} \<and> p' \<in> {p, dec32 p}"
    by (auto elim!: rollout_stepE)
  moreover from this step(2) at assms(7) p(1)
  have "phase_of (canary_state L z') \<noteq> Failed \<longrightarrow>
      (\<exists>pod. GotPod (podKey x p) (Inr pod) \<in> set tr \<and> podutil_IsPodReady L pod \<and>
         gget (pod_Labels pod) (appsv1_StatefulSetRevisionLabel L) = st_UpdateRevision (sts_Status x))"
    by (auto simp: justified_def ready_seen_def podIsUpdated_def)
  ultimately show ?thesis using step(3) p by auto
qed

theorem write_rests_on_read_witness:
  "\<exists>c c' z. cluster_run sample_lib sample_config table mem_world canary_cluster
       [Read sample_key, Submit sample_key (roll_obj ''Canary'' 1 ''v2'')] c \<and>
     cl_Sts c sample_key = Some (roll_obj ''Pending'' 2 ''v2'') \<and>
     cluster_step sample_lib sample_config table mem_world c (Write sample_key) c' \<and>
     cl_Sts c' sample_key = Some z \<and> spec_Template (sts_Spec z) = plain_template ''v2'' \<and>
     phase_of (canary_state sample_lib z) \<in> {Rollout, Done, Failed}"
proof -
  let ?x = "roll_obj ''Canary'' 1 ''v1''"
  let ?y = "roll_obj ''Pending'' 2 ''v2''"
  let ?z = "roll_obj ''Rollout'' 0 ''v2''"
  let ?c1 = "reading sample_key ?x canary_cluster"
  let ?c = "store sample_key ?y ?c1"
  let ?c' = "unread sample_key (store sample_key ?z ?c)"
  have "cluster_step sample_lib sample_config table mem_world canary_cluster (Read sample_key) ?c1"
    by (rule sample_read) (simp_all add: sample_cluster_defs)
  moreover have "cluster_step sample_lib sample_config table mem_world ?c1
      (Submit sample_key (roll_obj ''Canary'' 1 ''v2'')) ?c"
    by (rule sample_change) (simp add: sample_cluster_defs)
  ultimately have run: "cluster_run sample_lib sample_config table mem_world canary_cluster
      [Read sample_key, Submit sample_key (roll_obj ''Canary'' 1 ''v2'')] ?c"
    by (auto simp: cluster_run_simps)
  have c: "cl_Read ?c sample_key = Some ?x" "cl_Sts ?c sample_key = Some ?y" "cl_Sts ?c' sample_key = Some ?z"
    by (simp_all add: sample_cluster_defs)
  obtain x' f r where w: "WroteSts x' f r \<in> set (trace_on ?x)" "f ?y = Ret ?z"
    using sample_writes(4) [OF c(1,2)] by blast
  have "phase_of (canary_state sample_lib ?x) \<in> {Canary, Rollout}" by (simp add: sample_phases)
  from write_rests_on_read [OF sample_laws trace_on_def trace_on_hd w sample_writes(5) [OF c(1,2)] this]
    run sample_writes(6) [OF c(1,2)] c(2,3)
  show ?thesis by (metis roll_obj_simps(4))
qed

end
