(* ===== verification/Version_Progress.thy ===== *)
theory Version_Progress
  imports Qsts_Properties
begin

text \<open>
  The versions across components: what a Reconcile of a QuarksStatefulSet leaves stored, read
  again by \<open>GetMaxStatefulSetVersion\<close>, which the next Reconcile, the status reconciler and the
  active/passive reconciler all use to find the StatefulSets that count.
\<close>

section \<open>The version a Reconcile writes\<close>

text \<open>The version found among the StatefulSets listed, as \<open>GetMaxStatefulSetVersion\<close> returns it.\<close>

definition listed_version :: "lib \<Rightarrow> quarks_statefulset \<Rightarrow> statefulset list \<Rightarrow> int \<Rightarrow> bool" where
  "listed_version L q items M \<longleftrightarrow> (\<exists>xs. maxVersionResult L (filterByOwner L q items) = Inr (xs, M))"

lemma GetMaxStatefulSetVersion_listed:
  "q_Namespace q \<noteq> '''' \<Longrightarrow>
   emits (GetMaxStatefulSetVersion L (recording W) q) (\<lambda>r ev. writes ev = [] \<and>
     (\<forall>xs M. r = Inr (xs, M) \<longrightarrow>
        (\<exists>items. ListedSts (q_Namespace q) (Inr items) \<in> set ev \<and> listed_version L q items M)))"
  unfolding GetMaxStatefulSetVersion_def listStatefulSetsFromInformer_def recording_simps
  by simp (intro emits_rules, auto simp: listed_version_def split: sum.splits)

text \<open>\<open>next_version L q ev xs\<close>: \<open>xs\<close> are the desired StatefulSets at the version after the one listed.\<close>

definition next_version :: "lib \<Rightarrow> quarks_statefulset \<Rightarrow> event list \<Rightarrow> statefulset list \<Rightarrow> bool" where
  "next_version L q ev xs \<longleftrightarrow> (\<exists>items M. ListedSts (q_Namespace q) (Inr items) \<in> set ev \<and>
     listed_version L q items M \<and>
     desiredStatefulSets L (withZoneNodeLabel q) (wrap64 (M + 1)) = Ret xs)"

lemma next_version_more:
  "next_version L q ev xs \<Longrightarrow> next_version L q (ev @ ev') xs"
  "next_version L q ev xs \<Longrightarrow> next_version L q (ev' @ ev) xs"
  "next_version L q ev xs \<Longrightarrow> next_version L q (e # ev) xs"
  by (auto simp: next_version_def)

lemma calculateDesired_version:
  "q_Namespace q \<noteq> '''' \<Longrightarrow>
   emits (calculateDesiredStatefulSets L (recording W) q) (\<lambda>r ev. writes ev = [] \<and>
     (\<forall>xs q1. r = Ret (Inr xs, q1) \<longrightarrow> q1 = withZoneNodeLabel q \<and> next_version L q ev xs))"
  unfolding calculateDesiredStatefulSets_def Let_def
  by (intro emits_rules emits_mono [OF GetMaxStatefulSetVersion_listed]) (auto simp: next_version_def)

lemma qstsApply_version:
  "q_Namespace q \<noteq> '''' \<Longrightarrow>
   emits (qstsApply L (recording W) request q) (\<lambda>r ev. writes ev = [] \<or>
     (\<exists>xs. next_version L q ev xs \<and> wrote_prefix L (withZoneNodeLabel q) xs r (writes ev)))"
  unfolding qstsApply_def
  by (intro emits_rules emits_mono [OF calculateDesired_version] emits_mono [OF createAll_emits])
     (auto dest: next_version_more(1))

text \<open>What a Reconcile of \<open>q0\<close> that writes StatefulSets did.\<close>

definition versioned_writes :: "lib \<Rightarrow> quarks_statefulset \<Rightarrow> reconcile_out \<Rightarrow> event list \<Rightarrow> bool" where
  "versioned_writes L q0 r ev \<longleftrightarrow> (\<forall>x f a. WroteSts x f a \<notin> set (writes ev)) \<or>
     (\<exists>q xs. same_resource q0 q \<and> next_version L q ev xs \<and>
        wrote_prefix L (withZoneNodeLabel q) xs r (writes ev))"

lemma versioned_writes_quiet: "writes ev = [] \<Longrightarrow> versioned_writes L q0 r ev"
  by (simp add: versioned_writes_def)

lemma qstsWindow_version:
  assumes "same_resource q0 q" "q_Namespace q0 \<noteq> ''''"
  shows "emits (qstsWindow L (recording W) request q)
    (\<lambda>r ev. versioned_writes L q0 r ev)"
proof -
  have ns: "q_Namespace q \<noteq> ''''" using assms by (simp add: same_resource_def)
  show ?thesis
    unfolding qstsWindow_def recording_simps
    by (intro emits_rules emits_mono [OF qstsApply_version [OF ns]])
       (use assms(1) in \<open>auto simp: versioned_writes_def dest: next_version_more(3)\<close>)
qed

lemma versioned_writes_later:
  "versioned_writes L q0 r ev' \<Longrightarrow> writes ev = [] \<Longrightarrow> versioned_writes L q0 r (ev @ ev')"
  by (auto simp: versioned_writes_def dest: next_version_more(2))

lemma qstsReconcile_version:
  "emits (qstsReconcile L (recording W) request)
     (\<lambda>r ev. \<exists>g ev'. ev = GotQsts request g # ev' \<and>
        (\<forall>q0. g = Inr q0 \<longrightarrow> q_Namespace q0 \<noteq> '''' \<longrightarrow> versioned_writes L q0 r ev))"
proof -
  have later: "versioned_writes L q0 r (GotQsts request g # ev @ ev')"
    if "versioned_writes L q0 r ev'" "writes ev = []" for L q0 r g ev ev'
    using versioned_writes_later [OF that(1), of "GotQsts request g # ev"] that(2) by simp
  have window: "emits (qstsWindow L (recording W) request (withPodSpec ps q0))
      (\<lambda>r ev. q_Namespace q0 \<noteq> '''' \<longrightarrow> versioned_writes L q0 r ev)" for q0 ps
  proof (cases "q_Namespace q0 = ''''")
    case True
    then show ?thesis
      by (auto intro: emits_mono [OF qstsWindow_emits [OF same_resource_simps(1) refl]])
  next
    case False
    then have "emits (qstsWindow L (recording W) request (withPodSpec ps q0)) (versioned_writes L q0)"
      by (intro qstsWindow_version) simp
    then show ?thesis by (rule emits_mono) simp
  qed
  show ?thesis
    unfolding qstsReconcile_def qstsRest_def recording_simps
    by (intro emits_rules emits_mono [OF UpdateVersions_emits])
       (auto simp: versioned_writes_quiet intro!: emits_mono [OF window] later)
qed

section \<open>What is stored afterwards\<close>

text \<open>
  The StatefulSets of a namespace after a successful write: \<open>CreateOrUpdate\<close> stores what the mutate
  function makes of the object of that name, or of the object given if there is none.
\<close>

fun stored_after :: "statefulset list \<Rightarrow> event \<Rightarrow> statefulset list" where
  "stored_after items (WroteSts x f r) =
     (if \<exists>y \<in> set items. sts_key y = sts_key x
      then map (\<lambda>y. if sts_key y = sts_key x then (case f y of Ret z \<Rightarrow> z | Panic \<Rightarrow> y) else y) items
      else items @ [case f x of Ret z \<Rightarrow> z | Panic \<Rightarrow> x])"
| "stored_after items _ = items"

text \<open>
  Controller references: whether a StatefulSet is controlled depends on its owner references and
  the identity of the owner, and \<open>SetControllerReference\<close> establishes it.
\<close>

definition controller_law :: "lib \<Rightarrow> bool" where
  "controller_law L \<longleftrightarrow>
     (\<forall>q q' x x'. q_UID q = q_UID q' \<and> sts_OwnerReferences x = sts_OwnerReferences x' \<longrightarrow>
        metav1_IsControlledBy L x q = metav1_IsControlledBy L x' q') \<and>
     (\<forall>q x x1. setReference L q x = Inr x1 \<longrightarrow> metav1_IsControlledBy L x1 q)"

text \<open>\<open>renewed L q V N items after\<close>: the objects with a key in \<open>N\<close> are owned and at version \<open>V\<close>, the others
  as they were.\<close>

definition renewed ::
  "lib \<Rightarrow> quarks_statefulset \<Rightarrow> int \<Rightarrow> nsname set \<Rightarrow> statefulset list \<Rightarrow> statefulset list \<Rightarrow> bool" where
  "renewed L q V N items after \<longleftrightarrow>
     (\<forall>z \<in> set after. if sts_key z \<in> N then versionOf L z = Inr V \<and> metav1_IsControlledBy L z q else z \<in> set items) \<and>
     (\<forall>y \<in> set items. sts_key y \<notin> N \<longrightarrow> y \<in> set after) \<and>
     N \<subseteq> sts_key ` set after"

lemma renewed_empty: "renewed L q V {} items items"
  by (simp add: renewed_def)

lemma versionOf_annotations: "sts_Annotations x = sts_Annotations y \<Longrightarrow> versionOf L x = versionOf L y"
  by (simp add: versionOf_def)

text \<open>One write renews one object, provided an object of that name is owned already.\<close>

lemma renewed_write:
  assumes "renewed L q V N items after" "controller_law L"
    and "versionOf L x = Inr V" "metav1_IsControlledBy L x q"
    and "\<forall>y \<in> set items. sts_key y = sts_key x \<longrightarrow> metav1_IsControlledBy L y q"
  shows "renewed L q V (insert (sts_key x) N) items (stored_after after (WroteSts x (StatefulSetMutateFn x) r))"
proof -
  define g where "g y = (case StatefulSetMutateFn x y of Ret z \<Rightarrow> z | Panic \<Rightarrow> y)" for y
  have g: "sts_key (g y) = sts_key y" "sts_OwnerReferences (g y) = sts_OwnerReferences y"
    "sts_Annotations (g y) = sts_Annotations x" for y
    by (simp_all add: g_def StatefulSetMutateFn_def sts_key_def)
  have version: "versionOf L (g y) = Inr V" for y
    using versionOf_annotations [OF g(3)] assms(3) by simp
  have controlled: "metav1_IsControlledBy L (g y) q = metav1_IsControlledBy L y q" for y
    using assms(2) g(2) unfolding controller_law_def by blast
  have owned: "metav1_IsControlledBy L y q" if "y \<in> set after" "sts_key y = sts_key x" for y
    using that assms(1,5) unfolding renewed_def by (metis (no_types, lifting))
  show ?thesis
  proof (cases "\<exists>y \<in> set after. sts_key y = sts_key x")
    case True
    have after: "stored_after after (WroteSts x (StatefulSetMutateFn x) r) =
        map (\<lambda>y. if sts_key y = sts_key x then g y else y) after"
      using True by (simp add: g_def)
    let ?h = "\<lambda>y. if sts_key y = sts_key x then g y else y"
    have key: "sts_key (?h y) = sts_key y" for y by (simp add: g)
    have "if sts_key (?h y) \<in> insert (sts_key x) N
        then versionOf L (?h y) = Inr V \<and> metav1_IsControlledBy L (?h y) q else ?h y \<in> set items"
      if "y \<in> set after" for y
      using that assms(1) owned [OF that] unfolding key renewed_def by (simp add: version controlled)
    moreover have "y \<in> set (map ?h after)" if "y \<in> set items" "sts_key y \<notin> insert (sts_key x) N" for y
      using that assms(1) unfolding renewed_def by (auto intro!: image_eqI [of _ _ y])
    moreover have "sts_key ` set (map ?h after) = sts_key ` set after"
      by (simp only: set_map image_image key)
    moreover from this have "insert (sts_key x) N \<subseteq> sts_key ` set (map ?h after)"
      using True assms(1) unfolding renewed_def by (metis imageI insert_subset)
    ultimately show ?thesis
      unfolding after by (auto simp: renewed_def simp del: if_image_distrib)
  next
    case False
    have after: "stored_after after (WroteSts x (StatefulSetMutateFn x) r) = after @ [g x]"
      using False by (simp add: g_def)
    show ?thesis
      unfolding after renewed_def
      using assms(1,4) False by (auto simp: renewed_def g version controlled)
  qed
qed

text \<open>All writes of a Reconcile: the desired StatefulSets, each with its owner set.\<close>

lemma renewed_writes:
  assumes "list_all2 (wrote_desired L q) xs ws" "renewed L q V N items after"
    and "owner_law L" "controller_law L" "\<forall>x \<in> set xs. versionOf L x = Inr V"
    and "\<forall>x \<in> set xs. \<forall>y \<in> set items. sts_key y = sts_key x \<longrightarrow> metav1_IsControlledBy L y q"
  shows "renewed L q V (sts_key ` set xs \<union> N) items (foldl stored_after after ws)"
  using assms(1,2,5,6)
proof (induction xs ws arbitrary: N after rule: list_all2_induct)
  case (Cons x xs w ws)
  from Cons(1) obtain q' x1 r where w: "same_resource q q'" "setReference L q' x = Inr x1"
    "w = WroteSts x1 (StatefulSetMutateFn x1) r"
    unfolding wrote_desired_def by blast
  obtain os where "x1 = x\<lparr>sts_OwnerReferences := os\<rparr>"
    using assms(3) w(2) unfolding owner_law_def by blast
  then have key: "sts_key x1 = sts_key x" by (simp add: sts_key_def)
  have version: "versionOf L x1 = Inr V"
    using Cons.prems(2) owner_frame(1) [OF assms(3) w(2)] by (simp add: versionOf_def)
  have "metav1_IsControlledBy L x1 q'" using assms(4) w(2) unfolding controller_law_def by blast
  moreover have "q_UID q' = q_UID q" using w(1) by (simp add: same_resource_def)
  ultimately have "metav1_IsControlledBy L x1 q" using assms(4) unfolding controller_law_def by blast
  from renewed_write [OF Cons.prems(1) assms(4) version this] Cons.prems(3)
  have "renewed L q V (insert (sts_key x) N) items (stored_after after w)" by (simp add: w(3) key)
  from Cons.IH [OF this] Cons.prems(2,3) show ?case by (simp add: Un_commute)
qed simp

lemma renewed_maximum:
  assumes "renewed L q V N items after" "N \<noteq> {}" "listed_version L q items M" "V = M + 1"
  shows "\<exists>new. maxVersionResult L (filterByOwner L q after) = Inr (new, V) \<and> sts_key ` set new = N \<and>
    set new \<subseteq> set after"
proof -
  let ?owned = "filterByOwner L q items" and ?after = "filterByOwner L q after"
  obtain xs where M: "maxVersionResult L ?owned = Inr (xs, M)" using assms(3) by (auto simp: listed_version_def)
  have versioned: "versioned L ?owned"
    using M maxVersionLoop_error [of L "[]" 0 ?owned] by (auto simp: maxVersionResult_def split: sum.splits)
  have "M = Max (insert 0 (versions L ?owned))"
    using M by (auto simp: maxVersionResult_def maxVersionLoop_eq [OF versioned] Let_def split: if_splits)
  then have le: "v \<le> M" if "v \<in> insert 0 (versions L ?owned)" for v using that by simp
  have old: "v \<le> M" if "z \<in> set ?owned" "versionOf L z = Inr v" for z v
    using that le by (auto simp: versions_def)
  have kept: "sts_key z \<notin> N \<Longrightarrow> z \<in> set ?owned" "sts_key z \<in> N \<Longrightarrow> versionOf L z = Inr V" if "z \<in> set ?after" for z
    using that assms(1) by (auto simp: renewed_def filterByOwner_filter)
  have new: "sts_key z \<in> N \<longleftrightarrow> versionOf L z = Inr V" if "z \<in> set ?after" for z
    using kept [OF that] old assms(4) by fastforce
  have versioned': "versioned L ?after"
    using kept versioned unfolding versioned_def by metis
  have in_N: "\<exists>z \<in> set ?after. sts_key z = k" if "k \<in> N" for k
  proof -
    from that assms(1) obtain z where z: "z \<in> set after" "sts_key z = k" unfolding renewed_def by auto
    with that assms(1) have "metav1_IsControlledBy L z q" unfolding renewed_def by metis
    with z show ?thesis by (auto simp: filterByOwner_filter)
  qed
  have "V \<in> versions L ?after" using assms(2) in_N new unfolding versions_def by blast
  moreover have "v \<le> V" if "v \<in> versions L ?after" for v
  proof -
    from that obtain z where "z \<in> set ?after" "versionOf L z = Inr v" by (auto simp: versions_def)
    with kept [of z] old [of z v] assms(4) show ?thesis by (cases "sts_key z \<in> N") auto
  qed
  moreover have "0 \<le> V" using le [of 0] assms(4) by simp
  ultimately have Max: "Max (insert 0 (versions L ?after)) = V" by (intro Max_eqI) auto
  have keys: "sts_key ` set (at_version L V ?after) = N"
    using in_N new by (auto simp: at_version_def image_iff; metis)
  with assms(2) have "at_version L V ?after \<noteq> []" by auto
  then have "maxVersionResult L ?after = Inr (at_version L V ?after, V)"
    by (simp add: maxVersionResult_def maxVersionLoop_eq [OF versioned'] Let_def Max)
  moreover have "set (at_version L V ?after) \<subseteq> set after"
    by (auto simp: at_version_def filterByOwner_filter)
  ultimately show ?thesis using keys by blast
qed

section \<open>Properties\<close>

definition desired_keys :: "quarks_statefulset \<Rightarrow> nsname set" where
  "desired_keys q = (\<lambda>i. \<lparr>nn_Namespace = q_Namespace q, nn_Name = zonePrefix q (int i) (zonesOf q ! i)\<rparr>)
     ` {..<length (zonesOf q)}"

lemma desired_keys_same:
  assumes "same_resource q q'"
  shows "desired_keys q' = desired_keys q"
proof -
  have "zonePrefix q' = zonePrefix q" "zonesOf q' = zonesOf q" "q_Namespace q' = q_Namespace q"
    using assms by (auto simp: same_resource_def zonePrefix_def zonesOf_def fun_eq_iff)
  then show ?thesis by (simp add: desired_keys_def)
qed

lemma filterByOwner_same:
  assumes "controller_law L" "same_resource q q'"
  shows "filterByOwner L q' = filterByOwner L q"
proof -
  have "metav1_IsControlledBy L x q' = metav1_IsControlledBy L x q" for x
    using assms unfolding controller_law_def same_resource_def by blast
  then show ?thesis by (simp add: filterByOwner_filter fun_eq_iff)
qed

lemma desired_versions:
  assumes "desiredStatefulSets L q v = Ret xs" "union_maps_law L" "int64_ok v"
  shows "\<forall>x \<in> set xs. versionOf L x = Inr v" "sts_key ` set xs = desired_keys q"
proof -
  have len: "length xs = length (zonesOf q)"
    and gen: "\<And>i. i < length xs \<Longrightarrow> generateSingleStatefulSet L q
       ((qs_Template (q_Spec q))\<lparr>sts_Namespace := q_Namespace q\<rparr>) (int i) (zonesOf q ! i) v = Ret (xs ! i)"
    using desired_nth [OF assms(1)] by auto
  show "\<forall>x \<in> set xs. versionOf L x = Inr v"
    using generated_fields(4) [OF gen] assms(2,3)
    by (auto simp: in_set_conv_nth versionOf_def union_maps_law_def gget_def Atoi_Itoa)
  have "sts_key (xs ! i) = \<lparr>nn_Namespace = q_Namespace q, nn_Name = zonePrefix q (int i) (zonesOf q ! i)\<rparr>"
    if "i < length xs" for i
    using generated_fields(1,2) [OF gen [OF that]] by (simp add: sts_key_def)
  then show "sts_key ` set xs = desired_keys q"
    unfolding desired_keys_def len [symmetric] by (force simp: set_conv_nth image_iff)
qed

text \<open>
  C13: the versions go up. A successful Reconcile of a QuarksStatefulSet that writes StatefulSets
  makes them the ones that count: reading the versions from what is then stored gives the
  version after the one it had listed, with exactly the StatefulSets of its zones, whatever
  their number was before. (A StatefulSet that has the name of a zone but another owner is the
  exception: it is overwritten and keeps its owner, so that it does not count.)
\<close>

theorem new_version_counts:
  assumes "tr = trace_of (qstsReconcile L (recording W) request) s"
    and "result_of (qstsReconcile L (recording W) request) s = Ret (empty_result, None)"
    and "hd tr = GotQsts request (Inr q)" "q_Namespace q \<noteq> ''''" "WroteSts x f a \<in> set tr"
    and "owner_law L" "controller_law L" "union_maps_law L"
    and "\<And>items y. ListedSts (q_Namespace q) (Inr items) \<in> set tr \<Longrightarrow> y \<in> set items \<Longrightarrow>
      sts_key y \<in> desired_keys q \<Longrightarrow> metav1_IsControlledBy L y q"
    and "\<And>items M. ListedSts (q_Namespace q) (Inr items) \<in> set tr \<Longrightarrow> listed_version L q items M \<Longrightarrow>
      int64_ok (M + 1)"
  shows "\<exists>items M new. ListedSts (q_Namespace q) (Inr items) \<in> set tr \<and> listed_version L q items M \<and>
    sts_key ` set new = desired_keys q \<and>
    (\<forall>W' s1 s2. run_state (w_ListSts W' (q_Namespace q)) s1 = (Inr (foldl stored_after items (writes tr)), s2) \<longrightarrow>
       run_state (GetMaxStatefulSetVersion L W' q) s1 = (Inr (new, M + 1), s2))"
proof -
  obtain g ev where tr: "tr = GotQsts request g # ev"
    and w: "\<forall>q0. g = Inr q0 \<longrightarrow> q_Namespace q0 \<noteq> '''' \<longrightarrow> versioned_writes L q0 (Ret (empty_result, None)) tr"
    using emits_trace [OF qstsReconcile_version, of L W request s] unfolding assms(1,2) by metis
  have "WroteSts x f a \<in> set (writes tr)" using assms(5) by (simp add: writes_def)
  with w tr assms(3,4) obtain q1 xs where q1: "same_resource q q1" "next_version L q1 tr xs"
    "wrote_prefix L (withZoneNodeLabel q1) xs (Ret (empty_result, None)) (writes tr)"
    unfolding versioned_writes_def by auto
  let ?q = "withZoneNodeLabel q1"
  have same: "same_resource q ?q" and same1: "filterByOwner L q1 = filterByOwner L q"
    using q1(1) filterByOwner_same [OF assms(7)] by simp_all
  have ns: "q_Namespace q1 = q_Namespace q" using q1(1) by (simp add: same_resource_def)
  from q1(2) obtain items M where listed: "ListedSts (q_Namespace q) (Inr items) \<in> set tr" "listed_version L q items M"
    and xs: "desiredStatefulSets L ?q (wrap64 (M + 1)) = Ret xs"
    unfolding next_version_def ns listed_version_def same1 by blast
  have ok: "int64_ok (M + 1)" using assms(10) [OF listed] .
  then have "wrap64 (M + 1) = M + 1" by (rule wrap64_id)
  with desired_versions [OF _ assms(8) ok] xs desired_keys_same [OF same]
  have versions: "\<forall>x \<in> set xs. versionOf L x = Inr (M + 1)" and keys: "sts_key ` set xs = desired_keys q"
    by simp_all
  have all: "list_all2 (wrote_desired L q) xs (writes tr)"
    using q1(3) unfolding wrote_prefix_def by (metis (no_types, lifting) list_all2_mono same wrote_desired_same)
  have "renewed L q (M + 1) (sts_key ` set xs \<union> {}) items (foldl stored_after items (writes tr))"
    using assms(9) [OF listed(1)] keys
    by (intro renewed_writes [OF all renewed_empty assms(6,7) versions]) auto
  then have "renewed L q (M + 1) (desired_keys q) items (foldl stored_after items (writes tr))"
    by (simp add: keys)
  moreover have "desired_keys q \<noteq> {}" by (auto simp: desired_keys_def zonesOf_def)
  ultimately obtain new where
    "maxVersionResult L (filterByOwner L q (foldl stored_after items (writes tr))) = Inr (new, M + 1)"
    "sts_key ` set new = desired_keys q"
    using renewed_maximum [OF _ _ listed(2) refl] by blast
  with listed assms(4) show ?thesis
    by (intro exI [of _ items] exI [of _ M] exI [of _ new])
       (simp add: GetMaxStatefulSetVersion_def listStatefulSetsFromInformer_def)
qed

lemma sample_controller_law: "controller_law sample_lib"
  by (auto simp: controller_law_def sample_lib_def)

text \<open>The sample resource with two zones, of which the first has a StatefulSet at version 2.\<close>

definition sample_progress :: mem where
  "sample_progress = (sample_qsts_mem sample_reconciled)\<lparr>m_Sts := [(sts_key (sample_owned ''foo-z0'' 2), sample_owned ''foo-z0'' 2)]\<rparr>"

definition listing_ok :: "event \<Rightarrow> bool" where
  "listing_ok e \<longleftrightarrow> (case e of
     ListedSts n (Inr items) \<Rightarrow>
       (case maxVersionResult sample_lib (filterByOwner sample_lib sample_reconciled items) of
          Inl err \<Rightarrow> True | Inr (xs, M) \<Rightarrow> M = 2) \<and>
       list_all (\<lambda>y. metav1_IsControlledBy sample_lib y sample_reconciled) items
   | _ \<Rightarrow> True)"

theorem new_version_counts_witness:
  "\<exists>items tr new. tr = trace_of (qstsReconcile sample_lib (recording mem_world) sample_key) sample_progress \<and>
     ListedSts ''default'' (Inr items) \<in> set tr \<and>
     run_state (GetMaxStatefulSetVersion sample_lib
         (mem_world\<lparr>w_ListSts := (\<lambda>n. State_Monad.return (Inr (foldl stored_after items (writes tr))))\<rparr>)
         sample_reconciled) sample_progress = (Inr (new, 3), sample_progress) \<and>
     sts_key ` set new = {\<lparr>nn_Namespace = ''default'', nn_Name = ''foo-z0''\<rparr>, \<lparr>nn_Namespace = ''default'', nn_Name = ''foo-z1''\<rparr>}"
proof -
  let ?R = "qstsReconcile sample_lib (recording mem_world) sample_key"
  let ?tr = "trace_of ?R sample_progress" and ?q = sample_reconciled
  have res: "result_of ?R sample_progress = Ret (empty_result, None)" by code_simp
  have hd: "hd ?tr = GotQsts sample_key (Inr ?q)"
    by (simp add: qstsReconcile_hd sample_progress_def sample_qsts_mem_def mem_world_def found_def)
  have "list_ex (\<lambda>e. case e of WroteSts x f a \<Rightarrow> True | _ \<Rightarrow> False) ?tr" by code_simp
  then obtain e where "e \<in> set ?tr" "case e of WroteSts x f a \<Rightarrow> True | _ \<Rightarrow> False" by (auto simp: list_ex_iff)
  then obtain x f a where wrote: "WroteSts x f a \<in> set ?tr" by - (cases e, auto)
  have "list_all listing_ok ?tr" by code_simp
  then have ok: "listing_ok e" if "e \<in> set ?tr" for e using that by (simp add: list_all_iff)
  have M: "M = 2" if "ListedSts n (Inr items) \<in> set ?tr" "listed_version sample_lib ?q items M" for n items M
    using ok [OF that(1)] that(2) by (auto simp: listing_ok_def listed_version_def)
  have ns: "q_Namespace ?q = ''default''" "q_Namespace ?q \<noteq> ''''"
    by (simp_all add: sample_reconciled_def withLastReconcile_def zoned_qsts_def sample_qsts_def)
  have keys: "desired_keys ?q = {\<lparr>nn_Namespace = ''default'', nn_Name = ''foo-z0''\<rparr>, \<lparr>nn_Namespace = ''default'', nn_Name = ''foo-z1''\<rparr>}"
    by code_simp
  have "\<exists>items M new. ListedSts (q_Namespace ?q) (Inr items) \<in> set ?tr \<and> listed_version sample_lib ?q items M \<and>
      sts_key ` set new = desired_keys ?q \<and>
      (\<forall>(W' :: mem world) s1 s2. run_state (w_ListSts W' (q_Namespace ?q)) s1 = (Inr (foldl stored_after items (writes ?tr)), s2) \<longrightarrow>
         run_state (GetMaxStatefulSetVersion sample_lib W' ?q) s1 = (Inr (new, M + 1), s2))"
    by (rule new_version_counts [OF refl res hd ns(2) wrote sample_owner_law sample_controller_law sample_union])
       (use ok M in \<open>force simp: listing_ok_def list_all_iff int64_ok_def\<close>)+
  then obtain items M new where listed: "ListedSts ''default'' (Inr items) \<in> set ?tr"
    "listed_version sample_lib ?q items M" and new: "sts_key ` set new = desired_keys ?q"
    and read: "\<And>(W' :: mem world) s1 s2. run_state (w_ListSts W' ''default'') s1 = (Inr (foldl stored_after items (writes ?tr)), s2) \<Longrightarrow>
       run_state (GetMaxStatefulSetVersion sample_lib W' ?q) s1 = (Inr (new, M + 1), s2)"
    unfolding ns(1) by blast
  have "run_state (GetMaxStatefulSetVersion sample_lib
      (mem_world\<lparr>w_ListSts := (\<lambda>n. State_Monad.return (Inr (foldl stored_after items (writes ?tr))))\<rparr>) ?q)
      sample_progress = (Inr (new, M + 1), sample_progress)"
    by (rule read) simp
  moreover have "M + 1 = 3" using M [OF listed] by simp
  ultimately show ?thesis using listed(1) new unfolding keys by (simp only:) blast
qed

end
