(* ===== verification/Secret_Rotation.thy ===== *)
theory Secret_Rotation
  imports Version_Progress
begin

text \<open>
  A new version of a secret from the Reconcile to the rollout: the volumes of the StatefulSets
  a Reconcile writes, and what the mutator makes of the write.
\<close>

section \<open>The volumes written\<close>

definition sts_volumes :: "statefulset \<Rightarrow> volume list" where
  "sts_volumes x = ps_Volumes (pt_Spec (spec_Template (sts_Spec x)))"

lemma zonedTemplate_volumes [simp]: "sts_volumes (zonedTemplate L q x z) = sts_volumes x"
  by (simp add: sts_volumes_def zonedTemplate_def updateAffinity_def withAffinity_def Let_def)

lemma generated_volumes:
  "generateSingleStatefulSet L q template zi zn v = Ret x \<Longrightarrow> sts_volumes x = sts_volumes template"
  using zonedTemplate_volumes [of L q template zn]
  by (auto simp: generateSingleStatefulSet_def sts_volumes_def Let_def dest: injectContainerEnv_frame split: go.splits)

lemma withZoneNodeLabel_podSpec [simp]: "podSpecOf (withZoneNodeLabel q) = podSpecOf q"
  by (simp add: podSpecOf_def withZoneNodeLabel_def)

lemma withPodSpec_podSpec [simp]: "podSpecOf (withPodSpec ps q) = ps"
  by (simp add: podSpecOf_def withPodSpec_def)

lemma desired_volumes:
  assumes "desiredStatefulSets L q v = Ret xs" "x \<in> set xs"
  shows "sts_volumes x = ps_Volumes (podSpecOf q)"
proof -
  from assms(2) obtain i where "i < length xs" "x = xs ! i" by (auto simp: in_set_conv_nth)
  with desired_nth [OF assms(1)] have "sts_volumes x = sts_volumes ((qs_Template (q_Spec q))\<lparr>sts_Namespace := q_Namespace q\<rparr>)"
    using generated_volumes by blast
  then show ?thesis by (simp add: sts_volumes_def podSpecOf_def)
qed

text \<open>\<open>writes_volumes vs ev\<close>: every StatefulSet written mounts the volumes \<open>vs\<close>.\<close>

definition writes_volumes :: "volume list \<Rightarrow> event list \<Rightarrow> bool" where
  "writes_volumes vs ev \<longleftrightarrow> list_all (\<lambda>e. case e of
     WroteSts x f a \<Rightarrow> f = StatefulSetMutateFn x \<and> sts_volumes x = vs | _ \<Rightarrow> True) ev"

lemma writes_volumesD:
  "writes_volumes vs ev \<Longrightarrow> WroteSts x f a \<in> set ev \<Longrightarrow> f = StatefulSetMutateFn x"
  "writes_volumes vs ev \<Longrightarrow> WroteSts x f a \<in> set ev \<Longrightarrow> sts_volumes x = vs"
  by (force simp: writes_volumes_def list_all_iff)+

lemma writes_volumesI:
  "(\<And>x f a. WroteSts x f a \<in> set ev \<Longrightarrow> f = StatefulSetMutateFn x \<and> sts_volumes x = vs) \<Longrightarrow> writes_volumes vs ev"
  by (auto simp: writes_volumes_def list_all_iff split: event.splits)

lemma writes_volumes_quiet: "writes ev = [] \<Longrightarrow> writes_volumes vs ev"
  by (rule writes_volumesI) (auto simp: writes_def filter_empty_conv)

lemma wrote_volumes:
  assumes "wrote_prefix L q xs r (writes ev)" "desiredStatefulSets L q v = Ret xs" "owner_law L"
  shows "writes_volumes (ps_Volumes (podSpecOf q)) ev"
proof (rule writes_volumesI)
  fix x1 f a
  assume "WroteSts x1 f a \<in> set ev"
  then have "WroteSts x1 f a \<in> set (writes ev)" by (simp add: writes_def)
  then obtain x where x: "x \<in> set xs" "wrote_desired L q x (WroteSts x1 f a)"
    by (rule wrote_prefix_mem [OF assms(1)])
  then obtain q' where "setReference L q' x = Inr x1" "f = StatefulSetMutateFn x1"
    unfolding wrote_desired_def by auto
  with owner_frame(2) [OF assms(3)] desired_volumes [OF assms(2) x(1)]
  show "f = StatefulSetMutateFn x1 \<and> sts_volumes x1 = ps_Volumes (podSpecOf q)"
    by (simp add: sts_volumes_def)
qed

lemma qstsApply_volumes:
  "owner_law L \<Longrightarrow> emits (qstsApply L (recording W) request q) (\<lambda>r ev. writes_volumes (ps_Volumes (podSpecOf q)) ev)"
  by (rule emits_mono [OF qstsApply_emits])
     (auto dest: wrote_volumes intro: writes_volumes_quiet)

lemma qstsWindow_volumes:
  "owner_law L \<Longrightarrow> emits (qstsWindow L (recording W) request q) (\<lambda>r ev. writes_volumes (ps_Volumes (podSpecOf q)) ev)"
  unfolding qstsWindow_def recording_simps
  by (intro emits_rules emits_mono [OF qstsApply_volumes]) (auto simp: writes_volumes_def)

lemma qstsReconcile_volumes:
  assumes "owner_law L"
  shows "emits (qstsReconcile L (recording W) request) (\<lambda>r ev. \<forall>q0. hd ev = GotQsts request (Inr q0) \<longrightarrow>
    (\<forall>x f a. WroteSts x f a \<in> set ev \<longrightarrow> f = StatefulSetMutateFn x \<and>
       list_all2 (volume_updated L (q_Namespace q0) ev) (ps_Volumes (podSpecOf q0)) (sts_volumes x)))"
proof -
  have mono: "list_all2 (volume_updated L n (e # ev @ ev')) vs vs'"
    if "list_all2 (volume_updated L n ev) vs vs'" for n e ev ev' vs vs'
    using that by (rule volumes_updated_mono) auto
  have quiet: "WroteSts x f a \<notin> set ev" if "writes ev = []" for x f a ev
    using that by (auto simp: writes_def filter_empty_conv)
  show ?thesis
    unfolding qstsReconcile_def qstsRest_def recording_simps
    by (intro emits_rules emits_mono [OF UpdateVersions_emits] emits_mono [OF qstsWindow_volumes [OF assms]])
       (auto dest: quiet writes_volumesD(1), metis mono writes_volumesD(2))
qed

section \<open>Property\<close>

text \<open>
  C14: a new secret is rolled out. Every StatefulSet a Reconcile writes mounts, volume by volume,
  what the resource mounts, with the latest version of each versioned secret it has read, and
  is opted in to rollouts, whatever the template of the resource says. If the StatefulSet stored
  under its name mounts anything else, an old version say, and it has replicas and pods, the
  mutator admits the write as the begin of a rollout, Pending with a partition that keeps the
  invariant; so the pods get the new secret by a canary rollout. Without pods there is no
  partition to count down.
\<close>

theorem secret_rotation_rolls_out:
  assumes "tr = trace_of (qstsReconcile L (recording W) request) s"
    and "hd tr = GotQsts request (Inr q0)" "WroteSts x f a \<in> set tr" "owner_law L" "union_maps_law L" "f y = Ret z"
    and "req_Operation req = Update" "dec_Sts C (req_Object req) = Inr z" "dec_Sts C (req_OldObject req) = Inr y"
    and "spec_Replicas (sts_Spec z) = Some r" "0 < r" "0 < st_Replicas (sts_Status z)" "int32_ok r"
    and "util_MinInt32 L = min" and "\<And>u. \<exists>m. enc_Sts C u = Inr m"
  shows "list_all2 (volume_updated L (q_Namespace q0) tr) (ps_Volumes (podSpecOf q0)) (sts_volumes z) \<and>
    isControlledRolloutStatefulSet L z \<and>
    (sts_volumes y = sts_volumes z \<or>
     (\<exists>u p. admitted (enc_Sts C) u (rolloutHandle L C now req) \<and>
        partitionVal u = Ret p \<and> phase_of (canary_state L u) = Pending \<and> rollout_inv (Pending, p)))"
proof -
  have written: "f = StatefulSetMutateFn x"
    "list_all2 (volume_updated L (q_Namespace q0) tr) (ps_Volumes (podSpecOf q0)) (sts_volumes x)"
    using emits_trace [OF qstsReconcile_volumes [OF assms(4)], of W request s] assms(2,3)
    unfolding assms(1) by blast+
  have z: "sts_volumes z = sts_volumes x"
    using assms(6) written(1) by (auto simp: StatefulSetMutateFn_def sts_volumes_def)
  have controlled: "isControlledRolloutStatefulSet L z"
    by (rule qsts_handed_in(1) [OF assms(5,4) assms(3) [unfolded assms(1)] assms(6) assms(2) [unfolded assms(1)]])
  have "\<exists>u p. admitted (enc_Sts C) u (rolloutHandle L C now req) \<and>
        partitionVal u = Ret p \<and> phase_of (canary_state L u) = Pending \<and> rollout_inv (Pending, p)"
    if "sts_volumes y \<noteq> sts_volumes z"
  proof -
    have "spec_Template (sts_Spec z) \<noteq> spec_Template (sts_Spec y)"
      using that by (auto simp: sts_volumes_def)
    from rollout_started [OF assms(8) controlled _ assms(9) this assms(10-15)] assms(7)
    show ?thesis by (metis operation.distinct(1))
  qed
  with written(2) z controlled show ?thesis by auto
qed

text \<open>A resource that mounts version 1 of a certificate, and the StatefulSet stored for it.\<close>

definition rotated_qsts :: quarks_statefulset where
  "rotated_qsts = (let q = withPodSpec (zero_pod_spec\<lparr>ps_Volumes := [sample_volume ''my-cert-v1'']\<rparr>)
       (withLastReconcile 0 sample_qsts) in
     q\<lparr>q_Spec := (q_Spec q)\<lparr>qs_Template := (qs_Template (q_Spec q))\<lparr>
       sts_Spec := (sts_Spec (qs_Template (q_Spec q)))\<lparr>spec_Replicas := Some 2\<rparr>\<rparr>\<rparr>\<rparr>)"

definition rotated_mem :: mem where
  "rotated_mem = (sample_qsts_mem rotated_qsts)\<lparr>m_Secrets := [sample_secret ''my-cert-v1'', sample_secret ''my-cert-v2'']\<rparr>"

definition rotated_stored :: statefulset where
  "rotated_stored = (let x = sample_controlled '''' in x\<lparr>sts_Spec := (sts_Spec x)\<lparr>spec_Template :=
     (spec_Template (sts_Spec x))\<lparr>pt_Spec := zero_pod_spec\<lparr>ps_Volumes := [sample_volume ''my-cert-v1'']\<rparr>\<rparr>\<rparr>\<rparr>)"

definition mounts :: "string \<Rightarrow> statefulset \<Rightarrow> bool" where
  "mounts n x \<longleftrightarrow> map vol_Secret (sts_volumes x) = [Some \<lparr>ss_SecretName = n, ss_Rest = ''''\<rparr>]"

definition rotates :: "event \<Rightarrow> bool" where
  "rotates e \<longleftrightarrow> (case e of
     WroteSts x f a \<Rightarrow> go_sat (\<lambda>z. spec_Replicas (sts_Spec z) = Some 2 \<and>
       st_Replicas (sts_Status z) = 2 \<and> mounts ''my-cert-v2'' z) (f rotated_stored)
   | _ \<Rightarrow> False)"

definition rotation_codec :: "statefulset \<Rightarrow> codec" where
  "rotation_codec z = \<lparr>dec_Sts = (\<lambda>raw. Inr (if raw = ''new'' then z else rotated_stored)),
     dec_Pod = (\<lambda>raw. Inr (sample_pod 0 raw)), enc_Sts = (\<lambda>x. Inr ''{}''), enc_Pod = (\<lambda>x. Inr ''{}'')\<rparr>"

theorem secret_rotation_rolls_out_witness:
  "\<exists>x f a z u p. WroteSts x f a \<in> set (trace_of (qstsReconcile sample_lib (recording mem_world) sample_key) rotated_mem) \<and>
     f rotated_stored = Ret z \<and> mounts ''my-cert-v1'' rotated_stored \<and> mounts ''my-cert-v2'' z \<and>
     admitted (enc_Sts (rotation_codec z)) u
       (rolloutHandle sample_lib (rotation_codec z) 0 (sample_request Update ''new'' ''old'')) \<and>
     partitionVal u = Ret p \<and> phase_of (canary_state sample_lib u) = Pending"
proof -
  let ?tr = "trace_of (qstsReconcile sample_lib (recording mem_world) sample_key) rotated_mem"
  have hd: "hd ?tr = GotQsts sample_key (Inr rotated_qsts)"
    by (simp add: qstsReconcile_hd rotated_mem_def sample_qsts_mem_def mem_world_def found_def)
  have "list_ex rotates ?tr" by code_simp
  then obtain e where e: "e \<in> set ?tr" "rotates e" by (auto simp: list_ex_iff)
  then obtain x f a where w: "WroteSts x f a \<in> set ?tr" and sat: "rotates (WroteSts x f a)"
    by - (cases e, auto simp: rotates_def)
  from sat obtain z where z: "f rotated_stored = Ret z"
    "spec_Replicas (sts_Spec z) = Some 2" "st_Replicas (sts_Status z) = 2" "mounts ''my-cert-v2'' z"
    by (auto simp: rotates_def elim: go_satE)
  have old: "mounts ''my-cert-v1'' rotated_stored" by code_simp
  with z(4) have "sts_volumes rotated_stored \<noteq> sts_volumes z" by (auto simp: mounts_def)
  moreover have "list_all2 (volume_updated sample_lib (q_Namespace rotated_qsts) ?tr)
      (ps_Volumes (podSpecOf rotated_qsts)) (sts_volumes z) \<and>
    isControlledRolloutStatefulSet sample_lib z \<and>
    (sts_volumes rotated_stored = sts_volumes z \<or>
     (\<exists>u p. admitted (enc_Sts (rotation_codec z)) u
          (rolloutHandle sample_lib (rotation_codec z) 0 (sample_request Update ''new'' ''old'')) \<and>
        partitionVal u = Ret p \<and> phase_of (canary_state sample_lib u) = Pending \<and> rollout_inv (Pending, p)))"
    by (rule secret_rotation_rolls_out [OF refl hd w sample_owner_law sample_union z(1) _ _ _ z(2)])
       (simp_all add: z(3) sample_request_def rotation_codec_def int32_ok_def sample_lib_def)
  ultimately show ?thesis using w z(1,4) old by blast
qed

end
