(* ===== verification/Rollout_Completion.thy ===== *)
theory Rollout_Completion
  imports Rollout_Properties
begin

text \<open>
  Liveness of the rollout: on a cluster that answers every request, whose pods become ready at
  the update revision and whose watch times do not run out, p + 1 calls of Reconcile take a
  pending rollout with partition p to Done.
\<close>

section \<open>A cooperative cluster\<close>

text \<open>
  \<open>I\<close> holds of the states of the cluster, \<open>view\<close> is the StatefulSet stored in them. Reads
  answer with the stored object, the clock is inside no meltdown window and past no deadline,
  the pods looked at are ready and updated, all replicas exist, and a write of the controller
  stores what the mutate function makes of the stored object.
\<close>

definition keeps :: "('s \<Rightarrow> bool) \<Rightarrow> ('s \<Rightarrow> statefulset) \<Rightarrow> ('s, 'a) state \<Rightarrow> ('a \<Rightarrow> bool) \<Rightarrow> 's \<Rightarrow> bool" where
  "keeps I view m P s \<longleftrightarrow> wp m (\<lambda>a s'. P a \<and> I s' \<and> view s' = view s) s"

definition cooperative ::
  "lib \<Rightarrow> config \<Rightarrow> 's world \<Rightarrow> nsname \<Rightarrow> ('s \<Rightarrow> bool) \<Rightarrow> ('s \<Rightarrow> statefulset) \<Rightarrow> bool" where
  "cooperative L cfg W req I view \<longleftrightarrow> (\<forall>s. I s \<longrightarrow>
     keeps I view (w_GetSts W req) (\<lambda>r. r = Inr (view s)) s \<and>
     keeps I view (w_Now W) (\<lambda>t. \<not> meltdown_AnnotationWindow_Contains L (MeltdownDuration cfg)
        (sts_Annotations (view s)) t) s \<and>
     keeps I view (getTimeOut L W (view s) (AnnotationUpdateWatchTime (gname L))) (\<lambda>d. 0 \<le> d) s \<and>
     keeps I view (getTimeOut L W (view s) (AnnotationCanaryWatchTime (gname L))) (\<lambda>d. 0 \<le> d) s \<and>
     (\<forall>p. partitionVal (view s) = Ret p \<longrightarrow> 0 \<le> p \<longrightarrow> canary_state L (view s) \<noteq> rolloutStatePending \<longrightarrow>
        keeps I view (w_GetPod W (podKey (view s) p))
          (\<lambda>r. \<exists>pod. r = Inr pod \<and> podutil_IsPodReady L pod \<and> podIsUpdated L (view s) pod) s) \<and>
     (\<exists>r. spec_Replicas (sts_Spec (view s)) = Some r \<and> st_Replicas (sts_Status (view s)) = r) \<and>
     (\<forall>x part st z. sts_Name x = sts_Name (view s) \<longrightarrow> sts_Namespace x = sts_Namespace (view s) \<longrightarrow>
        rolloutMutate L part st (view s) = Ret z \<longrightarrow>
        wp (w_CreateOrUpdate W x (rolloutMutate L part st)) (\<lambda>r s'. r = Ret (None, z) \<and> I s' \<and> view s' = z) s))"

lemma keeps_wp:
  "keeps I view m P s \<Longrightarrow> (\<And>a s'. P a \<Longrightarrow> I s' \<Longrightarrow> view s' = view s \<Longrightarrow> Q a s') \<Longrightarrow> wp m Q s"
  unfolding keeps_def by (erule wp_mono) blast

lemma coopD:
  assumes "cooperative L cfg W req I view" "I s"
  shows coop_get: "keeps I view (w_GetSts W req) (\<lambda>r. r = Inr (view s)) s"
    and coop_now: "keeps I view (w_Now W) (\<lambda>t. \<not> meltdown_AnnotationWindow_Contains L
      (MeltdownDuration cfg) (sts_Annotations (view s)) t) s"
    and coop_update_time: "keeps I view (getTimeOut L W (view s) (AnnotationUpdateWatchTime (gname L))) (\<lambda>d. 0 \<le> d) s"
    and coop_canary_time: "keeps I view (getTimeOut L W (view s) (AnnotationCanaryWatchTime (gname L))) (\<lambda>d. 0 \<le> d) s"
    and coop_pod: "partitionVal (view s) = Ret p \<Longrightarrow> 0 \<le> p \<Longrightarrow>
      canary_state L (view s) \<noteq> rolloutStatePending \<Longrightarrow> keeps I view (w_GetPod W (podKey (view s) p))
      (\<lambda>r. \<exists>pod. r = Inr pod \<and> podutil_IsPodReady L pod \<and> podIsUpdated L (view s) pod) s"
    and coop_replicas: "\<exists>r. spec_Replicas (sts_Spec (view s)) = Some r \<and> st_Replicas (sts_Status (view s)) = r"
    and coop_write: "sts_Name x = sts_Name (view s) \<Longrightarrow> sts_Namespace x = sts_Namespace (view s) \<Longrightarrow>
      rolloutMutate L part st (view s) = Ret z \<Longrightarrow>
      wp (w_CreateOrUpdate W x (rolloutMutate L part st)) (\<lambda>r s'. r = Ret (None, z) \<and> I s' \<and> view s' = z) s"
  using assms unfolding cooperative_def by blast+

section \<open>One Reconcile on a cooperative cluster\<close>

lemma wp_gobind_Ret:
  "wp m (\<lambda>r s'. r = Ret a \<and> P s') s \<Longrightarrow> (\<And>s'. P s' \<Longrightarrow> wp (f a) Q s') \<Longrightarrow> wp (gobind m f) Q s"
  unfolding wp_gobind by (erule wp_mono) simp

text \<open>The write of \<open>st\<close> and \<open>p\<close> followed by the clean-up of a pod, which is ready.\<close>

lemma coop_update:
  assumes coop: "cooperative L cfg W req I view" "meltdown_keeps_state L"
    and s: "I s" "sts_Name x = sts_Name (view s)" "sts_Namespace x = sts_Namespace (view s)"
    and p: "partitionVal x = Ret p" "0 \<le> p"
    and z: "rolloutMutate L p (canary_state L x) (view s) = Ret z"
    and st: "canary_state L x \<noteq> rolloutStatePending"
  shows "wp (updateWithPartitionMove L W x old)
     (\<lambda>r s'. r = Ret None \<and> I s' \<and> view s' = z) s"
proof -
  have wr: "wp (w_CreateOrUpdate W x' (rolloutMutate L p (canary_state L x)))
      (\<lambda>r s'. r = Ret (None, z) \<and> I s' \<and> view s' = z) s'"
    if "I s'" "view s' = view s" "sts_Name x' = sts_Name x" "sts_Namespace x' = sts_Namespace x" for x' s'
    using that s z by (intro coop_write [OF coop(1)]) simp_all
  note pod = coop_pod [OF coop(1) _ _ p(2)]
  have zp: "partitionVal z = Ret p" "canary_state L z \<noteq> rolloutStatePending"
    using rolloutMutate_Ret(1,2) [OF z] st by simp_all
  have up: "wp (updateStatefulSet L W x) (\<lambda>r s'. r = Ret (None, z) \<and> I s' \<and> view s' = z) s"
    unfolding updateStatefulSet_def Let_def
    using coop(2) p(1)
    by (auto simp: wp_simps meltdown_keeps_state_def s
          intro!: keeps_wp [OF coop_now [OF coop(1)]] wp_mono [OF wr])
  have clean: "wp (CleanupNonReadyPod L W z p) (\<lambda>r s'. r = None \<and> I s' \<and> view s' = z) s'"
    if "I s'" "view s' = z" for s'
    using that(2) zp unfolding CleanupNonReadyPod_def getPodWithIndex_def
    by (auto simp: wp_simps intro!: keeps_wp [OF pod [OF that(1)]])
  show ?thesis
    unfolding updateWithPartitionMove_def
    by (rule wp_gobind_Ret [OF up]) (simp add: wp_simps zp wp_mono [OF clean])
qed

definition stands :: "lib \<Rightarrow> string \<Rightarrow> int \<Rightarrow> statefulset \<Rightarrow> bool" where
  "stands L st p x \<longleftrightarrow> canary_state L x = st \<and> partitionVal x = Ret p"

lemma coop_finish:
  assumes coop: "cooperative L cfg W req I view" "meltdown_keeps_state L" and s: "I s"
    and x1: "sts_Annotations x1 = sts_Annotations (view s)" "sts_Name x1 = sts_Name (view s)"
      "sts_Namespace x1 = sts_Namespace (view s)"
    and p: "partitionVal x1 = Ret p'" "0 \<le> p'" "partitionVal (view s) = Ret p"
    and ann: "sts_Annotations (view s) = Some f"
    and move: "st' \<noteq> canary_state L (view s) \<or> dirty" "st' \<noteq> rolloutStatePending"
  shows "wp (rolloutFinish L W x1 st' dirty old res)
     (\<lambda>r s'. r = Ret (res, None) \<and> I s' \<and> stands L st' p' (view s')) s"
proof -
  obtain m where m: "(if st' \<noteq> canary_state L x1 then gset (sts_Annotations x1)
      (AnnotationCanaryRollout (gname L)) st' else Ret (sts_Annotations x1)) = Ret m"
    and st: "gget m (AnnotationCanaryRollout (gname L)) = st'"
    using ann x1(1) by (cases "st' = canary_state L x1") auto
  let ?x = "x1\<lparr>sts_Annotations := m\<rparr>"
  obtain z where z: "rolloutMutate L p' st' (view s) = Ret z"
    using ann partitionVal_Ret [OF p(3)] by (auto simp: rolloutMutate_def)
  have up: "wp (updateWithPartitionMove L W ?x old)
     (\<lambda>r s'. r = Ret None \<and> I s' \<and> view s' = z) s"
    using x1 p st z move(2) by (intro coop_update [OF coop s]) simp_all
  show ?thesis
    using move x1(1) rolloutMutate_Ret(1,2) [OF z]
    unfolding rolloutFinish_def Let_def m
    by (auto simp: wp_simps stands_def intro!: wp_mono [OF up])
qed

text \<open>What one Reconcile does to state and partition here.\<close>

inductive coop_step :: "string \<times> int \<Rightarrow> string \<times> int \<Rightarrow> bool" where
  start: "1 \<le> p \<Longrightarrow> coop_step (rolloutStatePending, p) (rolloutStateCanary, p - 1)"
| next_pod: "st = rolloutStateCanary \<or> st = rolloutStateRollout \<Longrightarrow> 1 \<le> p \<Longrightarrow>
    coop_step (st, p) (rolloutStateRollout, p - 1)"
| complete: "st = rolloutStateCanary \<or> st = rolloutStateRollout \<Longrightarrow>
    coop_step (st, 0) (rolloutStateDone, 0)"

inductive_cases coop_stepE: "coop_step (st, p) (st', p')"

lemma coop_ready:
  assumes "cooperative L cfg W req I view" "I s" "partitionVal (view s) = Ret p" "0 \<le> p"
    and "canary_state L (view s) \<noteq> rolloutStatePending"
  shows "keeps I view (partitionPodIsReadyAndUpdated L W (view s)) (\<lambda>r. r = Ret (Inr True)) s"
  using assms(3)
  unfolding partitionPodIsReadyAndUpdated_def getPodWithIndex_def keeps_def
  by (auto simp: wp_simps partitionVal_def partitionPtr_def
        intro!: keeps_wp [OF coop_pod [OF assms]] split: option.splits)

text \<open>What the switch ends with, on the way to \<open>st'\<close> and \<open>p'\<close>.\<close>

definition switched :: "statefulset \<Rightarrow> string \<Rightarrow> string \<Rightarrow> int \<Rightarrow> switch_out go \<Rightarrow> bool" where
  "switched x st st' p' r \<longleftrightarrow>
     (\<exists>x1 dirty res. r = Ret (SwitchOk x1 st' dirty res) \<and> (x1 = x \<or> x1 = withPartition p' x) \<and>
        partitionVal x1 = Ret p' \<and> (st' \<noteq> st \<or> dirty))"

lemma coop_pending:
  assumes coop: "cooperative L cfg W req I view" "I s"
    and p: "partitionVal (view s) = Ret p" "int32_ok p" "1 \<le> p"
  shows "keeps I view (casePending L W (view s) rolloutStatePending res)
    (switched (view s) rolloutStatePending rolloutStateCanary (p - 1)) s"
proof -
  obtain r where r: "spec_Replicas (sts_Spec (view s)) = Some r" "st_Replicas (sts_Status (view s)) = r"
    using coop_replicas [OF coop] by blast
  show ?thesis
    unfolding keeps_def casePending_def Let_def
    apply (simp add: wp_simps r)
    apply (rule keeps_wp [OF coop_canary_time [OF coop]])
    using p by (auto simp: wp_simps switched_def partitionVal_with dec32_pos)
qed

lemma coop_rollout:
  assumes coop: "cooperative L cfg W req I view" "I s"
    and p: "partitionVal (view s) = Ret p" "int32_ok p" "0 \<le> p"
    and st: "st \<noteq> rolloutStateDone" "canary_state L (view s) \<noteq> rolloutStatePending"
  shows "keeps I view (caseRollout L W (view s) st res)
    (switched (view s) st (if p = 0 then rolloutStateDone else rolloutStateRollout) (if p = 0 then 0 else p - 1)) s"
  unfolding keeps_def caseRollout_def Let_def wp_gobind
  apply (rule keeps_wp [OF coop_ready [OF coop p(1,3) st(2)]])
  using p st by (auto simp: wp_simps switched_def partitionVal_with dec32_pos)

lemma coop_canary:
  assumes coop: "cooperative L cfg W req I view" "I s"
    and p: "partitionVal (view s) = Ret p" "int32_ok p" "0 \<le> p"
    and st: "canary_state L (view s) \<noteq> rolloutStatePending"
  shows "keeps I view (caseCanary L W (view s) rolloutStateCanary res)
    (switched (view s) rolloutStateCanary (if p = 0 then rolloutStateDone else rolloutStateRollout)
       (if p = 0 then 0 else p - 1)) s"
  unfolding keeps_def caseCanary_def wp_bind
proof (rule keeps_wp [OF coop_canary_time [OF coop]])
  fix d :: int and s'
  assume d: "0 \<le> d" and s': "I s'" "view s' = view s"
  have "keeps I view (caseRollout L W (view s') rolloutStateCanary res)
    (switched (view s') rolloutStateCanary (if p = 0 then rolloutStateDone else rolloutStateRollout)
       (if p = 0 then 0 else p - 1)) s'"
    using p s'(2) st by (intro coop_rollout [OF coop(1) s'(1)]) (simp_all add: rolloutStateCanary_def rolloutStateDone_def)
  with d s'(2) show "wp (if d < 0 then gret (SwitchOk (view s) rolloutStateFailed False res)
       else caseRollout L W (view s) rolloutStateCanary res)
     (\<lambda>a s'. switched (view s) rolloutStateCanary (if p = 0 then rolloutStateDone else rolloutStateRollout)
       (if p = 0 then 0 else p - 1) a \<and> I s' \<and> view s' = view s) s'"
    by (simp add: keeps_def)
qed

lemma coop_switch:
  assumes coop: "cooperative L cfg W req I view" "I s"
    and s: "partitionVal (view s) = Ret p" "int32_ok p" and step: "coop_step (st, p) (st', p')" "0 \<le> p"
    and st: "canary_state L (view s) = st"
  shows "keeps I view (rolloutSwitch L W (view s) st res) (switched (view s) st st' p') s"
proof -
  have neq: "rolloutStateCanary \<noteq> rolloutStateCanaryUpscale" "rolloutStateRollout \<noteq> rolloutStateCanaryUpscale"
    "rolloutStatePending \<noteq> rolloutStateCanaryUpscale" "rolloutStateRollout \<noteq> rolloutStateCanary"
    "rolloutStatePending \<noteq> rolloutStateCanary" "rolloutStatePending \<noteq> rolloutStateRollout"
    "rolloutStateRollout \<noteq> rolloutStateDone"
    "rolloutStateCanary \<noteq> rolloutStatePending" "rolloutStateRollout \<noteq> rolloutStatePending"
    by (simp_all add: rollout_states)
  show ?thesis
    using step(1) st coop_canary [OF coop s step(2), of res]
      coop_rollout [OF coop s step(2), of rolloutStateRollout res]
    by (elim coop_stepE disjE; hypsubst)
       (simp_all add: rolloutSwitch_def neq coop_pending [OF coop s] split: if_splits)
qed

lemma coop_reconcile:
  assumes coop: "cooperative L cfg W req I view" "meltdown_keeps_state L"
    and s: "I s" "stands L st p (view s)" "int32_ok p" and step: "coop_step (st, p) (st', p')"
  shows "wp (rolloutReconcile L cfg W req)
     (\<lambda>r s'. (\<exists>res. r = Ret (res, None)) \<and> I s' \<and> stands L st' p' (view s')) s"
proof -
  obtain f where f: "sts_Annotations (view s) = Some f"
  proof -
    have "canary_state L (view s) \<noteq> []"
      using s(2) step by (auto simp: stands_def rollout_states elim!: coop_stepE)
    then show thesis using gget_nonempty_nonnil that by blast
  qed
  have st: "canary_state L (view s) = st" "partitionVal (view s) = Ret p" "partitionPtr (view s) = Ret (Some p)"
    using s(2) by (auto simp: stands_def intro: partitionVal_Ret)
  have p: "0 \<le> p" "0 \<le> p'"
    using step by (auto elim: coop_stepE)
  have live: "st \<noteq> rolloutStateFailed" "st \<noteq> rolloutStateDone" "st' \<noteq> rolloutStatePending"
    using step by (auto simp: rollout_states elim: coop_stepE)
  have fin: "wp (rolloutFinish L W x1 st' dirty old res)
     (\<lambda>r s''. (\<exists>res. r = Ret (res, None)) \<and> I s'' \<and> stands L st' p' (view s'')) s'"
    if "I s'" "view s' = view s" and x1: "x1 = view s \<or> x1 = withPartition p' (view s)"
      "partitionVal x1 = Ret p'" "st' \<noteq> st \<or> dirty" for s' x1 dirty old res
  proof (rule wp_mono)
    show "wp (rolloutFinish L W x1 st' dirty old res)
       (\<lambda>r s''. r = Ret (res, None) \<and> I s'' \<and> stands L st' p' (view s'')) s'"
      using that st f p live(3) by (intro coop_finish [OF coop that(1)]) auto
  qed auto
  have adv: "wp (rolloutAdvance L W (view s))
     (\<lambda>r s''. (\<exists>res. r = Ret (res, None)) \<and> I s'' \<and> stands L st' p' (view s'')) s'"
    if "I s'" "view s' = view s" for s'
  proof -
    have time: "keeps I view (getTimeOut L W (view s) (AnnotationUpdateWatchTime (gname L))) (\<lambda>d. 0 \<le> d) s''"
      and switch: "keeps I view (rolloutSwitch L W (view s) st res) (switched (view s) st st' p') s''"
      if "I s''" "view s'' = view s" for s'' res
      using coop_update_time [OF coop(1) that(1)] that st
        coop_switch [OF coop(1) that(1) _ s(3) step p(1), of res] by simp_all
    show ?thesis
      unfolding rolloutAdvance_def failIfTimedOut_def Let_def
      using live
      by (auto simp: wp_simps st switched_def that intro!: keeps_wp [OF time] keeps_wp [OF switch] fin)
  qed
  show ?thesis
    unfolding rolloutReconcile_def
    using adv
    by (auto simp: wp_simps intro!: keeps_wp [OF coop_get [OF coop(1) s(1)]] keeps_wp [OF coop_now [OF coop(1)]])
qed

section \<open>Completion\<close>

text \<open>\<open>n\<close> calls of Reconcile for the same request.\<close>

primrec reconciles :: "lib \<Rightarrow> config \<Rightarrow> 's world \<Rightarrow> nsname \<Rightarrow> nat \<Rightarrow> ('s, unit) state" where
  "reconciles L cfg W req 0 = State_Monad.return ()"
| "reconciles L cfg W req (Suc n) = do { _ \<leftarrow> rolloutReconcile L cfg W req; reconciles L cfg W req n }"

lemma coop_reconciles:
  assumes coop: "cooperative L cfg W req I view" "meltdown_keeps_state L"
    and s: "I s" "stands L st (int n) (view s)" "int32_ok (int n)"
    and st: "st = rolloutStateCanary \<or> st = rolloutStateRollout"
  shows "wp (reconciles L cfg W req (Suc n)) (\<lambda>_ s'. I s' \<and> stands L rolloutStateDone 0 (view s')) s"
  using s st
proof (induction n arbitrary: s st)
  case 0
  then have "coop_step (st, int 0) (rolloutStateDone, 0)"
    by (auto intro: coop_step.complete)
  from coop_reconcile [OF coop 0(1-3) this] show ?case
    by (auto simp: wp_simps intro: wp_mono)
next
  case (Suc n)
  then have step: "coop_step (st, int (Suc n)) (rolloutStateRollout, int n)"
    using coop_step.next_pod [of st "int (Suc n)"] by simp
  have "int32_ok (int n)" using Suc.prems(3) by (simp add: int32_ok_def)
  with Suc.IH show ?case
    unfolding reconciles.simps(2) [of _ _ _ _ "Suc n"] wp_bind
    by (intro wp_mono [OF coop_reconcile [OF coop Suc.prems(1-3) step]]) auto
qed

text \<open>
  C4: completion. On a cooperative cluster, p + 1 calls of Reconcile take a pending rollout
  with partition p to state Done with partition 0.
\<close>

theorem rollout_completes:
  assumes "cooperative L cfg W req I view" "meltdown_keeps_state L"
    and "I s" "canary_state L (view s) = rolloutStatePending" "partitionVal (view s) = Ret (int p)"
    and "1 \<le> p" "int32_ok (int p)"
  shows "wp (reconciles L cfg W req (p + 1))
    (\<lambda>_ s'. canary_state L (view s') = rolloutStateDone \<and> partitionVal (view s') = Ret 0) s"
proof -
  obtain n where n: "p = Suc n" using assms(6) by (cases p) auto
  have step: "coop_step (rolloutStatePending, int p) (rolloutStateCanary, int n)"
    using coop_step.start [of "int p"] n by simp
  have ok: "int32_ok (int n)" using assms(7) n by (simp add: int32_ok_def)
  have rest: "wp (reconciles L cfg W req (Suc n))
      (\<lambda>_ s'. canary_state L (view s') = rolloutStateDone \<and> partitionVal (view s') = Ret 0) s'"
    if "I s'" "stands L rolloutStateCanary (int n) (view s')" for s'
    using wp_mono [OF coop_reconciles [OF assms(1,2) that ok]] by (simp add: stands_def)
  have start: "stands L rolloutStatePending (int p) (view s)"
    using assms(4,5) by (simp add: stands_def)
  have "p + 1 = Suc (Suc n)" using n by simp
  then show ?thesis
    unfolding reconciles.simps(2) [of _ _ _ _ "Suc n"] wp_bind
    by (simp only: reconciles.simps(2) [of _ _ _ _ "Suc n"] wp_bind)
       (rule wp_mono [OF coop_reconcile [OF assms(1-3) start assms(7) step]], blast intro: rest)
qed

text \<open>The world of the witness: every pod asked for exists, is ready and updated.\<close>

definition ready_world :: "mem world" where
  "ready_world = mem_world\<lparr>w_GetPod := (\<lambda>k. State_Monad.return (Inr (sample_pod 0 ''ready'')))\<rparr>"

definition sample_stored :: "mem \<Rightarrow> bool" where
  "sample_stored s \<longleftrightarrow> (\<exists>st part. m_Sts s = [(sample_key, sample_sts st part 2 2)])"

definition sample_view :: "mem \<Rightarrow> statefulset" where
  "sample_view s = snd (hd (m_Sts s))"

lemma sample_mutate:
  "rolloutMutate sample_lib part st (sample_sts st0 part0 2 2) = Ret z \<Longrightarrow> z = sample_sts st part 2 2"
  by (auto simp: rolloutMutate_def sample_sts_def partitionPtr_def withPartition_def zero_defs
        sample_lib_def key_defs)

lemma sample_no_deadline:
  "getTimeOut sample_lib W (sample_sts st part 2 2) (AnnotationUpdateWatchTime (gname sample_lib)) =
     State_Monad.return 0"
  "getTimeOut sample_lib W (sample_sts st part 2 2) (AnnotationCanaryWatchTime (gname sample_lib)) =
     State_Monad.return 0"
  by (simp_all add: getTimeOut_def sample_sts_def sample_lib_def key_defs ghas_def)

lemma ready_world_runs:
  "run_state (w_GetSts ready_world k) s = (found (map_of (m_Sts s) k), s)"
  "run_state (w_GetPod ready_world k) s = (Inr (sample_pod 0 ''ready''), s)"
  "run_state (w_Now ready_world) s = (m_Now s, s)"
  "run_state (w_CreateOrUpdate ready_world x f) s =
     (case f (case map_of (m_Sts s) (sts_key x) of None \<Rightarrow> x | Some b \<Rightarrow> b) of
          Panic \<Rightarrow> (Panic, s)
        | Ret y \<Rightarrow> (Ret (None, y), s\<lparr>m_Sts := AList.update (sts_key x) y (m_Sts s)\<rparr>))"
  by (simp_all add: ready_world_def mem_world_def)

lemma sample_frame:
  "sts_Name (sample_sts st part 2 2) = ''foo''" "sts_Namespace (sample_sts st part 2 2) = ''default''"
  "spec_Replicas (sts_Spec (sample_sts st part 2 2)) = Some 2"
  "st_Replicas (sts_Status (sample_sts st part 2 2)) = 2"
  "st_UpdateRevision (sts_Status (sample_sts st part 2 2)) = ''rev2''"
  by (simp_all add: sample_sts_def)

lemma sample_cooperative:
  "cooperative sample_lib sample_config ready_world sample_key sample_stored sample_view"
proof -
  have key: "sts_key x = sample_key" if "sts_Name x = ''foo''" "sts_Namespace x = ''default''" for x
    using that by (simp add: sts_key_def sample_key_def)
  have window: "\<not> meltdown_AnnotationWindow_Contains sample_lib d m t" for d m t
    by (simp add: sample_lib_def)
  have pod: "podutil_IsPodReady sample_lib (sample_pod 0 ''ready'')"
    "podIsUpdated sample_lib (sample_sts st part 2 2) (sample_pod 0 ''ready'')" for st part
    by (simp_all add: sample_lib_def sample_pod_def podIsUpdated_def sample_frame gget_def)
  show ?thesis
    unfolding cooperative_def sample_stored_def
    by (auto simp: sample_view_def keeps_def wp_def ready_world_runs found_def window
        sample_no_deadline sample_frame key pod dest!: sample_mutate) blast+
qed

theorem rollout_completes_witness:
  "wp (reconciles sample_lib sample_config ready_world sample_key (2 + 1))
     (\<lambda>_ s'. canary_state sample_lib (sample_view s') = rolloutStateDone \<and>
        partitionVal (sample_view s') = Ret 0)
     (sample_mem (sample_sts ''Pending'' 2 2 2) [])"
proof -
  let ?s = "sample_mem (sample_sts ''Pending'' 2 2 2) []"
  have view: "m_Sts ?s = [(sample_key, sample_sts ''Pending'' 2 2 2)]"
    by (simp add: sample_mem_def empty_mem_def)
  then have "sample_stored ?s" by (auto simp: sample_stored_def)
  moreover have "canary_state sample_lib (sample_view ?s) = rolloutStatePending"
    "partitionVal (sample_view ?s) = Ret (int 2)"
    unfolding sample_view_def view
    by (simp_all add: sample_sts_def sample_lib_def key_defs rollout_states gget_def partitionVal_def partitionPtr_def zero_defs)
  ultimately show ?thesis
    by (rule rollout_completes [OF sample_cooperative sample_keeps]) (simp_all add: int32_ok_def)
qed

end
