(* ===== verification/Rollout_Liveness.thy ===== *)
theory Rollout_Liveness
  imports Rollout_Properties
begin

text \<open>
  What the rollout controller achieves: its time-outs, the propagation of failed writes, and
  the completion of a rollout on a cluster whose pods become ready.
\<close>

section \<open>Deadlines\<close>

lemma norm_time_id: "- (2 ^ 62) \<le> t div 10 ^ 9 \<Longrightarrow> t div 10 ^ 9 < 2 ^ 62 \<Longrightarrow> norm_time t = t"
  by (simp add: norm_time_def wrap64_id int64_ok_def unixToInternal_def)

lemma norm_time_range: "0 \<le> t \<Longrightarrow> t < 2 ^ 62 * 10 ^ 9 \<Longrightarrow> norm_time t = t"
proof (rule norm_time_id)
  have t: "t = 10 ^ 9 * (t div 10 ^ 9) + t mod 10 ^ 9" "0 \<le> t mod 10 ^ 9" "t mod 10 ^ 9 < 10 ^ 9"
    by simp_all
  assume "0 \<le> t" "t < 2 ^ 62 * 10 ^ 9"
  with t show "- (2 ^ 62) \<le> t div 10 ^ 9" "t div 10 ^ 9 < 2 ^ 62" by simp_all
qed

lemma getTimeOut_at:
  assumes "gmap (sts_Annotations x) k = Some (Itoa w)"
    and "gmap (sts_Annotations x) (AnnotationUpdateStartTime (gname L)) = Some (Itoa u)"
    and "0 \<le> w" "w * time_Millisecond < 2 ^ 63" "0 \<le> u" "u < 2 ^ 61"
    and "run_state (w_Now W) s = (now, s')"
  shows "run_state (getTimeOut L W x k) s =
    (let d = sat64 (u * time_Second + w * time_Millisecond - now) in if d = 0 then -1 else d, s')"
proof -
  have "int64_ok w" "int64_ok u" "wrap64 (time_Millisecond * w) = time_Millisecond * w"
    using assms(3-6) by (auto simp: int64_ok_def time_Millisecond_def intro!: wrap64_id)
  moreover have "time_Add (time_Unix u) (time_Millisecond * w) = u * time_Second + w * time_Millisecond"
    using assms(3-6) by (simp add: time_Add_def time_Unix_def norm_time_range time_Second_def time_Millisecond_def)
  ultimately show ?thesis
    using assms(1,2,7) by (simp add: getTimeOut_def gget_def ghas_def Atoi_Itoa time_Until_def Let_def)
qed

lemma sat64_sign: "sat64 d < 0 \<longleftrightarrow> d < 0" "sat64 d = 0 \<longleftrightarrow> d = 0"
  by (auto simp: sat64_def)

text \<open>
  The deadline. If the watch time is w milliseconds and the rollout started at second u
  (in the ranges where Go's arithmetic does not wrap), the time left is never 0, and it is
  negative exactly from the deadline on.
\<close>

theorem getTimeOut_deadline:
  assumes "gmap (sts_Annotations x) k = Some (Itoa w)"
    and "gmap (sts_Annotations x) (AnnotationUpdateStartTime (gname L)) = Some (Itoa u)"
    and "0 \<le> w" "w * time_Millisecond < 2 ^ 63" "0 \<le> u" "u < 2 ^ 61"
    and "run_state (w_Now W) s = (now, s')"
  shows "\<exists>d. run_state (getTimeOut L W x k) s = (d, s') \<and> d \<noteq> 0 \<and>
    (d < 0 \<longleftrightarrow> u * time_Second + w * time_Millisecond \<le> now)"
  using getTimeOut_at [OF assms] by (auto simp: Let_def sat64_sign)

theorem getTimeOut_deadline_witness:
  "\<exists>d. run_state (getTimeOut sample_lib mem_world
      (zero_statefulset\<lparr>sts_Annotations := Some [''w'' \<mapsto> Itoa 5000,
         ''quarks.cloudfoundry.org/update-start-time'' \<mapsto> Itoa 100]\<rparr>) ''w'')
      (empty_mem\<lparr>m_Now := 105 * 10 ^ 9\<rparr>) = (d, empty_mem\<lparr>m_Now := 105 * 10 ^ 9\<rparr>) \<and>
    d \<noteq> 0 \<and> (d < 0 \<longleftrightarrow> 100 * time_Second + 5000 * time_Millisecond \<le> 105 * 10 ^ 9)"
  by (rule getTimeOut_deadline)
     (simp_all add: sample_lib_def mem_world_def key_defs time_Millisecond_def)

text \<open>From the trace calculus to weakest preconditions of recorded runs.\<close>

lemma emits_wp:
  "emits m P \<Longrightarrow> (\<And>a s' ev. P a ev \<Longrightarrow> Q a (s', tr @ ev)) \<Longrightarrow> wp m Q (s, tr)"
  unfolding emits_def wp_def by (metis (mono_tags, lifting) case_prod_conv)

lemma wp_trace: "wp m (\<lambda>a (s', tr). P a tr) (s, []) \<Longrightarrow> P (result_of m s) (trace_of m s)"
  by (auto simp: wp_def result_of_def trace_of_def split: prod.splits)

lemma getTimeOut_recording:
  "(\<And>tr' s'. writes tr' = writes tr \<Longrightarrow> Q (fst (run_state (getTimeOut L W x k) s)) (s', tr')) \<Longrightarrow>
     wp (getTimeOut L (recording W) x k) Q (s, tr)"
  by (auto simp: getTimeOut_def Let_def wp_simps split: prod.splits sum.splits)

lemma timed_out_nonnil:
  "fst (run_state (getTimeOut L W x k) s) < 0 \<Longrightarrow> \<exists>f. sts_Annotations x = Some f"
  by (cases "sts_Annotations x") (auto simp: getTimeOut_def Let_def)

text \<open>
  C22: a rollout that is not final and has timed out is marked as failed, by one write that
  keeps the partition, and nothing else is written.
\<close>

theorem rollout_timeout_fails:
  assumes "meltdown_keeps_state L"
    and "run_state (w_GetSts W req) s = (Inr x, s1)" and "run_state (w_Now W) s1 = (t, s2)"
    and "\<not> meltdown_AnnotationWindow_Contains L (MeltdownDuration cfg) (sts_Annotations x) t"
    and "canary_state L x \<noteq> rolloutStateDone" "canary_state L x \<noteq> rolloutStateFailed"
    and "partitionVal x = Ret p"
    and "fst (run_state (getTimeOut L W x (AnnotationUpdateWatchTime (gname L))) s2) < 0"
  shows "\<exists>x' r. writes (trace_of (rolloutReconcile L cfg (recording W) req) s) =
    [WroteSts x' (rolloutMutate L p rolloutStateFailed) r]"
proof -
  obtain f where f: "sts_Annotations x = Some f"
    using timed_out_nonnil [OF assms(8)] by blast
  let ?w = "\<lambda>tr. \<exists>x' r. writes tr = [WroteSts x' (rolloutMutate L p rolloutStateFailed) r]"
  have "wp (rolloutAdvance L (recording W) x) (\<lambda>q (s', tr). ?w tr) (s2, [GotSts req (Inr x), Clock t])"
    unfolding rolloutAdvance_def failIfTimedOut_def Let_def
    using assms(5-8) f
    by (auto simp: wp_simps partitionVal_def split: go.splits
        intro!: getTimeOut_recording emits_wp [OF updateStatefulSet_emits [OF assms(1)]])
  then have "wp (rolloutReconcile L cfg (recording W) req) (\<lambda>q (s', tr). ?w tr) (s, [])"
    using assms(2-4) by (simp add: rolloutReconcile_def wp_simps)
  then show ?thesis by (rule wp_trace)
qed

theorem rollout_timeout_fails_witness:
  "\<exists>s x x' r. canary_state sample_lib x = rolloutStateCanary \<and>
     writes (trace_of (rolloutReconcile sample_lib sample_config (recording mem_world) sample_key) s) =
     [WroteSts x' (rolloutMutate sample_lib 1 rolloutStateFailed) r]"
proof -
  define x where "x = (sample_sts ''Canary'' 1 2 2)\<lparr>sts_Annotations :=
    Some [''quarks.cloudfoundry.org/canary-rollout'' \<mapsto> ''Canary'',
          ''quarks.cloudfoundry.org/update-watch-time-ms'' \<mapsto> ''soon'']\<rparr>"
  define s where "s = sample_mem x []"
  have get: "run_state (w_GetSts mem_world sample_key) s = (Inr x, s)"
    "run_state (w_Now mem_world) s = (0, s)"
    by (simp_all add: s_def sample_mem_def sample_defs)
  have st: "canary_state sample_lib x = rolloutStateCanary"
    by (simp add: x_def sample_lib_def key_defs rollout_states gget_def)
  have st': "canary_state sample_lib x \<noteq> rolloutStateDone" "canary_state sample_lib x \<noteq> rolloutStateFailed"
    "\<not> meltdown_AnnotationWindow_Contains sample_lib (MeltdownDuration sample_config) (sts_Annotations x) 0"
    by (simp_all add: st rollout_states) (simp add: sample_lib_def)
  have p: "partitionVal x = Ret 1"
    by (simp add: x_def sample_sts_def zero_defs partitionVal_def partitionPtr_def)
  have late: "fst (run_state (getTimeOut sample_lib mem_world x (AnnotationUpdateWatchTime (gname sample_lib))) s) < 0"
    unfolding x_def s_def by code_simp
  show ?thesis
    using rollout_timeout_fails [OF sample_keeps get st'(3,1,2) p late] st by blast
qed

section \<open>Failed writes\<close>

lemma updateStatefulSet_refused:
  "emits (updateStatefulSet L (recording W) x)
     (\<lambda>q ev. refused ev \<longrightarrow> (\<exists>e y. q = Ret (Some e, y)))"
  unfolding updateStatefulSet_def Let_def recording_simps
  by (intro emits_rules) auto

lemma CleanupNonReadyPod_refused:
  "emits (CleanupNonReadyPod L (recording W) x p) (\<lambda>q ev. refused ev \<longrightarrow> q \<noteq> None)"
  unfolding CleanupNonReadyPod_def getPodWithIndex_def recording_simps
  by (intro emits_rules) auto

lemma updateWithPartitionMove_refused:
  "emits (updateWithPartitionMove L (recording W) x old)
     (\<lambda>q ev. refused ev \<longrightarrow> (\<exists>e. q = Ret (Some e)))"
  unfolding updateWithPartitionMove_def
  by (intro emits_rules emits_mono [OF updateStatefulSet_refused]
        emits_mono [OF CleanupNonReadyPod_refused]) auto

lemma failIfTimedOut_refused:
  "emits (failIfTimedOut L (recording W) x k)
     (\<lambda>q ev. refused ev \<longrightarrow> (\<exists>e. q = Ret (True, Some e)))"
  unfolding failIfTimedOut_def
  by (intro emits_rules emits_mono [OF updateStatefulSet_refused] emits_mono [OF getTimeOut_emits])
     (auto simp: refused_quiet)

lemma rolloutReconcile_refused:
  "emits (rolloutReconcile L cfg (recording W) req)
     (\<lambda>q ev. refused ev \<longrightarrow> (\<exists>res e. q = Ret (res, Some e)))"
  unfolding rolloutReconcile_def rolloutAdvance_def rolloutFinish_def recording_simps Let_def
  by (intro emits_rules emits_mono [OF failIfTimedOut_refused]
        emits_mono [OF getTimeOut_emits] emits_mono [OF rolloutSwitch_emits]
        emits_mono [OF updateWithPartitionMove_refused])
     (auto simp: refused_quiet switch_post_def)

text \<open>
  C25: errors. If the API server refuses a write or a deletion, Reconcile returns an error, so
  the request is tried again.
\<close>

theorem rollout_errors_surface:
  assumes "tr = trace_of (rolloutReconcile L cfg (recording W) req) s"
    and "ev \<in> set tr" "failed_write ev"
  shows "\<exists>res e. result_of (rolloutReconcile L cfg (recording W) req) s = Ret (res, Some e)"
  using emits_trace [OF rolloutReconcile_refused, of L cfg W req s] assms
  by (auto simp: refused_def list_ex_iff)

theorem rollout_errors_surface_witness:
  "\<exists>res e. result_of (rolloutReconcile sample_lib sample_config
       (recording (mem_world\<lparr>w_DeletePod := (\<lambda>p. State_Monad.return (Some (StatusError 403 ''forbidden'')))\<rparr>))
       sample_key) (sample_mem (sample_sts ''Canary'' 1 2 2) [sample_pod 1 ''ready'', sample_pod 0 ''''])
     = Ret (res, Some e)"
proof -
  let ?R = "rolloutReconcile sample_lib sample_config
       (recording (mem_world\<lparr>w_DeletePod := (\<lambda>p. State_Monad.return (Some (StatusError 403 ''forbidden'')))\<rparr>))
       sample_key"
  let ?s = "sample_mem (sample_sts ''Canary'' 1 2 2) [sample_pod 1 ''ready'', sample_pod 0 '''']"
  have "list_ex failed_write (trace_of ?R ?s)" by code_simp
  then obtain ev where "ev \<in> set (trace_of ?R ?s)" "failed_write ev"
    by (auto simp: list_ex_iff)
  then show ?thesis by (rule rollout_errors_surface [OF refl])
qed

section \<open>A pending rollout without pods\<close>

lemma rolloutFinish_dirty:
  assumes "meltdown_keeps_state L" "sts_Annotations x = Some f" "partitionVal x = Ret p"
  shows "emits (rolloutFinish L (recording W) x st True old res)
     (\<lambda>q ev. \<exists>x' r ds. writes ev = WroteSts x' (rolloutMutate L p st) r # ds)"
proof -
  have "emits (updateWithPartitionMove L (recording W) (x\<lparr>sts_Annotations := m\<rparr>) old)
     (\<lambda>q ev. \<exists>x' r ds. writes ev = WroteSts x' (rolloutMutate L p (gget m (AnnotationCanaryRollout (gname L)))) r # ds)"
    for m
    unfolding updateWithPartitionMove_def
    by (intro emits_rules emits_mono [OF updateStatefulSet_emits [OF assms(1)]]
          emits_mono [OF CleanupNonReadyPod_emits])
       (auto simp: assms(3))
  note up = this
  show ?thesis
    unfolding rolloutFinish_def Let_def
    by (intro emits_rules emits_mono [OF up]) (auto simp: assms(2) split: if_splits)
qed



end
