(* ===== verification/Status.thy ===== *)
theory Status
  imports Qsts
begin

text \<open>
  The status reconciler (\<open>status_reconciler.go\<close>): a QuarksStatefulSet is ready when all its
  StatefulSets of the maximal version have all their replicas ready.
\<close>

section \<open>The model\<close>

definition wantedReplicas :: "statefulset \<Rightarrow> int" where
  "wantedReplicas x = (case spec_Replicas (sts_Spec x) of None \<Rightarrow> 1 | Some r \<Rightarrow> r)"

text \<open>The loop that counts ready StatefulSets and breaks at the first that is not.\<close>

fun readyStsCnt :: "int \<Rightarrow> statefulset list \<Rightarrow> int" where
  "readyStsCnt cnt [] = cnt"
| "readyStsCnt cnt (x # xs) =
     (if st_ReadyReplicas (sts_Status x) \<noteq> wantedReplicas x then cnt else readyStsCnt (cnt + 1) xs)"

text \<open>From the resource read on.\<close>

definition statusRest :: "lib \<Rightarrow> 's world \<Rightarrow> quarks_statefulset \<Rightarrow> ('s, reconcile_out) state" where
  "statusRest L W q = do {
     v \<leftarrow> GetMaxStatefulSetVersion L W q;
     case v of
       Inl err \<Rightarrow> gret (empty_result, Some (Wrapf err (''couldn'' @ [CHR 0x27] @ ''t get latest StatefulSet'')))
     | Inr (statefulSets, _) \<Rightarrow>
         (if length statefulSets > 0 \<and> readyStsCnt 0 statefulSets = int (length statefulSets)
          then do {
            err \<leftarrow> w_UpdateQstsStatus W (withReady True q);
            case err of
              Some e \<Rightarrow> gret (\<lparr>Requeue = False, RequeueAfter = 0\<rparr>, None)
            | None \<Rightarrow> gret (empty_result, None) }
          else gret (empty_result, None)) }"

definition statusReconcile :: "lib \<Rightarrow> 's world \<Rightarrow> nsname \<Rightarrow> ('s, reconcile_out) state" where
  "statusReconcile L W request = do {
     r \<leftarrow> w_GetQsts W request;
     case r of
       Inl err \<Rightarrow>
         (if apierrors_IsNotFound L err then gret (empty_result, None)
          else gret (empty_result, Some err))
     | Inr q \<Rightarrow> statusRest L W q }"

section \<open>What the loop computes\<close>

definition stsReady :: "statefulset \<Rightarrow> bool" where
  "stsReady x \<longleftrightarrow> st_ReadyReplicas (sts_Status x) = wantedReplicas x"

lemma readyStsCnt_bound: "readyStsCnt c xs \<le> c + int (length xs)"
proof (induction xs arbitrary: c)
  case (Cons x xs)
  show ?case using Cons [of "c + 1"] by simp
qed simp

lemma readyStsCnt_all: "readyStsCnt c xs = c + int (length xs) \<longleftrightarrow> list_all stsReady xs"
proof (induction xs arbitrary: c)
  case (Cons x xs)
  show ?case using Cons [of "c + 1"] by (simp add: stsReady_def algebra_simps)
qed simp

lemma readyStsCnt_eq: "readyStsCnt 0 xs = int (length xs) \<longleftrightarrow> list_all stsReady xs"
  using readyStsCnt_all [of 0 xs] by simp

end
