(* ===== verification/ActivePassive.thy ===== *)
theory ActivePassive
  imports Versions
begin

text \<open>
  The active/passive reconciler (\<open>active_passive_reconciler.go\<close>): it runs the probe command in
  a container of every pod of the StatefulSets of the maximal version and keeps the label of
  the active pods up to date.
\<close>

section \<open>Probes\<close>

text \<open>\<open>getProbeContainerName\<close> returns the first key in the order of the map's iteration.\<close>

definition getProbeContainerName :: "probe_map \<Rightarrow> go_error + string" where
  "getProbeContainerName p =
     (case p of
        Some ((key, _) # _) \<Rightarrow> Inr key
      | _ \<Rightarrow> Inl (Errorf ''failed to find a container key in the active/passive probe in the current QuarksStatefulSet''))"

text \<open>\<open>qSts.Spec.ActivePassiveProbes[container]\<close>, the zero probe if there is none.\<close>

definition probeOf :: "quarks_statefulset \<Rightarrow> string \<Rightarrow> probe" where
  "probeOf q container =
     (case qs_ActivePassiveProbes (q_Spec q) of
        None \<Rightarrow> \<lparr>pr_Exec = None, pr_PeriodSeconds = 0\<rparr>
      | Some ps \<Rightarrow> (case map_of ps container of
           None \<Rightarrow> \<lparr>pr_Exec = None, pr_PeriodSeconds = 0\<rparr> | Some p \<Rightarrow> p))"

section \<open>Pods\<close>

definition getStsPodList ::
  "lib \<Rightarrow> 's world \<Rightarrow> statefulset \<Rightarrow> ('s, go_error + pod list) state" where
  "getStsPodList L W x = w_ListPods W (sts_Namespace x) (LabelQStsName (gname L), sts_Name x)"


definition execContainerCmd ::
  "'s world \<Rightarrow> pod \<Rightarrow> string \<Rightarrow> string list \<Rightarrow> ('s, go_error option) state" where
  "execContainerCmd W p container command = do {
     err \<leftarrow> w_Exec W p container command;
     State_Monad.return (case err of
       None \<Rightarrow> None
     | Some (NoExecutor e) \<Rightarrow> Some (Errorf ''failed to initialize remote command executor'')
     | Some (StreamFailed e) \<Rightarrow> Some (Wrapf e (''failed executing command in pod: '' @ [CHR 0x27] @ ''%s/%s'' @ [CHR 0x27] @ '', container: %s''))) }"

definition updatePodLabels :: "'s world \<Rightarrow> pod \<Rightarrow> ('s, go_error option) state" where
  "updatePodLabels W p = w_UpdatePod W p"

text \<open>
  \<open>addActiveLabel\<close>: if the pod has no label map, the label goes into a new map that is never
  stored in the pod, so the pod is updated without it.
\<close>

definition addActiveLabel :: "lib \<Rightarrow> 's world \<Rightarrow> pod \<Rightarrow> ('s, go_error option) state" where
  "addActiveLabel L W p =
     (case pod_Labels p of
        None \<Rightarrow> updatePodLabels W p
      | Some m \<Rightarrow>
          (if m (LabelActivePod (gname L)) \<noteq> None then State_Monad.return None
           else updatePodLabels W (p\<lparr>pod_Labels := Some (m(LabelActivePod (gname L) \<mapsto> ''active''))\<rparr>)))"

definition deleteActiveLabel :: "lib \<Rightarrow> 's world \<Rightarrow> pod \<Rightarrow> ('s, go_error option) state" where
  "deleteActiveLabel L W p =
     (if \<not> ghas (pod_Labels p) (LabelActivePod (gname L)) then State_Monad.return None
      else updatePodLabels W (p\<lparr>pod_Labels := gdel (pod_Labels p) (LabelActivePod (gname L))\<rparr>))"

section \<open>Marking\<close>

text \<open>One iteration of \<open>markActiveContainers\<close>.\<close>

definition markPod ::
  "lib \<Rightarrow> 's world \<Rightarrow> string \<Rightarrow> string list \<Rightarrow> pod \<Rightarrow> ('s, go_error option) state" where
  "markPod L W container probeCmd p = do {
     err \<leftarrow> execContainerCmd W p container probeCmd;
     if err \<noteq> None
     then do {
       err \<leftarrow> deleteActiveLabel L W p;
       State_Monad.return (map_option (\<lambda>e. Wrapf e (''couldn'' @ [CHR 0x27] @ ''t remove label from active pod'')) err) }
     else if podutil_IsPodReady L p
     then do {
       err \<leftarrow> addActiveLabel L W p;
       State_Monad.return (map_option (\<lambda>e. Wrapf e (''couldn'' @ [CHR 0x27] @ ''t label pod as active'')) err) }
     else State_Monad.return None }"

fun markPods ::
  "lib \<Rightarrow> 's world \<Rightarrow> string \<Rightarrow> string list \<Rightarrow> pod list \<Rightarrow> ('s, go_error option) state" where
  "markPods L W container probeCmd [] = State_Monad.return None"
| "markPods L W container probeCmd (p # ps) = do {
     err \<leftarrow> markPod L W container probeCmd p;
     case err of
       Some e \<Rightarrow> State_Monad.return (Some e)
     | None \<Rightarrow> markPods L W container probeCmd ps }"

text \<open>\<open>markActiveContainers\<close>; the command is behind a pointer to the \<open>Exec\<close> action.\<close>

definition markActiveContainers ::
  "lib \<Rightarrow> 's world \<Rightarrow> string \<Rightarrow> pod list \<Rightarrow> quarks_statefulset \<Rightarrow> ('s, go_error option go) state" where
  "markActiveContainers L W container pods q =
     gobind (golift (deref (pr_Exec (probeOf q container)))) (\<lambda>probeCmd. do {
       err \<leftarrow> markPods L W container probeCmd pods;
       gret err })"

section \<open>Reconcile\<close>

fun markStatefulSets ::
  "lib \<Rightarrow> 's world \<Rightarrow> string \<Rightarrow> quarks_statefulset \<Rightarrow> statefulset list \<Rightarrow> ('s, go_error option go) state" where
  "markStatefulSets L W container q [] = gret None"
| "markStatefulSets L W container q (x # xs) = do {
     r \<leftarrow> getStsPodList L W x;
     case r of
       Inl err \<Rightarrow> gret (Some (Wrapf err (''couldn'' @ [CHR 0x27] @ ''t retrieve pod items from sts'')))
     | Inr ownedPods \<Rightarrow>
         gobind (markActiveContainers L W container ownedPods q) (\<lambda>err.
           case err of
             Some e \<Rightarrow> gret (Some e)
           | None \<Rightarrow> markStatefulSets L W container q xs) }"

definition probePeriod :: "quarks_statefulset \<Rightarrow> string \<Rightarrow> int" where
  "probePeriod q container =
     (let ps = wrap64 (time_Second * pr_PeriodSeconds (probeOf q container)) in
      if ps = time_Second * 0 then time_Second * 30 else ps)"

text \<open>From the resource read on.\<close>

definition activePassiveRest :: "lib \<Rightarrow> 's world \<Rightarrow> quarks_statefulset \<Rightarrow> ('s, reconcile_out) state" where
  "activePassiveRest L W q = do {
     v \<leftarrow> GetMaxStatefulSetVersion L W q;
     case v of
       Inl err \<Rightarrow> gret (empty_result,
         Some (Wrapf err (''couldn'' @ [CHR 0x27] @ ''t list StatefulSets for active/passive reconciliation'')))
     | Inr (statefulSets, _) \<Rightarrow>
         (case getProbeContainerName (qs_ActivePassiveProbes (q_Spec q)) of
            Inl err \<Rightarrow> gret (empty_result,
              Some (Wrapf err (''None container name found in probe for '' @ [CHR 0x27] @ ''%s'' @ [CHR 0x27] @ '' QuarksStatefulSet'')))
          | Inr containerName \<Rightarrow>
              gobind (markStatefulSets L W containerName q statefulSets) (\<lambda>err.
                case err of
                  Some e \<Rightarrow> gret (empty_result, Some e)
                | None \<Rightarrow> gret (requeue_after (probePeriod q containerName), None))) }"

definition activePassiveReconcile :: "lib \<Rightarrow> 's world \<Rightarrow> nsname \<Rightarrow> ('s, reconcile_out) state" where
  "activePassiveReconcile L W request = do {
     r \<leftarrow> w_GetQsts W request;
     case r of
       Inl err \<Rightarrow>
         (if apierrors_IsNotFound L err then gret (empty_result, None)
          else gret (empty_result, Some err))
     | Inr q \<Rightarrow> activePassiveRest L W q }"

end
