(* ===== verification/Reconcilers.thy ===== *)
theory Reconcilers
  imports Qsts_Properties Status ActivePassive
begin

text \<open>
  What the reconcilers of a QuarksStatefulSet have in common (locale \<open>resource_reconciler\<close>,
  interpreted for the three of them), and the properties of the status reconciler and of the
  active/passive reconciler.
\<close>

section \<open>The contract of a reconciler\<close>

text \<open>
  A reconciler of one kind of resource reads it first. If the read fails it ends at once: with
  success if the resource is gone, with the error of the read otherwise. If the read succeeds,
  the rest runs on the resource read.
\<close>

locale resource_reconciler =
  fixes missing :: "go_error \<Rightarrow> bool"
    and run :: "('s \<times> event list) world \<Rightarrow> nsname \<Rightarrow> ('s \<times> event list, reconcile_out) state"
    and rest :: "('s \<times> event list) world \<Rightarrow> nsname \<Rightarrow> quarks_statefulset \<Rightarrow> ('s \<times> event list, reconcile_out) state"
  assumes run_missing: "run_state (w_GetQsts W k) s = (Inl e, s') \<Longrightarrow>
      run_state (run W k) s = (Ret (empty_result, if missing e then None else Some e), s')"
    and run_found: "run_state (w_GetQsts W k) s = (Inr q, s') \<Longrightarrow>
      run_state (run W k) s = run_state (rest W k q) s'"
begin

lemma missing_trace:
  assumes "run_state (w_GetQsts V k) s = (Inl e, s')"
  shows "result_of (run (recording V) k) s = Ret (empty_result, if missing e then None else Some e)"
    and "trace_of (run (recording V) k) s = [GotQsts k (Inl e)]"
proof -
  have "run_state (w_GetQsts (recording V) k) (s, []) = (Inl e, (s', [GotQsts k (Inl e)]))"
    using assms by simp
  from run_missing [OF this]
  show "result_of (run (recording V) k) s = Ret (empty_result, if missing e then None else Some e)"
    and "trace_of (run (recording V) k) s = [GotQsts k (Inl e)]"
    by (simp_all add: result_of_def trace_of_def)
qed

lemma missing_quiet:
  assumes "run_state (w_GetQsts V k) s = (Inl e, s')"
  shows "writes (trace_of (run (recording V) k) s) = [] \<and>
    result_of (run (recording V) k) s = Ret (empty_result, if missing e then None else Some e)"
  using missing_trace [OF assms] by simp

lemma found_run:
  "run_state (w_GetQsts V k) s = (Inr q, s') \<Longrightarrow>
     run_state (run (recording V) k) (s, []) = run_state (rest (recording V) k q) (s', [GotQsts k (Inr q)])"
  by (rule run_found) simp

end

interpretation qsts: resource_reconciler "apierrors_IsNotFound L" "qstsReconcile L" "qstsRest L" for L
  by unfold_locales (simp_all add: qstsReconcile_def)

interpretation status: resource_reconciler "apierrors_IsNotFound L" "statusReconcile L"
    "\<lambda>W k. statusRest L W" for L
  by unfold_locales (simp_all add: statusReconcile_def)

interpretation actpass: resource_reconciler "apierrors_IsNotFound L" "activePassiveReconcile L"
    "\<lambda>W k. activePassiveRest L W" for L
  by unfold_locales (simp_all add: activePassiveReconcile_def)

text \<open>
  A deleted resource. If the read of the QuarksStatefulSet fails, none of its reconcilers
  writes anything; each returns success without a retry if the resource is gone, and the error
  of the read otherwise.
\<close>

theorem missing_resource_is_quiet:
  assumes "run_state (w_GetQsts W k) s = (Inl e, s')"
    and "run \<in> {qstsReconcile L, statusReconcile L, activePassiveReconcile L}"
  shows "writes (trace_of (run (recording W) k) s) = [] \<and>
    result_of (run (recording W) k) s =
      Ret (empty_result, if apierrors_IsNotFound L e then None else Some e)"
  using assms(2) qsts.missing_quiet [OF assms(1)] status.missing_quiet [OF assms(1)]
    actpass.missing_quiet [OF assms(1)]
  by auto

theorem missing_resource_is_quiet_witness:
  "writes (trace_of (statusReconcile sample_lib (recording mem_world) sample_key) empty_mem) = [] \<and>
   result_of (statusReconcile sample_lib (recording mem_world) sample_key) empty_mem = Ret (empty_result, None)"
proof -
  have "run_state (w_GetQsts mem_world sample_key) empty_mem = (Inl not_found, empty_mem)"
    by (simp add: mem_world_def empty_mem_def found_def)
  from missing_resource_is_quiet [OF this, of "statusReconcile sample_lib" sample_lib]
  show ?thesis by (simp add: sample_lib_def not_found_def)
qed

section \<open>The status reconciler\<close>

lemma statusRest_emits:
  "emits (statusRest L (recording W) q)
     (\<lambda>r ev. writes ev = [] \<or> (\<exists>e. writes ev = [UpdatedQstsStatus (withReady True q) e]))"
  unfolding statusRest_def recording_simps
  by (intro emits_rules emits_mono [OF GetMaxStatefulSetVersion_emits]) auto

text \<open>
  C33: readiness. The status reconciler marks a QuarksStatefulSet ready if and only if all its
  StatefulSets of the maximal version have all their replicas ready (one if the spec names no
  number), and it reports success even if this update of the status is refused.
\<close>

theorem status_sets_ready:
  assumes "run_state (w_GetQsts W k) s = (Inr q, s1)"
    and "fst (run_state (GetMaxStatefulSetVersion L (recording W) q) (s1, [GotQsts k (Inr q)])) = Inr (xs, v)"
  shows "(\<exists>e. writes (trace_of (statusReconcile L (recording W) k) s) =
      (if xs \<noteq> [] \<and> list_all stsReady xs then [UpdatedQstsStatus (withReady True q) e] else [])) \<and>
    result_of (statusReconcile L (recording W) k) s = Ret (empty_result, None)"
proof -
  obtain s2 ev where g: "run_state (GetMaxStatefulSetVersion L (recording W) q) (s1, [GotQsts k (Inr q)]) =
      (Inr (xs, v), (s2, [GotQsts k (Inr q)] @ ev))" and "writes ev = []"
    using GetMaxStatefulSetVersion_emits [of L W q] assms(2) unfolding emits_def by (metis fst_conv)
  then show ?thesis
    unfolding trace_of_def result_of_def status.found_run [OF assms(1)]
    by (auto simp: statusRest_def readyStsCnt_eq empty_result_def split: prod.splits option.splits)
qed

definition sample_status_mem :: "int \<Rightarrow> mem" where
  "sample_status_mem ready = (sample_qsts_mem sample_qsts)\<lparr>m_Sts := [(sample_key, (sample_owned ''foo'' 3)
     \<lparr>sts_Status := (sts_Status zero_statefulset)\<lparr>st_ReadyReplicas := ready\<rparr>\<rparr>)]\<rparr>"

theorem status_sets_ready_witness:
  "(\<exists>q e. writes (trace_of (statusReconcile sample_lib (recording mem_world) sample_key) (sample_status_mem 1)) =
     [UpdatedQstsStatus (withReady True q) e]) \<and>
   result_of (statusReconcile sample_lib (recording mem_world) sample_key) (sample_status_mem 1) =
     Ret (empty_result, None)"
proof -
  let ?s = "sample_status_mem 1"
  have get: "run_state (w_GetQsts mem_world sample_key) ?s = (Inr sample_qsts, ?s)"
    by (simp add: mem_world_def sample_status_mem_def sample_qsts_mem_def empty_mem_def found_def)
  have "case fst (run_state (GetMaxStatefulSetVersion sample_lib (recording mem_world) sample_qsts)
      (?s, [GotQsts sample_key (Inr sample_qsts)])) of
      Inl e \<Rightarrow> False | Inr (xs, v) \<Rightarrow> length xs = 1 \<and> list_all stsReady xs"
    by code_simp
  then obtain xs v where xs: "fst (run_state (GetMaxStatefulSetVersion sample_lib (recording mem_world) sample_qsts)
      (?s, [GotQsts sample_key (Inr sample_qsts)])) = Inr (xs, v)" "xs \<noteq> []" "list_all stsReady xs"
    by (auto split: sum.splits) (metis length_0_conv nat.simps(3))
  from status_sets_ready [OF get xs(1)] xs(2,3) show ?thesis by auto
qed

lemma statusReconcile_emits:
  "emits (statusReconcile L (recording W) k)
     (\<lambda>r ev. \<exists>g ev'. ev = GotQsts k g # ev' \<and> (\<forall>e. g = Inl e \<longrightarrow> writes ev = []) \<and>
        (writes ev = [] \<or> (\<exists>q e. writes ev = [UpdatedQstsStatus (withReady True q) e])))"
  unfolding statusReconcile_def recording_simps
  by (intro emits_rules emits_mono [OF statusRest_emits]) auto

lemma qsts_written_ready:
  assumes "qsts_written L q0 r ws" "UpdatedQstsStatus q e \<in> set ws"
  shows "qst_Ready (q_Status q) = qst_Ready (q_Status q0)"
proof -
  have "\<not> list_all2 (wrote_desired L p) ys ws" for p ys
    using assms(2) by (auto simp: list_all2_conv_all_nth in_set_conv_nth wrote_desired_def)
  with assms show ?thesis
    by (auto simp: qsts_written_def wrote_prefix_def withLastReconcile_def)
qed

text \<open>
  Readiness is never withdrawn. Whatever either reconciler writes to the status of a
  QuarksStatefulSet, the ready flag it stores is set or is the one that was read.
\<close>

theorem ready_never_reset:
  assumes "run \<in> {qstsReconcile L, statusReconcile L}"
    and "tr = trace_of (run (recording W) k) s" and "UpdatedQstsStatus q e \<in> set tr"
  shows "\<exists>q0. hd tr = GotQsts k (Inr q0) \<and>
    (qst_Ready (q_Status q) \<or> qst_Ready (q_Status q) = qst_Ready (q_Status q0))"
proof -
  have mem: "UpdatedQstsStatus q e \<in> set (writes tr)" using assms(3) by (simp add: writes_def)
  obtain g ev where tr: "tr = GotQsts k g # ev" and quiet: "\<And>e. g = Inl e \<Longrightarrow> writes tr = []"
    and w: "\<And>q0. g = Inr q0 \<Longrightarrow> qst_Ready (q_Status q) \<or> qst_Ready (q_Status q) = qst_Ready (q_Status q0)"
  proof (cases "run = qstsReconcile L")
    case True
    with emits_trace [OF qstsReconcile_emits, of L W k s] assms(2) mem that qsts_written_ready
    show thesis by metis
  next
    case False
    then have run: "run = statusReconcile L" using assms(1) by auto
    have "writes tr = [UpdatedQstsStatus (withReady True p) e'] \<Longrightarrow> qst_Ready (q_Status q)" for p e'
      using mem by (auto simp: withReady_def)
    with emits_trace [OF statusReconcile_emits, of L W k s] assms(2) mem that run
    show thesis by (metis empty_iff list.set(1))
  qed
  with mem show ?thesis by (cases g) auto
qed

theorem ready_never_reset_witness:
  "\<exists>tr q e q0. UpdatedQstsStatus q e \<in> set tr \<and> hd tr = GotQsts sample_key (Inr q0) \<and>
     (qst_Ready (q_Status q) \<or> qst_Ready (q_Status q) = qst_Ready (q_Status q0))"
proof -
  let ?R = "statusReconcile sample_lib (recording mem_world) sample_key"
  let ?tr = "trace_of ?R (sample_status_mem 1)"
  have "list_ex (\<lambda>e. case e of UpdatedQstsStatus q err \<Rightarrow> True | _ \<Rightarrow> False) ?tr" by code_simp
  then obtain ev where ev: "ev \<in> set ?tr" "case ev of UpdatedQstsStatus q err \<Rightarrow> True | _ \<Rightarrow> False"
    by (auto simp: list_ex_iff)
  obtain q e where q: "UpdatedQstsStatus q e \<in> set ?tr"
    by (cases ev) (use ev in auto)
  have "statusReconcile sample_lib \<in> {qstsReconcile sample_lib, statusReconcile sample_lib}" by simp
  from ready_never_reset [where run = "statusReconcile sample_lib" and W = mem_world, OF this refl q] q
  show ?thesis by blast
qed

end
