(* ===== verification/ActivePassive_Properties.thy ===== *)
theory ActivePassive_Properties
  imports Reconcilers
begin

text \<open>
  The active/passive reconciler keeps the active label in step with the probe: every update of
  a pod is the one its probe asks for (\<open>relabel\<close>), and a Reconcile that succeeds has probed
  and updated every pod it listed.
\<close>

section \<open>What a probe asks for\<close>

definition relabel :: "lib \<Rightarrow> pod \<Rightarrow> exec_failure option \<Rightarrow> pod option" where
  "relabel L p r =
     (let active = LabelActivePod (gname L) in
      if r \<noteq> None
      then (if ghas (pod_Labels p) active then Some (p\<lparr>pod_Labels := gdel (pod_Labels p) active\<rparr>) else None)
      else if podutil_IsPodReady L p \<and> \<not> ghas (pod_Labels p) active
      then Some (p\<lparr>pod_Labels := map_option (\<lambda>m. m(active \<mapsto> ''active'')) (pod_Labels p)\<rparr>)
      else None)"

lemma relabel_frame:
  assumes "relabel L p r = Some p'"
  shows "p'\<lparr>pod_Labels := pod_Labels p\<rparr> = p"
    and "k \<noteq> LabelActivePod (gname L) \<Longrightarrow> gmap (pod_Labels p') k = gmap (pod_Labels p) k"
    and "ghas (pod_Labels p') (LabelActivePod (gname L)) \<Longrightarrow> r = None \<and> podutil_IsPodReady L p"
  using assms
  by (cases "pod_Labels p"; auto simp: relabel_def Let_def gdel_def ghas_def split: if_splits)+

text \<open>\<open>settled\<close>: the pod was probed, and if the probe asks for an update, it was made.\<close>

definition settled :: "lib \<Rightarrow> string \<Rightarrow> string list \<Rightarrow> event list \<Rightarrow> pod \<Rightarrow> bool" where
  "settled L c cmd ev p \<longleftrightarrow> (\<exists>r. Executed p c cmd r \<in> set ev \<and>
     (\<forall>p'. relabel L p r = Some p' \<longrightarrow> UpdatedPod p' None \<in> set ev))"

text \<open>\<open>asked_for\<close>: every update among the events is the one a probe of one of the pods asks for.\<close>

definition asked_for :: "lib \<Rightarrow> string \<Rightarrow> string list \<Rightarrow> pod set \<Rightarrow> event list \<Rightarrow> bool" where
  "asked_for L c cmd ps ev \<longleftrightarrow> (\<forall>p' u. UpdatedPod p' u \<in> set ev \<longrightarrow>
     (\<exists>p r. p \<in> ps \<and> Executed p c cmd r \<in> set ev \<and> relabel L p r = Some p'))"

lemma settled_mono: "settled L c cmd ev p \<Longrightarrow> set ev \<subseteq> set ev' \<Longrightarrow> settled L c cmd ev' p"
  unfolding settled_def by blast

lemma asked_for_append:
  "asked_for L c cmd ps ev \<Longrightarrow> asked_for L c cmd qs ev' \<Longrightarrow> asked_for L c cmd (ps \<union> qs) (ev @ ev')"
  unfolding asked_for_def set_append by blast

lemma asked_for_mono: "asked_for L c cmd ps ev \<Longrightarrow> ps \<subseteq> qs \<Longrightarrow> asked_for L c cmd qs ev"
  unfolding asked_for_def by blast

lemma asked_for_Nil [simp]: "asked_for L c cmd ps []"
  by (simp add: asked_for_def)

section \<open>Events of the marking\<close>

definition marked :: "lib \<Rightarrow> string \<Rightarrow> string list \<Rightarrow> pod list \<Rightarrow> go_error option \<Rightarrow> event list \<Rightarrow> bool" where
  "marked L c cmd ps e ev \<longleftrightarrow> asked_for L c cmd (set ps) ev \<and> (refused ev \<longrightarrow> e \<noteq> None) \<and>
     (e = None \<longrightarrow> (\<forall>p \<in> set ps. settled L c cmd ev p)) \<and>
     (\<forall>n l r. ListedPods n l r \<notin> set ev)"

lemma markPod_emits:
  "emits (markPod L (recording W) c cmd p) (marked L c cmd [p])"
  unfolding markPod_def execContainerCmd_def addActiveLabel_def deleteActiveLabel_def updatePodLabels_def
    recording_simps
  by (intro emits_rules)
     (auto simp: marked_def asked_for_def settled_def relabel_def ghas_def Let_def split: option.splits exec_failure.splits)

lemma marked_Cons:
  assumes "marked L c cmd [p] None ev" "marked L c cmd ps e ev'"
  shows "marked L c cmd (p # ps) e (ev @ ev')"
proof -
  have "asked_for L c cmd ({p} \<union> set ps) (ev @ ev')"
    using assms by (intro asked_for_append) (simp_all add: marked_def)
  then show ?thesis
    using assms unfolding marked_def by (auto elim!: settled_mono)
qed

lemma markPods_emits: "emits (markPods L (recording W) c cmd ps) (marked L c cmd ps)"
proof (induction ps)
  case Nil
  then show ?case by (auto intro!: emits_return simp: marked_def)
next
  case (Cons p ps)
  have stop: "marked L c cmd (p # ps) (Some e) ev" if "marked L c cmd [p] (Some e) ev" for e ev
    using that by (auto simp: marked_def elim: asked_for_mono)
  show ?case
    unfolding markPods.simps
    by (intro emits_rules emits_mono [OF markPod_emits] emits_mono [OF Cons])
       (auto intro: stop marked_Cons)
qed

text \<open>Over the StatefulSets: updates only of pods listed for them, all settled on success.\<close>

definition listed_pods :: "event list \<Rightarrow> pod set" where
  "listed_pods ev = {p. \<exists>n l ps. ListedPods n l (Inr ps) \<in> set ev \<and> p \<in> set ps}"

lemma listed_pods_append: "listed_pods (ev @ ev') = listed_pods ev \<union> listed_pods ev'"
  unfolding listed_pods_def set_append by blast

lemma listed_pods_none: "(\<And>n l r. ListedPods n l r \<notin> set ev) \<Longrightarrow> listed_pods ev = {}"
  unfolding listed_pods_def by blast

lemma listed_pods_Cons:
  "listed_pods (ListedPods n l (Inr ps) # ev) = set ps \<union> listed_pods ev"
  unfolding listed_pods_def list.set by blast

definition marked_all ::
  "lib \<Rightarrow> string \<Rightarrow> string list \<Rightarrow> go_error option go \<Rightarrow> event list \<Rightarrow> bool" where
  "marked_all L c cmd r ev \<longleftrightarrow>
     r \<noteq> Panic \<and> asked_for L c cmd (listed_pods ev) ev \<and> (refused ev \<longrightarrow> r \<noteq> Ret None) \<and>
     (r = Ret None \<longrightarrow> (\<forall>p \<in> listed_pods ev. settled L c cmd ev p))"

lemma marked_allI:
  assumes "marked L c cmd ps e ev"
  shows "marked_all L c cmd (Ret e) (ListedPods n l (Inr ps) # ev)"
proof -
  have "listed_pods ev = {}"
    using assms unfolding marked_def by (intro listed_pods_none) blast
  then have listed: "listed_pods (ListedPods n l (Inr ps) # ev) = set ps"
    by (simp add: listed_pods_Cons)
  have "asked_for L c cmd (set ps) (ListedPods n l (Inr ps) # ev)"
    using assms by (auto simp: marked_def asked_for_def)
  then show ?thesis
    using assms unfolding marked_all_def listed marked_def by (auto elim!: settled_mono)
qed

lemma marked_all_append:
  assumes "marked_all L c cmd (Ret None) ev" "marked_all L c cmd r ev'"
  shows "marked_all L c cmd r (ev @ ev')"
  using assms asked_for_append [of L c cmd "listed_pods ev" ev "listed_pods ev'" ev']
  unfolding marked_all_def listed_pods_append by (auto elim!: settled_mono)

lemma markActiveContainers_emits:
  assumes "pr_Exec (probeOf q c) = Some cmd"
  shows "emits (markActiveContainers L (recording W) c ps q)
    (\<lambda>r ev. \<exists>e. r = Ret e \<and> marked L c cmd ps e ev)"
  unfolding markActiveContainers_def assms deref_simps
  by (intro emits_rules emits_mono [OF markPods_emits]) auto

lemma markStatefulSets_emits:
  assumes "pr_Exec (probeOf q c) = Some cmd"
  shows "emits (markStatefulSets L (recording W) c q xs) (marked_all L c cmd)"
proof (induction xs)
  case Nil
  have "marked_all L c cmd (Ret None) []"
    by (simp add: marked_all_def listed_pods_def)
  then show ?case by (auto intro: emits_gret)
next
  case (Cons x xs)
  have err: "marked_all L c cmd (Ret (Some e)) [ListedPods n l (Inl e')]" for e n l e'
    by (simp add: marked_all_def asked_for_def listed_pods_def)
  show ?case
    unfolding markStatefulSets.simps getStsPodList_def recording_simps
    by (intro emits_rules emits_mono [OF markActiveContainers_emits [OF assms]] emits_mono [OF Cons])
       (auto simp: err intro: marked_allI marked_all_append [OF marked_allI, simplified])
qed

section \<open>Properties\<close>

text \<open>The run of a Reconcile that got as far as the probe command of container \<open>c\<close>.\<close>

definition probed ::
  "lib \<Rightarrow> quarks_statefulset \<Rightarrow> reconcile_out \<Rightarrow> event list \<Rightarrow> bool" where
  "probed L q r ev \<longleftrightarrow>
     (\<exists>c cmd. getProbeContainerName (qs_ActivePassiveProbes (q_Spec q)) = Inr c \<and>
        pr_Exec (probeOf q c) = Some cmd \<and> asked_for L c cmd (listed_pods ev) ev \<and>
        (refused ev \<longrightarrow> (\<exists>res e. r = Ret (res, Some e))) \<and>
        (\<forall>res. r = Ret (res, None) \<longrightarrow> res = requeue_after (probePeriod q c) \<and>
           (\<forall>p \<in> listed_pods ev. settled L c cmd ev p)))"

lemma markStatefulSets_nil_exec:
  "pr_Exec (probeOf q c) = None \<Longrightarrow> emits (markStatefulSets L (recording W) c q xs)
     (\<lambda>r ev. writes ev = [] \<and> (r = Ret None \<longrightarrow> xs = []))"
  by (cases xs)
     (auto intro!: emits_rules simp: getStsPodList_def markActiveContainers_def)

lemma GetMax_nonempty:
  "emits (GetMaxStatefulSetVersion L (recording W) q)
     (\<lambda>r ev. writes ev = [] \<and> (\<forall>n l x. ListedPods n l x \<notin> set ev) \<and> (\<forall>xs v. r = Inr (xs, v) \<longrightarrow> xs \<noteq> []))"
  unfolding GetMaxStatefulSetVersion_def listStatefulSetsFromInformer_def maxVersionResult_def recording_simps
  by (intro emits_rules) (auto split: sum.splits)

lemma marked_all_probed:
  assumes "marked_all L c cmd r ev" "writes ev0 = []" "\<And>n l x. ListedPods n l x \<notin> set ev0"
    and "getProbeContainerName (qs_ActivePassiveProbes (q_Spec q)) = Inr c" "pr_Exec (probeOf q c) = Some cmd"
    and "out = (case r of Panic \<Rightarrow> Panic | Ret (Some e) \<Rightarrow> Ret (empty_result, Some e)
           | Ret None \<Rightarrow> Ret (requeue_after (probePeriod q c), None))"
  shows "probed L q out (ev0 @ ev)"
proof -
  have listed: "listed_pods (ev0 @ ev) = listed_pods ev"
    using assms(3) by (simp add: listed_pods_append listed_pods_none)
  have "UpdatedPod p u \<notin> set ev0" for p u
    using assms(2) by (induction ev0) (auto split: if_splits)
  then have "asked_for L c cmd (listed_pods ev) (ev0 @ ev)"
    using assms(1) unfolding marked_all_def asked_for_def set_append by blast
  then show ?thesis
    using assms refused_quiet [OF assms(2)] unfolding probed_def marked_all_def listed
    by (auto split: go.splits option.splits elim!: settled_mono)
qed

lemma activePassiveRest_emits:
  "emits (activePassiveRest L (recording W) q)
     (\<lambda>r ev. (writes ev = [] \<and> (\<forall>res. r \<noteq> Ret (res, None))) \<or> probed L q r ev)"
proof -
  let ?Q = "\<lambda>r ev. (writes ev = [] \<and> (\<forall>res. r \<noteq> Ret (res, None))) \<or> probed L q r ev"
  have tail: "emits (gobind (markStatefulSets L (recording W) c q xs) (\<lambda>err.
        case err of Some e \<Rightarrow> gret (empty_result, Some e)
        | None \<Rightarrow> gret (requeue_after (probePeriod q c), None))) (\<lambda>r ev'. ?Q r (ev @ ev'))"
    if ev: "writes ev = []" "\<forall>n l x. ListedPods n l x \<notin> set ev" "xs \<noteq> []"
      and c: "getProbeContainerName (qs_ActivePassiveProbes (q_Spec q)) = Inr c" for c xs ev
  proof (cases "pr_Exec (probeOf q c)")
    case None
    show ?thesis
      by (intro emits_rules emits_mono [OF markStatefulSets_nil_exec [OF None]]) (use ev in auto)
  next
    case (Some cmd)
    have "probed L q (Ret (empty_result, Some e)) (ev @ ev')" if "marked_all L c cmd (Ret (Some e)) ev'" for e ev'
      using that ev c Some by (intro marked_all_probed) auto
    moreover have "probed L q (Ret (requeue_after (probePeriod q c), None)) (ev @ ev')"
      if "marked_all L c cmd (Ret None) ev'" for ev'
      using that ev c Some by (intro marked_all_probed) auto
    ultimately show ?thesis
      by (intro emits_rules emits_mono [OF markStatefulSets_emits [OF Some]]) (auto simp: ev marked_all_def)
  qed
  show ?thesis
    unfolding activePassiveRest_def
    by (rule emits_bind, rule emits_mono [OF GetMax_nonempty],
        intro emits_case_sum emits_case_prod emits_gret tail) auto
qed

lemma activePassiveReconcile_emits:
  "emits (activePassiveReconcile L (recording W) k)
     (\<lambda>r ev. \<exists>g ev'. ev = GotQsts k g # ev' \<and>
        (writes ev = [] \<and> (\<forall>q res. g = Inr q \<longrightarrow> r \<noteq> Ret (res, None)) \<or> (\<exists>q. g = Inr q \<and> probed L q r ev)))"
proof -
  have probed: "probed L q r (GotQsts k g # ev)" if "probed L q r ev" for q r ev g
  proof -
    have listed: "listed_pods (GotQsts k g # ev) = listed_pods ev"
      by (simp add: listed_pods_def)
    have "asked_for L c cmd (listed_pods ev) ev \<Longrightarrow> asked_for L c cmd (listed_pods ev) (GotQsts k g # ev)" for c cmd
      by (simp add: asked_for_def)
    moreover have "settled L c cmd ev p \<Longrightarrow> settled L c cmd (GotQsts k g # ev) p" for c cmd p
      by (rule settled_mono) auto
    ultimately show ?thesis
      using that unfolding probed_def listed by auto
  qed
  show ?thesis
    unfolding activePassiveReconcile_def recording_simps
    by (intro emits_rules emits_mono [OF activePassiveRest_emits]) (auto simp: probed)
qed

lemma activePassive_cases:
  assumes "tr = trace_of (activePassiveReconcile L (recording W) k) s"
    and "r = result_of (activePassiveReconcile L (recording W) k) s"
    and "writes tr \<noteq> [] \<or> (hd tr = GotQsts k (Inr q0) \<and> r = Ret (res, None))"
  obtains q where "hd tr = GotQsts k (Inr q)" "probed L q r tr"
  using emits_trace [OF activePassiveReconcile_emits, of L W k s] assms by fastforce

text \<open>
  C16: the active label follows the probe. Every update of a pod by the active/passive
  reconciler changes nothing but the active label of a pod it listed and probed; afterwards
  the pod carries the label only if its probe succeeded and it is ready.
\<close>

theorem active_label_follows_probe:
  assumes "tr = trace_of (activePassiveReconcile L (recording W) k) s"
    and "UpdatedPod p' u \<in> set tr"
  shows "\<exists>p c cmd r. p \<in> listed_pods tr \<and> Executed p c cmd r \<in> set tr \<and>
    p'\<lparr>pod_Labels := pod_Labels p\<rparr> = p \<and>
    (\<forall>l. l \<noteq> LabelActivePod (gname L) \<longrightarrow> gmap (pod_Labels p') l = gmap (pod_Labels p) l) \<and>
    (ghas (pod_Labels p') (LabelActivePod (gname L)) \<longrightarrow> r = None \<and> podutil_IsPodReady L p)"
proof -
  have "UpdatedPod p' u \<in> set (writes tr)" using assms(2) by (simp add: writes_def)
  then have "writes tr \<noteq> []" by auto
  then obtain q where "probed L q (result_of (activePassiveReconcile L (recording W) k) s) tr"
    using activePassive_cases [OF assms(1) refl] by metis
  then obtain c cmd p r where "p \<in> listed_pods tr" "Executed p c cmd r \<in> set tr" "relabel L p r = Some p'"
    using assms(2) unfolding probed_def asked_for_def by blast
  with relabel_frame [OF this(3)] show ?thesis by blast
qed

definition probed_qsts :: quarks_statefulset where
  "probed_qsts = sample_qsts\<lparr>q_Spec := (q_Spec sample_qsts)\<lparr>
     qs_ActivePassiveProbes := Some [(''web'', \<lparr>pr_Exec = Some [''check''], pr_PeriodSeconds = 5\<rparr>)]\<rparr>\<rparr>"

definition web_pod :: "string \<Rightarrow> string \<Rightarrow> (string \<rightharpoonup> string) \<Rightarrow> pod" where
  "web_pod n st labels = \<lparr>pod_Name = n, pod_Namespace = ''default'',
     pod_Labels = Some (labels(''quarks.cloudfoundry.org/quarks-statefulset-name'' \<mapsto> ''foo'')),
     pod_Status = st, pod_Rest = ''''\<rparr>"

definition probe_mem :: mem where
  "probe_mem = (sample_qsts_mem probed_qsts)\<lparr>m_Sts := [(sample_key, sample_owned ''foo'' 1)],
     m_Pods := map (\<lambda>p. (pod_key p, p)) [web_pod ''foo-0'' ''active'' Map.empty,
       web_pod ''foo-1'' ''passive'' [''quarks.cloudfoundry.org/pod-active'' \<mapsto> ''active'']]\<rparr>"

definition is_pod_update :: "event \<Rightarrow> bool" where
  "is_pod_update e = (case e of UpdatedPod p u \<Rightarrow> True | _ \<Rightarrow> False)"

lemma probe_mem_run:
  "length (filter is_pod_update (trace_of (activePassiveReconcile sample_lib (recording mem_world) sample_key) probe_mem)) = 2"
  by code_simp

theorem active_label_follows_probe_witness:
  "\<exists>tr p p' c cmd r. UpdatedPod p' None \<in> set tr \<and> p \<in> listed_pods tr \<and> Executed p c cmd r \<in> set tr \<and>
    p'\<lparr>pod_Labels := pod_Labels p\<rparr> = p \<and>
    (ghas (pod_Labels p') (LabelActivePod (gname sample_lib)) \<longrightarrow> r = None \<and> podutil_IsPodReady sample_lib p)"
proof -
  let ?tr = "trace_of (activePassiveReconcile sample_lib (recording mem_world) sample_key) probe_mem"
  have "list_ex (\<lambda>e. case e of UpdatedPod p u \<Rightarrow> u = None | _ \<Rightarrow> False) ?tr" by code_simp
  then obtain e where e: "e \<in> set ?tr" "case e of UpdatedPod p u \<Rightarrow> u = None | _ \<Rightarrow> False"
    by (auto simp: list_ex_iff)
  obtain p' where p': "UpdatedPod p' None \<in> set ?tr"
    by (cases e) (use e in auto)
  from active_label_follows_probe [OF refl p'] p' show ?thesis by blast
qed

text \<open>
  C34: the probing goes on. A Reconcile that succeeds on an existing resource has probed every
  pod it listed and made every update the probes ask for, and it comes back after the period
  of the probe, or 30 seconds if that is 0.
\<close>

theorem active_passive_settles:
  assumes "tr = trace_of (activePassiveReconcile L (recording W) k) s"
    and "result_of (activePassiveReconcile L (recording W) k) s = Ret (res, None)"
    and "hd tr = GotQsts k (Inr q)"
    and "\<forall>c. int32_ok (pr_PeriodSeconds (probeOf q c))"
  shows "\<exists>c cmd. getProbeContainerName (qs_ActivePassiveProbes (q_Spec q)) = Inr c \<and>
    pr_Exec (probeOf q c) = Some cmd \<and> (\<forall>p \<in> listed_pods tr. settled L c cmd tr p) \<and>
    RequeueAfter res = (if pr_PeriodSeconds (probeOf q c) = 0 then 30 * time_Second
      else time_Second * pr_PeriodSeconds (probeOf q c))"
proof -
  obtain p where "hd tr = GotQsts k (Inr p)" and probed: "probed L p (Ret (res, None)) tr"
    using activePassive_cases [OF assms(1) refl] assms(2,3) by metis
  then have "p = q" using assms(3) by simp
  with probed obtain c cmd where c: "getProbeContainerName (qs_ActivePassiveProbes (q_Spec q)) = Inr c"
    "pr_Exec (probeOf q c) = Some cmd" "\<forall>p \<in> listed_pods tr. settled L c cmd tr p"
    "res = requeue_after (probePeriod q c)"
    unfolding probed_def by auto
  have "int32_ok (pr_PeriodSeconds (probeOf q c))" using assms(4) by blast
  then have "wrap64 (time_Second * pr_PeriodSeconds (probeOf q c)) = time_Second * pr_PeriodSeconds (probeOf q c)"
    by (intro wrap64_id) (auto simp: int32_ok_def int64_ok_def time_Second_def)
  with c show ?thesis
    by (auto simp: requeue_after_def probePeriod_def Let_def time_Second_def)
qed

lemma activePassive_hd:
  assumes "run_state (w_GetQsts W k) s = (Inr q, s')"
  shows "hd (trace_of (activePassiveReconcile L (recording W) k) s) = GotQsts k (Inr q)"
proof -
  obtain r s'' ev where "run_state (activePassiveRest L (recording W) q) (s', [GotQsts k (Inr q)]) =
      (r, (s'', [GotQsts k (Inr q)] @ ev))"
    using activePassiveRest_emits [of L W q] unfolding emits_def by blast
  then show ?thesis by (simp add: trace_of_def actpass.found_run [OF assms])
qed

theorem active_passive_settles_witness:
  "\<exists>tr c cmd. getProbeContainerName (qs_ActivePassiveProbes (q_Spec probed_qsts)) = Inr c \<and>
    pr_Exec (probeOf probed_qsts c) = Some cmd \<and> (\<forall>p \<in> listed_pods tr. settled sample_lib c cmd tr p) \<and>
    length (filter is_pod_update tr) = 2"
proof -
  let ?run = "activePassiveReconcile sample_lib (recording mem_world) sample_key"
  let ?tr = "trace_of ?run probe_mem"
  have r: "result_of ?run probe_mem = Ret (requeue_after (5 * time_Second), None)" by code_simp
  have h: "hd ?tr = GotQsts sample_key (Inr probed_qsts)"
    by (rule activePassive_hd)
       (simp add: mem_world_def probe_mem_def sample_qsts_mem_def empty_mem_def found_def)
  have "int32_ok (pr_PeriodSeconds (probeOf probed_qsts c))" for c
    by (simp add: probeOf_def probed_qsts_def int32_ok_def)
  then show ?thesis
    using active_passive_settles [OF refl r h] probe_mem_run by blast
qed

end
