(* ===== verification/Watches.thy ===== *)
theory Watches
  imports Qsts Webhook
begin

text \<open>
  What triggers the reconcilers of QuarksStatefulSets: the predicates and mapping functions
  of the controllers (\<open>quarksstatefulset_controller.go\<close>, \<open>status_controller.go\<close>,
  \<open>active_passive_controller.go\<close>) and the search for the QuarksStatefulSets that mention a
  ConfigMap or a Secret (\<open>pkg/kube/util/reference/reconciles.go\<close>).
\<close>

section \<open>References to an object\<close>

text \<open>The dynamic type of an \<open>apis.Object\<close>; \<open>OtherObject\<close> is any type but the two supported.\<close>

datatype kube_object =
    ConfigMapObject config_map
  | SecretObject secret
  | OtherObject nsname

fun objKey :: "kube_object \<Rightarrow> nsname" where
  "objKey (ConfigMapObject cm) = \<lparr>nn_Namespace = cm_Namespace cm, nn_Name = cm_Name cm\<rparr>"
| "objKey (SecretObject s) = \<lparr>nn_Namespace = sec_Namespace s, nn_Name = sec_Name s\<rparr>"
| "objKey (OtherObject k) = k"

text \<open>
  The switch on the type of the object: the references of the pod spec, a map whose keys are
  listed in the order of its iteration, and whether the object is a versioned secret.
\<close>

fun objectReferences ::
  "lib \<Rightarrow> kube_object \<Rightarrow> quarks_statefulset \<Rightarrow> go_error + ((string \<times> bool) list \<times> bool)" where
  "objectReferences L (ConfigMapObject cm) parent =
     Inr (podref_GetConfMapRefFromPod L (podSpecOf parent), False)"
| "objectReferences L (SecretObject s) parent =
     Inr (podref_GetSecretRefFromPodSpec L (podSpecOf parent), vss_IsVersionedSecret L s)"
| "objectReferences L (OtherObject k) parent =
     Inl (Errorf (''can'' @ [CHR 0x27] @ ''t get reconciles for unknown object type; supported types are ConfigMap and Secret''))"

definition objReferencedBy ::
  "lib \<Rightarrow> kube_object \<Rightarrow> bool \<Rightarrow> quarks_statefulset \<Rightarrow> go_error + bool" where
  "objReferencedBy L object versionCheck parent =
     (case objectReferences L object parent of
        Inl err \<Rightarrow> Inl err
      | Inr (refs, versionedSecret) \<Rightarrow>
          let name = nn_Name (objKey object) in
          if versionedSecret then
            let keys = map fst refs; ok = vss_ContainsSecretName L keys name in
            if versionCheck \<and> ok then Inr (vss_ContainsOutdatedSecretVersion L keys name)
            else Inr ok
          else Inr (map_of refs name \<noteq> None))"

definition requestFor :: "quarks_statefulset \<Rightarrow> nsname" where
  "requestFor q = \<lparr>nn_Namespace = q_Namespace q, nn_Name = q_Name q\<rparr>"

text \<open>The loop over the listed QuarksStatefulSets.\<close>

fun reconcilesLoop ::
  "lib \<Rightarrow> kube_object \<Rightarrow> bool \<Rightarrow> nsname list \<Rightarrow> quarks_statefulset list \<Rightarrow> go_error + nsname list" where
  "reconcilesLoop L object versionCheck result [] = Inr result"
| "reconcilesLoop L object versionCheck result (q # qs) =
     (if \<not> qs_UpdateOnConfigChange (q_Spec q)
      then reconcilesLoop L object versionCheck result qs
      else case objReferencedBy L object versionCheck q of
        Inl err \<Rightarrow> Inl err
      | Inr isRef \<Rightarrow>
          reconcilesLoop L object versionCheck (if isRef then result @ [requestFor q] else result) qs)"

definition GetReconciles ::
  "lib \<Rightarrow> 's world \<Rightarrow> kube_object \<Rightarrow> bool \<Rightarrow> ('s, go_error + nsname list) state" where
  "GetReconciles L W object versionCheck = do {
     r \<leftarrow> w_ListQsts W (nn_Namespace (objKey object));
     State_Monad.return (case r of
       Inl err \<Rightarrow> Inl (Wrapf err ''failed to list QuarksStatefulSets for ConfigMap reconciles'')
     | Inr qs \<Rightarrow> reconcilesLoop L object versionCheck [] qs) }"

section \<open>Predicates\<close>

text \<open>
  The predicate of the QuarksStatefulSets: a new one passes if it owns no StatefulSet yet, or
  if they cannot be listed; a changed one if its spec or its labels changed.
\<close>

fun qstsPredicate ::
  "lib \<Rightarrow> (string \<Rightarrow> ('s, go_error + statefulset list) state) \<Rightarrow> quarks_statefulset watch_event \<Rightarrow>
   ('s, bool) state" where
  "qstsPredicate L list_sts (CreateEvent q) = do {
     r \<leftarrow> listStatefulSetsFromAPIClient L list_sts q;
     State_Monad.return (case r of Inl err \<Rightarrow> True | Inr sts \<Rightarrow> length sts = 0) }"
| "qstsPredicate L list_sts (DeleteEvent q) = State_Monad.return False"
| "qstsPredicate L list_sts (GenericEvent q) = State_Monad.return False"
| "qstsPredicate L list_sts (UpdateEvent old new) =
     State_Monad.return (q_Spec old \<noteq> q_Spec new \<or> q_Labels old \<noteq> q_Labels new)"

fun configMapPredicate :: "config_map watch_event \<Rightarrow> bool" where
  "configMapPredicate (CreateEvent cm) = True"
| "configMapPredicate (DeleteEvent cm) = False"
| "configMapPredicate (GenericEvent cm) = False"
| "configMapPredicate (UpdateEvent old new) = (cm_Data old \<noteq> cm_Data new)"

text \<open>After an error the list of reconciles is nil.\<close>

fun secretPredicate :: "lib \<Rightarrow> 's world \<Rightarrow> secret watch_event \<Rightarrow> ('s, bool) state" where
  "secretPredicate L W (CreateEvent s) =
     (if \<not> vss_IsVersionedSecret L s then State_Monad.return False
      else do {
        r \<leftarrow> GetReconciles L W (SecretObject s) True;
        State_Monad.return (case r of Inl err \<Rightarrow> False | Inr reconciles \<Rightarrow> length reconciles > 0) })"
| "secretPredicate L W (DeleteEvent s) = State_Monad.return False"
| "secretPredicate L W (GenericEvent s) = State_Monad.return False"
| "secretPredicate L W (UpdateEvent old new) = State_Monad.return (sec_Data old \<noteq> sec_Data new)"

text \<open>
  The predicates of the status controller, with what \<open>predicate.Funcs\<close> answers for the
  deletions it has no function for, and of the active/passive controller.
\<close>

fun statusPredicate :: "bool \<Rightarrow> statefulset watch_event \<Rightarrow> bool" where
  "statusPredicate no_func (CreateEvent x) = True"
| "statusPredicate no_func (UpdateEvent old new) = True"
| "statusPredicate no_func (GenericEvent x) = False"
| "statusPredicate no_func (DeleteEvent x) = no_func"

fun activePassivePredicate :: "quarks_statefulset watch_event \<Rightarrow> bool" where
  "activePassivePredicate (CreateEvent q) = (qs_ActivePassiveProbes (q_Spec q) \<noteq> None)"
| "activePassivePredicate (DeleteEvent q) = False"
| "activePassivePredicate (GenericEvent q) = False"
| "activePassivePredicate (UpdateEvent old new) = (qs_ActivePassiveProbes (q_Spec new) \<noteq> None)"

section \<open>Mapping functions\<close>

text \<open>
  The two functions of \<open>handler.EnqueueRequestsFromMapFunc\<close>; \<open>skip\<close> is \<open>skip.Reconciles\<close>
  of \<open>quarks-utils\<close>.
\<close>

definition enqueueFor ::
  "lib \<Rightarrow> 's world \<Rightarrow> (kube_object \<Rightarrow> ('s, bool) state) \<Rightarrow> kube_object \<Rightarrow> ('s, nsname list) state" where
  "enqueueFor L W skip object = do {
     b \<leftarrow> skip object;
     if b then State_Monad.return []
     else do {
       r \<leftarrow> GetReconciles L W object False;
       State_Monad.return (case r of Inl err \<Rightarrow> [] | Inr reconciles \<Rightarrow> reconciles) } }"

definition configMapRequests ::
  "lib \<Rightarrow> 's world \<Rightarrow> (kube_object \<Rightarrow> ('s, bool) state) \<Rightarrow> config_map \<Rightarrow> ('s, nsname list) state" where
  "configMapRequests L W skip cm = enqueueFor L W skip (ConfigMapObject cm)"

definition secretRequests ::
  "lib \<Rightarrow> 's world \<Rightarrow> (kube_object \<Rightarrow> ('s, bool) state) \<Rightarrow> secret \<Rightarrow> ('s, nsname list) state" where
  "secretRequests L W skip s = enqueueFor L W skip (SecretObject s)"

end
