(* ===== verification/Watches_Properties.thy ===== *)
theory Watches_Properties
  imports Watches Qsts_Properties
begin

text \<open>
  Which changes of ConfigMaps, Secrets and QuarksStatefulSets reach the reconciler, and for
  which resources.
\<close>

section \<open>The search\<close>

text \<open>
  \<open>mentions\<close>: what the search looks for. The keys are those of the references in the pod spec;
  a versioned secret is found under any of its versions, with \<open>versionCheck\<close> only under an
  older one.
\<close>

fun mentions :: "lib \<Rightarrow> kube_object \<Rightarrow> bool \<Rightarrow> quarks_statefulset \<Rightarrow> bool" where
  "mentions L (ConfigMapObject cm) versionCheck q \<longleftrightarrow>
     cm_Name cm \<in> fst ` set (podref_GetConfMapRefFromPod L (podSpecOf q))"
| "mentions L (SecretObject s) versionCheck q \<longleftrightarrow>
     (let refs = podref_GetSecretRefFromPodSpec L (podSpecOf q); keys = map fst refs in
      if vss_IsVersionedSecret L s
      then vss_ContainsSecretName L keys (sec_Name s) \<and>
        (versionCheck \<longrightarrow> vss_ContainsOutdatedSecretVersion L keys (sec_Name s))
      else sec_Name s \<in> set keys)"
| "mentions L (OtherObject k) versionCheck q \<longleftrightarrow> False"

definition opted_in :: "quarks_statefulset \<Rightarrow> bool" where
  "opted_in q \<longleftrightarrow> qs_UpdateOnConfigChange (q_Spec q)"

definition supported :: "kube_object \<Rightarrow> bool" where
  "supported object \<longleftrightarrow> (\<forall>k. object \<noteq> OtherObject k)"

lemma objReferencedBy_mentions:
  "supported object \<Longrightarrow> objReferencedBy L object versionCheck q = Inr (mentions L object versionCheck q)"
  by (cases object)
     (auto simp: supported_def objReferencedBy_def Let_def map_of_eq_None_iff)

lemma reconcilesLoop_supported:
  "supported object \<Longrightarrow> reconcilesLoop L object versionCheck result qs =
     Inr (result @ map requestFor (filter (\<lambda>q. opted_in q \<and> mentions L object versionCheck q) qs))"
  by (induction qs arbitrary: result) (auto simp: objReferencedBy_mentions opted_in_def)

lemma reconcilesLoop_unsupported:
  assumes "\<not> supported object"
  shows "\<exists>e. reconcilesLoop L object versionCheck result qs = (if \<exists>q \<in> set qs. opted_in q then Inl e else Inr result)"
proof -
  obtain e where "\<And>q. objReferencedBy L object versionCheck q = Inl e"
    using assms by (auto simp: supported_def objReferencedBy_def)
  then have "reconcilesLoop L object versionCheck result qs = (if \<exists>q \<in> set qs. opted_in q then Inl e else Inr result)"
    by (induction qs arbitrary: result) (auto simp: opted_in_def)
  then show ?thesis by blast
qed

lemma GetReconciles_run:
  assumes "run_state (w_ListQsts W (nn_Namespace (objKey object))) s = (Inr qs, s')"
    and "supported object"
  shows "run_state (GetReconciles L W object versionCheck) s =
    (Inr (map requestFor (filter (\<lambda>q. opted_in q \<and> mentions L object versionCheck q) qs)), s')"
  using assms by (simp add: GetReconciles_def reconcilesLoop_supported)

text \<open>
  C35: the search for a ConfigMap or a Secret requests exactly the QuarksStatefulSets of its
  namespace that opted in to updates on configuration changes and mention it, in the order
  of the list.
\<close>

theorem GetReconciles_spec:
  assumes "run_state (w_ListQsts W (nn_Namespace (objKey object))) s = (Inr qs, s')"
    and "supported object"
  shows "run_state (GetReconciles L W object versionCheck) s =
    (Inr (map requestFor (filter (\<lambda>q. opted_in q \<and> mentions L object versionCheck q) qs)), s')"
  using assms by (rule GetReconciles_run)

definition mounting :: "string \<Rightarrow> bool \<Rightarrow> string \<Rightarrow> quarks_statefulset" where
  "mounting n opted secret_name = withPodSpec (zero_pod_spec\<lparr>ps_Volumes :=
       [\<lparr>vol_Name = ''v'', vol_Secret = Some \<lparr>ss_SecretName = secret_name, ss_Rest = ''''\<rparr>, vol_Rest = ''''\<rparr>]\<rparr>)
     (sample_qsts\<lparr>q_Name := n, q_Spec := (q_Spec sample_qsts)\<lparr>qs_UpdateOnConfigChange := opted\<rparr>\<rparr>)"

definition mounting_mem :: mem where
  "mounting_mem = empty_mem\<lparr>m_Qsts := map (\<lambda>q. (requestFor q, q))
     [mounting ''a'' True ''conf'', mounting ''b'' False ''conf'', mounting ''c'' True ''other'']\<rparr>"

definition config_secret :: "string \<Rightarrow> gomap \<Rightarrow> secret" where
  "config_secret n labels = \<lparr>sec_Name = n, sec_Namespace = ''default'', sec_Labels = labels, sec_Data = None\<rparr>"

lemmas mounting_defs = mounting_mem_def mounting_def config_secret_def withPodSpec_def sample_qsts_def
  zero_defs requestFor_def podSpecOf_def opted_in_def supported_def

lemma mounting_list:
  "run_state (w_ListQsts mem_world ''default'') mounting_mem =
     (Inr [mounting ''a'' True ''conf'', mounting ''b'' False ''conf'', mounting ''c'' True ''other''], mounting_mem)"
  by (simp add: sample_defs mounting_defs)

theorem GetReconciles_spec_witness:
  "run_state (GetReconciles sample_lib mem_world (SecretObject (config_secret ''conf'' None)) False) mounting_mem =
     (Inr [\<lparr>nn_Namespace = ''default'', nn_Name = ''a''\<rparr>], mounting_mem)"
proof -
  have "supported (SecretObject (config_secret ''conf'' None))" by (simp add: supported_def)
  with GetReconciles_spec [where object = "SecretObject (config_secret ''conf'' None)" and W = mem_world,
      OF _ this] mounting_list
  show ?thesis by (simp add: sample_lib_def mounting_defs)
qed

text \<open>
  Errors of the search. It fails if the list cannot be read, and for an object that is
  neither a ConfigMap nor a Secret exactly if a listed QuarksStatefulSet opted in.
\<close>

theorem GetReconciles_errors:
  "(\<exists>e. fst (run_state (GetReconciles L W object versionCheck) s) = Inl e) \<longleftrightarrow>
     (case fst (run_state (w_ListQsts W (nn_Namespace (objKey object))) s) of
        Inl e \<Rightarrow> True | Inr qs \<Rightarrow> \<not> supported object \<and> (\<exists>q \<in> set qs. opted_in q))"
proof (cases "supported object")
  case True
  then show ?thesis
    by (auto simp: GetReconciles_def reconcilesLoop_supported split: prod.splits sum.splits)
next
  case False
  show ?thesis
  proof (cases "run_state (w_ListQsts W (nn_Namespace (objKey object))) s")
    case (Pair r s')
    show ?thesis
    proof (cases r)
      case (Inr qs)
      with Pair False reconcilesLoop_unsupported [OF False, of L versionCheck "[]" qs] show ?thesis
        by (auto simp: GetReconciles_def split: if_splits)
    qed (simp add: Pair GetReconciles_def)
  qed
qed

section \<open>Events\<close>

definition versioned_lib :: lib where
  "versioned_lib = sample_lib\<lparr>
     vss_ContainsSecretName := (\<lambda>ks n. list_ex (\<lambda>k. take 4 k = take 4 n) ks),
     vss_ContainsOutdatedSecretVersion := (\<lambda>ks n. n \<notin> set ks)\<rparr>"

definition new_version :: secret where
  "new_version = config_secret ''conf-v2'' (Some [''version'' \<mapsto> ''2''])"

text \<open>
  C18: a new version of a secret. Its creation passes the predicate exactly if a
  QuarksStatefulSet that opted in mounts an older version; the requests it then causes are all
  that opted in and mount any version of it, so every outdated one is among them. A secret
  that is not versioned causes nothing when it is created.
\<close>

theorem secret_version_triggers:
  assumes "run_state (w_ListQsts W (sec_Namespace x)) s = (Inr qs, s)" "run_state (skip (SecretObject x)) s = (False, s)"
  shows "(fst (run_state (secretPredicate L W (CreateEvent x)) s) \<longleftrightarrow>
      vss_IsVersionedSecret L x \<and> (\<exists>q \<in> set qs. opted_in q \<and> mentions L (SecretObject x) True q)) \<and>
    fst (run_state (secretRequests L W skip x) s) =
      map requestFor (filter (\<lambda>q. opted_in q \<and> mentions L (SecretObject x) False q) qs) \<and>
    requestFor ` {q \<in> set qs. opted_in q \<and> mentions L (SecretObject x) True q}
      \<subseteq> set (fst (run_state (secretRequests L W skip x) s))"
proof -
  have sup: "supported (SecretObject x)" by (simp add: supported_def)
  have get: "run_state (GetReconciles L W (SecretObject x) b) s =
      (Inr (map requestFor (filter (\<lambda>q. opted_in q \<and> mentions L (SecretObject x) b q) qs)), s)" for b
    using GetReconciles_run [of W "SecretObject x" s qs s L b] assms(1) sup by simp
  have "mentions L (SecretObject x) True q \<Longrightarrow> mentions L (SecretObject x) False q" for q
    by (auto simp: Let_def split: if_splits)
  then show ?thesis
    by (auto simp: get secretRequests_def enqueueFor_def assms(2) filter_empty_conv)
qed

theorem secret_version_triggers_witness:
  "fst (run_state (secretPredicate versioned_lib mem_world (CreateEvent new_version)) mounting_mem) \<and>
   fst (run_state (secretRequests versioned_lib mem_world (\<lambda>x. State_Monad.return False) new_version) mounting_mem) =
     [\<lparr>nn_Namespace = ''default'', nn_Name = ''a''\<rparr>]"
proof -
  have "run_state (State_Monad.return False) mounting_mem = (False, mounting_mem)" by simp
  from secret_version_triggers [where W = mem_world and x = new_version and L = versioned_lib
      and skip = "\<lambda>x. State_Monad.return False", OF _ this] mounting_list
  show ?thesis by (simp add: versioned_lib_def new_version_def sample_lib_def mounting_defs)
qed

text \<open>
  A new QuarksStatefulSet. Its creation triggers a reconcile unless a StatefulSet of its
  namespace is already controlled by it; if they cannot be listed it does.
\<close>

theorem qsts_created_triggers:
  "fst (run_state (qstsPredicate L list_sts (CreateEvent q)) s) \<longleftrightarrow>
     (case fst (run_state (list_sts (q_Namespace q)) s) of
        Inl e \<Rightarrow> True | Inr xs \<Rightarrow> \<forall>x \<in> set xs. \<not> metav1_IsControlledBy L x q)"
  by (auto simp: listStatefulSetsFromAPIClient_def filterByOwner_filter filter_empty_conv split: prod.splits sum.splits)

end
