(* ===== verification/PodMutator.thy ===== *)
theory PodMutator
  imports Rollout_Webhook
begin

text \<open>
  The mutator of pods (\<open>pod_mutator.go\<close>, \<open>pod_webhook.go\<close>), which labels the pods of
  QuarksStatefulSets with their ordinal, and what it has in common with the mutator of
  StatefulSets: the locale \<open>mutator\<close>, interpreted for both.
\<close>

section \<open>The pod mutator\<close>

text \<open>
  \<open>setPodOrdinal\<close> writes into the label map it is given and stores it in the pod; the map is
  the one of the decoded pod, which is not used afterwards.
\<close>

definition setPodOrdinal :: "lib \<Rightarrow> pod \<Rightarrow> (string \<rightharpoonup> string) \<Rightarrow> pod" where
  "setPodOrdinal L p podLabels =
     (let podOrdinal = names_OrdinalFromPodName L (pod_Name p) in
      if podOrdinal \<noteq> -1
      then p\<lparr>pod_Labels := Some (podLabels(LabelPodOrdinal (gname L) \<mapsto> Itoa podOrdinal))\<rparr>
      else p)"

definition isQuarksStatefulSet :: "lib \<Rightarrow> gomap \<Rightarrow> bool" where
  "isQuarksStatefulSet L labels \<longleftrightarrow>
     ghas labels (appsv1_StatefulSetPodNameLabel L) \<and> ghas labels (LabelQStsName (gname L))"

text \<open>\<open>PodMutator.Handle\<close>.\<close>

definition podHandle :: "lib \<Rightarrow> codec \<Rightarrow> admission_request \<Rightarrow> admission_response" where
  "podHandle L C req =
     (case dec_Pod C (req_Object req) of
        Inl err \<Rightarrow> Errored http_StatusBadRequest err
      | Inr p \<Rightarrow>
          let updatedPod =
            (if isQuarksStatefulSet L (pod_Labels p)
             then let podLabels = (case pod_Labels p of None \<Rightarrow> Map.empty | Some m \<Rightarrow> m)
                  in setPodOrdinal L p podLabels
             else p)
          in patch_response (enc_Pod C) req updatedPod)"

definition NewQuarksStatefulSetPodMutator :: "lib \<Rightarrow> config \<Rightarrow> string \<Rightarrow> operator_webhook" where
  "NewQuarksStatefulSetPodMutator L cfg label_ns = \<lparr>
     wh_FailurePolicy = ''Fail'',
     wh_Rules = [\<lparr>wr_APIGroups = [''''], wr_APIVersions = [''v1''], wr_Resources = [''pods''],
                  wr_Scope = ''Namespaced'', wr_Operations = [''CREATE'', ''UPDATE'']\<rparr>],
     wh_Path = ''/mutate-pods'',
     wh_Name = ''mutate-pods.'' @ gname L,
     wh_NamespaceSelector = [(label_ns, MonitoredID cfg)]\<rparr>"

section \<open>The contract of a mutator\<close>

text \<open>
  A mutator answers every request that does not panic. It refuses an object it cannot decode,
  admits unchanged the objects it does not select, and answers a selected object with the
  patch to some object made from it, or with an error.
\<close>

locale mutator =
  fixes dec :: "string \<Rightarrow> go_error + 'o"
    and enc :: "'o \<Rightarrow> go_error + string"
    and selects :: "'o \<Rightarrow> bool"
    and handle :: "admission_request \<Rightarrow> admission_response go"
  assumes undecodable: "dec (req_Object req) = Inl e \<Longrightarrow> handle req = Ret (Errored http_StatusBadRequest e)"
    and not_selected: "dec (req_Object req) = Inr x \<Longrightarrow> \<not> selects x \<Longrightarrow> handle req = Ret (patch_response enc req x)"
    and selected: "dec (req_Object req) = Inr x \<Longrightarrow> selects x \<Longrightarrow>
      handle req = Panic \<or> (\<exists>e. handle req = Ret (Errored http_StatusBadRequest e)) \<or>
      (\<exists>y. handle req = Ret (patch_response enc req y))"
begin

lemma answers:
  assumes "handle req = Ret a"
  obtains (refused) e where "a = Errored http_StatusBadRequest e" | (patched) y where "a = patch_response enc req y"
proof (cases "dec (req_Object req)")
  case (Inl e)
  then show thesis using undecodable [OF Inl] assms refused by simp
next
  case (Inr x)
  show thesis
  proof (cases "selects x")
    case False
    then show thesis using not_selected [OF Inr False] assms patched by simp
  next
    case True
    then show thesis using selected [OF Inr True] assms refused patched by auto
  qed
qed

lemma answer_shape:
  assumes "handle req = Ret a"
  shows "case a of
      PatchResponseFromRaw original current \<Rightarrow> original = req_Object req \<and> (\<exists>y. enc y = Inr current)
    | Errored code e \<Rightarrow> code = 400 \<or> code = 500 \<and> (\<exists>y. enc y = Inl e)"
  using assms
  by (rule answers)
     (auto simp: patch_response_def http_StatusBadRequest_def http_StatusInternalServerError_def split: sum.splits)

end

interpretation pods: mutator "dec_Pod C" "enc_Pod C" "\<lambda>p. isQuarksStatefulSet L (pod_Labels p)"
    "\<lambda>req. Ret (podHandle L C req)" for C L
  by unfold_locales (auto simp: podHandle_def Let_def)

interpretation rollouts: mutator "dec_Sts C" "enc_Sts C" "isControlledRolloutStatefulSet L"
    "rolloutHandle L C now" for C L now
proof
  show "dec_Sts C (req_Object req) = Inl e \<Longrightarrow> rolloutHandle L C now req = Ret (Errored http_StatusBadRequest e)" for req e
    by (simp add: rolloutHandle_def)
  show "dec_Sts C (req_Object req) = Inr x \<Longrightarrow> \<not> isControlledRolloutStatefulSet L x \<Longrightarrow>
      rolloutHandle L C now req = Ret (patch_response (enc_Sts C) req x)" for req x
    by (simp add: rolloutHandle_def)
  show "rolloutHandle L C now req = Panic \<or> (\<exists>e. rolloutHandle L C now req = Ret (Errored http_StatusBadRequest e)) \<or>
      (\<exists>y. rolloutHandle L C now req = Ret (patch_response (enc_Sts C) req y))"
    if "dec_Sts C (req_Object req) = Inr x" "isControlledRolloutStatefulSet L x" for req x
    unfolding rolloutHandle_def that(1) sum.case Let_def if_P [OF that(2)]
    by (split if_split sum.split go.split)+ blast
qed

section \<open>Properties\<close>

text \<open>
  What the webhooks answer. A patch of either mutator starts from the raw object of the
  request and leads to the encoding of an object; an error is 400, or 500 with the error of the
  encoder.
\<close>

theorem mutators_answer:
  assumes "handle = rolloutHandle L C now \<or> handle = (\<lambda>req. Ret (podHandle L C req))"
    and "handle req = Ret a"
  shows "case a of
      PatchResponseFromRaw original current \<Rightarrow> original = req_Object req \<and>
        ((\<exists>x. enc_Sts C x = Inr current) \<or> (\<exists>p. enc_Pod C p = Inr current))
    | Errored code e \<Rightarrow> code = 400 \<or> code = 500 \<and> ((\<exists>x. enc_Sts C x = Inl e) \<or> (\<exists>p. enc_Pod C p = Inl e))"
  using assms(1)
proof
  assume "handle = rolloutHandle L C now"
  then show ?thesis
    using rollouts.answer_shape [of L C now req a] assms(2) by (auto split: admission_response.splits)
next
  assume "handle = (\<lambda>req. Ret (podHandle L C req))"
  then show ?thesis
    using pods.answer_shape [of L C req a] assms(2) by (auto split: admission_response.splits)
qed

theorem mutators_answer_witness:
  "\<exists>original current. podHandle sample_lib sample_codec (sample_request Create ''p'' '''') =
     PatchResponseFromRaw original current \<and> original = ''p''"
proof -
  have "\<exists>original current. podHandle sample_lib sample_codec (sample_request Create ''p'' '''') =
      PatchResponseFromRaw original current"
    by (simp add: podHandle_def sample_codec_def patch_response_def Let_def)
  then show ?thesis
    using mutators_answer [of "\<lambda>req. Ret (podHandle sample_lib sample_codec req)" sample_lib sample_codec 0
        "sample_request Create ''p'' ''''"]
    by (auto simp: sample_request_def)
qed

text \<open>
  C36: the ordinal label. A pod of a QuarksStatefulSet with an ordinal in its name is admitted
  with exactly one label changed, the pod ordinal, which reads back as that number; every
  other pod is admitted as it came.
\<close>

theorem pod_gets_ordinal:
  assumes "dec_Pod C (req_Object req) = Inr p" "\<And>y. \<exists>m. enc_Pod C y = Inr m"
    and "names_OrdinalFromPodName L (pod_Name p) = n" "int64_ok n"
  shows "\<exists>p'. admitted (enc_Pod C) p' (Ret (podHandle L C req)) \<and> p'\<lparr>pod_Labels := pod_Labels p\<rparr> = p \<and>
    (if isQuarksStatefulSet L (pod_Labels p) \<and> n \<noteq> -1
     then Atoi (gget (pod_Labels p') (LabelPodOrdinal (gname L))) = Inr n \<and>
       (\<forall>k. k \<noteq> LabelPodOrdinal (gname L) \<longrightarrow> gmap (pod_Labels p') k = gmap (pod_Labels p) k)
     else p' = p)"
proof -
  define p' where "p' = (if isQuarksStatefulSet L (pod_Labels p)
    then setPodOrdinal L p (case pod_Labels p of None \<Rightarrow> Map.empty | Some m \<Rightarrow> m) else p)"
  obtain m where "enc_Pod C p' = Inr m" using assms(2) by blast
  moreover have "podHandle L C req = patch_response (enc_Pod C) req p'"
    using assms(1) by (simp add: podHandle_def Let_def p'_def)
  ultimately have "admitted (enc_Pod C) p' (Ret (podHandle L C req))"
    by (simp add: admitted_patch)
  with assms(3,4) show ?thesis
    by (intro exI [of _ p'])
       (auto simp: p'_def setPodOrdinal_def Let_def Atoi_Itoa split: option.splits)
qed

definition ordinal_codec :: codec where
  "ordinal_codec = sample_codec\<lparr>dec_Pod := (\<lambda>raw. Inr \<lparr>pod_Name = raw, pod_Namespace = ''default'',
     pod_Labels = Some [''statefulset.kubernetes.io/pod-name'' \<mapsto> raw,
       ''quarks.cloudfoundry.org/quarks-statefulset-name'' \<mapsto> ''foo''], pod_Status = '''', pod_Rest = ''''\<rparr>)\<rparr>"

theorem pod_gets_ordinal_witness:
  "\<exists>p'. admitted (enc_Pod ordinal_codec) p' (Ret (podHandle sample_lib ordinal_codec (sample_request Create ''foo-12'' ''''))) \<and>
     Atoi (gget (pod_Labels p') ''quarks.cloudfoundry.org/pod-ordinal'') = Inr 12"
proof -
  define p where "p = (case dec_Pod ordinal_codec ''foo-12'' of Inr p \<Rightarrow> p)"
  have p: "dec_Pod ordinal_codec (req_Object (sample_request Create ''foo-12'' '''')) = Inr p"
    by (simp add: p_def ordinal_codec_def sample_request_def)
  have n: "names_OrdinalFromPodName sample_lib (pod_Name p) = 12"
    unfolding p_def by code_simp
  have "isQuarksStatefulSet sample_lib (pod_Labels p)"
    by (simp add: p_def ordinal_codec_def isQuarksStatefulSet_def sample_lib_def ghas_def key_defs)
  with pod_gets_ordinal [OF p _ n] show ?thesis
    by (auto simp: ordinal_codec_def sample_codec_def int64_ok_def key_defs sample_lib_def)
qed

end
