(* ===== verification/Crd.thy ===== *)
theory Crd
  imports K8s_Types
begin

text \<open>
  The custom resource definition (\<open>register.go\<close>): its names, its validation schema and its
  columns, and the JSON form that the struct tags of \<open>types.go\<close> give a QuarksStatefulSet.
  What a schema means is the documented subset of OpenAPI v3 it uses.
\<close>

section \<open>The definition\<close>

text \<open>\<open>extv1.JSONSchemaProps\<close>, the fields in use.\<close>

datatype schema = Schema
  (sc_Type: string)
  (sc_Description: string)
  (sc_PreserveUnknownFields: "bool option")
  (sc_Properties: "(string \<times> schema) list")
  (sc_Items: "schema option")
  (sc_Required: "string list")

record printer_column =
  pc_Name :: string
  pc_Type :: string
  pc_Description :: string
  pc_JSONPath :: string

record crd =
  crd_Name :: string
  crd_Kind :: string
  crd_Plural :: string
  crd_ShortNames :: "string list"
  crd_Group :: string
  crd_Version :: string
  crd_Validation :: schema
  crd_Columns :: "printer_column list"

definition QuarksStatefulSetResourceKind :: string where
  "QuarksStatefulSetResourceKind = ''QuarksStatefulSet''"

definition QuarksStatefulSetResourcePlural :: string where
  "QuarksStatefulSetResourcePlural = ''quarksstatefulsets''"

definition QuarksStatefulSetResourceShortNames :: "string list" where
  "QuarksStatefulSetResourceShortNames = [''qsts'']"

definition QuarksStatefulSetResourceName :: "string \<Rightarrow> string" where
  "QuarksStatefulSetResourceName gn = QuarksStatefulSetResourcePlural @ ''.'' @ gn"

text \<open>\<open>schema.GroupVersion{Group, Version}\<close>.\<close>

definition SchemeGroupVersion :: "string \<Rightarrow> string \<times> string" where
  "SchemeGroupVersion gn = (gn, ''v1alpha1'')"

text \<open>\<open>Kind\<close> and \<open>Resource\<close>: the group of \<open>SchemeGroupVersion\<close> with the name.\<close>

definition Kind :: "string \<Rightarrow> string \<Rightarrow> string \<times> string" where
  "Kind gn kind = (fst (SchemeGroupVersion gn), kind)"

definition Resource :: "string \<Rightarrow> string \<Rightarrow> string \<times> string" where
  "Resource gn resource = (fst (SchemeGroupVersion gn), resource)"

definition plainSchema :: "string \<Rightarrow> string \<Rightarrow> schema" where
  "plainSchema ty description = Schema ty description None [] None []"

definition QuarksStatefulSetValidation :: schema where
  "QuarksStatefulSetValidation = Schema ''object'' '''' None
     [(''spec'', Schema ''object'' '''' None
        [(''template'', Schema ''object'' ''A template for a regular StatefulSet'' (Some True) [] None []),
         (''updateOnConfigChange'', plainSchema ''boolean''
            ''Indicate whether to update Pods in the StatefulSet when an env value or mount changes''),
         (''activePassiveProbes'', Schema ''object''
            ''Defines probes to determine active/passive component instances'' (Some True) [] None []),
         (''injectReplicasEnv'', plainSchema ''boolean''
            ''Determines if the REPLICAS env var is injected into pod containers.''),
         (''zoneNodeLabel'', plainSchema ''string'' ''Indicates the node label that a node locates''),
         (''zones'', Schema ''array''
            ''Indicates the availability zones that the QuarksStatefulSet needs to span'' None []
            (Some (plainSchema ''string'' '''')) [])]
        None [''template'']),
      (''status'', Schema ''object'' '''' None
        [(''lastReconcile'', plainSchema ''string'' ''''), (''ready'', plainSchema ''boolean'' '''')]
        None [])]
     None []"

definition QuarksStatefulSetAdditionalPrinterColumns :: "printer_column list" where
  "QuarksStatefulSetAdditionalPrinterColumns =
     [\<lparr>pc_Name = ''ready'', pc_Type = ''boolean'', pc_Description = '''', pc_JSONPath = ''.status.ready''\<rparr>]"

text \<open>The definition that \<open>ApplyCRDs\<close> builds.\<close>

definition quarksStatefulSetCRD :: "string \<Rightarrow> crd" where
  "quarksStatefulSetCRD gn = \<lparr>
     crd_Name = QuarksStatefulSetResourceName gn,
     crd_Kind = QuarksStatefulSetResourceKind,
     crd_Plural = QuarksStatefulSetResourcePlural,
     crd_ShortNames = QuarksStatefulSetResourceShortNames,
     crd_Group = fst (SchemeGroupVersion gn),
     crd_Version = snd (SchemeGroupVersion gn),
     crd_Validation = QuarksStatefulSetValidation,
     crd_Columns = QuarksStatefulSetAdditionalPrinterColumns\<rparr>"

section \<open>The JSON form of the resource\<close>

datatype json =
    JNull
  | JBool bool
  | JString string
  | JArray "json list"
  | JObject "(string \<times> json) list"

text \<open>
  How the types from outside the repository are encoded: the StatefulSet, the probes and the
  time stamp.
\<close>

record json_codec =
  js_StatefulSet :: "statefulset \<Rightarrow> (string \<times> json) list"
  js_Probe :: "probe \<Rightarrow> json"
  js_Time :: "int \<Rightarrow> string"

text \<open>The tags of \<open>QuarksStatefulSetSpec\<close>; \<open>omitempty\<close> drops zero values, nil and empty.\<close>

definition specJson :: "json_codec \<Rightarrow> qsts_spec \<Rightarrow> json" where
  "specJson J s = JObject (
     [(''updateOnConfigChange'', JBool (qs_UpdateOnConfigChange s))] @
     (if qs_ZoneNodeLabel s = '''' then [] else [(''zoneNodeLabel'', JString (qs_ZoneNodeLabel s))]) @
     (if qs_Zones s = [] then [] else [(''zones'', JArray (map JString (qs_Zones s)))]) @
     [(''template'', JObject (js_StatefulSet J (qs_Template s)))] @
     (case qs_ActivePassiveProbes s of
        None \<Rightarrow> []
      | Some ps \<Rightarrow> if ps = [] then []
          else [(''activePassiveProbes'', JObject (map (\<lambda>(k, p). (k, js_Probe J p)) ps))]) @
     (case qs_InjectReplicasEnv s of None \<Rightarrow> [] | Some b \<Rightarrow> [(''injectReplicasEnv'', JBool b)]))"

text \<open>The tags of \<open>QuarksStatefulSetStatus\<close>: a nil time is \<open>null\<close>.\<close>

definition statusJson :: "json_codec \<Rightarrow> qsts_status \<Rightarrow> json" where
  "statusJson J s = JObject
     [(''lastReconcile'', case qst_LastReconcile s of None \<Rightarrow> JNull | Some t \<Rightarrow> JString (js_Time J t)),
      (''ready'', JBool (qst_Ready s))]"

text \<open>The resource without its metadata, which the schema does not describe.\<close>

definition qstsJson :: "json_codec \<Rightarrow> quarks_statefulset \<Rightarrow> json" where
  "qstsJson J q = JObject [(''spec'', specJson J (q_Spec q)), (''status'', statusJson J (q_Status q))]"

section \<open>Validation\<close>

text \<open>
  \<open>conforms s j\<close>: the value has the type the schema names (\<open>null\<close> has none), an object has
  the required keys, and its properties and the items of an array conform.
\<close>

fun conforms :: "schema \<Rightarrow> json \<Rightarrow> bool" where
  "conforms (Schema ty d pu props items req) (JBool b) \<longleftrightarrow> ty = ''boolean''"
| "conforms (Schema ty d pu props items req) (JString s) \<longleftrightarrow> ty = ''string''"
| "conforms (Schema ty d pu props items req) JNull \<longleftrightarrow> False"
| "conforms (Schema ty d pu props items req) (JArray xs) \<longleftrightarrow>
     ty = ''array'' \<and> (\<forall>x \<in> set xs. case items of None \<Rightarrow> True | Some s \<Rightarrow> conforms s x)"
| "conforms (Schema ty d pu props items req) (JObject kvs) \<longleftrightarrow>
     ty = ''object'' \<and> set req \<subseteq> fst ` set kvs \<and>
     (\<forall>(k, v) \<in> set kvs. case map_of props k of None \<Rightarrow> True | Some s \<Rightarrow> conforms s v)"

text \<open>
  \<open>declared s j\<close>: every key is declared by the schema, or kept as an unknown field, so pruning
  to the schema loses nothing.
\<close>

fun declared :: "schema \<Rightarrow> json \<Rightarrow> bool" where
  "declared (Schema ty d pu props items req) (JObject kvs) \<longleftrightarrow>
     (\<forall>(k, v) \<in> set kvs. case map_of props k of None \<Rightarrow> pu = Some True | Some s \<Rightarrow> declared s v)"
| "declared (Schema ty d pu props items req) (JArray xs) \<longleftrightarrow>
     (\<forall>x \<in> set xs. case items of None \<Rightarrow> True | Some s \<Rightarrow> declared s x)"
| "declared s j \<longleftrightarrow> True"

lemma conforms_spec:
  "case map_of (sc_Properties QuarksStatefulSetValidation) ''spec'' of
     None \<Rightarrow> False | Some s \<Rightarrow> conforms s (specJson J x) \<and> declared s (specJson J x)"
  by (auto simp: QuarksStatefulSetValidation_def plainSchema_def specJson_def split: option.splits)

lemma conforms_status:
  "case map_of (sc_Properties QuarksStatefulSetValidation) ''status'' of
     None \<Rightarrow> False
   | Some s \<Rightarrow> (conforms s (statusJson J x) \<longleftrightarrow> qst_LastReconcile x \<noteq> None) \<and> declared s (statusJson J x)"
  by (auto simp: QuarksStatefulSetValidation_def plainSchema_def statusJson_def split: option.splits)


end
