(* ===== verification/Setup.thy ===== *)
theory Setup
  imports PodMutator Crd
begin

text \<open>
  How the operator starts (\<open>cmd/internal/root.go\<close>, \<open>operator.go\<close>, \<open>controllers.go\<close> and the
  \<open>Add*\<close> functions of the controllers): a sequence of calls of the libraries, each of which
  may fail. \<open>answers\<close> is what they answer, given the calls made before; the history of calls
  is the state.
\<close>

section \<open>Calls and their history\<close>

datatype reconciler = QstsReconciler | StatusReconciler | RolloutReconciler | ActivePassiveReconciler

datatype object_kind = QuarksStatefulSets | StatefulSets | ConfigMaps | Secrets

text \<open>
  What a watch enqueues: the object itself, its controlling owner, or what a mapping function
  finds; and the predicates it filters with (\<open>qstsPredicate\<close>, \<open>configMapPredicate\<close>,
  \<open>secretPredicate\<close>, \<open>statusPredicate\<close>, \<open>rolloutPredicate\<close>, \<open>activePassivePredicate\<close>).
\<close>

datatype enqueue = TheObject | ItsController object_kind | MappedConfigMap | MappedSecret

datatype filter_name = QstsFilter | ConfigMapFilter | SecretFilter | StatusFilter | RolloutFilter | ActivePassiveFilter

datatype setup_call =
    NewController string reconciler int
  | AppsClientForConfig
  | LoadKubeConfig
  | KubernetesForConfig
  | Watch string object_kind enqueue string filter_name
  | NewWebhookConfig string
  | SetCertDir
  | Register string
  | SetupCertificate string
  | CreateMutationConfig string "operator_webhook list"
  | ManagerNew
  | SchemeAddKnownTypes "string \<times> string" "string list"
  | SchemeAddGroupVersion "string \<times> string"
  | ExtClientForConfig
  | ApplyCRD crd
  | WaitForCRD string
  | CmdKubeConfig
  | StartManager

type_synonym history = "(setup_call \<times> go_error option) list"
type_synonym answers = "history \<Rightarrow> setup_call \<Rightarrow> go_error option"
type_synonym startup = "(history, go_error option) state"

definition call :: "answers \<Rightarrow> setup_call \<Rightarrow> startup" where
  "call A c = State (\<lambda>h. (A h c, h @ [(c, A h c)]))"

text \<open>A call that has no error, or whose error the code drops.\<close>

definition perform :: "setup_call \<Rightarrow> (history, unit) state" where
  "perform c = State (\<lambda>h. ((), h @ [(c, None)]))"

text \<open>\<open>if err != nil { return wrap(err) }\<close>.\<close>

definition check :: "startup \<Rightarrow> (go_error \<Rightarrow> go_error) \<Rightarrow> startup \<Rightarrow> startup" where
  "check m wrap k = do {
     err \<leftarrow> m;
     case err of Some e \<Rightarrow> State_Monad.return (Some (wrap e)) | None \<Rightarrow> k }"

section \<open>The controllers\<close>

definition AddQuarksStatefulSet :: "config \<Rightarrow> answers \<Rightarrow> startup" where
  "AddQuarksStatefulSet cfg A =
     check (call A (NewController ''quarks-statefulset-controller'' QstsReconciler (MaxQuarksStatefulSetWorkers cfg)))
       (\<lambda>e. Wrapf e ''Adding QuarksStatefulSet controller to manager failed.'')
    (check (call A AppsClientForConfig) (\<lambda>e. Wrapf e ''Could not get kube client'')
    (check (call A (Watch ''quarks-statefulset-controller'' QuarksStatefulSets TheObject (MonitoredID cfg) QstsFilter)) id
    (check (call A (Watch ''quarks-statefulset-controller'' ConfigMaps MappedConfigMap (MonitoredID cfg) ConfigMapFilter))
       (\<lambda>e. Wrapf e ''Watching configMaps failed in QuarksStatefulSet controller failed.'')
    (check (call A (Watch ''quarks-statefulset-controller'' Secrets MappedSecret (MonitoredID cfg) SecretFilter))
       (\<lambda>e. Wrapf e ''Watching secrets failed in QuarksStatefulSet controller failed.'')
    (State_Monad.return None)))))"

definition AddQuarksStatefulSetStatus :: "config \<Rightarrow> answers \<Rightarrow> startup" where
  "AddQuarksStatefulSetStatus cfg A =
     check (call A (NewController ''quarks-statefulset-status--controller'' StatusReconciler (MaxQuarksStatefulSetWorkers cfg)))
       (\<lambda>e. Wrapf e ''Adding QuarksStatefulSetStatus controller to manager failed.'')
    (check (call A (Watch ''quarks-statefulset-status--controller'' StatefulSets (ItsController QuarksStatefulSets) (MonitoredID cfg) StatusFilter))
       (\<lambda>e. Wrapf e ''Watching secrets failed in QuarksStatefulSetStatus controller failed.'')
    (State_Monad.return None))"

definition AddStatefulSetRollout :: "config \<Rightarrow> answers \<Rightarrow> startup" where
  "AddStatefulSetRollout cfg A =
     check (call A (NewController ''statefulset-rollout-controller'' RolloutReconciler (MaxQuarksStatefulSetWorkers cfg)))
       (\<lambda>e. Wrapf e ''Adding StatefulSet rollout controller to manager failed.'')
    (check (call A (Watch ''statefulset-rollout-controller'' StatefulSets TheObject (MonitoredID cfg) RolloutFilter))
       (\<lambda>e. Wrapf e ''Watching StatefulSet failed in StatefulSet rollout controller.'')
    (State_Monad.return None))"

text \<open>The error of \<open>KubeConfig\<close> is dropped.\<close>

definition AddStatefulSetActivePassive :: "config \<Rightarrow> answers \<Rightarrow> startup" where
  "AddStatefulSetActivePassive cfg A = do {
     perform LoadKubeConfig;
     check (call A KubernetesForConfig) (\<lambda>e. Wrapf e ''failed retrieving kubernetes client configuration'')
    (check (call A (NewController ''active-passive-controller'' ActivePassiveReconciler (MaxQuarksStatefulSetWorkers cfg)))
       (\<lambda>e. Wrapf e ''adding active-passive controller to manager failed'')
    (check (call A (Watch ''active-passive-controller'' QuarksStatefulSets TheObject (MonitoredID cfg) ActivePassiveFilter))
       (\<lambda>e. Wrapf e ''watching QuarksStatefulSet failed in active/passive controller'')
    (State_Monad.return None))) }"

definition addToManagerFuncs :: "(config \<Rightarrow> answers \<Rightarrow> startup) list" where
  "addToManagerFuncs = [AddQuarksStatefulSet, AddQuarksStatefulSetStatus, AddStatefulSetRollout, AddStatefulSetActivePassive]"

fun runFuncs :: "config \<Rightarrow> answers \<Rightarrow> (config \<Rightarrow> answers \<Rightarrow> startup) list \<Rightarrow> startup" where
  "runFuncs cfg A [] = State_Monad.return None"
| "runFuncs cfg A (f # fs) = check (f cfg A) id (runFuncs cfg A fs)"

definition AddToManager :: "config \<Rightarrow> answers \<Rightarrow> startup" where
  "AddToManager cfg A = runFuncs cfg A addToManagerFuncs"

section \<open>The scheme\<close>

definition addKnownTypes :: "string \<Rightarrow> startup" where
  "addKnownTypes gn = do {
     perform (SchemeAddKnownTypes (SchemeGroupVersion gn) [''QuarksStatefulSet'', ''QuarksStatefulSetList'']);
     perform (SchemeAddGroupVersion (SchemeGroupVersion gn));
     State_Monad.return None }"

text \<open>\<open>AddToScheme\<close>: a scheme builder runs its functions until one fails.\<close>

definition AddToScheme :: "lib \<Rightarrow> startup" where
  "AddToScheme L = check (addKnownTypes (gname L)) id (State_Monad.return None)"

section \<open>The webhooks\<close>

definition HTTPReadyzEndpoint :: string where "HTTPReadyzEndpoint = ''/readyz''"
definition WebhookConfigPrefix :: string where "WebhookConfigPrefix = ''qsts-hook-''"

text \<open>\<open>ns_label\<close> is \<open>monitorednamespace.LabelNamespace\<close>.\<close>

definition mutatingHookFuncs :: "(lib \<Rightarrow> config \<Rightarrow> string \<Rightarrow> operator_webhook) list" where
  "mutatingHookFuncs = [NewQuarksStatefulSetPodMutator, NewStatefulSetRolloutMutator]"

fun registerHooks ::
  "lib \<Rightarrow> config \<Rightarrow> string \<Rightarrow> (lib \<Rightarrow> config \<Rightarrow> string \<Rightarrow> operator_webhook) list \<Rightarrow>
   (history, operator_webhook list) state" where
  "registerHooks L cfg ns_label [] = State_Monad.return []"
| "registerHooks L cfg ns_label (f # fs) = do {
     perform (Register (wh_Path (f L cfg ns_label)));
     hooks \<leftarrow> registerHooks L cfg ns_label fs;
     State_Monad.return (f L cfg ns_label # hooks) }"

definition AddHooks :: "lib \<Rightarrow> config \<Rightarrow> string \<Rightarrow> answers \<Rightarrow> startup" where
  "AddHooks L cfg ns_label A = do {
     perform (NewWebhookConfig (WebhookConfigPrefix @ OperatorNamespace cfg));
     perform SetCertDir;
     perform (Register HTTPReadyzEndpoint);
     mutatingWebhooks \<leftarrow> registerHooks L cfg ns_label mutatingHookFuncs;
     check (call A (SetupCertificate ''qsts-webhook'')) (\<lambda>e. Wrapf e ''setting up the webhook server certificate'')
    (check (call A (CreateMutationConfig ''qsts-webhook'' mutatingWebhooks))
       (\<lambda>e. Wrapf e ''generating the webhook server configuration'')
    (State_Monad.return None)) }"

section \<open>The operator\<close>

definition NewManager :: "lib \<Rightarrow> config \<Rightarrow> string \<Rightarrow> answers \<Rightarrow> startup" where
  "NewManager L cfg ns_label A =
     check (call A ManagerNew) (\<lambda>e. Wrapf e ''failed to initialize new manager'')
    (check (AddToScheme L) (\<lambda>e. Wrapf e ''failed to add manager scheme to controllers'')
    (check (AddHooks L cfg ns_label A) (\<lambda>e. Wrapf e ''failed to setup hooks'')
    (check (AddToManager cfg A) (\<lambda>e. Wrapf e ''failed to add controllers to manager'')
    (State_Monad.return None))))"

definition ApplyCRDs :: "lib \<Rightarrow> answers \<Rightarrow> startup" where
  "ApplyCRDs L A =
     check (call A ExtClientForConfig) (\<lambda>e. Wrapf e ''Could not get kube client'')
    (check (call A (ApplyCRD (quarksStatefulSetCRD (gname L)))) (\<lambda>e. Wrapf e (''failed to apply CRD '' @ [CHR 0x27] @ ''%s'' @ [CHR 0x27]))
    (check (call A (WaitForCRD (QuarksStatefulSetResourceName (gname L))))
       (\<lambda>e. Wrapf e (''failed to wait for CRD '' @ [CHR 0x27] @ ''%s'' @ [CHR 0x27] @ '' ready''))
    (State_Monad.return None)))"

text \<open>
  The command. \<open>cmd_ApplyCRDs\<close> is the function of \<open>quarks-utils\<close> that runs \<open>ApplyCRDs\<close> if a
  flag asks for it; \<open>serviceHost\<close> and \<open>useServiceRef\<close> are the flags read with \<open>viper\<close>.
\<close>

definition wrapError :: "string \<Rightarrow> go_error \<Rightarrow> go_error" where
  "wrapError msg err = Wrapf err (''quarks-statefulset command failed. '' @ msg)"

definition runCommand ::
  "lib \<Rightarrow> config \<Rightarrow> string \<Rightarrow> (startup \<Rightarrow> startup) \<Rightarrow> string \<Rightarrow> bool \<Rightarrow> answers \<Rightarrow> startup" where
  "runCommand L cfg ns_label cmd_ApplyCRDs serviceHost useServiceRef A =
     check (call A CmdKubeConfig) (wrapError '''')
    (if serviceHost = '''' \<and> \<not> useServiceRef
     then State_Monad.return (Some (wrapError
       ''operator-webhook-service-host flag is not set (env variable: QUARKS_STS_WEBHOOK_SERVICE_HOST)''
       (Errorf (''couldn'' @ [CHR 0x27] @ ''t determine webhook server''))))
     else
       check (cmd_ApplyCRDs (ApplyCRDs L A)) (wrapError (''Couldn'' @ [CHR 0x27] @ ''t apply CRDs.''))
      (check (NewManager L cfg ns_label A) (wrapError ''Failed to create new manager.'')
      (check (call A StartManager) (wrapError ''Failed to start quarks-statefulset manager.'')
      (State_Monad.return None))))"

end
