(* ===== verification/Setup_Properties.thy ===== *)
theory Setup_Properties
  imports Setup
begin

text \<open>
  The start of the operator is a script of calls that ends at the first one that fails: which
  calls it makes, in which order, and when it starts the manager.
\<close>

section \<open>Scripts\<close>

definition all_ok :: "history \<Rightarrow> bool" where
  "all_ok ev \<longleftrightarrow> (\<forall>(c, r) \<in> set ev. r = None)"

text \<open>
  \<open>follows cs r ev\<close>: the events are the calls \<open>cs\<close> in order, all successful, and there is no
  error; or a beginning of them, of which exactly the last call failed, and there is an error.
\<close>

definition follows :: "setup_call list \<Rightarrow> go_error option \<Rightarrow> history \<Rightarrow> bool" where
  "follows cs r ev \<longleftrightarrow> (\<exists>rest. cs = map fst ev @ rest) \<and>
     (case r of
        None \<Rightarrow> map fst ev = cs \<and> all_ok ev
      | Some e \<Rightarrow> ev \<noteq> [] \<and> all_ok (butlast ev) \<and> snd (last ev) \<noteq> None)"

definition script :: "startup \<Rightarrow> setup_call list \<Rightarrow> bool" where
  "script m cs \<longleftrightarrow> (\<forall>h. \<exists>r ev. run_state m h = (r, h @ ev) \<and> follows cs r ev)"

lemma all_ok_simps [simp]:
  "all_ok []" "all_ok ((c, r) # ev) \<longleftrightarrow> r = None \<and> all_ok ev"
  "all_ok (ev @ ev') \<longleftrightarrow> all_ok ev \<and> all_ok ev'"
  by (auto simp: all_ok_def)

lemma all_ok_nth:
  assumes "all_ok (butlast ev)" "i < length ev - 1"
  shows "snd (ev ! i) = None"
proof -
  have "ev ! i \<in> set (butlast ev)"
    using assms(2) by (auto simp: in_set_conv_nth nth_butlast intro!: exI [of _ i])
  with assms(1) show ?thesis by (cases "ev ! i") (force simp: all_ok_def)
qed

lemma script_return: "script (State_Monad.return None) []"
  by (simp add: script_def follows_def)

lemma script_call: "script (call A c) [c]"
  by (auto simp: script_def follows_def call_def split: option.splits)

lemma follows_wrap: "follows cs (Some e) ev \<Longrightarrow> follows (cs @ ds) (Some e') ev"
  by (auto simp: follows_def)

lemma follows_append: "follows cs None ev \<Longrightarrow> follows ds r ev' \<Longrightarrow> follows (cs @ ds) r (ev @ ev')"
  by (auto simp: follows_def butlast_append split: option.splits)

lemma script_check:
  assumes "script m cs" "script k ds"
  shows "script (check m wrap k) (cs @ ds)"
  unfolding script_def
proof
  fix h
  obtain r ev where m: "run_state m h = (r, h @ ev)" "follows cs r ev"
    using assms(1) unfolding script_def by blast
  obtain r' ev' where k: "run_state k (h @ ev) = (r', (h @ ev) @ ev')" "follows ds r' ev'"
    using assms(2) unfolding script_def by blast
  show "\<exists>r ev. run_state (check m wrap k) h = (r, h @ ev) \<and> follows (cs @ ds) r ev"
  proof (cases r)
    case None
    with m k show ?thesis by (auto simp: check_def intro: follows_append)
  next
    case (Some e)
    with m show ?thesis by (auto simp: check_def intro: follows_wrap)
  qed
qed

lemma script_perform:
  assumes "script m cs"
  shows "script (do { perform c; m }) (c # cs)"
  unfolding script_def
proof
  fix h
  obtain r ev where "run_state m (h @ [(c, None)]) = (r, (h @ [(c, None)]) @ ev)" "follows cs r ev"
    using assms unfolding script_def by blast
  moreover have "follows [c] None [(c, None)]" by (simp add: follows_def)
  ultimately show "\<exists>r ev. run_state (do { perform c; m }) h = (r, h @ ev) \<and> follows (c # cs) r ev"
    using follows_append [of "[c]" "[(c, None)]" cs r ev] by (auto simp: perform_def)
qed

lemmas script_rules = script_perform script_check script_call script_return

lemma script_run:
  assumes "script m cs"
  shows "follows cs (fst (run_state m [])) (snd (run_state m []))"
  using assms unfolding script_def by (metis append_Nil fst_conv snd_conv)

section \<open>The scripts of the operator\<close>

fun controllerCalls :: "config \<Rightarrow> reconciler \<Rightarrow> setup_call list" where
  "controllerCalls cfg QstsReconciler =
     [NewController ''quarks-statefulset-controller'' QstsReconciler (MaxQuarksStatefulSetWorkers cfg),
      AppsClientForConfig,
      Watch ''quarks-statefulset-controller'' QuarksStatefulSets TheObject (MonitoredID cfg) QstsFilter,
      Watch ''quarks-statefulset-controller'' ConfigMaps MappedConfigMap (MonitoredID cfg) ConfigMapFilter,
      Watch ''quarks-statefulset-controller'' Secrets MappedSecret (MonitoredID cfg) SecretFilter]"
| "controllerCalls cfg StatusReconciler =
     [NewController ''quarks-statefulset-status--controller'' StatusReconciler (MaxQuarksStatefulSetWorkers cfg),
      Watch ''quarks-statefulset-status--controller'' StatefulSets (ItsController QuarksStatefulSets) (MonitoredID cfg) StatusFilter]"
| "controllerCalls cfg RolloutReconciler =
     [NewController ''statefulset-rollout-controller'' RolloutReconciler (MaxQuarksStatefulSetWorkers cfg),
      Watch ''statefulset-rollout-controller'' StatefulSets TheObject (MonitoredID cfg) RolloutFilter]"
| "controllerCalls cfg ActivePassiveReconciler =
     [LoadKubeConfig, KubernetesForConfig,
      NewController ''active-passive-controller'' ActivePassiveReconciler (MaxQuarksStatefulSetWorkers cfg),
      Watch ''active-passive-controller'' QuarksStatefulSets TheObject (MonitoredID cfg) ActivePassiveFilter]"

definition schemeCalls :: "lib \<Rightarrow> setup_call list" where
  "schemeCalls L = [SchemeAddKnownTypes (SchemeGroupVersion (gname L)) [''QuarksStatefulSet'', ''QuarksStatefulSetList''],
     SchemeAddGroupVersion (SchemeGroupVersion (gname L))]"

definition hookCalls :: "lib \<Rightarrow> config \<Rightarrow> string \<Rightarrow> setup_call list" where
  "hookCalls L cfg ns_label =
     [NewWebhookConfig (''qsts-hook-'' @ OperatorNamespace cfg), SetCertDir, Register ''/readyz'',
      Register ''/mutate-pods'', Register ''/mutate-statefulsets'',
      SetupCertificate ''qsts-webhook'',
      CreateMutationConfig ''qsts-webhook''
        [NewQuarksStatefulSetPodMutator L cfg ns_label, NewStatefulSetRolloutMutator L cfg ns_label]]"

definition managerCalls :: "lib \<Rightarrow> config \<Rightarrow> string \<Rightarrow> setup_call list" where
  "managerCalls L cfg ns_label = [ManagerNew] @ schemeCalls L @ hookCalls L cfg ns_label @
     concat (map (controllerCalls cfg) [QstsReconciler, StatusReconciler, RolloutReconciler, ActivePassiveReconciler])"

definition crdCalls :: "lib \<Rightarrow> setup_call list" where
  "crdCalls L = [ExtClientForConfig, ApplyCRD (quarksStatefulSetCRD (gname L)),
     WaitForCRD (QuarksStatefulSetResourceName (gname L))]"

lemma script_cong: "script m cs \<Longrightarrow> cs = ds \<Longrightarrow> script m ds"
  by simp

lemma script_AddToManager:
  "script (AddToManager cfg A)
     (concat (map (controllerCalls cfg) [QstsReconciler, StatusReconciler, RolloutReconciler, ActivePassiveReconciler]))"
  unfolding AddToManager_def addToManagerFuncs_def runFuncs.simps AddQuarksStatefulSet_def
    AddQuarksStatefulSetStatus_def AddStatefulSetRollout_def AddStatefulSetActivePassive_def
  by (rule script_cong, (rule script_rules)+) simp

lemma script_AddToScheme: "script (AddToScheme L) (schemeCalls L)"
  unfolding AddToScheme_def addKnownTypes_def schemeCalls_def
  by (rule script_cong, (rule script_rules)+) simp

lemma registerHooks_unfold:
  "do { hooks \<leftarrow> registerHooks L cfg n mutatingHookFuncs; k hooks } =
     do { perform (Register ''/mutate-pods''); perform (Register ''/mutate-statefulsets'');
          k [NewQuarksStatefulSetPodMutator L cfg n, NewStatefulSetRolloutMutator L cfg n] }"
  by (simp add: mutatingHookFuncs_def NewQuarksStatefulSetPodMutator_def NewStatefulSetRolloutMutator_def)

lemma script_AddHooks: "script (AddHooks L cfg ns_label A) (hookCalls L cfg ns_label)"
  unfolding AddHooks_def registerHooks_unfold hookCalls_def WebhookConfigPrefix_def HTTPReadyzEndpoint_def
  by (rule script_cong, (rule script_rules)+) simp

lemma script_NewManager: "script (NewManager L cfg ns_label A) (managerCalls L cfg ns_label)"
  unfolding NewManager_def
  by (rule script_cong, (rule script_check script_call script_return script_AddToScheme script_AddHooks script_AddToManager)+)
     (simp add: managerCalls_def)

lemma script_ApplyCRDs: "script (ApplyCRDs L A) (crdCalls L)"
  unfolding ApplyCRDs_def crdCalls_def
  by (rule script_cong, (rule script_rules)+) simp

section \<open>Properties\<close>

text \<open>
  The set-up of the manager. NewManager makes exactly the calls of managerCalls in
  their order if it succeeds: the scheme, the webhooks, then the four controllers with their
  watches. If it returns an error, it made a beginning of them and only the last one failed.
\<close>

theorem NewManager_follows:
  "follows (managerCalls L cfg ns_label) (fst (run_state (NewManager L cfg ns_label A) []))
     (snd (run_state (NewManager L cfg ns_label A) []))"
  by (rule script_run [OF script_NewManager])

lemma NewManager_nth:
  assumes "ev = snd (run_state (NewManager L cfg ns_label A) [])" "i < length ev"
  shows "fst (ev ! i) = managerCalls L cfg ns_label ! i" "i < length (managerCalls L cfg ns_label)"
proof -
  obtain rest where rest: "managerCalls L cfg ns_label = map fst ev @ rest"
    using script_run [OF script_NewManager, of L cfg ns_label A] assms(1) unfolding follows_def by blast
  then show "fst (ev ! i) = managerCalls L cfg ns_label ! i" "i < length (managerCalls L cfg ns_label)"
    using assms(2) by (auto simp: nth_append)
qed

lemma NewManager_ok:
  assumes "ev = snd (run_state (NewManager L cfg ns_label A) [])" "i < j" "j < length ev"
  shows "snd (ev ! i) = None"
proof -
  have "all_ok (butlast ev)"
    using script_run [OF script_NewManager, of L cfg ns_label A] assms(1)
    by (auto simp: follows_def all_ok_def split: option.splits dest: in_set_butlastD)
  then show ?thesis using assms(2,3) by (intro all_ok_nth) auto
qed

lemmas managerCalls_defs = managerCalls_def schemeCalls_def hookCalls_def

lemma managerCalls_watch:
  assumes "i < length (managerCalls L cfg ns_label)" "managerCalls L cfg ns_label ! i = Watch n k q ns f"
  shows "ns = MonitoredID cfg \<and> (\<exists>j < i. \<exists>r. managerCalls L cfg ns_label ! j = NewController n r (MaxQuarksStatefulSetWorkers cfg))"
proof -
  have "i \<in> {12, 13, 14, 16, 18, 22}"
    using assms by (auto simp: managerCalls_defs less_Suc_eq numeral_eq_Suc)
  then consider "i \<in> {12, 13, 14}" | "i = 16" | "i = 18" | "i = 22" by auto
  then show ?thesis
  proof cases
    case 1
    then show ?thesis using assms(2) by (auto simp: managerCalls_defs intro!: exI [of _ 10])
  next
    case 2
    then show ?thesis using assms(2) by (auto simp: managerCalls_defs intro!: exI [of _ 15])
  next
    case 3
    then show ?thesis using assms(2) by (auto simp: managerCalls_defs intro!: exI [of _ 17])
  next
    case 4
    then show ?thesis using assms(2) by (auto simp: managerCalls_defs intro!: exI [of _ 21])
  qed
qed

text \<open>
  Watches. Every watch the set-up starts belongs to a controller that was created before
  it, successfully and with the configured number of workers, and is limited to the monitored
  namespaces.
\<close>

theorem watches_are_monitored:
  assumes "ev = snd (run_state (NewManager L cfg ns_label A) [])"
    and "i < length ev" "fst (ev ! i) = Watch n k q ns f"
  shows "ns = MonitoredID cfg \<and>
    (\<exists>j r. j < i \<and> ev ! j = (NewController n r (MaxQuarksStatefulSetWorkers cfg), None))"
proof -
  have "managerCalls L cfg ns_label ! i = Watch n k q ns f"
    using NewManager_nth(1) [OF assms(1,2)] assms(3) by simp
  from managerCalls_watch [OF NewManager_nth(2) [OF assms(1,2)] this] obtain j r where j: "ns = MonitoredID cfg"
    "j < i" "managerCalls L cfg ns_label ! j = NewController n r (MaxQuarksStatefulSetWorkers cfg)" by blast
  then have "j < length ev" using assms(2) by simp
  with j have "ev ! j = (NewController n r (MaxQuarksStatefulSetWorkers cfg), None)"
    using NewManager_nth(1) [OF assms(1) \<open>j < length ev\<close>] NewManager_ok [OF assms(1) j(2) assms(2)]
    by (simp add: prod_eq_iff)
  with j show ?thesis by blast
qed

definition no_failure :: answers where
  "no_failure h c = None"

lemma sample_manager_run:
  "map fst (snd (run_state (NewManager sample_lib sample_config ''ns'' no_failure) [])) =
     managerCalls sample_lib sample_config ''ns''"
proof -
  have "fst (run_state (NewManager sample_lib sample_config ''ns'' no_failure) []) = None"
    by code_simp
  then show ?thesis
    using script_run [OF script_NewManager, of sample_lib sample_config "''ns''" no_failure] by (simp add: follows_def)
qed

theorem watches_are_monitored_witness:
  "\<exists>(ev :: history) i n k q f. i < length ev \<and> fst (ev ! i) = Watch n k q (MonitoredID sample_config) f \<and>
     (\<exists>j r. j < i \<and> ev ! j = (NewController n r (MaxQuarksStatefulSetWorkers sample_config), None))"
proof -
  define ev where "ev = snd (run_state (NewManager sample_lib sample_config ''ns'' no_failure) [])"
  have ev: "map fst ev = managerCalls sample_lib sample_config ''ns''"
    unfolding ev_def by (rule sample_manager_run)
  then have len: "length ev = length (managerCalls sample_lib sample_config ''ns'')" by (metis length_map)
  have 18: "18 < length ev" unfolding len by (simp add: managerCalls_defs)
  have "map fst ev ! 18 = Watch ''statefulset-rollout-controller'' StatefulSets TheObject (MonitoredID sample_config) RolloutFilter"
    unfolding ev by (simp add: managerCalls_defs)
  with 18 have watch: "fst (ev ! 18) = Watch ''statefulset-rollout-controller'' StatefulSets TheObject (MonitoredID sample_config) RolloutFilter"
    by simp
  from watches_are_monitored [OF ev_def 18 watch] 18 watch show ?thesis by blast
qed

text \<open>
  The webhooks are served. The configuration sent to the API server, which refuses objects
  if a webhook does not answer, names only hooks whose path was registered with the webhook
  server before.
\<close>

theorem hooks_are_served:
  assumes "ev = snd (run_state (NewManager L cfg ns_label A) [])"
    and "(CreateMutationConfig n hooks, r) \<in> set ev" "hook \<in> set hooks"
  shows "(Register (wh_Path hook), None) \<in> set ev \<and> wh_FailurePolicy hook = ''Fail'' \<and>
    wh_NamespaceSelector hook = [(ns_label, MonitoredID cfg)]"
proof -
  obtain i where i: "i < length ev" "ev ! i = (CreateMutationConfig n hooks, r)"
    using assms(2) by (auto simp: in_set_conv_nth)
  then have call: "managerCalls L cfg ns_label ! i = CreateMutationConfig n hooks"
    and len: "i < length (managerCalls L cfg ns_label)"
    using NewManager_nth [OF assms(1) i(1)] by auto
  then have "i = 9 \<and> hooks = [NewQuarksStatefulSetPodMutator L cfg ns_label, NewStatefulSetRolloutMutator L cfg ns_label]"
    by (auto simp: managerCalls_defs less_Suc_eq numeral_eq_Suc)
  then have "6 < i" "7 < i" and hooks: "hooks = [NewQuarksStatefulSetPodMutator L cfg ns_label, NewStatefulSetRolloutMutator L cfg ns_label]"
    by auto
  have reg: "(managerCalls L cfg ns_label ! j, None) \<in> set ev" if "j < i" for j
    using that i(1) NewManager_nth(1) [OF assms(1), of j] NewManager_ok [OF assms(1) that i(1)]
    by (auto simp: in_set_conv_nth prod_eq_iff intro!: exI [of _ j])
  from reg [OF \<open>6 < i\<close>] reg [OF \<open>7 < i\<close>] assms(3) show ?thesis
    unfolding hooks
    by (auto simp: managerCalls_defs NewQuarksStatefulSetPodMutator_def NewStatefulSetRolloutMutator_def)
qed

theorem hooks_are_served_witness:
  "\<exists>(ev :: history) hooks hook. (CreateMutationConfig ''qsts-webhook'' hooks, None) \<in> set ev \<and> hook \<in> set hooks \<and>
     (Register (wh_Path hook), None) \<in> set ev \<and> wh_FailurePolicy hook = ''Fail''"
proof -
  define ev where "ev = snd (run_state (NewManager sample_lib sample_config ''ns'' no_failure) [])"
  let ?hooks = "[NewQuarksStatefulSetPodMutator sample_lib sample_config ''ns'',
    NewStatefulSetRolloutMutator sample_lib sample_config ''ns'']"
  have "CreateMutationConfig ''qsts-webhook'' ?hooks \<in> set (map fst ev)"
    unfolding ev_def sample_manager_run by (simp add: managerCalls_defs)
  moreover have "list_all (\<lambda>e. snd e = None) ev" unfolding ev_def by code_simp
  ultimately have mem: "(CreateMutationConfig ''qsts-webhook'' ?hooks, None) \<in> set ev"
    by (auto simp: list_all_iff)
  have hook: "NewStatefulSetRolloutMutator sample_lib sample_config ''ns'' \<in> set ?hooks" by simp
  from hooks_are_served [OF ev_def mem hook] mem hook show ?thesis by blast
qed

lemma script_runCommand:
  assumes "\<not> (serviceHost = '''' \<and> \<not> useServiceRef)" "script (cmd_ApplyCRDs (ApplyCRDs L A)) crds"
  shows "script (runCommand L cfg ns_label cmd_ApplyCRDs serviceHost useServiceRef A)
    ([CmdKubeConfig] @ crds @ managerCalls L cfg ns_label @ [StartManager])"
  unfolding runCommand_def if_not_P [OF assms(1)]
  by (rule script_cong, (rule script_check script_call script_return script_NewManager assms(2))+) simp



end
