(* ===== verification/DeepCopy.thy ===== *)
theory DeepCopy
  imports K8s_Types
begin

text \<open>
  The generated deep copies (\<open>zz_generated.deepcopy.go\<close>) over an explicit heap: the slices,
  maps and pointers of a QuarksStatefulSet are addresses, so a shallow copy would share them
  with the original. That holds for the types from outside the repository too (\<open>ObjectMeta\<close>,
  \<open>ListMeta\<close>, the StatefulSet template, a probe): such a value carries the addresses of what it
  reaches. Their own deep copies are code of the Kubernetes libraries, the parameter \<open>copies\<close>.
\<close>

section \<open>The heap\<close>

text \<open>
  A value of a type from outside: the fields that are copied by assignment, and the addresses of
  the maps, slices and pointers it reaches, in a fixed order.
\<close>

record ext =
  ex_Plain :: string
  ex_Ptrs :: "nat list"

record spec_obj =
  so_UpdateOnConfigChange :: bool
  so_ZoneNodeLabel :: string
  so_Zones :: "nat option"
  so_Template :: ext
  so_ActivePassiveProbes :: "nat option"
  so_InjectReplicasEnv :: "nat option"

record status_obj =
  sto_LastReconcile :: "nat option"
  sto_Ready :: bool

record qsts_obj =
  qo_TypeMeta :: string
  qo_ObjectMeta :: ext
  qo_Spec :: spec_obj
  qo_Status :: status_obj

record list_obj =
  lo_TypeMeta :: string
  lo_ListMeta :: ext
  lo_Items :: "nat option"

datatype cell =
    StringsCell "string list"
  | ProbesCell "(string \<times> ext) list"
  | DataCell string
  | BoolCell bool
  | TimeCell int
  | ItemsCell "qsts_obj list"
  | SpecCell spec_obj
  | StatusCell status_obj
  | QstsCell qsts_obj
  | ListCell list_obj

record heap =
  h_next :: nat
  h_cells :: "nat \<rightharpoonup> cell"

definition alloc :: "cell \<Rightarrow> (heap, nat go) state" where
  "alloc c = State (\<lambda>h. (Ret (h_next h), h\<lparr>h_next := Suc (h_next h), h_cells := (h_cells h)(h_next h \<mapsto> c)\<rparr>))"

text \<open>Reading through an address; an address that holds nothing of the type is no Go pointer.\<close>

definition load :: "(cell \<Rightarrow> 'a option) \<Rightarrow> nat \<Rightarrow> (heap, 'a go) state" where
  "load sel a = State (\<lambda>h. (case h_cells h a of
     None \<Rightarrow> Panic | Some c \<Rightarrow> (case sel c of None \<Rightarrow> Panic | Some v \<Rightarrow> Ret v), h))"

definition store :: "nat \<Rightarrow> cell \<Rightarrow> heap \<Rightarrow> heap" where
  "store a c h = h\<lparr>h_cells := (h_cells h)(a \<mapsto> c)\<rparr>"

fun strings_of :: "cell \<Rightarrow> string list option" where
  "strings_of (StringsCell xs) = Some xs" | "strings_of _ = None"
fun probes_of :: "cell \<Rightarrow> (string \<times> ext) list option" where
  "probes_of (ProbesCell ps) = Some ps" | "probes_of _ = None"
fun data_of :: "cell \<Rightarrow> string option" where
  "data_of (DataCell s) = Some s" | "data_of _ = None"
fun bool_of :: "cell \<Rightarrow> bool option" where
  "bool_of (BoolCell b) = Some b" | "bool_of _ = None"
fun time_of :: "cell \<Rightarrow> int option" where
  "time_of (TimeCell t) = Some t" | "time_of _ = None"
fun items_of :: "cell \<Rightarrow> qsts_obj list option" where
  "items_of (ItemsCell xs) = Some xs" | "items_of _ = None"
fun spec_of :: "cell \<Rightarrow> spec_obj option" where
  "spec_of (SpecCell s) = Some s" | "spec_of _ = None"
fun status_of :: "cell \<Rightarrow> status_obj option" where
  "status_of (StatusCell s) = Some s" | "status_of _ = None"
fun qsts_of :: "cell \<Rightarrow> qsts_obj option" where
  "qsts_of (QstsCell q) = Some q" | "qsts_of _ = None"
fun list_of :: "cell \<Rightarrow> list_obj option" where
  "list_of (ListCell l) = Some l" | "list_of _ = None"

section \<open>The copies\<close>

text \<open>
  The shape of every copy behind a pointer, a slice or a map: nil stays nil; otherwise a new
  cell with a copy of the contents.
\<close>

definition copyPtr ::
  "(cell \<Rightarrow> 'a option) \<Rightarrow> ('a \<Rightarrow> cell) \<Rightarrow> ('a \<Rightarrow> (heap, 'a go) state) \<Rightarrow> nat option \<Rightarrow> (heap, nat option go) state" where
  "copyPtr sel mk into p =
     (case p of
        None \<Rightarrow> gret None
      | Some a \<Rightarrow>
          gobind (load sel a) (\<lambda>v.
          gobind (into v) (\<lambda>v'.
          gobind (alloc (mk v')) (\<lambda>b. gret (Some b)))))"

text \<open>
  The deep copies of the libraries: \<open>DeepCopyInto\<close> of the three structs, from the value that
  \<open>*out = *in\<close> has put into \<open>out\<close>, and \<open>*val.DeepCopy()\<close> of a probe.
\<close>

record copies =
  ObjectMeta_DeepCopyInto :: "ext \<Rightarrow> (heap, ext go) state"
  ListMeta_DeepCopyInto :: "ext \<Rightarrow> (heap, ext go) state"
  StatefulSet_DeepCopyInto :: "ext \<Rightarrow> (heap, ext go) state"
  Probe_DeepCopy :: "ext \<Rightarrow> (heap, ext go) state"

text \<open>The loop over a slice or a map, which copies each of its entries.\<close>

fun copyEach :: "('a \<Rightarrow> (heap, 'a go) state) \<Rightarrow> 'a list \<Rightarrow> (heap, 'a list go) state" where
  "copyEach c [] = gret []"
| "copyEach c (x # xs) = gobind (c x) (\<lambda>y. gobind (copyEach c xs) (\<lambda>ys. gret (y # ys)))"

text \<open>\<open>make\<close> and \<open>copy\<close> of the strings, the loop over the probes, and \<open>new(bool)\<close>.\<close>

definition copyZones :: "nat option \<Rightarrow> (heap, nat option go) state" where
  "copyZones = copyPtr strings_of StringsCell gret"

definition copyProbe :: "copies \<Rightarrow> string \<times> ext \<Rightarrow> (heap, (string \<times> ext) go) state" where
  "copyProbe K e = gobind (Probe_DeepCopy K (snd e)) (\<lambda>val. gret (fst e, val))"

definition copyProbes :: "copies \<Rightarrow> nat option \<Rightarrow> (heap, nat option go) state" where
  "copyProbes K = copyPtr probes_of ProbesCell (copyEach (copyProbe K))"

definition copyBool :: "nat option \<Rightarrow> (heap, nat option go) state" where
  "copyBool = copyPtr bool_of BoolCell gret"

text \<open>\<open>(*in).DeepCopy()\<close> of a \<open>metav1.Time\<close>, whose values have no addresses.\<close>

definition copyTime :: "nat option \<Rightarrow> (heap, nat option go) state" where
  "copyTime = copyPtr time_of TimeCell gret"

definition DeepCopyInto_Spec :: "copies \<Rightarrow> spec_obj \<Rightarrow> (heap, spec_obj go) state" where
  "DeepCopyInto_Spec K x =
     gobind (copyZones (so_Zones x)) (\<lambda>zones.
     gobind (StatefulSet_DeepCopyInto K (so_Template x)) (\<lambda>template.
     gobind (copyProbes K (so_ActivePassiveProbes x)) (\<lambda>probes.
     gobind (copyBool (so_InjectReplicasEnv x)) (\<lambda>inject.
       gret (x\<lparr>so_Zones := zones, so_Template := template,
         so_ActivePassiveProbes := probes, so_InjectReplicasEnv := inject\<rparr>)))))"

definition DeepCopyInto_Status :: "status_obj \<Rightarrow> (heap, status_obj go) state" where
  "DeepCopyInto_Status x =
     gobind (copyTime (sto_LastReconcile x)) (\<lambda>t. gret (x\<lparr>sto_LastReconcile := t\<rparr>))"

definition DeepCopyInto_Qsts :: "copies \<Rightarrow> qsts_obj \<Rightarrow> (heap, qsts_obj go) state" where
  "DeepCopyInto_Qsts K x =
     gobind (ObjectMeta_DeepCopyInto K (qo_ObjectMeta x)) (\<lambda>meta.
     gobind (DeepCopyInto_Spec K (qo_Spec x)) (\<lambda>spec.
     gobind (DeepCopyInto_Status (qo_Status x)) (\<lambda>status.
       gret (x\<lparr>qo_ObjectMeta := meta, qo_Spec := spec, qo_Status := status\<rparr>))))"

definition copyItems :: "copies \<Rightarrow> qsts_obj list \<Rightarrow> (heap, qsts_obj list go) state" where
  "copyItems K = copyEach (DeepCopyInto_Qsts K)"

definition DeepCopyInto_List :: "copies \<Rightarrow> list_obj \<Rightarrow> (heap, list_obj go) state" where
  "DeepCopyInto_List K x =
     gobind (ListMeta_DeepCopyInto K (lo_ListMeta x)) (\<lambda>meta.
     gobind (copyPtr items_of ItemsCell (copyItems K) (lo_Items x)) (\<lambda>items.
       gret (x\<lparr>lo_ListMeta := meta, lo_Items := items\<rparr>)))"

text \<open>\<open>DeepCopy\<close> of each type: nil for nil, otherwise a new object filled by \<open>DeepCopyInto\<close>.\<close>

definition DeepCopy_Spec :: "copies \<Rightarrow> nat option \<Rightarrow> (heap, nat option go) state" where
  "DeepCopy_Spec K = copyPtr spec_of SpecCell (DeepCopyInto_Spec K)"

definition DeepCopy_Status :: "nat option \<Rightarrow> (heap, nat option go) state" where
  "DeepCopy_Status = copyPtr status_of StatusCell DeepCopyInto_Status"

definition DeepCopy_Qsts :: "copies \<Rightarrow> nat option \<Rightarrow> (heap, nat option go) state" where
  "DeepCopy_Qsts K = copyPtr qsts_of QstsCell (DeepCopyInto_Qsts K)"

definition DeepCopy_List :: "copies \<Rightarrow> nat option \<Rightarrow> (heap, nat option go) state" where
  "DeepCopy_List K = copyPtr list_of ListCell (DeepCopyInto_List K)"

text \<open>\<open>DeepCopyObject\<close> returns the copy as an object, or nil.\<close>

definition DeepCopyObject_Qsts :: "copies \<Rightarrow> nat option \<Rightarrow> (heap, nat option go) state" where
  "DeepCopyObject_Qsts K p =
     gobind (DeepCopy_Qsts K p) (\<lambda>c. case c of Some a \<Rightarrow> gret (Some a) | None \<Rightarrow> gret None)"

definition DeepCopyObject_List :: "copies \<Rightarrow> nat option \<Rightarrow> (heap, nat option go) state" where
  "DeepCopyObject_List K p =
     gobind (DeepCopy_List K p) (\<lambda>c. case c of Some a \<Rightarrow> gret (Some a) | None \<Rightarrow> gret None)"

section \<open>The contract of a copy\<close>

definition heap_ok :: "heap \<Rightarrow> bool" where
  "heap_ok h \<longleftrightarrow> (\<forall>a. h_cells h a \<noteq> None \<longrightarrow> a < h_next h)"

definition extends :: "heap \<Rightarrow> heap \<Rightarrow> bool" where
  "extends h h' \<longleftrightarrow> h_next h \<le> h_next h' \<and> (\<forall>a < h_next h. h_cells h' a = h_cells h a)"

lemma extends_refl [simp]: "extends h h"
  by (simp add: extends_def)

lemma extends_trans: "extends h h' \<Longrightarrow> extends h' h'' \<Longrightarrow> extends h h''"
  by (auto simp: extends_def)

text \<open>
  A copy of \<open>'a\<close>: \<open>val\<close> is the value behind an \<open>'a\<close> in a heap, if all its addresses are
  good, and \<open>refs\<close> the addresses it reaches. The value depends on these cells only, and
  copying yields the same value behind fresh addresses without touching an old cell.
\<close>

locale copier =
  fixes copy :: "'a \<Rightarrow> (heap, 'a go) state"
    and refs :: "heap \<Rightarrow> 'a \<Rightarrow> nat set"
    and val :: "heap \<Rightarrow> 'a \<Rightarrow> 'v option"
  assumes refs_local: "val h x = Some v \<Longrightarrow> (\<And>a. a \<in> refs h x \<Longrightarrow> h_cells h' a = h_cells h a) \<Longrightarrow>
      val h' x = Some v \<and> refs h' x = refs h x"
    and refs_good: "val h x = Some v \<Longrightarrow> a \<in> refs h x \<Longrightarrow> h_cells h a \<noteq> None"
    and copies: "heap_ok h \<Longrightarrow> val h x = Some v \<Longrightarrow>
      \<exists>y h'. run_state (copy x) h = (Ret y, h') \<and> heap_ok h' \<and> extends h h' \<and>
        val h' y = Some v \<and> refs h' y \<subseteq> {h_next h..<h_next h'}"
begin

lemma kept:
  assumes "heap_ok h" "extends h h'" "val h x = Some v"
  shows "val h' x = Some v" "refs h' x = refs h x"
proof -
  have "h_cells h' a = h_cells h a" if "a \<in> refs h x" for a
    using refs_good [OF assms(3) that] assms(1,2) by (auto simp: heap_ok_def extends_def)
  from refs_local [OF assms(3) this] show "val h' x = Some v" "refs h' x = refs h x" by auto
qed

lemma independent:
  assumes "heap_ok h" "val h x = Some v" "run_state (copy x) h = (Ret y, h')"
  shows "refs h' x \<inter> refs h' y = {}"
    and "a \<notin> refs h' x \<Longrightarrow> val (store a c h') x = Some v"
    and "a \<notin> refs h' y \<Longrightarrow> val (store a c h') y = Some v"
proof -
  obtain y0 h0 where 0: "run_state (copy x) h = (Ret y0, h0)" "extends h h0" "val h0 y0 = Some v"
    "refs h0 y0 \<subseteq> {h_next h..<h_next h0}"
    using copies [OF assms(1,2)] by blast
  then have "y0 = y" "h0 = h'" using assms(3) by simp_all
  with 0 have h': "extends h h'" "val h' y = Some v" "refs h' y \<subseteq> {h_next h..<h_next h'}" by simp_all
  note x = kept [OF assms(1) h'(1) assms(2)]
  have "a < h_next h" if "a \<in> refs h x" for a
    using refs_good [OF assms(2) that] assms(1) by (auto simp: heap_ok_def)
  with h'(3) show "refs h' x \<inter> refs h' y = {}" by (force simp: x(2))
  show "val (store a c h') x = Some v" if "a \<notin> refs h' x"
    by (rule conjunct1 [OF refs_local [OF x(1)]]) (use that in \<open>auto simp: store_def\<close>)
  show "val (store a c h') y = Some v" if "a \<notin> refs h' y"
    by (rule conjunct1 [OF refs_local [OF h'(2)]]) (use that in \<open>auto simp: store_def\<close>)
qed

end

end
