(* ===== verification/DeepCopy_Properties.thy ===== *)
theory DeepCopy_Properties
  imports DeepCopy
begin

text \<open>
  The deep copies meet their contract: the copy has the value of the original and shares no
  address with it. The contract is the locale \<open>copier\<close>; it is closed under the ways in which a
  generated function is put together (behind an address, one part after another, the fields of
  a struct, the entries of a slice or a map), so that each function meets it.
\<close>

section \<open>Copies behind an address\<close>

definition ptr_refs :: "(cell \<Rightarrow> 'a option) \<Rightarrow> (heap \<Rightarrow> 'a \<Rightarrow> nat set) \<Rightarrow> heap \<Rightarrow> nat option \<Rightarrow> nat set" where
  "ptr_refs sel refs h p =
     (case p of None \<Rightarrow> {} | Some a \<Rightarrow>
        (case Option.bind (h_cells h a) sel of None \<Rightarrow> {a} | Some v \<Rightarrow> insert a (refs h v)))"

definition ptr_val :: "(cell \<Rightarrow> 'a option) \<Rightarrow> (heap \<Rightarrow> 'a \<Rightarrow> 'v option) \<Rightarrow> heap \<Rightarrow> nat option \<Rightarrow> 'v option option" where
  "ptr_val sel val h p =
     (case p of None \<Rightarrow> Some None | Some a \<Rightarrow>
        (case Option.bind (h_cells h a) sel of None \<Rightarrow> None | Some v \<Rightarrow> map_option Some (val h v)))"

lemma run_alloc [simp]:
  "run_state (alloc c) h = (Ret (h_next h), h\<lparr>h_next := Suc (h_next h), h_cells := (h_cells h)(h_next h \<mapsto> c)\<rparr>)"
  by (simp add: alloc_def)

lemma run_load:
  "Option.bind (h_cells h a) sel = Some v \<Longrightarrow> run_state (load sel a) h = (Ret v, h)"
  by (cases "h_cells h a") (simp_all add: load_def)

locale boxed = copier into refs val
  for into :: "'a \<Rightarrow> (heap, 'a go) state" and refs and val :: "heap \<Rightarrow> 'a \<Rightarrow> 'v option" +
  fixes sel :: "cell \<Rightarrow> 'a option"
    and mk :: "'a \<Rightarrow> cell"
  assumes sel_mk: "sel (mk v) = Some v"
begin

lemma ptr_valD:
  assumes "ptr_val sel val h (Some a) = Some w"
  obtains x v where "Option.bind (h_cells h a) sel = Some x" "val h x = Some v" "w = Some v"
    "ptr_refs sel refs h (Some a) = insert a (refs h x)"
  using assms by (auto simp: ptr_val_def ptr_refs_def split: option.splits)

lemma ptr_local:
  assumes "ptr_val sel val h p = Some w" "\<And>a. a \<in> ptr_refs sel refs h p \<Longrightarrow> h_cells h' a = h_cells h a"
  shows "ptr_val sel val h' p = Some w \<and> ptr_refs sel refs h' p = ptr_refs sel refs h p"
proof (cases p)
  case None
  with assms(1) show ?thesis by (simp add: ptr_val_def ptr_refs_def)
next
  case (Some a)
  with assms(1) obtain x v where x: "Option.bind (h_cells h a) sel = Some x" "val h x = Some v" "w = Some v"
    and r: "ptr_refs sel refs h p = insert a (refs h x)"
    using ptr_valD by metis
  have "h_cells h' a = h_cells h a" "\<And>b. b \<in> refs h x \<Longrightarrow> h_cells h' b = h_cells h b"
    using assms(2) r by auto
  with refs_local [OF x(2), of h'] x r Some show ?thesis
    by (auto simp: ptr_val_def ptr_refs_def)
qed

lemma ptr_good:
  assumes "ptr_val sel val h p = Some w" "a \<in> ptr_refs sel refs h p"
  shows "h_cells h a \<noteq> None"
proof (cases p)
  case None
  with assms(2) show ?thesis by (simp add: ptr_refs_def)
next
  case (Some b)
  with assms(1) obtain x v where x: "Option.bind (h_cells h b) sel = Some x" "val h x = Some v"
    "ptr_refs sel refs h p = insert b (refs h x)"
    using ptr_valD by metis
  have "h_cells h b \<noteq> None" using x(1) by (cases "h_cells h b") auto
  with refs_good [OF x(2)] x(3) assms(2) show ?thesis by auto
qed

lemma ptr_copies:
  assumes "heap_ok h" "ptr_val sel val h p = Some w"
  shows "\<exists>q h'. run_state (copyPtr sel mk into p) h = (Ret q, h') \<and> heap_ok h' \<and> extends h h' \<and>
    ptr_val sel val h' q = Some w \<and> ptr_refs sel refs h' q \<subseteq> {h_next h..<h_next h'}"
proof (cases p)
  case None
  with assms show ?thesis by (simp add: copyPtr_def ptr_val_def ptr_refs_def)
next
  case (Some a)
  with assms(2) obtain x v where x: "Option.bind (h_cells h a) sel = Some x" "val h x = Some v" "w = Some v"
    using ptr_valD by metis
  obtain y h1 where y: "run_state (into x) h = (Ret y, h1)" "heap_ok h1" "extends h h1"
    "val h1 y = Some v" "refs h1 y \<subseteq> {h_next h..<h_next h1}"
    using copies [OF assms(1) x(2)] by blast
  let ?b = "h_next h1"
  let ?h2 = "h1\<lparr>h_next := Suc ?b, h_cells := (h_cells h1)(?b \<mapsto> mk y)\<rparr>"
  have ok: "heap_ok ?h2" and ext: "extends h1 ?h2"
    using y(2) by (auto simp: heap_ok_def extends_def less_Suc_eq)
  have "run_state (copyPtr sel mk into p) h = (Ret (Some ?b), ?h2)"
    using y(1) by (simp add: copyPtr_def Some run_load [OF x(1)])
  moreover have "ptr_val sel val ?h2 (Some ?b) = Some w"
    using kept(1) [OF y(2) ext y(4)] x(3) by (simp add: ptr_val_def sel_mk)
  moreover have "ptr_refs sel refs ?h2 (Some ?b) \<subseteq> {h_next h..<h_next ?h2}"
    using kept(2) [OF y(2) ext y(4)] y(3,5) by (auto simp: ptr_refs_def sel_mk extends_def)
  ultimately show ?thesis
    using ok extends_trans [OF y(3) ext] by blast
qed

end

sublocale boxed \<subseteq> ptr: copier "copyPtr sel mk into" "ptr_refs sel refs" "ptr_val sel val"
  by unfold_locales (fact ptr_local ptr_good ptr_copies)+

lemma boxed_copier:
  assumes "copier into refs val" "\<And>v. sel (mk v) = Some v"
  shows "copier (copyPtr sel mk into) (ptr_refs sel refs) (ptr_val sel val)"
proof -
  have b: "boxed into refs val sel mk" using assms by (intro boxed.intro boxed_axioms.intro)
  show ?thesis by (rule copier.intro) (fact boxed.ptr_local [OF b] boxed.ptr_good [OF b] boxed.ptr_copies [OF b])+
qed

section \<open>Copies of the parts of a value\<close>

lemma gobind_assoc: "gobind (gobind m f) g = gobind m (\<lambda>x. gobind (f x) g)"
  by (rule state.expand) (auto simp: fun_eq_iff split: prod.splits go.splits)

lemma gobind_gret [simp]: "gobind (gret x) f = f x"
  by (rule state.expand) (simp add: fun_eq_iff)

text \<open>Two copies one after the other.\<close>

definition pairCopy ::
  "('a \<Rightarrow> (heap, 'a go) state) \<Rightarrow> ('b \<Rightarrow> (heap, 'b go) state) \<Rightarrow> 'a \<times> 'b \<Rightarrow> (heap, ('a \<times> 'b) go) state" where
  "pairCopy ca cb p = gobind (ca (fst p)) (\<lambda>x. gobind (cb (snd p)) (\<lambda>y. gret (x, y)))"

definition pair_refs :: "(heap \<Rightarrow> 'a \<Rightarrow> nat set) \<Rightarrow> (heap \<Rightarrow> 'b \<Rightarrow> nat set) \<Rightarrow> heap \<Rightarrow> 'a \<times> 'b \<Rightarrow> nat set" where
  "pair_refs ra rb h p = ra h (fst p) \<union> rb h (snd p)"

definition pair_val ::
  "(heap \<Rightarrow> 'a \<Rightarrow> 'v option) \<Rightarrow> (heap \<Rightarrow> 'b \<Rightarrow> 'w option) \<Rightarrow> heap \<Rightarrow> 'a \<times> 'b \<Rightarrow> ('v \<times> 'w) option" where
  "pair_val va vb h p = (case (va h (fst p), vb h (snd p)) of (Some v, Some w) \<Rightarrow> Some (v, w) | _ \<Rightarrow> None)"

lemma pair_valD:
  assumes "pair_val va vb h p = Some u"
  obtains v w where "va h (fst p) = Some v" "vb h (snd p) = Some w" "u = (v, w)"
  using assms by (auto simp: pair_val_def split: option.splits)

lemma pair_copier:
  assumes a: "copier ca ra va" and b: "copier cb rb vb"
  shows "copier (pairCopy ca cb) (pair_refs ra rb) (pair_val va vb)"
proof
  fix h h' :: heap and p u
  assume u: "pair_val va vb h p = Some u" and same: "\<And>a. a \<in> pair_refs ra rb h p \<Longrightarrow> h_cells h' a = h_cells h a"
  from u obtain v w where v: "va h (fst p) = Some v" "vb h (snd p) = Some w" by (rule pair_valD)
  from copier.refs_local [OF a v(1), of h'] copier.refs_local [OF b v(2), of h'] same u v
  show "pair_val va vb h' p = Some u \<and> pair_refs ra rb h' p = pair_refs ra rb h p"
    by (simp add: pair_val_def pair_refs_def)
next
  show "pair_val va vb h p = Some u \<Longrightarrow> x \<in> pair_refs ra rb h p \<Longrightarrow> h_cells h x \<noteq> None" for h p u x
    by (erule pair_valD) (auto simp: pair_refs_def dest: copier.refs_good [OF a] copier.refs_good [OF b])
next
  fix h p u
  assume ok: "heap_ok h" and u: "pair_val va vb h p = Some u"
  from u obtain v w where v: "va h (fst p) = Some v" "vb h (snd p) = Some w" "u = (v, w)" by (rule pair_valD)
  obtain x h1 where 1: "run_state (ca (fst p)) h = (Ret x, h1)" "heap_ok h1" "extends h h1"
    "va h1 x = Some v" "ra h1 x \<subseteq> {h_next h..<h_next h1}"
    using copier.copies [OF a ok v(1)] by blast
  obtain y h2 where 2: "run_state (cb (snd p)) h1 = (Ret y, h2)" "heap_ok h2" "extends h1 h2"
    "vb h2 y = Some w" "rb h2 y \<subseteq> {h_next h1..<h_next h2}"
    using copier.copies [OF b 1(2) copier.kept(1) [OF b ok 1(3) v(2)]] by blast
  note x = copier.kept [OF a 1(2) 2(3) 1(4)]
  have "run_state (pairCopy ca cb p) h = (Ret (x, y), h2)" using 1(1) 2(1) by (simp add: pairCopy_def)
  moreover have "pair_val va vb h2 (x, y) = Some u" using x(1) 2(4) v(3) by (simp add: pair_val_def)
  moreover have "pair_refs ra rb h2 (x, y) \<subseteq> {h_next h..<h_next h2}"
    using 1(3,5) 2(3,5) x(2) by (force simp: pair_refs_def extends_def)
  ultimately show "\<exists>y h'. run_state (pairCopy ca cb p) h = (Ret y, h') \<and> heap_ok h' \<and> extends h h' \<and>
      pair_val va vb h' y = Some u \<and> pair_refs ra rb h' y \<subseteq> {h_next h..<h_next h'}"
    using 2(2) extends_trans [OF 1(3) 2(3)] by blast
qed

text \<open>
  A struct: some of its fields are copied deeply, the rest by assignment.
\<close>

definition partCopy ::
  "('a \<Rightarrow> (heap, 'a go) state) \<Rightarrow> ('s \<Rightarrow> 'a) \<Rightarrow> ('a \<Rightarrow> 's \<Rightarrow> 's) \<Rightarrow> 's \<Rightarrow> (heap, 's go) state" where
  "partCopy c get put x = gobind (c (get x)) (\<lambda>p. gret (put p x))"

definition part_refs :: "(heap \<Rightarrow> 'a \<Rightarrow> nat set) \<Rightarrow> ('s \<Rightarrow> 'a) \<Rightarrow> heap \<Rightarrow> 's \<Rightarrow> nat set" where
  "part_refs r get h x = r h (get x)"

definition part_val ::
  "(heap \<Rightarrow> 'a \<Rightarrow> 'v option) \<Rightarrow> ('s \<Rightarrow> 'a) \<Rightarrow> ('s \<Rightarrow> 'r) \<Rightarrow> heap \<Rightarrow> 's \<Rightarrow> ('r \<times> 'v) option" where
  "part_val v get rest h x = map_option (Pair (rest x)) (v h (get x))"

lemma part_copier:
  assumes c: "copier c r v" and put: "\<And>p x. get (put p x) = p" "\<And>p x. rest (put p x) = rest x"
  shows "copier (partCopy c get put) (part_refs r get) (part_val v get rest)"
proof
  fix h h' :: heap and x w
  assume "part_val v get rest h x = Some w" and same: "\<And>a. a \<in> part_refs r get h x \<Longrightarrow> h_cells h' a = h_cells h a"
  then obtain u where u: "v h (get x) = Some u" "w = (rest x, u)" by (auto simp: part_val_def)
  from copier.refs_local [OF c u(1), of h'] same u(2)
  show "part_val v get rest h' x = Some w \<and> part_refs r get h' x = part_refs r get h x"
    by (simp add: part_val_def part_refs_def)
next
  show "part_val v get rest h x = Some w \<Longrightarrow> a \<in> part_refs r get h x \<Longrightarrow> h_cells h a \<noteq> None" for h x w a
    by (auto simp: part_val_def part_refs_def dest: copier.refs_good [OF c])
next
  fix h x w
  assume "heap_ok h" "part_val v get rest h x = Some w"
  then obtain u where u: "heap_ok h" "v h (get x) = Some u" "w = (rest x, u)" by (auto simp: part_val_def)
  from copier.copies [OF c u(1,2)] u(3)
  show "\<exists>y h'. run_state (partCopy c get put x) h = (Ret y, h') \<and> heap_ok h' \<and> extends h h' \<and>
      part_val v get rest h' y = Some w \<and> part_refs r get h' y \<subseteq> {h_next h..<h_next h'}"
    by (fastforce simp: partCopy_def part_val_def part_refs_def put)
qed

text \<open>The entries of a slice or a map.\<close>

fun each_refs :: "(heap \<Rightarrow> 'a \<Rightarrow> nat set) \<Rightarrow> heap \<Rightarrow> 'a list \<Rightarrow> nat set" where
  "each_refs r h [] = {}"
| "each_refs r h (x # xs) = r h x \<union> each_refs r h xs"

fun each_val :: "(heap \<Rightarrow> 'a \<Rightarrow> 'v option) \<Rightarrow> heap \<Rightarrow> 'a list \<Rightarrow> 'v list option" where
  "each_val v h [] = Some []"
| "each_val v h (x # xs) = (case (v h x, each_val v h xs) of (Some w, Some ws) \<Rightarrow> Some (w # ws) | _ \<Rightarrow> None)"

lemma each_valD:
  assumes "each_val v h (x # xs) = Some u"
  obtains w ws where "v h x = Some w" "each_val v h xs = Some ws" "u = w # ws"
  using assms by (auto split: option.splits)

lemma each_local:
  assumes c: "copier c r v"
  shows "each_val v h xs = Some u \<Longrightarrow> (\<And>a. a \<in> each_refs r h xs \<Longrightarrow> h_cells h' a = h_cells h a) \<Longrightarrow>
     each_val v h' xs = Some u \<and> each_refs r h' xs = each_refs r h xs"
proof (induction xs arbitrary: u)
  case (Cons x xs)
  from Cons.prems(1) obtain w ws where w: "v h x = Some w" "each_val v h xs = Some ws" "u = w # ws"
    by (rule each_valD)
  with copier.refs_local [OF c w(1), of h'] Cons.IH [OF w(2)] Cons.prems(2) show ?case by simp
qed simp

lemma each_good:
  assumes c: "copier c r v"
  shows "each_val v h xs = Some u \<Longrightarrow> a \<in> each_refs r h xs \<Longrightarrow> h_cells h a \<noteq> None"
proof (induction xs arbitrary: u)
  case (Cons x xs)
  from Cons.prems(1) obtain w ws where "v h x = Some w" "each_val v h xs = Some ws"
    by (rule each_valD)
  with Cons show ?case using copier.refs_good [OF c] by fastforce
qed simp

lemma each_copies:
  assumes c: "copier c r v"
  shows "heap_ok h \<Longrightarrow> each_val v h xs = Some u \<Longrightarrow>
   \<exists>ys h'. run_state (copyEach c xs) h = (Ret ys, h') \<and> heap_ok h' \<and> extends h h' \<and>
     each_val v h' ys = Some u \<and> each_refs r h' ys \<subseteq> {h_next h..<h_next h'}"
proof (induction xs arbitrary: h u)
  case (Cons x xs)
  from Cons.prems(2) obtain w ws where w: "v h x = Some w" "each_val v h xs = Some ws" "u = w # ws"
    by (rule each_valD)
  obtain y h1 where 1: "run_state (c x) h = (Ret y, h1)" "heap_ok h1" "extends h h1"
    "v h1 y = Some w" "r h1 y \<subseteq> {h_next h..<h_next h1}"
    using copier.copies [OF c Cons.prems(1) w(1)] by blast
  have "h_cells h1 a = h_cells h a" if "a \<in> each_refs r h xs" for a
    using each_good [OF c w(2) that] Cons.prems(1) 1(3) by (auto simp: heap_ok_def extends_def)
  from each_local [OF c w(2) this] have "each_val v h1 xs = Some ws" by simp
  from Cons.IH [OF 1(2) this] obtain ys h2 where 2: "run_state (copyEach c xs) h1 = (Ret ys, h2)" "heap_ok h2"
    "extends h1 h2" "each_val v h2 ys = Some ws" "each_refs r h2 ys \<subseteq> {h_next h1..<h_next h2}"
    by blast
  note y = copier.kept [OF c 1(2) 2(3) 1(4)]
  have "run_state (copyEach c (x # xs)) h = (Ret (y # ys), h2)" using 1(1) 2(1) by simp
  moreover have "each_val v h2 (y # ys) = Some u" using y(1) 2(4) w(3) by simp
  moreover have "each_refs r h2 (y # ys) \<subseteq> {h_next h..<h_next h2}"
    using 1(3,5) 2(3,5) y(2) by (force simp: extends_def)
  ultimately show ?case using 2(2) extends_trans [OF 1(3) 2(3)] by blast
qed simp

lemma each_copier: "copier c r v \<Longrightarrow> copier (copyEach c) (each_refs r) (each_val v)"
  by (rule copier.intro) (fact each_local each_good each_copies)+

section \<open>The generated functions\<close>

text \<open>A value without addresses is copied by assignment.\<close>

definition no_refs :: "heap \<Rightarrow> 'a \<Rightarrow> nat set" where
  "no_refs h x = {}"

definition flat :: "heap \<Rightarrow> 'a \<Rightarrow> 'a option" where
  "flat h x = Some x"

interpretation zones: boxed gret no_refs flat strings_of StringsCell
  by unfold_locales (auto simp: no_refs_def flat_def)

interpretation bools: boxed gret no_refs flat bool_of BoolCell
  by unfold_locales (auto simp: no_refs_def flat_def)

interpretation times: boxed gret no_refs flat time_of TimeCell
  by unfold_locales (auto simp: no_refs_def flat_def)

text \<open>A value from outside: its plain fields and what is stored at its addresses.\<close>

definition ext_refs :: "heap \<Rightarrow> ext \<Rightarrow> nat set" where
  "ext_refs h x = set (ex_Ptrs x)"

definition data_at :: "heap \<Rightarrow> nat \<Rightarrow> string option" where
  "data_at h a = Option.bind (h_cells h a) data_of"

definition ext_val :: "heap \<Rightarrow> ext \<Rightarrow> (string \<times> string list) option" where
  "ext_val h x = map_option (Pair (ex_Plain x)) (those (map (data_at h) (ex_Ptrs x)))"

text \<open>
  What the libraries promise of their deep copies: the copy is equal to the original and shares
  nothing with it, which is left as it was.
\<close>

definition library_copies :: "copies \<Rightarrow> bool" where
  "library_copies K \<longleftrightarrow>
     copier (ObjectMeta_DeepCopyInto K) ext_refs ext_val \<and> copier (ListMeta_DeepCopyInto K) ext_refs ext_val \<and>
     copier (StatefulSet_DeepCopyInto K) ext_refs ext_val \<and> copier (Probe_DeepCopy K) ext_refs ext_val"

text \<open>The value of a status, of the probes, of a spec and of a resource, and the addresses they reach.\<close>

abbreviation status_refs :: "heap \<Rightarrow> status_obj \<Rightarrow> nat set" where
  "status_refs \<equiv> part_refs (ptr_refs time_of no_refs) sto_LastReconcile"

abbreviation status_val :: "heap \<Rightarrow> status_obj \<Rightarrow> (bool \<times> int option) option" where
  "status_val \<equiv> part_val (ptr_val time_of flat) sto_LastReconcile sto_Ready"

lemma DeepCopyInto_Status_parts:
  "DeepCopyInto_Status = partCopy (copyPtr time_of TimeCell gret) sto_LastReconcile (\<lambda>t x. x\<lparr>sto_LastReconcile := t\<rparr>)"
  by (simp add: fun_eq_iff DeepCopyInto_Status_def partCopy_def copyTime_def)

interpretation status_copy: copier DeepCopyInto_Status status_refs status_val
  unfolding DeepCopyInto_Status_parts by (rule part_copier [OF times.ptr.copier_axioms]) simp_all

abbreviation probe_refs :: "heap \<Rightarrow> string \<times> ext \<Rightarrow> nat set" where
  "probe_refs \<equiv> part_refs ext_refs snd"

abbreviation probe_val :: "heap \<Rightarrow> string \<times> ext \<Rightarrow> (string \<times> string \<times> string list) option" where
  "probe_val \<equiv> part_val ext_val snd fst"

lemma copyProbe_copier:
  assumes "library_copies K"
  shows "copier (copyProbe K) probe_refs probe_val"
proof -
  have "copyProbe K = partCopy (Probe_DeepCopy K) snd (\<lambda>p e. (fst e, p))"
    by (simp add: fun_eq_iff copyProbe_def partCopy_def)
  then show ?thesis
    using assms by (simp add: library_copies_def) (rule part_copier, simp_all)
qed

lemma copyProbes_copier:
  assumes "library_copies K"
  shows "copier (copyProbes K) (ptr_refs probes_of (each_refs probe_refs)) (ptr_val probes_of (each_val probe_val))"
  unfolding copyProbes_def
  by (intro boxed_copier each_copier copyProbe_copier assms) simp

type_synonym spec_parts = "nat option \<times> ext \<times> nat option \<times> nat option"

definition spec_get :: "spec_obj \<Rightarrow> spec_parts" where
  "spec_get x = (so_Zones x, so_Template x, so_ActivePassiveProbes x, so_InjectReplicasEnv x)"

definition spec_put :: "spec_parts \<Rightarrow> spec_obj \<Rightarrow> spec_obj" where
  "spec_put p x = (case p of (z, t, a, i) \<Rightarrow> x\<lparr>so_Zones := z, so_Template := t,
     so_ActivePassiveProbes := a, so_InjectReplicasEnv := i\<rparr>)"

definition spec_rest :: "spec_obj \<Rightarrow> bool \<times> string" where
  "spec_rest x = (so_UpdateOnConfigChange x, so_ZoneNodeLabel x)"

definition spec_refs :: "heap \<Rightarrow> spec_obj \<Rightarrow> nat set" where
  "spec_refs = part_refs (pair_refs (ptr_refs strings_of no_refs) (pair_refs ext_refs
     (pair_refs (ptr_refs probes_of (each_refs probe_refs)) (ptr_refs bool_of no_refs)))) spec_get"

type_synonym ext_value = "string \<times> string list"

type_synonym spec_value = "(bool \<times> string) \<times> string list option \<times> ext_value \<times>
  (string \<times> ext_value) list option \<times> bool option"

definition spec_val :: "heap \<Rightarrow> spec_obj \<Rightarrow> spec_value option" where
  "spec_val = part_val (pair_val (ptr_val strings_of flat) (pair_val ext_val
     (pair_val (ptr_val probes_of (each_val probe_val)) (ptr_val bool_of flat)))) spec_get spec_rest"

lemma spec_copier:
  assumes "library_copies K"
  shows "copier (DeepCopyInto_Spec K) spec_refs spec_val"
proof -
  have "DeepCopyInto_Spec K = partCopy (pairCopy copyZones (pairCopy (StatefulSet_DeepCopyInto K)
      (pairCopy (copyProbes K) copyBool))) spec_get spec_put"
    by (simp add: fun_eq_iff DeepCopyInto_Spec_def partCopy_def pairCopy_def spec_get_def spec_put_def gobind_assoc)
  moreover have "copier (StatefulSet_DeepCopyInto K) ext_refs ext_val"
    using assms by (simp add: library_copies_def)
  ultimately show ?thesis
    unfolding spec_refs_def spec_val_def copyZones_def copyBool_def
    using copyProbes_copier [OF assms] zones.ptr.copier_axioms bools.ptr.copier_axioms
    by (simp only:) (intro part_copier pair_copier; simp add: spec_get_def spec_put_def spec_rest_def split: prod.splits)
qed

type_synonym qsts_parts = "ext \<times> spec_obj \<times> status_obj"

definition qsts_get :: "qsts_obj \<Rightarrow> qsts_parts" where
  "qsts_get x = (qo_ObjectMeta x, qo_Spec x, qo_Status x)"

definition qsts_put :: "qsts_parts \<Rightarrow> qsts_obj \<Rightarrow> qsts_obj" where
  "qsts_put p x = (case p of (m, s, t) \<Rightarrow> x\<lparr>qo_ObjectMeta := m, qo_Spec := s, qo_Status := t\<rparr>)"

definition qsts_refs :: "heap \<Rightarrow> qsts_obj \<Rightarrow> nat set" where
  "qsts_refs = part_refs (pair_refs ext_refs (pair_refs spec_refs status_refs)) qsts_get"

type_synonym qsts_value = "string \<times> ext_value \<times> spec_value \<times> bool \<times> int option"

definition qsts_val :: "heap \<Rightarrow> qsts_obj \<Rightarrow> qsts_value option" where
  "qsts_val = part_val (pair_val ext_val (pair_val spec_val status_val)) qsts_get qo_TypeMeta"

lemma qsts_copier:
  assumes "library_copies K"
  shows "copier (DeepCopyInto_Qsts K) qsts_refs qsts_val"
proof -
  have "DeepCopyInto_Qsts K = partCopy (pairCopy (ObjectMeta_DeepCopyInto K)
      (pairCopy (DeepCopyInto_Spec K) DeepCopyInto_Status)) qsts_get qsts_put"
    by (simp add: fun_eq_iff DeepCopyInto_Qsts_def partCopy_def pairCopy_def qsts_get_def qsts_put_def gobind_assoc)
  moreover have "copier (ObjectMeta_DeepCopyInto K) ext_refs ext_val"
    using assms by (simp add: library_copies_def)
  ultimately show ?thesis
    unfolding qsts_refs_def qsts_val_def
    using spec_copier [OF assms] status_copy.copier_axioms
    by (simp only:) (intro part_copier pair_copier; simp add: qsts_get_def qsts_put_def split: prod.splits)
qed

text \<open>Lists of resources.\<close>

definition list_get :: "list_obj \<Rightarrow> ext \<times> nat option" where
  "list_get x = (lo_ListMeta x, lo_Items x)"

definition list_put :: "ext \<times> nat option \<Rightarrow> list_obj \<Rightarrow> list_obj" where
  "list_put p x = x\<lparr>lo_ListMeta := fst p, lo_Items := snd p\<rparr>"

definition list_refs :: "heap \<Rightarrow> list_obj \<Rightarrow> nat set" where
  "list_refs = part_refs (pair_refs ext_refs (ptr_refs items_of (each_refs qsts_refs))) list_get"

definition list_val :: "heap \<Rightarrow> list_obj \<Rightarrow> (string \<times> ext_value \<times> qsts_value list option) option" where
  "list_val = part_val (pair_val ext_val (ptr_val items_of (each_val qsts_val))) list_get lo_TypeMeta"

lemma list_copier:
  assumes "library_copies K"
  shows "copier (DeepCopyInto_List K) list_refs list_val"
proof -
  have "DeepCopyInto_List K = partCopy (pairCopy (ListMeta_DeepCopyInto K)
      (copyPtr items_of ItemsCell (copyEach (DeepCopyInto_Qsts K)))) list_get list_put"
    by (simp add: fun_eq_iff DeepCopyInto_List_def copyItems_def partCopy_def pairCopy_def list_get_def list_put_def
        gobind_assoc)
  moreover have "copier (copyPtr items_of ItemsCell (copyEach (DeepCopyInto_Qsts K)))
      (ptr_refs items_of (each_refs qsts_refs)) (ptr_val items_of (each_val qsts_val))"
    by (intro boxed_copier each_copier qsts_copier assms) simp
  moreover have "copier (ListMeta_DeepCopyInto K) ext_refs ext_val"
    using assms by (simp add: library_copies_def)
  ultimately show ?thesis
    unfolding list_refs_def list_val_def
    by (simp only:) (intro part_copier pair_copier; simp add: list_get_def list_put_def)
qed

section \<open>Properties\<close>

text \<open>What a pointer to a resource, or to a list of them, stands for.\<close>

definition resource_at :: "heap \<Rightarrow> nat option \<Rightarrow> qsts_value option option" where
  "resource_at = ptr_val qsts_of qsts_val"

definition resource_refs :: "heap \<Rightarrow> nat option \<Rightarrow> nat set" where
  "resource_refs = ptr_refs qsts_of qsts_refs"

definition list_at :: "heap \<Rightarrow> nat option \<Rightarrow> (string \<times> ext_value \<times> qsts_value list option) option option" where
  "list_at = ptr_val list_of list_val"

definition list_reach :: "heap \<Rightarrow> nat option \<Rightarrow> nat set" where
  "list_reach = ptr_refs list_of list_refs"

lemma resource_copier: "library_copies K \<Longrightarrow> copier (DeepCopy_Qsts K) resource_refs resource_at"
  unfolding DeepCopy_Qsts_def resource_refs_def resource_at_def by (intro boxed_copier qsts_copier) simp_all

lemma list_ptr_copier: "library_copies K \<Longrightarrow> copier (DeepCopy_List K) list_reach list_at"
  unfolding DeepCopy_List_def list_reach_def list_at_def by (intro boxed_copier list_copier) simp_all

lemma object_or_nil:
  "gobind m (\<lambda>c. case c of Some a \<Rightarrow> gret (Some a) | None \<Rightarrow> gret None) = m" for m :: "(heap, nat option go) state"
  by (rule state.expand) (auto simp: fun_eq_iff split: prod.splits go.splits option.splits)

text \<open>
  C19: deep copies. Let the deep copies of the Kubernetes types in it be equal to the originals
  and share nothing with them. Then copying a QuarksStatefulSet terminates without a panic and
  yields a pointer to a resource of equal value that shares no address with the original,
  neither through its own slices, maps and pointers nor through the metadata, the template or a
  probe, and leaves the original as it was.
\<close>

theorem DeepCopy_equal_and_fresh:
  assumes "library_copies K" "heap_ok h" "resource_at h p = Some v"
  shows "\<exists>q h'. run_state (DeepCopyObject_Qsts K p) h = (Ret q, h') \<and> resource_at h' q = Some v \<and>
    resource_at h' p = Some v \<and> resource_refs h' p \<inter> resource_refs h' q = {}"
proof -
  note c = resource_copier [OF assms(1)]
  obtain q h' where q: "run_state (DeepCopy_Qsts K p) h = (Ret q, h')" "extends h h'" "resource_at h' q = Some v"
    using copier.copies [OF c assms(2,3)] by blast
  then show ?thesis
    using copier.kept(1) [OF c assms(2) q(2) assms(3)] copier.independent(1) [OF c assms(2,3) q(1)]
    unfolding DeepCopyObject_Qsts_def object_or_nil by blast
qed

text \<open>The same of a list of resources.\<close>

theorem DeepCopy_list_equal_and_fresh:
  assumes "library_copies K" "heap_ok h" "list_at h p = Some v"
  shows "\<exists>q h'. run_state (DeepCopyObject_List K p) h = (Ret q, h') \<and> list_at h' q = Some v \<and>
    list_at h' p = Some v \<and> list_reach h' p \<inter> list_reach h' q = {}"
proof -
  note c = list_ptr_copier [OF assms(1)]
  obtain q h' where q: "run_state (DeepCopy_List K p) h = (Ret q, h')" "extends h h'" "list_at h' q = Some v"
    using copier.copies [OF c assms(2,3)] by blast
  then show ?thesis
    using copier.kept(1) [OF c assms(2) q(2) assms(3)] copier.independent(1) [OF c assms(2,3) q(1)]
    unfolding DeepCopyObject_List_def object_or_nil by blast
qed

text \<open>
  Changes stay apart. After a deep copy, whatever is stored at an address of the copy does
  not change the original, and whatever is stored at an address of the original does not
  change the copy.
\<close>

theorem DeepCopy_isolates:
  assumes "library_copies K" "heap_ok h" "resource_at h p = Some v"
    and "run_state (DeepCopy_Qsts K p) h = (Ret q, h')"
  shows "(a \<in> resource_refs h' q \<longrightarrow> resource_at (store a c h') p = Some v) \<and>
    (a \<in> resource_refs h' p \<longrightarrow> resource_at (store a c h') q = Some v)"
  using copier.independent [OF resource_copier [OF assms(1)] assms(2-4)] by blast

section \<open>Witnesses\<close>

text \<open>A deep copy as the libraries have it: new cells with the same data.\<close>

definition copyData :: "nat \<Rightarrow> (heap, nat go) state" where
  "copyData a = gobind (load data_of a) (\<lambda>s. alloc (DataCell s))"

definition ext_copy :: "ext \<Rightarrow> (heap, ext go) state" where
  "ext_copy x = gobind (copyEach copyData (ex_Ptrs x)) (\<lambda>ps. gret (x\<lparr>ex_Ptrs := ps\<rparr>))"

definition sample_copies :: copies where
  "sample_copies = \<lparr>ObjectMeta_DeepCopyInto = ext_copy, ListMeta_DeepCopyInto = ext_copy,
     StatefulSet_DeepCopyInto = ext_copy, Probe_DeepCopy = ext_copy\<rparr>"

lemma copyData_copier: "copier copyData (\<lambda>h a. {a}) data_at"
proof
  fix h a v
  assume ok: "heap_ok h" and v: "data_at h a = Some v"
  let ?h = "h\<lparr>h_next := Suc (h_next h), h_cells := (h_cells h)(h_next h \<mapsto> DataCell v)\<rparr>"
  have "run_state (copyData a) h = (Ret (h_next h), ?h)"
    using v by (simp add: copyData_def run_load data_at_def)
  moreover have "heap_ok ?h" "extends h ?h" using ok by (auto simp: heap_ok_def extends_def less_Suc_eq)
  moreover have "data_at ?h (h_next h) = Some v" by (simp add: data_at_def)
  ultimately show "\<exists>y h'. run_state (copyData a) h = (Ret y, h') \<and> heap_ok h' \<and> extends h h' \<and>
      data_at h' y = Some v \<and> {y} \<subseteq> {h_next h..<h_next h'}"
    by (intro exI [of _ "h_next h"] exI [of _ ?h]) simp
qed (auto simp: data_at_def bind_eq_Some_conv)

lemma each_data: "each_val data_at h xs = those (map (data_at h) xs)" "each_refs (\<lambda>h a. {a}) h xs = set xs"
  by (induction xs) (auto split: option.splits)

lemma sample_library: "library_copies sample_copies"
proof -
  have 1: "ext_copy = partCopy (copyEach copyData) ex_Ptrs (\<lambda>p x. x\<lparr>ex_Ptrs := p\<rparr>)"
    by (simp add: fun_eq_iff ext_copy_def partCopy_def)
  have 2: "ext_refs = part_refs (each_refs (\<lambda>h a. {a})) ex_Ptrs"
    by (simp add: fun_eq_iff ext_refs_def part_refs_def each_data)
  have 3: "ext_val = part_val (each_val data_at) ex_Ptrs ex_Plain"
    by (simp add: fun_eq_iff ext_val_def part_val_def each_data)
  have "copier ext_copy ext_refs ext_val"
    unfolding 1 2 3 by (rule part_copier [OF each_copier [OF copyData_copier]]) simp_all
  then show ?thesis by (simp add: library_copies_def sample_copies_def)
qed

definition sample_heap :: heap where
  "sample_heap = \<lparr>h_next = 8, h_cells = [
     0 \<mapsto> QstsCell \<lparr>qo_TypeMeta = '''', qo_ObjectMeta = \<lparr>ex_Plain = ''foo'', ex_Ptrs = [5]\<rparr>,
       qo_Spec = \<lparr>so_UpdateOnConfigChange = True, so_ZoneNodeLabel = '''', so_Zones = Some 1,
         so_Template = \<lparr>ex_Plain = ''tmpl'', ex_Ptrs = [6]\<rparr>, so_ActivePassiveProbes = Some 2, so_InjectReplicasEnv = Some 3\<rparr>,
       qo_Status = \<lparr>sto_LastReconcile = Some 4, sto_Ready = False\<rparr>\<rparr>,
     1 \<mapsto> StringsCell [''z0'', ''z1''],
     2 \<mapsto> ProbesCell [(''active'', \<lparr>ex_Plain = ''probe'', ex_Ptrs = [7]\<rparr>)], 3 \<mapsto> BoolCell True, 4 \<mapsto> TimeCell 7,
     5 \<mapsto> DataCell ''labels'', 6 \<mapsto> DataCell ''containers'', 7 \<mapsto> DataCell ''exec'']\<rparr>"

lemma sample_heap_ok: "heap_ok sample_heap"
  by (auto simp: heap_ok_def sample_heap_def)

lemmas val_defs = resource_at_def resource_refs_def qsts_val_def qsts_refs_def qsts_get_def spec_val_def spec_refs_def
  spec_get_def spec_rest_def part_val_def part_refs_def pair_val_def pair_refs_def ptr_val_def ptr_refs_def
  ext_val_def ext_refs_def data_at_def flat_def no_refs_def

definition sample_value :: qsts_value where
  "sample_value = ('''', (''foo'', [''labels'']), ((True, ''''), Some [''z0'', ''z1''], (''tmpl'', [''containers'']),
     Some [(''active'', ''probe'', [''exec''])], Some True), (False, Some 7))"

lemma sample_resource: "resource_at sample_heap (Some 0) = Some (Some sample_value)"
  by (simp add: val_defs sample_heap_def sample_value_def)

lemma sample_reach: "resource_refs sample_heap (Some 0) = {0..<8}"
  by (auto simp: val_defs sample_heap_def)

theorem DeepCopy_equal_and_fresh_witness:
  "\<exists>q h'. run_state (DeepCopyObject_Qsts sample_copies (Some 0)) sample_heap = (Ret q, h') \<and> q \<noteq> Some 0 \<and>
     resource_at h' q = Some (Some sample_value)"
proof -
  obtain q h' where q: "run_state (DeepCopyObject_Qsts sample_copies (Some 0)) sample_heap = (Ret q, h')"
    "resource_at h' q = Some (Some sample_value)" "resource_refs h' (Some 0) \<inter> resource_refs h' q = {}"
    using DeepCopy_equal_and_fresh [OF sample_library sample_heap_ok sample_resource] by blast
  have "0 \<in> resource_refs h' (Some 0)" by (simp add: resource_refs_def ptr_refs_def split: option.splits)
  with q(3) have "q \<noteq> Some 0" by auto
  with q show ?thesis by blast
qed

theorem DeepCopy_list_equal_and_fresh_witness:
  "\<exists>q h'. run_state (DeepCopyObject_List sample_copies None) sample_heap = (Ret q, h') \<and> list_at h' q = Some None"
  using DeepCopy_list_equal_and_fresh [OF sample_library sample_heap_ok, of None None]
  by (auto simp: list_at_def ptr_val_def)

theorem DeepCopy_isolates_witness:
  "\<exists>q h'. run_state (DeepCopy_Qsts sample_copies (Some 0)) sample_heap = (Ret q, h') \<and>
     resource_at (store 5 (DataCell ''changed'') h') q = Some (Some sample_value)"
proof -
  note c = resource_copier [OF sample_library]
  obtain q h' where q: "run_state (DeepCopy_Qsts sample_copies (Some 0)) sample_heap = (Ret q, h')" "extends sample_heap h'"
    using copier.copies [OF c sample_heap_ok sample_resource] by blast
  have "5 \<in> resource_refs h' (Some 0)"
    using copier.kept(2) [OF c sample_heap_ok q(2) sample_resource] by (simp add: sample_reach)
  then show ?thesis
    using DeepCopy_isolates [OF sample_library sample_heap_ok sample_resource q(1)] q(1) by blast
qed

end
