(* ===== verification/ApiClient.thy ===== *)
theory ApiClient
  imports Sample_World Crd
begin

text \<open>
  The typed client of the custom resource (\<open>typed/quarksstatefulset/v1alpha1\<close>), which turns its
  methods into REST requests, and the lister over the cache of an informer (\<open>listers/\<close>). The
  REST client and the cache are code outside the repository: the parameters \<open>rest_client\<close> and
  \<open>indexer\<close>.
\<close>

section \<open>REST requests\<close>

datatype verb = GET | POST | PUT | DELETE | PATCH string

text \<open>\<open>v1.GetOptions\<close> and the like; \<open>op_Rest\<close> holds the fields the client only passes on.\<close>

record list_options =
  op_TimeoutSeconds :: "int option"
  op_Watch :: bool
  op_Rest :: string

datatype params = NoParams | Options string | ListOptions list_options

datatype body = NoBody | ObjectBody quarks_statefulset | OptionsBody string | DataBody string

record rest_request =
  rq_Verb :: verb
  rq_Namespace :: string
  rq_Resource :: string
  rq_Name :: "string option"
  rq_SubResource :: "string list"
  rq_Params :: params
  rq_Timeout :: "int option"
  rq_Body :: body

record qsts_list =
  ql_Meta :: string
  ql_Items :: "quarks_statefulset list"

text \<open>
  \<open>Do(ctx).Into(result)\<close> fills the result it is given and returns an error; \<open>Do(ctx).Error()\<close>
  returns the error only; \<open>Watch(ctx)\<close> opens a watch, named by a number.
\<close>

record 's rest_client =
  rc_IntoQsts :: "rest_request \<Rightarrow> quarks_statefulset \<Rightarrow> ('s, quarks_statefulset \<times> go_error option) state"
  rc_IntoList :: "rest_request \<Rightarrow> qsts_list \<Rightarrow> ('s, qsts_list \<times> go_error option) state"
  rc_Error :: "rest_request \<Rightarrow> ('s, go_error option) state"
  rc_Watch :: "rest_request \<Rightarrow> ('s, go_error + nat) state"

definition zero_qsts :: quarks_statefulset where
  "zero_qsts = \<lparr>q_Name = '''', q_Namespace = '''', q_UID = '''', q_Labels = None, q_Annotations = None,
     q_Spec = \<lparr>qs_UpdateOnConfigChange = False, qs_ZoneNodeLabel = '''', qs_Zones = [],
       qs_Template = zero_statefulset, qs_ActivePassiveProbes = None, qs_InjectReplicasEnv = None\<rparr>,
     q_Status = \<lparr>qst_LastReconcile = None, qst_Ready = False\<rparr>\<rparr>"

definition zero_list :: qsts_list where
  "zero_list = \<lparr>ql_Meta = '''', ql_Items = []\<rparr>"

text \<open>What all requests of a client for the namespace \<open>ns\<close> have in common.\<close>

definition baseRequest :: "verb \<Rightarrow> string \<Rightarrow> rest_request" where
  "baseRequest v ns = \<lparr>rq_Verb = v, rq_Namespace = ns, rq_Resource = ''quarksstatefulsets'', rq_Name = None,
     rq_SubResource = [], rq_Params = NoParams, rq_Timeout = None, rq_Body = NoBody\<rparr>"

text \<open>\<open>timeout\<close>: the seconds of the options as a duration, 0 if there are none.\<close>

definition optionsTimeout :: "list_options \<Rightarrow> int" where
  "optionsTimeout opts =
     (case op_TimeoutSeconds opts of None \<Rightarrow> 0 | Some s \<Rightarrow> wrap64 (s * time_Second))"

section \<open>The typed client\<close>

definition clientGet ::
  "'s rest_client \<Rightarrow> string \<Rightarrow> string \<Rightarrow> string \<Rightarrow> ('s, quarks_statefulset \<times> go_error option) state" where
  "clientGet R ns name options =
     rc_IntoQsts R ((baseRequest GET ns)\<lparr>rq_Name := Some name, rq_Params := Options options\<rparr>) zero_qsts"

definition clientList ::
  "'s rest_client \<Rightarrow> string \<Rightarrow> list_options \<Rightarrow> ('s, qsts_list \<times> go_error option) state" where
  "clientList R ns opts =
     rc_IntoList R ((baseRequest GET ns)\<lparr>rq_Params := ListOptions opts, rq_Timeout := Some (optionsTimeout opts)\<rparr>) zero_list"

definition clientWatch :: "'s rest_client \<Rightarrow> string \<Rightarrow> list_options \<Rightarrow> ('s, go_error + nat) state" where
  "clientWatch R ns opts =
     rc_Watch R ((baseRequest GET ns)\<lparr>rq_Params := ListOptions (opts\<lparr>op_Watch := True\<rparr>),
       rq_Timeout := Some (optionsTimeout opts)\<rparr>)"

definition clientCreate ::
  "'s rest_client \<Rightarrow> string \<Rightarrow> quarks_statefulset \<Rightarrow> string \<Rightarrow> ('s, quarks_statefulset \<times> go_error option) state" where
  "clientCreate R ns q opts =
     rc_IntoQsts R ((baseRequest POST ns)\<lparr>rq_Params := Options opts, rq_Body := ObjectBody q\<rparr>) zero_qsts"

definition clientUpdate ::
  "'s rest_client \<Rightarrow> string \<Rightarrow> quarks_statefulset \<Rightarrow> string \<Rightarrow> ('s, quarks_statefulset \<times> go_error option) state" where
  "clientUpdate R ns q opts =
     rc_IntoQsts R ((baseRequest PUT ns)\<lparr>rq_Name := Some (q_Name q), rq_Params := Options opts,
       rq_Body := ObjectBody q\<rparr>) zero_qsts"

definition clientUpdateStatus ::
  "'s rest_client \<Rightarrow> string \<Rightarrow> quarks_statefulset \<Rightarrow> string \<Rightarrow> ('s, quarks_statefulset \<times> go_error option) state" where
  "clientUpdateStatus R ns q opts =
     rc_IntoQsts R ((baseRequest PUT ns)\<lparr>rq_Name := Some (q_Name q), rq_SubResource := [''status''],
       rq_Params := Options opts, rq_Body := ObjectBody q\<rparr>) zero_qsts"

definition clientDelete :: "'s rest_client \<Rightarrow> string \<Rightarrow> string \<Rightarrow> string \<Rightarrow> ('s, go_error option) state" where
  "clientDelete R ns name opts =
     rc_Error R ((baseRequest DELETE ns)\<lparr>rq_Name := Some name, rq_Body := OptionsBody opts\<rparr>)"

definition clientDeleteCollection ::
  "'s rest_client \<Rightarrow> string \<Rightarrow> string \<Rightarrow> list_options \<Rightarrow> ('s, go_error option) state" where
  "clientDeleteCollection R ns opts listOpts =
     rc_Error R ((baseRequest DELETE ns)\<lparr>rq_Params := ListOptions listOpts,
       rq_Timeout := Some (optionsTimeout listOpts), rq_Body := OptionsBody opts\<rparr>)"

definition clientPatch ::
  "'s rest_client \<Rightarrow> string \<Rightarrow> string \<Rightarrow> string \<Rightarrow> string \<Rightarrow> string \<Rightarrow> string list \<Rightarrow>
   ('s, quarks_statefulset \<times> go_error option) state" where
  "clientPatch R ns name pt data opts subresources =
     rc_IntoQsts R ((baseRequest (PATCH pt) ns)\<lparr>rq_Name := Some name, rq_SubResource := subresources,
       rq_Params := Options opts, rq_Body := DataBody data\<rparr>) zero_qsts"

section \<open>The lister\<close>

text \<open>
  \<open>cache.ListAll\<close> and \<open>cache.ListAllByNamespace\<close> call a function for each object they select,
  until an error: they are given as the objects visited and the error.
\<close>

record indexer =
  ix_GetByKey :: "string \<Rightarrow> go_error + quarks_statefulset option"
  ix_ListAll :: "(gomap \<Rightarrow> bool) \<Rightarrow> quarks_statefulset list \<times> go_error option"
  ix_ListAllByNamespace :: "string \<Rightarrow> (gomap \<Rightarrow> bool) \<Rightarrow> quarks_statefulset list \<times> go_error option"

definition listerList :: "indexer \<Rightarrow> (gomap \<Rightarrow> bool) \<Rightarrow> quarks_statefulset list \<times> go_error option" where
  "listerList I selector = (case ix_ListAll I selector of (ms, err) \<Rightarrow> (fold (\<lambda>m ret. ret @ [m]) ms [], err))"

definition listerNamespaceList ::
  "indexer \<Rightarrow> string \<Rightarrow> (gomap \<Rightarrow> bool) \<Rightarrow> quarks_statefulset list \<times> go_error option" where
  "listerNamespaceList I ns selector =
     (case ix_ListAllByNamespace I ns selector of (ms, err) \<Rightarrow> (fold (\<lambda>m ret. ret @ [m]) ms [], err))"

text \<open>\<open>errors.NewNotFound(Resource("quarksstatefulset"), name)\<close>.\<close>

definition newNotFound :: "string \<times> string \<Rightarrow> string \<Rightarrow> go_error" where
  "newNotFound gr name = StatusError 404 (snd gr @ ''.'' @ fst gr @ '' '' @ name @ '' not found'')"

definition listerNamespaceGet :: "string \<Rightarrow> indexer \<Rightarrow> string \<Rightarrow> string \<Rightarrow> go_error + quarks_statefulset" where
  "listerNamespaceGet gn I ns name =
     (case ix_GetByKey I (ns @ ''/'' @ name) of
        Inl err \<Rightarrow> Inl err
      | Inr None \<Rightarrow> Inl (newNotFound (Resource gn ''quarksstatefulset'') name)
      | Inr (Some q) \<Rightarrow> Inr q)"

lemma fold_snoc: "fold (\<lambda>m ret. ret @ [m]) ms acc = acc @ ms"
  by (induction ms arbitrary: acc) auto

section \<open>Properties\<close>

text \<open>
  What the client relies on: a server that stores resources by namespace and name. \<open>stored\<close>
  reads its state; a POST stores the object of a namespace if the name is free, a PUT replaces
  an object without touching its status, a PUT of the status replaces only that.
\<close>

definition serves_get :: "'s rest_client \<Rightarrow> ('s \<Rightarrow> string \<Rightarrow> string \<Rightarrow> quarks_statefulset option) \<Rightarrow> bool" where
  "serves_get R stored \<longleftrightarrow>
     (\<forall>s rq z n. rq_Resource rq = ''quarksstatefulsets'' \<longrightarrow> rq_Verb rq = GET \<longrightarrow> rq_Name rq = Some n \<longrightarrow>
       (case stored s (rq_Namespace rq) n of
          None \<Rightarrow> \<exists>e. run_state (rc_IntoQsts R rq z) s = ((z, Some e), s)
        | Some p \<Rightarrow> run_state (rc_IntoQsts R rq z) s = ((p, None), s)))"

definition serves_post :: "'s rest_client \<Rightarrow> ('s \<Rightarrow> string \<Rightarrow> string \<Rightarrow> quarks_statefulset option) \<Rightarrow> bool" where
  "serves_post R stored \<longleftrightarrow>
     (\<forall>s rq z q. rq_Resource rq = ''quarksstatefulsets'' \<longrightarrow> rq_Verb rq = POST \<longrightarrow> rq_Body rq = ObjectBody q \<longrightarrow>
       q_Namespace q = rq_Namespace rq \<longrightarrow> stored s (rq_Namespace rq) (q_Name q) = None \<longrightarrow>
       (\<exists>s'. run_state (rc_IntoQsts R rq z) s = ((q, None), s') \<and>
          stored s' = (stored s)(rq_Namespace rq := (stored s (rq_Namespace rq))(q_Name q := Some q))))"

definition put_result :: "bool \<Rightarrow> quarks_statefulset \<Rightarrow> quarks_statefulset \<Rightarrow> quarks_statefulset" where
  "put_result status old new = (if status then old\<lparr>q_Status := q_Status new\<rparr> else new\<lparr>q_Status := q_Status old\<rparr>)"

definition serves_put :: "'s rest_client \<Rightarrow> ('s \<Rightarrow> string \<Rightarrow> string \<Rightarrow> quarks_statefulset option) \<Rightarrow> bool" where
  "serves_put R stored \<longleftrightarrow>
     (\<forall>s rq z q p. rq_Resource rq = ''quarksstatefulsets'' \<longrightarrow> rq_Verb rq = PUT \<longrightarrow> rq_Name rq = Some (q_Name q) \<longrightarrow>
       rq_Body rq = ObjectBody q \<longrightarrow> rq_SubResource rq \<in> {[], [''status'']} \<longrightarrow>
       stored s (rq_Namespace rq) (q_Name q) = Some p \<longrightarrow>
       (let p' = put_result (rq_SubResource rq = [''status'']) p q in
        \<exists>s'. run_state (rc_IntoQsts R rq z) s = ((p', None), s') \<and>
          stored s' = (stored s)(rq_Namespace rq := (stored s (rq_Namespace rq))(q_Name q := Some p'))))"

lemma client_get:
  assumes "serves_get R stored" "stored s ns n = Some p"
  shows "run_state (clientGet R ns n opts) s = ((p, None), s)"
proof -
  let ?rq = "(baseRequest GET ns)\<lparr>rq_Name := Some n, rq_Params := Options opts\<rparr>"
  have "rq_Resource ?rq = ''quarksstatefulsets''" "rq_Verb ?rq = GET" "rq_Name ?rq = Some n"
    by (simp_all add: baseRequest_def)
  then have "case stored s (rq_Namespace ?rq) n of
      None \<Rightarrow> \<exists>e. run_state (rc_IntoQsts R ?rq zero_qsts) s = ((zero_qsts, Some e), s)
    | Some p \<Rightarrow> run_state (rc_IntoQsts R ?rq zero_qsts) s = ((p, None), s)"
    using assms(1) unfolding serves_get_def by blast
  with assms(2) show ?thesis by (simp add: clientGet_def baseRequest_def)
qed

lemma client_create:
  assumes "serves_post R stored" "stored s ns (q_Name q) = None" "q_Namespace q = ns"
  shows "\<exists>s'. run_state (clientCreate R ns q opts) s = ((q, None), s') \<and>
    stored s' = (stored s)(ns := (stored s ns)(q_Name q := Some q))"
proof -
  let ?rq = "(baseRequest POST ns)\<lparr>rq_Params := Options opts, rq_Body := ObjectBody q\<rparr>"
  have "rq_Resource ?rq = ''quarksstatefulsets''" "rq_Verb ?rq = POST" "rq_Body ?rq = ObjectBody q" "rq_Namespace ?rq = ns"
    by (simp_all add: baseRequest_def)
  with assms show ?thesis unfolding serves_post_def clientCreate_def by metis
qed

lemma client_put:
  assumes "serves_put R stored" "stored s ns (q_Name q) = Some p"
  shows "\<exists>s'. run_state (if st then clientUpdateStatus R ns q opts else clientUpdate R ns q opts) s =
      ((put_result st p q, None), s') \<and>
    stored s' = (stored s)(ns := (stored s ns)(q_Name q := Some (put_result st p q)))"
proof -
  define rq where "rq = (if st
    then (baseRequest PUT ns)\<lparr>rq_Name := Some (q_Name q), rq_SubResource := [''status''],
      rq_Params := Options opts, rq_Body := ObjectBody q\<rparr>
    else (baseRequest PUT ns)\<lparr>rq_Name := Some (q_Name q), rq_Params := Options opts, rq_Body := ObjectBody q\<rparr>)"
  have rq: "rq_Resource rq = ''quarksstatefulsets''" "rq_Verb rq = PUT" "rq_Name rq = Some (q_Name q)"
    "rq_Body rq = ObjectBody q" "rq_Namespace rq = ns" "rq_SubResource rq \<in> {[], [''status'']}"
    "(rq_SubResource rq = [''status'']) = st"
    by (simp_all add: rq_def baseRequest_def)
  have "(if st then clientUpdateStatus R ns q opts else clientUpdate R ns q opts) = rc_IntoQsts R rq zero_qsts"
    by (simp add: rq_def clientUpdateStatus_def clientUpdate_def)
  moreover have "stored s (rq_Namespace rq) (q_Name q) = Some p" using assms(2) rq(5) by simp
  then have "let p' = put_result (rq_SubResource rq = [''status'']) p q in
      \<exists>s'. run_state (rc_IntoQsts R rq zero_qsts) s = ((p', None), s') \<and>
        stored s' = (stored s)(rq_Namespace rq := (stored s (rq_Namespace rq))(q_Name q := Some p'))"
    using assms(1) rq(1-4,6) unfolding serves_put_def by blast
  ultimately show ?thesis unfolding Let_def rq(5,7) by metis
qed

text \<open>
  The typed client reads what it wrote. On a server of resources, a created QuarksStatefulSet
  is returned by Get under its name; UpdateStatus then changes its status and nothing else,
  and Update everything but its status.
\<close>

theorem client_reads_back:
  assumes "serves_get R stored" "serves_post R stored" "serves_put R stored"
    and "stored s ns (q_Name q) = None" "q_Namespace q = ns"
    and "run_state (clientCreate R ns q o1) s = (r, s1)"
    and "q_Name p = q_Name q"
    and "run_state (if st then clientUpdateStatus R ns p o2 else clientUpdate R ns p o2) s1 = (r', s2)"
  shows "fst (run_state (clientGet R ns (q_Name q) o3) s1) = (q, None) \<and>
    fst (run_state (clientGet R ns (q_Name q) o3) s2) =
      (put_result st q p, None)"
proof -
  from client_create [OF assms(2,4,5), of o1] assms(6)
  have s1: "stored s1 ns (q_Name q) = Some q" by auto
  from client_put [OF assms(3) s1 [folded assms(7)], of st o2] assms(8)
  have s2: "stored s2 ns (q_Name q) = Some (put_result st q p)" using assms(7) by auto
  from client_get [OF assms(1) s1, of o3] client_get [OF assms(1) s2, of o3] show ?thesis by simp
qed

text \<open>The server of the witness: a list of the resources under their namespace and name.\<close>

definition qsts_id :: "quarks_statefulset \<Rightarrow> string \<times> string" where
  "qsts_id q = (q_Namespace q, q_Name q)"

type_synonym rest_mem = "((string \<times> string) \<times> quarks_statefulset) list"

definition rest_stored :: "rest_mem \<Rightarrow> string \<Rightarrow> string \<Rightarrow> quarks_statefulset option" where
  "rest_stored s ns n = map_of s (ns, n)"

definition sample_rest :: "rest_mem rest_client" where
  "sample_rest = \<lparr>
     rc_IntoQsts = (\<lambda>rq z. State (\<lambda>s.
       case (rq_Verb rq, rq_Body rq) of
         (GET, _) \<Rightarrow> (case map_of s (rq_Namespace rq, the (rq_Name rq)) of
            None \<Rightarrow> ((z, Some (StatusError 404 ''not found'')), s) | Some p \<Rightarrow> ((p, None), s))
       | (POST, ObjectBody q) \<Rightarrow> ((q, None), ((rq_Namespace rq, q_Name q), q) # s)
       | (PUT, ObjectBody q) \<Rightarrow> (case map_of s (rq_Namespace rq, q_Name q) of
            None \<Rightarrow> ((z, Some (StatusError 404 ''not found'')), s)
          | Some p \<Rightarrow> let p' = put_result (rq_SubResource rq = [''status'']) p q in
              ((p', None), ((rq_Namespace rq, q_Name q), p') # s))
       | _ \<Rightarrow> ((z, Some (StatusError 405 ''method not allowed'')), s))),
     rc_IntoList = (\<lambda>rq z. State_Monad.return (z, None)),
     rc_Error = (\<lambda>rq. State_Monad.return None),
     rc_Watch = (\<lambda>rq. State_Monad.return (Inr 0))\<rparr>"

lemma sample_serves:
  "serves_get sample_rest rest_stored" "serves_post sample_rest rest_stored" "serves_put sample_rest rest_stored"
  by (auto simp: serves_get_def serves_post_def serves_put_def sample_rest_def rest_stored_def Let_def fun_eq_iff
      split: option.splits)

definition client_qsts :: quarks_statefulset where
  "client_qsts = zero_qsts\<lparr>q_Name := ''foo'', q_Namespace := ''default''\<rparr>"

theorem client_reads_back_witness:
  "\<exists>s. fst (run_state (clientGet sample_rest ''default'' ''foo'' ''x'') s) =
     (client_qsts\<lparr>q_Status := \<lparr>qst_LastReconcile = Some 1, qst_Ready = True\<rparr>\<rparr>, None)"
proof -
  obtain r s1 where 1: "run_state (clientCreate sample_rest ''default'' client_qsts ''x'') [] = (r, s1)"
    by fastforce
  let ?p = "client_qsts\<lparr>q_Status := \<lparr>qst_LastReconcile = Some 1, qst_Ready = True\<rparr>\<rparr>"
  obtain r' s2 where 2: "run_state (if True then clientUpdateStatus sample_rest ''default'' ?p ''x''
      else clientUpdate sample_rest ''default'' ?p ''x'') s1 = (r', s2)"
    by fastforce
  have free: "rest_stored [] ''default'' (q_Name client_qsts) = None" by (simp add: rest_stored_def)
  have ns: "q_Namespace client_qsts = ''default''" by (simp add: client_qsts_def)
  have n: "q_Name ?p = q_Name client_qsts" by simp
  from client_reads_back [OF sample_serves free ns 1 n 2, of "''x''"]
  show ?thesis by (auto simp: put_result_def client_qsts_def)
qed

text \<open>
  The lister. Over a cache that finds by key what it lists by namespace, Get returns a
  resource exactly if the unselective List of its namespace contains it under that name, and
  the error for a missing one is a 404.
\<close>

theorem lister_get_list:
  assumes "\<And>n. ix_GetByKey I (ns @ ''/'' @ n) = Inr (find (\<lambda>q. q_Name q = n) (fst (ix_ListAllByNamespace I ns (\<lambda>l. True))))"
    and "distinct (map q_Name (fst (ix_ListAllByNamespace I ns (\<lambda>l. True))))"
  shows "(listerNamespaceGet gn I ns name = Inr q \<longleftrightarrow>
      q \<in> set (fst (listerNamespaceList I ns (\<lambda>l. True))) \<and> q_Name q = name) \<and>
    (\<forall>e. listerNamespaceGet gn I ns name = Inl e \<longrightarrow> (\<exists>m. e = StatusError 404 m))"
proof -
  define xs where "xs = fst (ix_ListAllByNamespace I ns (\<lambda>l. True))"
  have xs: "fst (listerNamespaceList I ns (\<lambda>l. True)) = xs"
    by (simp add: listerNamespaceList_def xs_def fold_snoc split: prod.splits)
  have "find (\<lambda>q. q_Name q = name) xs = Some q \<longleftrightarrow> q \<in> set xs \<and> q_Name q = name"
    using assms(2) unfolding xs_def [symmetric]
    by (induction xs) (auto simp: rev_image_eqI)
  then show ?thesis
    using assms(1) [of name]
    by (auto simp: listerNamespaceGet_def xs xs_def [symmetric] newNotFound_def split: option.splits)
qed

definition sample_indexer :: indexer where
  "sample_indexer = \<lparr>
     ix_GetByKey = (\<lambda>k. Inr (find (\<lambda>q. ''default/'' @ q_Name q = k) [client_qsts])),
     ix_ListAll = (\<lambda>sel. ([client_qsts], None)),
     ix_ListAllByNamespace = (\<lambda>ns sel. ([client_qsts], None))\<rparr>"

theorem lister_get_list_witness:
  "listerNamespaceGet ''quarks.cloudfoundry.org'' sample_indexer ''default'' ''foo'' = Inr client_qsts"
proof -
  have "ix_GetByKey sample_indexer (''default'' @ ''/'' @ n) =
      Inr (find (\<lambda>q. q_Name q = n) (fst (ix_ListAllByNamespace sample_indexer ''default'' (\<lambda>l. True))))" for n
    by (simp add: sample_indexer_def)
  from lister_get_list [OF this, of "''quarks.cloudfoundry.org''" "''foo''" client_qsts]
  show ?thesis by (simp add: sample_indexer_def listerNamespaceList_def client_qsts_def)
qed

end
