(* ===== verification/ClientSet.thy ===== *)
theory ClientSet
  imports World Crd
begin

text \<open>
  The generated client set (\<open>clientset.go\<close>, \<open>quarksstatefulset_client.go\<close>): from a REST
  configuration to the clients. The REST and the discovery client of client-go are parameters;
  a client is named by what it was made from. The fields of a configuration that are only
  carried along are the string \<open>kc_Rest\<close>; \<open>'f\<close> is \<open>float32\<close>, of which only the comparison with
  zero is used.
\<close>

datatype 'f rate_limiter = TokenBucket 'f int | OtherRateLimiter nat

record 'f rest_config =
  kc_RateLimiter :: "'f rate_limiter option"
  kc_QPS :: 'f
  kc_Burst :: int
  kc_GroupVersion :: "(string \<times> string) option"
  kc_APIPath :: string
  kc_NegotiatedSerializer :: "string option"
  kc_UserAgent :: string
  kc_Rest :: string

text \<open>\<open>rest.RESTClientFor\<close>, \<open>discovery.NewDiscoveryClientForConfig\<close> and \<open>rest.DefaultKubernetesUserAgent\<close>.\<close>

record ('f, 'r, 'd) client_lib =
  cl_RESTClientFor :: "'f rest_config \<Rightarrow> go_error + 'r"
  cl_NewDiscoveryClientForConfig :: "'f rest_config \<Rightarrow> go_error + 'd"
  cl_NewDiscoveryClient :: "'r \<Rightarrow> 'd"
  cl_DefaultKubernetesUserAgent :: string

section \<open>The client of the group\<close>

record 'r typed_client =
  tc_restClient :: 'r

definition setConfigDefaults ::
  "string \<Rightarrow> ('f, 'r, 'd) client_lib \<Rightarrow> 'f rest_config \<Rightarrow> go_error option \<times> 'f rest_config" where
  "setConfigDefaults gn K config =
     (let config1 = config\<lparr>kc_GroupVersion := Some (SchemeGroupVersion gn), kc_APIPath := ''/apis'',
            kc_NegotiatedSerializer := Some ''scheme.Codecs.WithoutConversion()''\<rparr>
      in (None, if kc_UserAgent config1 = '''' then config1\<lparr>kc_UserAgent := cl_DefaultKubernetesUserAgent K\<rparr> else config1))"

definition typedNewForConfig ::
  "string \<Rightarrow> ('f, 'r, 'd) client_lib \<Rightarrow> 'f rest_config \<Rightarrow> go_error + 'r typed_client" where
  "typedNewForConfig gn K c =
     (case setConfigDefaults gn K c of
        (Some err, _) \<Rightarrow> Inl err
      | (None, config) \<Rightarrow>
          (case cl_RESTClientFor K config of
             Inl err \<Rightarrow> Inl err
           | Inr client \<Rightarrow> Inr \<lparr>tc_restClient = client\<rparr>))"

definition typedNewForConfigOrDie ::
  "string \<Rightarrow> ('f, 'r, 'd) client_lib \<Rightarrow> 'f rest_config \<Rightarrow> 'r typed_client go" where
  "typedNewForConfigOrDie gn K c =
     (case typedNewForConfig gn K c of Inl err \<Rightarrow> Panic | Inr client \<Rightarrow> Ret client)"

definition typedNew :: "'r \<Rightarrow> 'r typed_client" where
  "typedNew c = \<lparr>tc_restClient = c\<rparr>"

text \<open>\<open>RESTClient\<close>, on a receiver that may be nil.\<close>

definition typedRESTClient :: "'r typed_client option \<Rightarrow> 'r option" where
  "typedRESTClient c = (case c of None \<Rightarrow> None | Some t \<Rightarrow> Some (tc_restClient t))"

section \<open>The client set\<close>

record ('r, 'd) clientset =
  cs_DiscoveryClient :: 'd
  cs_typed :: "'r typed_client"

definition QuarksstatefulsetV1alpha1 :: "('r, 'd) clientset \<Rightarrow> 'r typed_client" where
  "QuarksstatefulsetV1alpha1 c = cs_typed c"

definition Discovery :: "('r, 'd) clientset option \<Rightarrow> 'd option" where
  "Discovery c = (case c of None \<Rightarrow> None | Some s \<Rightarrow> Some (cs_DiscoveryClient s))"

text \<open>The rate limiter: one for both clients, if the configuration asks for it and has none.\<close>

definition burstError :: go_error where
  "burstError = Errorf ''burst is required to be greater than 0 when RateLimiter is not set and QPS is set to greater than 0''"

definition withRateLimiter :: "('f :: {ord, zero}) rest_config \<Rightarrow> go_error + 'f rest_config" where
  "withRateLimiter c =
     (if kc_RateLimiter c = None \<and> kc_QPS c > 0
      then if kc_Burst c \<le> 0 then Inl burstError
           else Inr (c\<lparr>kc_RateLimiter := Some (TokenBucket (kc_QPS c) (kc_Burst c))\<rparr>)
      else Inr c)"

definition NewForConfig ::
  "string \<Rightarrow> ('f :: {ord, zero}, 'r, 'd) client_lib \<Rightarrow> 'f rest_config \<Rightarrow> go_error + ('r, 'd) clientset" where
  "NewForConfig gn K c =
     (case withRateLimiter c of
        Inl err \<Rightarrow> Inl err
      | Inr configShallowCopy \<Rightarrow>
          (case typedNewForConfig gn K configShallowCopy of
             Inl err \<Rightarrow> Inl err
           | Inr typed \<Rightarrow>
               (case cl_NewDiscoveryClientForConfig K configShallowCopy of
                  Inl err \<Rightarrow> Inl err
                | Inr d \<Rightarrow> Inr \<lparr>cs_DiscoveryClient = d, cs_typed = typed\<rparr>)))"

definition NewForConfigOrDie ::
  "string \<Rightarrow> ('f, 'r, 'd) client_lib \<Rightarrow> 'f rest_config \<Rightarrow> ('r, 'd) clientset go" where
  "NewForConfigOrDie gn K c =
     (case typedNewForConfigOrDie gn K c of
        Panic \<Rightarrow> Panic
      | Ret typed \<Rightarrow>
          (case cl_NewDiscoveryClientForConfig K c of
             Inl err \<Rightarrow> Panic
           | Inr d \<Rightarrow> Ret \<lparr>cs_DiscoveryClient = d, cs_typed = typed\<rparr>))"

definition New :: "('f, 'r, 'd) client_lib \<Rightarrow> 'r \<Rightarrow> ('r, 'd) clientset" where
  "New K c = \<lparr>cs_DiscoveryClient = cl_NewDiscoveryClient K c, cs_typed = typedNew c\<rparr>"

section \<open>What the clients are made from\<close>

text \<open>
  A client library that keeps the configuration a client was made from shows what the clients
  of a set have in common: the rate limiter, and everything else of the configuration given.
\<close>

lemma setConfigDefaults_frame:
  assumes "setConfigDefaults gn K c = (err, c')"
  shows "err = None" "kc_RateLimiter c' = kc_RateLimiter c" "kc_QPS c' = kc_QPS c" "kc_Burst c' = kc_Burst c"
    "kc_Rest c' = kc_Rest c" "kc_GroupVersion c' = Some (SchemeGroupVersion gn)" "kc_APIPath c' = ''/apis''"
    "kc_UserAgent c' = (if kc_UserAgent c = '''' then cl_DefaultKubernetesUserAgent K else kc_UserAgent c)"
  using assms by (auto simp: setConfigDefaults_def Let_def split: if_splits)

text \<open>
  A client set. NewForConfig fails if queries are limited without a positive burst;
  otherwise its two clients are made from the given configuration with the same rate limiter,
  a token bucket if the configuration limits queries and brings no limiter of its own, and the
  client of the group speaks to the group and version the scheme registers.
\<close>

theorem NewForConfig_spec:
  shows "(kc_RateLimiter c = None \<and> kc_QPS c > 0 \<and> kc_Burst c \<le> 0 \<longrightarrow> NewForConfig gn K c = Inl burstError) \<and>
    (NewForConfig gn K c = Inr cs \<longrightarrow>
       (\<exists>limiter tc dc. cl_RESTClientFor K tc = Inr (tc_restClient (QuarksstatefulsetV1alpha1 cs)) \<and>
          cl_NewDiscoveryClientForConfig K dc = Inr (cs_DiscoveryClient cs) \<and>
          kc_RateLimiter tc = limiter \<and> kc_RateLimiter dc = limiter \<and>
          limiter = (if kc_RateLimiter c = None \<and> kc_QPS c > 0 then Some (TokenBucket (kc_QPS c) (kc_Burst c))
                     else kc_RateLimiter c) \<and>
          dc = c\<lparr>kc_RateLimiter := limiter\<rparr> \<and> kc_GroupVersion tc = Some (SchemeGroupVersion gn) \<and>
          kc_APIPath tc = ''/apis'' \<and> (cl_DefaultKubernetesUserAgent K \<noteq> '''' \<longrightarrow> kc_UserAgent tc \<noteq> '''')))"
proof (intro conjI impI)
  show "NewForConfig gn K c = Inl burstError" if "kc_RateLimiter c = None \<and> kc_QPS c > 0 \<and> kc_Burst c \<le> 0"
    using that by (simp add: NewForConfig_def withRateLimiter_def)
next
  assume "NewForConfig gn K c = Inr cs"
  then obtain dc typed where dc: "withRateLimiter c = Inr dc" "typedNewForConfig gn K dc = Inr typed"
    "cl_NewDiscoveryClientForConfig K dc = Inr (cs_DiscoveryClient cs)" "cs_typed cs = typed"
    by (auto simp: NewForConfig_def split: sum.splits)
  from dc(2) obtain tc where tc: "setConfigDefaults gn K dc = (None, tc)"
    "cl_RESTClientFor K tc = Inr (tc_restClient typed)"
    by (auto simp: typedNewForConfig_def split: prod.splits option.splits sum.splits)
  have "dc = c\<lparr>kc_RateLimiter := if kc_RateLimiter c = None \<and> kc_QPS c > 0
      then Some (TokenBucket (kc_QPS c) (kc_Burst c)) else kc_RateLimiter c\<rparr>"
    using dc(1) by (auto simp: withRateLimiter_def split: if_splits)
  with tc dc(3,4) setConfigDefaults_frame [OF tc(1)] show "\<exists>limiter tc dc.
      cl_RESTClientFor K tc = Inr (tc_restClient (QuarksstatefulsetV1alpha1 cs)) \<and>
      cl_NewDiscoveryClientForConfig K dc = Inr (cs_DiscoveryClient cs) \<and>
      kc_RateLimiter tc = limiter \<and> kc_RateLimiter dc = limiter \<and>
      limiter = (if kc_RateLimiter c = None \<and> kc_QPS c > 0 then Some (TokenBucket (kc_QPS c) (kc_Burst c))
                 else kc_RateLimiter c) \<and>
      dc = c\<lparr>kc_RateLimiter := limiter\<rparr> \<and> kc_GroupVersion tc = Some (SchemeGroupVersion gn) \<and>
      kc_APIPath tc = ''/apis'' \<and> (cl_DefaultKubernetesUserAgent K \<noteq> '''' \<longrightarrow> kc_UserAgent tc \<noteq> '''')"
    by (intro exI [of _ "kc_RateLimiter dc"] exI [of _ tc] exI [of _ dc])
       (auto simp: QuarksstatefulsetV1alpha1_def)
qed

definition sample_client_lib :: "(int, int rest_config, int rest_config) client_lib" where
  "sample_client_lib = \<lparr>cl_RESTClientFor = Inr, cl_NewDiscoveryClientForConfig = Inr,
     cl_NewDiscoveryClient = id, cl_DefaultKubernetesUserAgent = ''quarks''\<rparr>"

definition sample_rest_config :: "int \<Rightarrow> int rest_config" where
  "sample_rest_config burst = \<lparr>kc_RateLimiter = None, kc_QPS = 5, kc_Burst = burst, kc_GroupVersion = None,
     kc_APIPath = '''', kc_NegotiatedSerializer = None, kc_UserAgent = '''', kc_Rest = ''''\<rparr>"

theorem NewForConfig_spec_witness:
  "NewForConfig ''quarks.cloudfoundry.org'' sample_client_lib (sample_rest_config 0) = Inl burstError \<and>
   (\<exists>cs. NewForConfig ''quarks.cloudfoundry.org'' sample_client_lib (sample_rest_config 10) = Inr cs \<and>
      kc_RateLimiter (tc_restClient (cs_typed cs)) = Some (TokenBucket 5 10) \<and>
      kc_RateLimiter (cs_DiscoveryClient cs) = Some (TokenBucket 5 10))"
proof -
  let ?N = "NewForConfig ''quarks.cloudfoundry.org'' sample_client_lib"
  have "case ?N (sample_rest_config 10) of Inl e \<Rightarrow> False | Inr cs \<Rightarrow> True" by code_simp
  then obtain cs where cs: "?N (sample_rest_config 10) = Inr cs" by (auto split: sum.splits)
  with NewForConfig_spec [of "sample_rest_config 10" "''quarks.cloudfoundry.org''" sample_client_lib cs]
    NewForConfig_spec [of "sample_rest_config 0" "''quarks.cloudfoundry.org''" sample_client_lib cs]
  show ?thesis
    by (auto simp: sample_client_lib_def sample_rest_config_def QuarksstatefulsetV1alpha1_def)
qed

end
