(* ===== verification/FakeClientSet.thy ===== *)
theory FakeClientSet
  imports ApiClient
begin

text \<open>
  The fake client set of the generated clients (\<open>versioned/fake\<close> and \<open>typed/.../fake\<close>), for unit
  tests: its methods turn into actions for \<open>testing.Fake\<close> of client-go, which runs a chain of
  reactors, here one that keeps the objects in a tracker. \<open>testing.Fake\<close> and the tracker are the
  parameters \<open>fake_invoker\<close> and \<open>tracker\<close>.
\<close>

section \<open>Actions\<close>

record gvr =
  gvr_Group :: string
  gvr_Version :: string
  gvr_Resource :: string

datatype fake_action =
    GetAction gvr string string
  | ListAction gvr "string \<times> string \<times> string" string list_options
  | WatchAction gvr string list_options
  | CreateAction gvr string quarks_statefulset
  | UpdateAction gvr string quarks_statefulset
  | UpdateSubresourceAction gvr string string quarks_statefulset
  | DeleteAction gvr string string
  | DeleteCollectionAction gvr string list_options
  | PatchSubresourceAction gvr string string string string "string list"

text \<open>A \<open>runtime.Object\<close>: a resource, a list of them, or something else.\<close>

datatype api_object = QstsObject quarks_statefulset | QstsListObject qsts_list | OtherObject string

text \<open>
  \<open>Invokes(action, defaultReturnObj)\<close> and \<open>InvokesWatch(action)\<close>; a nil object is None.
  \<open>fi_label\<close> is the label selector \<open>ExtractFromListOptions\<close> finds, if any.
\<close>

record 's fake_invoker =
  fi_Invokes :: "fake_action \<Rightarrow> api_object \<Rightarrow> ('s, api_object option \<times> go_error option) state"
  fi_InvokesWatch :: "fake_action \<Rightarrow> ('s, go_error + nat) state"
  fi_label :: "list_options \<Rightarrow> (gomap \<Rightarrow> bool) option"

definition quarksstatefulsetsResource :: gvr where
  "quarksstatefulsetsResource = \<lparr>gvr_Group = ''quarksstatefulset'', gvr_Version = ''v1alpha1'',
     gvr_Resource = ''quarksstatefulsets''\<rparr>"

definition quarksstatefulsetsKind :: "string \<times> string \<times> string" where
  "quarksstatefulsetsKind = (''quarksstatefulset'', ''v1alpha1'', ''QuarksStatefulSet'')"

text \<open>\<open>obj.(*v1alpha1.QuarksStatefulSet)\<close>, which panics for an object of another type.\<close>

definition assertQsts ::
  "api_object option \<times> go_error option \<Rightarrow> (quarks_statefulset option \<times> go_error option) go" where
  "assertQsts r = (case r of
       (None, err) \<Rightarrow> Ret (None, err)
     | (Some obj, err) \<Rightarrow> (case obj of QstsObject q \<Rightarrow> Ret (Some q, err) | _ \<Rightarrow> Panic))"

section \<open>The methods\<close>

definition fakeSetGet ::
  "'s fake_invoker \<Rightarrow> string \<Rightarrow> string \<Rightarrow> ('s, (quarks_statefulset option \<times> go_error option) go) state" where
  "fakeSetGet F ns name = do {
     r \<leftarrow> fi_Invokes F (GetAction quarksstatefulsetsResource ns name) (QstsObject zero_qsts);
     State_Monad.return (assertQsts r) }"

fun filterItems :: "(gomap \<Rightarrow> bool) \<Rightarrow> quarks_statefulset list \<Rightarrow> quarks_statefulset list \<Rightarrow> quarks_statefulset list" where
  "filterItems label acc [] = acc"
| "filterItems label acc (item # items) =
     filterItems label (if label (q_Labels item) then acc @ [item] else acc) items"

definition fakeSetList ::
  "'s fake_invoker \<Rightarrow> string \<Rightarrow> list_options \<Rightarrow> ('s, (qsts_list option \<times> go_error option) go) state" where
  "fakeSetList F ns opts = do {
     r \<leftarrow> fi_Invokes F (ListAction quarksstatefulsetsResource quarksstatefulsetsKind ns opts) (QstsListObject zero_list);
     State_Monad.return (case r of
       (None, err) \<Rightarrow> Ret (None, err)
     | (Some obj, err) \<Rightarrow>
         (let label = (case fi_label F opts of None \<Rightarrow> (\<lambda>_. True) | Some l \<Rightarrow> l) in
          case obj of
            QstsListObject l \<Rightarrow> Ret (Some \<lparr>ql_Meta = ql_Meta l, ql_Items = filterItems label [] (ql_Items l)\<rparr>, err)
          | _ \<Rightarrow> Panic)) }"

definition fakeSetWatch :: "'s fake_invoker \<Rightarrow> string \<Rightarrow> list_options \<Rightarrow> ('s, go_error + nat) state" where
  "fakeSetWatch F ns opts = fi_InvokesWatch F (WatchAction quarksstatefulsetsResource ns opts)"

definition fakeSetCreate ::
  "'s fake_invoker \<Rightarrow> string \<Rightarrow> quarks_statefulset \<Rightarrow> ('s, (quarks_statefulset option \<times> go_error option) go) state" where
  "fakeSetCreate F ns q = do {
     r \<leftarrow> fi_Invokes F (CreateAction quarksstatefulsetsResource ns q) (QstsObject zero_qsts);
     State_Monad.return (assertQsts r) }"

definition fakeSetUpdate ::
  "'s fake_invoker \<Rightarrow> string \<Rightarrow> quarks_statefulset \<Rightarrow> ('s, (quarks_statefulset option \<times> go_error option) go) state" where
  "fakeSetUpdate F ns q = do {
     r \<leftarrow> fi_Invokes F (UpdateAction quarksstatefulsetsResource ns q) (QstsObject zero_qsts);
     State_Monad.return (assertQsts r) }"

definition fakeSetUpdateStatus ::
  "'s fake_invoker \<Rightarrow> string \<Rightarrow> quarks_statefulset \<Rightarrow> ('s, (quarks_statefulset option \<times> go_error option) go) state" where
  "fakeSetUpdateStatus F ns q = do {
     r \<leftarrow> fi_Invokes F (UpdateSubresourceAction quarksstatefulsetsResource ''status'' ns q) (QstsObject zero_qsts);
     State_Monad.return (assertQsts r) }"

definition fakeSetDelete :: "'s fake_invoker \<Rightarrow> string \<Rightarrow> string \<Rightarrow> ('s, go_error option) state" where
  "fakeSetDelete F ns name = do {
     r \<leftarrow> fi_Invokes F (DeleteAction quarksstatefulsetsResource ns name) (QstsObject zero_qsts);
     State_Monad.return (snd r) }"

definition fakeSetDeleteCollection :: "'s fake_invoker \<Rightarrow> string \<Rightarrow> list_options \<Rightarrow> ('s, go_error option) state" where
  "fakeSetDeleteCollection F ns listOpts = do {
     r \<leftarrow> fi_Invokes F (DeleteCollectionAction quarksstatefulsetsResource ns listOpts) (QstsListObject zero_list);
     State_Monad.return (snd r) }"

definition fakeSetPatch ::
  "'s fake_invoker \<Rightarrow> string \<Rightarrow> string \<Rightarrow> string \<Rightarrow> string \<Rightarrow> string list \<Rightarrow>
   ('s, (quarks_statefulset option \<times> go_error option) go) state" where
  "fakeSetPatch F ns name pt data subresources = do {
     r \<leftarrow> fi_Invokes F (PatchSubresourceAction quarksstatefulsetsResource ns name pt data subresources) (QstsObject zero_qsts);
     State_Monad.return (assertQsts r) }"

section \<open>The client set\<close>

text \<open>
  \<open>NewObjectTracker\<close>, \<open>Add\<close> and \<open>Watch\<close> of the tracker; a watch is named by a number. The reactors
  are those added for every verb and resource.
\<close>

record 't tracker =
  tk_New :: 't
  tk_Add :: "'t \<Rightarrow> api_object \<Rightarrow> go_error + 't"
  tk_Watch :: "'t \<Rightarrow> gvr \<Rightarrow> string \<Rightarrow> go_error + nat"

record 't fake_clientset =
  fc_tracker :: 't
  fc_Reactors :: "(string \<times> string) list"
  fc_WatchReactors :: "(string \<times> (gvr \<Rightarrow> string \<Rightarrow> bool \<times> nat option \<times> go_error option)) list"

fun addObjects :: "'t tracker \<Rightarrow> 't \<Rightarrow> api_object list \<Rightarrow> 't go" where
  "addObjects T t [] = Ret t"
| "addObjects T t (obj # objs) =
     (case tk_Add T t obj of Inl err \<Rightarrow> Panic | Inr t1 \<Rightarrow> addObjects T t1 objs)"

definition watchReaction :: "'t tracker \<Rightarrow> 't \<Rightarrow> gvr \<Rightarrow> string \<Rightarrow> bool \<times> nat option \<times> go_error option" where
  "watchReaction T t g ns =
     (case tk_Watch T t g ns of Inl err \<Rightarrow> (False, None, Some err) | Inr w \<Rightarrow> (True, Some w, None))"

definition NewSimpleClientset :: "'t tracker \<Rightarrow> api_object list \<Rightarrow> 't fake_clientset go" where
  "NewSimpleClientset T objects =
     (case addObjects T (tk_New T) objects of
        Panic \<Rightarrow> Panic
      | Ret t \<Rightarrow> Ret \<lparr>fc_tracker = t, fc_Reactors = [(''*'', ''*'')],
          fc_WatchReactors = [(''*'', watchReaction T t)]\<rparr>)"

section \<open>Properties\<close>

lemma filterItems_filter: "filterItems label acc items = acc @ filter (\<lambda>q. label (q_Labels q)) items"
  by (induction items arbitrary: acc) auto

text \<open>
  What client-go documents of its tracker. \<open>filed t g ns n\<close> is the resource filed under a group,
  version and resource; \<open>Add\<close> files it under the group its scheme knows it by, and fails
  (AlreadyExists) if something is filed there already; a get action is answered from what is
  filed under the resource of the action.
\<close>

definition schemeResource :: "string \<Rightarrow> gvr" where
  "schemeResource gn = \<lparr>gvr_Group = fst (SchemeGroupVersion gn), gvr_Version = snd (SchemeGroupVersion gn),
     gvr_Resource = QuarksStatefulSetResourcePlural\<rparr>"

definition tracker_law ::
  "string \<Rightarrow> 't tracker \<Rightarrow> 't fake_invoker \<Rightarrow> ('t \<Rightarrow> gvr \<Rightarrow> string \<Rightarrow> string \<Rightarrow> quarks_statefulset option) \<Rightarrow> bool" where
  "tracker_law gn T F filed \<longleftrightarrow>
     (\<forall>g ns n. filed (tk_New T) g ns n = None) \<and>
     (\<forall>t q. case filed t (schemeResource gn) (q_Namespace q) (q_Name q) of
          Some q0 \<Rightarrow> \<exists>e. tk_Add T t (QstsObject q) = Inl e
        | None \<Rightarrow> \<exists>t'. tk_Add T t (QstsObject q) = Inr t' \<and>
            (\<forall>g ns n. filed t' g ns n =
               (if g = schemeResource gn \<and> ns = q_Namespace q \<and> n = q_Name q then Some q else filed t g ns n))) \<and>
     (\<forall>t g ns n d. case filed t g ns n of
          None \<Rightarrow> \<exists>e. run_state (fi_Invokes F (GetAction g ns n) d) t = ((None, Some e), t)
        | Some q \<Rightarrow> run_state (fi_Invokes F (GetAction g ns n) d) t = ((Some (QstsObject q), None), t))"

definition filed_key :: "quarks_statefulset \<Rightarrow> string \<times> string" where
  "filed_key q = (q_Namespace q, q_Name q)"

lemma tracker_add:
  assumes "tracker_law gn T F filed"
  obtains (taken) q0 e where "filed t (schemeResource gn) (q_Namespace q) (q_Name q) = Some q0"
      "tk_Add T t (QstsObject q) = Inl e"
  | (free) t' where "filed t (schemeResource gn) (q_Namespace q) (q_Name q) = None"
      "tk_Add T t (QstsObject q) = Inr t'"
      "\<And>g ns n. filed t' g ns n =
         (if g = schemeResource gn \<and> ns = q_Namespace q \<and> n = q_Name q then Some q else filed t g ns n)"
proof -
  from assms have "case filed t (schemeResource gn) (q_Namespace q) (q_Name q) of
          Some q0 \<Rightarrow> \<exists>e. tk_Add T t (QstsObject q) = Inl e
        | None \<Rightarrow> \<exists>t'. tk_Add T t (QstsObject q) = Inr t' \<and>
            (\<forall>g ns n. filed t' g ns n =
               (if g = schemeResource gn \<and> ns = q_Namespace q \<and> n = q_Name q then Some q else filed t g ns n))"
    unfolding tracker_law_def by blast
  then show thesis
    by (cases "filed t (schemeResource gn) (q_Namespace q) (q_Name q)") (use taken free in auto)
qed

text \<open>Adding resources one after the other: it fails if two have one key; other groups stay empty.\<close>

lemma addObjects_panics:
  assumes law: "tracker_law gn T F filed"
  shows "addObjects T t (map QstsObject qs) = Panic \<longleftrightarrow>
    \<not> distinct (map filed_key qs) \<or> (\<exists>q\<in>set qs. filed t (schemeResource gn) (q_Namespace q) (q_Name q) \<noteq> None)"
proof (induction qs arbitrary: t)
  case (Cons q qs)
  from law show ?case
  proof (cases rule: tracker_add [where t = t and q = q])
    case taken
    then show ?thesis by simp
  next
    case (free t')
    have key: "filed_key q \<in> filed_key ` set qs \<longleftrightarrow>
        (\<exists>p\<in>set qs. q_Namespace p = q_Namespace q \<and> q_Name p = q_Name q)"
      unfolding image_iff filed_key_def by (rule bex_cong) auto
    have "(\<exists>p\<in>set qs. filed t' (schemeResource gn) (q_Namespace p) (q_Name p) \<noteq> None) \<longleftrightarrow>
        filed_key q \<in> filed_key ` set qs \<or>
        (\<exists>p\<in>set qs. filed t (schemeResource gn) (q_Namespace p) (q_Name p) \<noteq> None)"
      unfolding key free(3) by (auto split: if_splits)
    with Cons.IH [of t'] free(1,2) show ?thesis by auto
  qed
qed simp

lemma addObjects_filed:
  assumes law: "tracker_law gn T F filed" and "g \<noteq> schemeResource gn"
  shows "addObjects T t (map QstsObject qs) = Ret t' \<Longrightarrow> filed t' g ns n = filed t g ns n"
proof (induction qs arbitrary: t)
  case (Cons q qs)
  from law show ?case
  proof (cases rule: tracker_add [where t = t and q = q])
    case taken
    with Cons.prems show ?thesis by simp
  next
    case (free t1)
    with Cons.IH [of t1] Cons.prems assms(2) show ?thesis by simp
  qed
qed simp

text \<open>
  C39: the fake client set does not find the objects it is created with. NewSimpleClientset
  panics exactly if two of the resources it is given have the same namespace and name. Otherwise
  the tracker files them under the group of the scheme, while the methods of the client set ask
  for the group quarksstatefulset; so unless that is the name of the group, every Get fails.
\<close>

theorem fake_misses_seeded:
  assumes "tracker_law gn T F filed" "gn \<noteq> ''quarksstatefulset''"
  shows "(NewSimpleClientset T (map QstsObject qs) = Panic \<longleftrightarrow> \<not> distinct (map filed_key qs)) \<and>
    (\<forall>cs ns n. NewSimpleClientset T (map QstsObject qs) = Ret cs \<longrightarrow>
      (\<exists>e. run_state (fakeSetGet F ns n) (fc_tracker cs) = (Ret (None, Some e), fc_tracker cs)))"
proof -
  have new: "filed (tk_New T) g ns n = None" for g ns n using assms(1) by (simp add: tracker_law_def)
  have other: "quarksstatefulsetsResource \<noteq> schemeResource gn"
    using assms(2) by (simp add: quarksstatefulsetsResource_def schemeResource_def SchemeGroupVersion_def)
  have get: "\<exists>e. run_state (fakeSetGet F ns n) t = (Ret (None, Some e), t)"
    if "addObjects T (tk_New T) (map QstsObject qs) = Ret t" for t ns n
  proof -
    have none: "filed t quarksstatefulsetsResource ns n = None"
      using addObjects_filed [OF assms(1) other that] new by simp
    have "case filed t quarksstatefulsetsResource ns n of
        None \<Rightarrow> \<exists>e. run_state (fi_Invokes F (GetAction quarksstatefulsetsResource ns n) d) t = ((None, Some e), t)
      | Some q \<Rightarrow> run_state (fi_Invokes F (GetAction quarksstatefulsetsResource ns n) d) t = ((Some (QstsObject q), None), t)" for d
      using assms(1) unfolding tracker_law_def by blast
    from this [of "QstsObject zero_qsts"] none
    show ?thesis by (auto simp: fakeSetGet_def assertQsts_def)
  qed
  show ?thesis
    using addObjects_panics [OF assms(1), of "tk_New T" qs] get
    by (auto simp: NewSimpleClientset_def new split: go.splits)
qed

type_synonym sample_tracker = "gvr \<Rightarrow> string \<Rightarrow> string \<Rightarrow> quarks_statefulset option"

definition mem_tracker :: "string \<Rightarrow> sample_tracker tracker" where
  "mem_tracker gn = \<lparr>tk_New = (\<lambda>g ns n. None),
     tk_Add = (\<lambda>t obj. case obj of
        QstsObject q \<Rightarrow>
          (if t (schemeResource gn) (q_Namespace q) (q_Name q) \<noteq> None then Inl (StatusError 409 ''already exists'')
           else Inr (\<lambda>g ns n. if g = schemeResource gn \<and> ns = q_Namespace q \<and> n = q_Name q then Some q else t g ns n))
      | _ \<Rightarrow> Inl (Errorf ''no kind'')),
     tk_Watch = (\<lambda>t g ns. Inr 0)\<rparr>"

definition mem_invoker :: "sample_tracker fake_invoker" where
  "mem_invoker = \<lparr>fi_Invokes = (\<lambda>a d. State (\<lambda>t. (case a of
        GetAction g ns n \<Rightarrow> (case t g ns n of None \<Rightarrow> (None, Some not_found) | Some q \<Rightarrow> (Some (QstsObject q), None))
      | _ \<Rightarrow> (Some d, None), t))),
     fi_InvokesWatch = (\<lambda>a. State_Monad.return (Inr 0)), fi_label = (\<lambda>o'. None)\<rparr>"

lemma mem_tracker_law: "tracker_law gn (mem_tracker gn) mem_invoker (\<lambda>t. t)"
  by (auto simp: tracker_law_def mem_tracker_def mem_invoker_def split: option.splits)

theorem fake_misses_seeded_witness:
  "\<exists>cs e. NewSimpleClientset (mem_tracker ''quarks.cloudfoundry.org'') [QstsObject zero_qsts] = Ret cs \<and>
     fc_tracker cs (schemeResource ''quarks.cloudfoundry.org'') '''' '''' = Some zero_qsts \<and>
     run_state (fakeSetGet mem_invoker '''' '''') (fc_tracker cs) = (Ret (None, Some e), fc_tracker cs)"
  using fake_misses_seeded [OF mem_tracker_law, of "''quarks.cloudfoundry.org''" "[zero_qsts]"]
  by (auto simp: NewSimpleClientset_def mem_tracker_def zero_qsts_def)

text \<open>The list of the fake client: exactly the matching resources, in the order of the tracker.\<close>

lemma fakeSetList_filters:
  assumes "run_state (fi_Invokes F (ListAction quarksstatefulsetsResource quarksstatefulsetsKind ns opts)
      (QstsListObject zero_list)) s = ((Some (QstsListObject l), err), s')"
  shows "run_state (fakeSetList F ns opts) s =
    (Ret (Some (l\<lparr>ql_Items := filter (\<lambda>q. case fi_label F opts of None \<Rightarrow> True | Some f \<Rightarrow> f (q_Labels q)) (ql_Items l)\<rparr>), err), s')"
  using assms by (cases "fi_label F opts") (simp_all add: fakeSetList_def filterItems_filter)

end
