(* ===== verification/Fakes.thy ===== *)
theory Fakes
  imports World
begin

text \<open>
  The test double of the status client (\<open>fakes/status_writer.go\<close>), with which the reconcilers
  are tested: it records the arguments of every call and answers as it was told. Objects are
  of any type \<open>'o\<close>; contexts, patches and options are strings. The mutexes guard single
  fields and are left out.
\<close>

section \<open>The double\<close>

type_synonym 'o patch_args = "string \<times> 'o \<times> string \<times> string list"
type_synonym 'o update_args = "string \<times> 'o \<times> string list"

datatype 'o invocation = PatchInvocation "'o patch_args" | UpdateInvocation "'o update_args"

record 'o FakeStatusWriter =
  PatchStub :: "('o patch_args \<Rightarrow> go_error option) option"
  patchArgsForCall :: "'o patch_args list"
  patchReturns :: "go_error option"
  patchReturnsOnCall :: "(int \<rightharpoonup> go_error option) option"
  UpdateStub :: "('o update_args \<Rightarrow> go_error option) option"
  updateArgsForCall :: "'o update_args list"
  updateReturns :: "go_error option"
  updateReturnsOnCall :: "(int \<rightharpoonup> go_error option) option"
  invocations :: "(string \<rightharpoonup> 'o invocation list) option"

definition newFakeStatusWriter :: "'o FakeStatusWriter" where
  "newFakeStatusWriter = \<lparr>PatchStub = None, patchArgsForCall = [], patchReturns = None, patchReturnsOnCall = None,
     UpdateStub = None, updateArgsForCall = [], updateReturns = None, updateReturnsOnCall = None, invocations = None\<rparr>"

text \<open>Reading a map that may be nil.\<close>

definition look :: "('k \<rightharpoonup> 'v) option \<Rightarrow> 'k \<Rightarrow> 'v option" where
  "look m k = (case m of None \<Rightarrow> None | Some f \<Rightarrow> f k)"

definition recordInvocation :: "string \<Rightarrow> 'o invocation \<Rightarrow> 'o FakeStatusWriter \<Rightarrow> 'o FakeStatusWriter" where
  "recordInvocation key args fake =
     (let m = (case invocations fake of None \<Rightarrow> Map.empty | Some m \<Rightarrow> m);
          old = (case m key of None \<Rightarrow> [] | Some xs \<Rightarrow> xs)
      in fake\<lparr>invocations := Some (m(key \<mapsto> old @ [args]))\<rparr>)"

section \<open>Patch\<close>

definition FakePatch :: "'o patch_args \<Rightarrow> 'o FakeStatusWriter \<Rightarrow> go_error option \<times> 'o FakeStatusWriter" where
  "FakePatch args fake =
     (let ret = look (patchReturnsOnCall fake) (int (length (patchArgsForCall fake)));
          fake1 = fake\<lparr>patchArgsForCall := patchArgsForCall fake @ [args]\<rparr>;
          fake2 = recordInvocation ''Patch'' (PatchInvocation args) fake1
      in (case PatchStub fake2 of
            Some stub \<Rightarrow> stub args
          | None \<Rightarrow> (case ret of Some result1 \<Rightarrow> result1 | None \<Rightarrow> patchReturns fake2), fake2))"

definition PatchCallCount :: "'o FakeStatusWriter \<Rightarrow> int" where
  "PatchCallCount fake = int (length (patchArgsForCall fake))"

definition PatchCalls :: "('o patch_args \<Rightarrow> go_error option) option \<Rightarrow> 'o FakeStatusWriter \<Rightarrow> 'o FakeStatusWriter" where
  "PatchCalls stub fake = fake\<lparr>PatchStub := stub\<rparr>"

definition PatchArgsForCall :: "int \<Rightarrow> 'o FakeStatusWriter \<Rightarrow> 'o patch_args go" where
  "PatchArgsForCall i fake =
     (if 0 \<le> i \<and> i < int (length (patchArgsForCall fake)) then Ret (patchArgsForCall fake ! nat i) else Panic)"

definition PatchReturns :: "go_error option \<Rightarrow> 'o FakeStatusWriter \<Rightarrow> 'o FakeStatusWriter" where
  "PatchReturns result1 fake = fake\<lparr>PatchStub := None, patchReturns := result1\<rparr>"

definition PatchReturnsOnCall :: "int \<Rightarrow> go_error option \<Rightarrow> 'o FakeStatusWriter \<Rightarrow> 'o FakeStatusWriter" where
  "PatchReturnsOnCall i result1 fake =
     (let m = (case patchReturnsOnCall fake of None \<Rightarrow> Map.empty | Some m \<Rightarrow> m)
      in fake\<lparr>PatchStub := None, patchReturnsOnCall := Some (m(i \<mapsto> result1))\<rparr>)"

section \<open>Update\<close>

definition FakeUpdate :: "'o update_args \<Rightarrow> 'o FakeStatusWriter \<Rightarrow> go_error option \<times> 'o FakeStatusWriter" where
  "FakeUpdate args fake =
     (let ret = look (updateReturnsOnCall fake) (int (length (updateArgsForCall fake)));
          fake1 = fake\<lparr>updateArgsForCall := updateArgsForCall fake @ [args]\<rparr>;
          fake2 = recordInvocation ''Update'' (UpdateInvocation args) fake1
      in (case UpdateStub fake2 of
            Some stub \<Rightarrow> stub args
          | None \<Rightarrow> (case ret of Some result1 \<Rightarrow> result1 | None \<Rightarrow> updateReturns fake2), fake2))"

definition UpdateCallCount :: "'o FakeStatusWriter \<Rightarrow> int" where
  "UpdateCallCount fake = int (length (updateArgsForCall fake))"

definition UpdateCalls :: "('o update_args \<Rightarrow> go_error option) option \<Rightarrow> 'o FakeStatusWriter \<Rightarrow> 'o FakeStatusWriter" where
  "UpdateCalls stub fake = fake\<lparr>UpdateStub := stub\<rparr>"

definition UpdateArgsForCall :: "int \<Rightarrow> 'o FakeStatusWriter \<Rightarrow> 'o update_args go" where
  "UpdateArgsForCall i fake =
     (if 0 \<le> i \<and> i < int (length (updateArgsForCall fake)) then Ret (updateArgsForCall fake ! nat i) else Panic)"

definition UpdateReturns :: "go_error option \<Rightarrow> 'o FakeStatusWriter \<Rightarrow> 'o FakeStatusWriter" where
  "UpdateReturns result1 fake = fake\<lparr>UpdateStub := None, updateReturns := result1\<rparr>"

definition UpdateReturnsOnCall :: "int \<Rightarrow> go_error option \<Rightarrow> 'o FakeStatusWriter \<Rightarrow> 'o FakeStatusWriter" where
  "UpdateReturnsOnCall i result1 fake =
     (let m = (case updateReturnsOnCall fake of None \<Rightarrow> Map.empty | Some m \<Rightarrow> m)
      in fake\<lparr>UpdateStub := None, updateReturnsOnCall := Some (m(i \<mapsto> result1))\<rparr>)"

text \<open>\<open>Invocations\<close>: a copy of the map, never nil.\<close>

definition Invocations :: "'o FakeStatusWriter \<Rightarrow> (string \<rightharpoonup> 'o invocation list)" where
  "Invocations fake = (case invocations fake of None \<Rightarrow> Map.empty | Some m \<Rightarrow> m)"

section \<open>The contract of a faked method\<close>

text \<open>A sequence of calls, with their results.\<close>

fun runCalls :: "('a \<Rightarrow> 's \<Rightarrow> 'r \<times> 's) \<Rightarrow> 'a list \<Rightarrow> 's \<Rightarrow> 'r list \<times> 's" where
  "runCalls invoke [] s = ([], s)"
| "runCalls invoke (a # as) s = (let (r, s1) = invoke a s; (rs, s2) = runCalls invoke as s1 in (r # rs, s2))"

text \<open>
  A faked method counts its calls, keeps their arguments, and answers a call by its number
  (\<open>planned\<close>), whatever other methods did in between: \<open>calls\<close> are the arguments so far.
\<close>

locale faked_method =
  fixes invoke :: "'a \<Rightarrow> 's \<Rightarrow> 'r \<times> 's"
    and count :: "'s \<Rightarrow> int"
    and args_for :: "int \<Rightarrow> 's \<Rightarrow> 'a go"
    and calls :: "'s \<Rightarrow> 'a list"
    and planned :: "'s \<Rightarrow> int \<Rightarrow> 'a \<Rightarrow> 'r"
  assumes count_calls: "count s = int (length (calls s))"
    and args_calls: "args_for i s = (if 0 \<le> i \<and> i < count s then Ret (calls s ! nat i) else Panic)"
    and invoke_calls: "calls (snd (invoke a s)) = calls s @ [a]"
    and invoke_planned: "planned (snd (invoke a s)) = planned s"
    and invoke_result: "fst (invoke a s) = planned s (count s) a"
begin

lemma run_calls: "calls (snd (runCalls invoke as s)) = calls s @ as \<and> planned (snd (runCalls invoke as s)) = planned s"
proof (induction as arbitrary: s)
  case (Cons a as)
  obtain r s1 where i: "invoke a s = (r, s1)" by fastforce
  have "calls s1 = calls s @ [a]" "planned s1 = planned s"
    using invoke_calls [of a s] invoke_planned [of a s] i by simp_all
  with Cons [of s1] i show ?case by (cases "runCalls invoke as s1") auto
qed simp

lemma run_results:
  "length (fst (runCalls invoke as s)) = length as \<and>
   (\<forall>i < length as. fst (runCalls invoke as s) ! i = planned s (count s + int i) (as ! i))"
proof (induction as arbitrary: s)
  case (Cons a as)
  obtain r s1 where i: "invoke a s = (r, s1)" by fastforce
  obtain rs s2 where rs: "runCalls invoke as s1 = (rs, s2)" by fastforce
  have "count s1 = count s + 1" "planned s1 = planned s" "r = planned s (count s) a"
    using invoke_calls [of a s] invoke_planned [of a s] invoke_result [of a s] i by (simp_all add: count_calls)
  with Cons [of s1] i rs show ?case
    by (auto simp: nth_Cons add.assoc split: nat.splits)
qed simp

lemma run_args:
  "args_for i (snd (runCalls invoke as s)) =
     (if 0 \<le> i \<and> i < count s + int (length as) then Ret ((calls s @ as) ! nat i) else Panic)"
  using run_calls [of as s] by (simp add: args_calls count_calls)

end

definition patchPlan :: "'o FakeStatusWriter \<Rightarrow> int \<Rightarrow> 'o patch_args \<Rightarrow> go_error option" where
  "patchPlan s i a = (case PatchStub s of Some stub \<Rightarrow> stub a
     | None \<Rightarrow> (case look (patchReturnsOnCall s) i of Some r \<Rightarrow> r | None \<Rightarrow> patchReturns s))"

definition updatePlan :: "'o FakeStatusWriter \<Rightarrow> int \<Rightarrow> 'o update_args \<Rightarrow> go_error option" where
  "updatePlan s i a = (case UpdateStub s of Some stub \<Rightarrow> stub a
     | None \<Rightarrow> (case look (updateReturnsOnCall s) i of Some r \<Rightarrow> r | None \<Rightarrow> updateReturns s))"

interpretation patch: faked_method FakePatch PatchCallCount PatchArgsForCall patchArgsForCall patchPlan
  by unfold_locales
     (auto simp: PatchCallCount_def PatchArgsForCall_def FakePatch_def recordInvocation_def patchPlan_def Let_def fun_eq_iff
        split: option.splits)

interpretation update: faked_method FakeUpdate UpdateCallCount UpdateArgsForCall updateArgsForCall updatePlan
  by unfold_locales
     (auto simp: UpdateCallCount_def UpdateArgsForCall_def FakeUpdate_def recordInvocation_def updatePlan_def Let_def fun_eq_iff
        split: option.splits)

text \<open>
  The double of the status client. After any sequence of updates it hands back the
  arguments of each by its number and panics for a number that was not called; each update
  was answered by the stub, else by what was planned for its number, else by the default.
\<close>

theorem fake_status_writer_replays:
  assumes "runCalls FakeUpdate as s = (rs, s')" "updateArgsForCall s = []"
  shows "UpdateCallCount s' = int (length as) \<and>
    UpdateArgsForCall i s' = (if 0 \<le> i \<and> i < int (length as) then Ret (as ! nat i) else Panic) \<and>
    rs = map (\<lambda>n. case UpdateStub s of Some stub \<Rightarrow> stub (as ! n)
      | None \<Rightarrow> (case look (updateReturnsOnCall s) (int n) of Some r \<Rightarrow> r | None \<Rightarrow> updateReturns s)) [0..<length as]"
proof -
  have 0: "UpdateCallCount s = 0" using assms(2) by (simp add: UpdateCallCount_def)
  have "length rs = length as" "\<forall>n < length as. rs ! n = updatePlan s (int n) (as ! n)"
    using update.run_results [of as s] unfolding 0 assms(1) by simp_all
  then have "rs = map (\<lambda>n. updatePlan s (int n) (as ! n)) [0..<length as]"
    by (intro nth_equalityI) simp_all
  moreover have "UpdateCallCount s' = int (length as)"
    using update.run_calls [of as s] unfolding assms by (simp add: UpdateCallCount_def)
  moreover have "UpdateArgsForCall i s' = (if 0 \<le> i \<and> i < int (length as) then Ret (as ! nat i) else Panic)"
    using update.run_args [of i as s] unfolding 0 assms by simp
  ultimately show ?thesis unfolding updatePlan_def by blast
qed

theorem fake_status_writer_replays_witness:
  "\<exists>s'. runCalls FakeUpdate [(''c'', 1 :: int, []), (''c'', 2, [])]
       (UpdateReturnsOnCall 1 (Some (Errorf ''conflict'')) newFakeStatusWriter) = ([None, Some (Errorf ''conflict'')], s') \<and>
     UpdateArgsForCall 1 s' = Ret (''c'', 2, []) \<and> UpdateArgsForCall 2 s' = Panic"
proof -
  let ?s = "UpdateReturnsOnCall 1 (Some (Errorf ''conflict'')) newFakeStatusWriter :: int FakeStatusWriter"
  let ?as = "[(''c'', 1 :: int, []), (''c'', 2, [])]"
  obtain rs s' where run: "runCalls FakeUpdate ?as ?s = (rs, s')" by fastforce
  have fresh: "updateArgsForCall ?s = []"
    by (simp add: UpdateReturnsOnCall_def newFakeStatusWriter_def)
  from fake_status_writer_replays [OF run fresh, of 1] fake_status_writer_replays [OF run fresh, of 2] run
  show ?thesis
    by (simp add: UpdateReturnsOnCall_def newFakeStatusWriter_def look_def)
qed

end
