(* ===== verification/Doubles.thy ===== *)
theory Doubles
  imports Fakes
begin

text \<open>
  The doubles counterfeiter generates for an interface have one pattern per method: a stub, the
  arguments of the calls so far, a default result and results planned for single calls, with
  six functions over them. The pattern is defined once, over a field of the double given by its
  selector and its update, and the contract \<open>faked_method\<close> is proved once for it; \<open>FakeClient\<close>
  and \<open>FakeManager\<close> instantiate it. The mutexes guard single fields and are left out;
  a stub is a function of its arguments, so what a stub does besides answering is not seen.
\<close>

section \<open>The pattern\<close>

record ('a, 'r) faked =
  fk_Stub :: "('a \<Rightarrow> 'r) option"
  fk_ArgsForCall :: "'a list"
  fk_Returns :: 'r
  fk_ReturnsOnCall :: "(int \<rightharpoonup> 'r) option"

text \<open>
  The method itself and the functions \<open>CallCount\<close>, \<open>Calls\<close>, \<open>ArgsForCall\<close>, \<open>Returns\<close> and
  \<open>ReturnsOnCall\<close> that go with it. (A method without arguments has no \<open>ArgsForCall\<close>.)
\<close>

record ('a, 'r, 's) fake_ops =
  fo_invoke :: "'a \<Rightarrow> 's \<Rightarrow> 'r \<times> 's"
  fo_CallCount :: "'s \<Rightarrow> int"
  fo_Calls :: "('a \<Rightarrow> 'r) option \<Rightarrow> 's \<Rightarrow> 's"
  fo_ArgsForCall :: "int \<Rightarrow> 's \<Rightarrow> 'a go"
  fo_Returns :: "'r \<Rightarrow> 's \<Rightarrow> 's"
  fo_ReturnsOnCall :: "int \<Rightarrow> 'r \<Rightarrow> 's \<Rightarrow> 's"

definition fakePlan :: "('s \<Rightarrow> ('a, 'r) faked) \<Rightarrow> 's \<Rightarrow> int \<Rightarrow> 'a \<Rightarrow> 'r" where
  "fakePlan get s i args =
     (case fk_Stub (get s) of
        Some stub \<Rightarrow> stub args
      | None \<Rightarrow> (case look (fk_ReturnsOnCall (get s)) i of Some r \<Rightarrow> r | None \<Rightarrow> fk_Returns (get s)))"

definition fakeInvoke ::
  "('s \<Rightarrow> ('a, 'r) faked) \<Rightarrow> ((('a, 'r) faked \<Rightarrow> ('a, 'r) faked) \<Rightarrow> 's \<Rightarrow> 's) \<Rightarrow> ('a \<Rightarrow> 's \<Rightarrow> 's) \<Rightarrow> 'a \<Rightarrow> 's \<Rightarrow> 'r \<times> 's" where
  "fakeInvoke get upd rec args fake =
     (let ret = look (fk_ReturnsOnCall (get fake)) (int (length (fk_ArgsForCall (get fake))));
          fake1 = upd (\<lambda>m. m\<lparr>fk_ArgsForCall := fk_ArgsForCall m @ [args]\<rparr>) fake;
          fake2 = rec args fake1
      in (case fk_Stub (get fake2) of
            Some stub \<Rightarrow> stub args
          | None \<Rightarrow> (case ret of Some result1 \<Rightarrow> result1 | None \<Rightarrow> fk_Returns (get fake2)), fake2))"

definition fakeOps ::
  "('s \<Rightarrow> ('a, 'r) faked) \<Rightarrow> ((('a, 'r) faked \<Rightarrow> ('a, 'r) faked) \<Rightarrow> 's \<Rightarrow> 's) \<Rightarrow> ('a \<Rightarrow> 's \<Rightarrow> 's) \<Rightarrow> ('a, 'r, 's) fake_ops" where
  "fakeOps get upd rec = \<lparr>
     fo_invoke = fakeInvoke get upd rec,
     fo_CallCount = (\<lambda>fake. int (length (fk_ArgsForCall (get fake)))),
     fo_Calls = (\<lambda>stub. upd (\<lambda>m. m\<lparr>fk_Stub := stub\<rparr>)),
     fo_ArgsForCall = (\<lambda>i fake.
        if 0 \<le> i \<and> i < int (length (fk_ArgsForCall (get fake))) then Ret (fk_ArgsForCall (get fake) ! nat i) else Panic),
     fo_Returns = (\<lambda>result1. upd (\<lambda>m. m\<lparr>fk_Stub := None, fk_Returns := result1\<rparr>)),
     fo_ReturnsOnCall = (\<lambda>i result1. upd (\<lambda>m. m\<lparr>fk_Stub := None, fk_ReturnsOnCall :=
        Some ((case fk_ReturnsOnCall m of None \<Rightarrow> Map.empty | Some f \<Rightarrow> f)(i \<mapsto> result1))\<rparr>))\<rparr>"

definition newFaked :: "'r \<Rightarrow> ('a, 'r) faked" where
  "newFaked zero = \<lparr>fk_Stub = None, fk_ArgsForCall = [], fk_Returns = zero, fk_ReturnsOnCall = None\<rparr>"

text \<open>The arguments of a recorded call, \<open>[]interface{}\<close>.\<close>

datatype 'o arg = StringArg string | ObjectArg 'o | KeyArg nsname | ListArg "string list"

type_synonym 'o record_map = "(string \<rightharpoonup> 'o arg list list) option"

definition appendInvocation :: "string \<Rightarrow> 'o arg list \<Rightarrow> 'o record_map \<Rightarrow> 'o record_map" where
  "appendInvocation key args invs =
     (let m = (case invs of None \<Rightarrow> Map.empty | Some m \<Rightarrow> m);
          old = (case m key of None \<Rightarrow> [] | Some xs \<Rightarrow> xs)
      in Some (m(key \<mapsto> old @ [args])))"

text \<open>What \<open>ArgsForCall\<close> answers after the calls \<open>as\<close>.\<close>

definition replayed :: "'a list \<Rightarrow> int \<Rightarrow> 'a go" where
  "replayed as i = (if 0 \<le> i \<and> i < int (length as) then Ret (as ! nat i) else Panic)"

text \<open>
  \<open>replays ops get as s s'\<close>: in \<open>s'\<close> the method hands back the arguments it had been called with
  in \<open>s\<close> and then \<open>as\<close>, by number, and answers its next call as \<open>s\<close> had planned it.
\<close>

definition replays ::
  "('a, 'r, 's) fake_ops \<Rightarrow> ('s \<Rightarrow> ('a, 'r) faked) \<Rightarrow> 'a list \<Rightarrow> 's \<Rightarrow> 's \<Rightarrow> bool" where
  "replays ops get as s s' \<longleftrightarrow>
     (let calls = fk_ArgsForCall (get s) @ as in
      fo_CallCount ops s' = int (length calls) \<and>
      (\<forall>i. fo_ArgsForCall ops i s' = replayed calls i) \<and>
      (\<forall>x. fst (fo_invoke ops x s') = fakePlan get s (int (length calls)) x))"

section \<open>The contract\<close>

text \<open>
  A field of the double with its selector and update; recording a call leaves it alone. Every
  such field is a faked method.
\<close>

locale faked_field =
  fixes get :: "'s \<Rightarrow> ('a, 'r) faked"
    and upd :: "(('a, 'r) faked \<Rightarrow> ('a, 'r) faked) \<Rightarrow> 's \<Rightarrow> 's"
    and rec :: "'a \<Rightarrow> 's \<Rightarrow> 's"
  assumes get_upd: "get (upd f s) = f (get s)"
    and get_rec: "get (rec a s) = get s"
begin

lemma invoke_get: "get (snd (fakeInvoke get upd rec a s)) =
    (get s)\<lparr>fk_ArgsForCall := fk_ArgsForCall (get s) @ [a]\<rparr>"
  by (simp add: fakeInvoke_def Let_def get_upd get_rec)


lemma planned_returns:
  "fakePlan get (fo_Returns (fakeOps get upd rec) r s) i a =
     (case look (fk_ReturnsOnCall (get s)) i of Some r' \<Rightarrow> r' | None \<Rightarrow> r)"
  by (simp add: fakePlan_def fakeOps_def get_upd split: option.splits)

lemma planned_on_call:
  "fakePlan get (fo_ReturnsOnCall (fakeOps get upd rec) i r s) i a = r"
  by (simp add: fakePlan_def fakeOps_def get_upd look_def)

lemma planned_stub: "fakePlan get (fo_Calls (fakeOps get upd rec) (Some stub) s) i a = stub a"
  by (simp add: fakePlan_def fakeOps_def get_upd)

end

sublocale faked_field \<subseteq>
  faked_method "fo_invoke (fakeOps get upd rec)" "fo_CallCount (fakeOps get upd rec)"
    "fo_ArgsForCall (fakeOps get upd rec)" "\<lambda>s. fk_ArgsForCall (get s)" "fakePlan get"
proof unfold_locales
  show "fakePlan get (snd (fo_invoke (fakeOps get upd rec) a s)) = fakePlan get s" for a s
    by (auto simp: fakeOps_def fakePlan_def invoke_get fun_eq_iff split: option.splits)
  show "fst (fo_invoke (fakeOps get upd rec) a s) = fakePlan get s (fo_CallCount (fakeOps get upd rec) s) a" for a s
    by (simp add: fakeOps_def fakePlan_def fakeInvoke_def Let_def get_upd get_rec split: option.splits)
qed (auto simp: fakeOps_def invoke_get)

context faked_field
begin

lemma replaysI:
  assumes "fk_ArgsForCall (get s') = fk_ArgsForCall (get s) @ as" "fakePlan get s' = fakePlan get s"
  shows "replays (fakeOps get upd rec) get as s s'"
  using assms invoke_result [of _ s']
  by (simp add: replays_def Let_def count_calls args_calls replayed_def)

end

end
