(* ===== verification/Fake_Client.thy ===== *)
theory Fake_Client
  imports Doubles
begin

text \<open>The double of the Kubernetes client (\<open>fakes/client.go\<close>). Contexts, options, patches and the
  handles a client hands out are strings, objects of any type \<open>'o\<close>.\<close>

section \<open>The double\<close>

record 'o FakeClient =
  fcCreate :: "(string \<times> 'o \<times> string list, go_error option) faked"
  fcDelete :: "(string \<times> 'o \<times> string list, go_error option) faked"
  fcDeleteAllOf :: "(string \<times> 'o \<times> string list, go_error option) faked"
  fcGet :: "(string \<times> nsname \<times> 'o, go_error option) faked"
  fcList :: "(string \<times> 'o \<times> string list, go_error option) faked"
  fcPatch :: "(string \<times> 'o \<times> string \<times> string list, go_error option) faked"
  fcRESTMapper :: "(unit, string) faked"
  fcScheme :: "(unit, string) faked"
  fcStatus :: "(unit, string) faked"
  fcUpdate :: "(string \<times> 'o \<times> string list, go_error option) faked"
  fcInvocations :: "'o record_map"

definition recordFakeClient :: "string \<Rightarrow> 'o arg list \<Rightarrow> 'o FakeClient \<Rightarrow> 'o FakeClient" where
  "recordFakeClient key args fake = fake\<lparr>fcInvocations := appendInvocation key args (fcInvocations fake)\<rparr>"

text \<open>A copy of the recorded calls, never nil.\<close>

definition FakeClient_Invocations :: "'o FakeClient \<Rightarrow> string \<rightharpoonup> 'o arg list list" where
  "FakeClient_Invocations fake = (case fcInvocations fake of None \<Rightarrow> Map.empty | Some m \<Rightarrow> m)"

section \<open>The methods\<close>

definition FakeClient_Create :: "(string \<times> 'o \<times> string list, go_error option, 'o FakeClient) fake_ops" where
  "FakeClient_Create = fakeOps fcCreate fcCreate_update
     (\<lambda>(a, b, c). recordFakeClient ''Create'' [StringArg a, ObjectArg b, ListArg c])"

definition FakeClient_Delete :: "(string \<times> 'o \<times> string list, go_error option, 'o FakeClient) fake_ops" where
  "FakeClient_Delete = fakeOps fcDelete fcDelete_update
     (\<lambda>(a, b, c). recordFakeClient ''Delete'' [StringArg a, ObjectArg b, ListArg c])"

definition FakeClient_DeleteAllOf :: "(string \<times> 'o \<times> string list, go_error option, 'o FakeClient) fake_ops" where
  "FakeClient_DeleteAllOf = fakeOps fcDeleteAllOf fcDeleteAllOf_update
     (\<lambda>(a, b, c). recordFakeClient ''DeleteAllOf'' [StringArg a, ObjectArg b, ListArg c])"

definition FakeClient_Get :: "(string \<times> nsname \<times> 'o, go_error option, 'o FakeClient) fake_ops" where
  "FakeClient_Get = fakeOps fcGet fcGet_update
     (\<lambda>(a, b, c). recordFakeClient ''Get'' [StringArg a, KeyArg b, ObjectArg c])"

definition FakeClient_List :: "(string \<times> 'o \<times> string list, go_error option, 'o FakeClient) fake_ops" where
  "FakeClient_List = fakeOps fcList fcList_update
     (\<lambda>(a, b, c). recordFakeClient ''List'' [StringArg a, ObjectArg b, ListArg c])"

definition FakeClient_Patch :: "(string \<times> 'o \<times> string \<times> string list, go_error option, 'o FakeClient) fake_ops" where
  "FakeClient_Patch = fakeOps fcPatch fcPatch_update
     (\<lambda>(a, b, c, d). recordFakeClient ''Patch'' [StringArg a, ObjectArg b, StringArg c, ListArg d])"

definition FakeClient_RESTMapper :: "(unit, string, 'o FakeClient) fake_ops" where
  "FakeClient_RESTMapper = fakeOps fcRESTMapper fcRESTMapper_update
     (\<lambda>_. recordFakeClient ''RESTMapper'' [])"

definition FakeClient_Scheme :: "(unit, string, 'o FakeClient) fake_ops" where
  "FakeClient_Scheme = fakeOps fcScheme fcScheme_update
     (\<lambda>_. recordFakeClient ''Scheme'' [])"

definition FakeClient_Status :: "(unit, string, 'o FakeClient) fake_ops" where
  "FakeClient_Status = fakeOps fcStatus fcStatus_update
     (\<lambda>_. recordFakeClient ''Status'' [])"

definition FakeClient_Update :: "(string \<times> 'o \<times> string list, go_error option, 'o FakeClient) fake_ops" where
  "FakeClient_Update = fakeOps fcUpdate fcUpdate_update
     (\<lambda>(a, b, c). recordFakeClient ''Update'' [StringArg a, ObjectArg b, ListArg c])"

section \<open>The contract of the methods\<close>

text \<open>Every method is a faked method over its own field.\<close>

interpretation client_Create: faked_field fcCreate fcCreate_update
  "\<lambda>(a, b, c). recordFakeClient ''Create'' [StringArg a, ObjectArg b, ListArg c]"
  by unfold_locales (auto simp: recordFakeClient_def split: prod.splits)

interpretation client_Delete: faked_field fcDelete fcDelete_update
  "\<lambda>(a, b, c). recordFakeClient ''Delete'' [StringArg a, ObjectArg b, ListArg c]"
  by unfold_locales (auto simp: recordFakeClient_def split: prod.splits)

interpretation client_DeleteAllOf: faked_field fcDeleteAllOf fcDeleteAllOf_update
  "\<lambda>(a, b, c). recordFakeClient ''DeleteAllOf'' [StringArg a, ObjectArg b, ListArg c]"
  by unfold_locales (auto simp: recordFakeClient_def split: prod.splits)

interpretation client_Get: faked_field fcGet fcGet_update
  "\<lambda>(a, b, c). recordFakeClient ''Get'' [StringArg a, KeyArg b, ObjectArg c]"
  by unfold_locales (auto simp: recordFakeClient_def split: prod.splits)

interpretation client_List: faked_field fcList fcList_update
  "\<lambda>(a, b, c). recordFakeClient ''List'' [StringArg a, ObjectArg b, ListArg c]"
  by unfold_locales (auto simp: recordFakeClient_def split: prod.splits)

interpretation client_Patch: faked_field fcPatch fcPatch_update
  "\<lambda>(a, b, c, d). recordFakeClient ''Patch'' [StringArg a, ObjectArg b, StringArg c, ListArg d]"
  by unfold_locales (auto simp: recordFakeClient_def split: prod.splits)

interpretation client_RESTMapper: faked_field fcRESTMapper fcRESTMapper_update
  "\<lambda>_. recordFakeClient ''RESTMapper'' []"
  by unfold_locales (auto simp: recordFakeClient_def split: prod.splits)

interpretation client_Scheme: faked_field fcScheme fcScheme_update
  "\<lambda>_. recordFakeClient ''Scheme'' []"
  by unfold_locales (auto simp: recordFakeClient_def split: prod.splits)

interpretation client_Status: faked_field fcStatus fcStatus_update
  "\<lambda>_. recordFakeClient ''Status'' []"
  by unfold_locales (auto simp: recordFakeClient_def split: prod.splits)

interpretation client_Update: faked_field fcUpdate fcUpdate_update
  "\<lambda>(a, b, c). recordFakeClient ''Update'' [StringArg a, ObjectArg b, ListArg c]"
  by unfold_locales (auto simp: recordFakeClient_def split: prod.splits)

section \<open>Interleaved calls\<close>

datatype 'o client_call =
  CallClientCreate "string \<times> 'o \<times> string list"
| CallClientDelete "string \<times> 'o \<times> string list"
| CallClientDeleteAllOf "string \<times> 'o \<times> string list"
| CallClientGet "string \<times> nsname \<times> 'o"
| CallClientList "string \<times> 'o \<times> string list"
| CallClientPatch "string \<times> 'o \<times> string \<times> string list"
| CallClientRESTMapper
| CallClientScheme
| CallClientStatus
| CallClientUpdate "string \<times> 'o \<times> string list"

text \<open>One call of any method, for its effect; and a sequence of them.\<close>

fun client_perform :: "'o client_call \<Rightarrow> 'o FakeClient \<Rightarrow> 'o FakeClient" where
  "client_perform (CallClientCreate a) fake = snd (fo_invoke FakeClient_Create a fake)"
| "client_perform (CallClientDelete a) fake = snd (fo_invoke FakeClient_Delete a fake)"
| "client_perform (CallClientDeleteAllOf a) fake = snd (fo_invoke FakeClient_DeleteAllOf a fake)"
| "client_perform (CallClientGet a) fake = snd (fo_invoke FakeClient_Get a fake)"
| "client_perform (CallClientList a) fake = snd (fo_invoke FakeClient_List a fake)"
| "client_perform (CallClientPatch a) fake = snd (fo_invoke FakeClient_Patch a fake)"
| "client_perform CallClientRESTMapper fake = snd (fo_invoke FakeClient_RESTMapper () fake)"
| "client_perform CallClientScheme fake = snd (fo_invoke FakeClient_Scheme () fake)"
| "client_perform CallClientStatus fake = snd (fo_invoke FakeClient_Status () fake)"
| "client_perform (CallClientUpdate a) fake = snd (fo_invoke FakeClient_Update a fake)"

definition client_run :: "'o client_call list \<Rightarrow> 'o FakeClient \<Rightarrow> 'o FakeClient" where
  "client_run = fold client_perform"

text \<open>The name of the method a call is of.\<close>

fun client_key :: "'o client_call \<Rightarrow> string" where
  "client_key (CallClientCreate a) = ''Create''"
| "client_key (CallClientDelete a) = ''Delete''"
| "client_key (CallClientDeleteAllOf a) = ''DeleteAllOf''"
| "client_key (CallClientGet a) = ''Get''"
| "client_key (CallClientList a) = ''List''"
| "client_key (CallClientPatch a) = ''Patch''"
| "client_key CallClientRESTMapper = ''RESTMapper''"
| "client_key CallClientScheme = ''Scheme''"
| "client_key CallClientStatus = ''Status''"
| "client_key (CallClientUpdate a) = ''Update''"

lemma client_step:
  "fk_ArgsForCall (fcCreate (client_perform c s)) = fk_ArgsForCall (fcCreate s) @ (case c of CallClientCreate a \<Rightarrow> [a] | _ \<Rightarrow> [])"
  "fk_ArgsForCall (fcDelete (client_perform c s)) = fk_ArgsForCall (fcDelete s) @ (case c of CallClientDelete a \<Rightarrow> [a] | _ \<Rightarrow> [])"
  "fk_ArgsForCall (fcDeleteAllOf (client_perform c s)) = fk_ArgsForCall (fcDeleteAllOf s) @ (case c of CallClientDeleteAllOf a \<Rightarrow> [a] | _ \<Rightarrow> [])"
  "fk_ArgsForCall (fcGet (client_perform c s)) = fk_ArgsForCall (fcGet s) @ (case c of CallClientGet a \<Rightarrow> [a] | _ \<Rightarrow> [])"
  "fk_ArgsForCall (fcList (client_perform c s)) = fk_ArgsForCall (fcList s) @ (case c of CallClientList a \<Rightarrow> [a] | _ \<Rightarrow> [])"
  "fk_ArgsForCall (fcPatch (client_perform c s)) = fk_ArgsForCall (fcPatch s) @ (case c of CallClientPatch a \<Rightarrow> [a] | _ \<Rightarrow> [])"
  "fk_ArgsForCall (fcRESTMapper (client_perform c s)) = fk_ArgsForCall (fcRESTMapper s) @ (case c of CallClientRESTMapper \<Rightarrow> [()] | _ \<Rightarrow> [])"
  "fk_ArgsForCall (fcScheme (client_perform c s)) = fk_ArgsForCall (fcScheme s) @ (case c of CallClientScheme \<Rightarrow> [()] | _ \<Rightarrow> [])"
  "fk_ArgsForCall (fcStatus (client_perform c s)) = fk_ArgsForCall (fcStatus s) @ (case c of CallClientStatus \<Rightarrow> [()] | _ \<Rightarrow> [])"
  "fk_ArgsForCall (fcUpdate (client_perform c s)) = fk_ArgsForCall (fcUpdate s) @ (case c of CallClientUpdate a \<Rightarrow> [a] | _ \<Rightarrow> [])"
  "length (case FakeClient_Invocations (client_perform c s) k of None \<Rightarrow> [] | Some xs \<Rightarrow> xs) =
     length (case FakeClient_Invocations s k of None \<Rightarrow> [] | Some xs \<Rightarrow> xs) + (if client_key c = k then 1 else 0)"
  by (cases c; auto simp: fakeOps_def fakeInvoke_def Let_def recordFakeClient_def appendInvocation_def
      FakeClient_Invocations_def FakeClient_Create_def FakeClient_Delete_def FakeClient_DeleteAllOf_def
      FakeClient_Get_def FakeClient_List_def FakeClient_Patch_def
      FakeClient_RESTMapper_def FakeClient_Scheme_def FakeClient_Status_def
      FakeClient_Update_def split: option.splits)+

lemma client_plan:
  "fakePlan fcCreate (client_perform c s) = fakePlan fcCreate s"
  "fakePlan fcDelete (client_perform c s) = fakePlan fcDelete s"
  "fakePlan fcDeleteAllOf (client_perform c s) = fakePlan fcDeleteAllOf s"
  "fakePlan fcGet (client_perform c s) = fakePlan fcGet s"
  "fakePlan fcList (client_perform c s) = fakePlan fcList s"
  "fakePlan fcPatch (client_perform c s) = fakePlan fcPatch s"
  "fakePlan fcRESTMapper (client_perform c s) = fakePlan fcRESTMapper s"
  "fakePlan fcScheme (client_perform c s) = fakePlan fcScheme s"
  "fakePlan fcStatus (client_perform c s) = fakePlan fcStatus s"
  "fakePlan fcUpdate (client_perform c s) = fakePlan fcUpdate s"
  by (cases c; simp add: fakePlan_def fakeOps_def fakeInvoke_def Let_def recordFakeClient_def fun_eq_iff
      FakeClient_Create_def FakeClient_Delete_def FakeClient_DeleteAllOf_def
      FakeClient_Get_def FakeClient_List_def FakeClient_Patch_def
      FakeClient_RESTMapper_def FakeClient_Scheme_def FakeClient_Status_def
      FakeClient_Update_def split: option.splits prod.splits)+

lemma client_run_Cons [simp]: "client_run [] s = s" "client_run (c # cs) s = client_run cs (client_perform c s)"
  by (simp_all add: client_run_def)

lemma client_run_calls:
  "fk_ArgsForCall (fcCreate (client_run cs s)) = fk_ArgsForCall (fcCreate s) @ [a. CallClientCreate a \<leftarrow> cs]"
  "fakePlan fcCreate (client_run cs s) = fakePlan fcCreate s"
  "fk_ArgsForCall (fcDelete (client_run cs s)) = fk_ArgsForCall (fcDelete s) @ [a. CallClientDelete a \<leftarrow> cs]"
  "fakePlan fcDelete (client_run cs s) = fakePlan fcDelete s"
  "fk_ArgsForCall (fcDeleteAllOf (client_run cs s)) = fk_ArgsForCall (fcDeleteAllOf s) @ [a. CallClientDeleteAllOf a \<leftarrow> cs]"
  "fakePlan fcDeleteAllOf (client_run cs s) = fakePlan fcDeleteAllOf s"
  "fk_ArgsForCall (fcGet (client_run cs s)) = fk_ArgsForCall (fcGet s) @ [a. CallClientGet a \<leftarrow> cs]"
  "fakePlan fcGet (client_run cs s) = fakePlan fcGet s"
  "fk_ArgsForCall (fcList (client_run cs s)) = fk_ArgsForCall (fcList s) @ [a. CallClientList a \<leftarrow> cs]"
  "fakePlan fcList (client_run cs s) = fakePlan fcList s"
  "fk_ArgsForCall (fcPatch (client_run cs s)) = fk_ArgsForCall (fcPatch s) @ [a. CallClientPatch a \<leftarrow> cs]"
  "fakePlan fcPatch (client_run cs s) = fakePlan fcPatch s"
  "fk_ArgsForCall (fcRESTMapper (client_run cs s)) = fk_ArgsForCall (fcRESTMapper s) @ [(). CallClientRESTMapper \<leftarrow> cs]"
  "fakePlan fcRESTMapper (client_run cs s) = fakePlan fcRESTMapper s"
  "fk_ArgsForCall (fcScheme (client_run cs s)) = fk_ArgsForCall (fcScheme s) @ [(). CallClientScheme \<leftarrow> cs]"
  "fakePlan fcScheme (client_run cs s) = fakePlan fcScheme s"
  "fk_ArgsForCall (fcStatus (client_run cs s)) = fk_ArgsForCall (fcStatus s) @ [(). CallClientStatus \<leftarrow> cs]"
  "fakePlan fcStatus (client_run cs s) = fakePlan fcStatus s"
  "fk_ArgsForCall (fcUpdate (client_run cs s)) = fk_ArgsForCall (fcUpdate s) @ [a. CallClientUpdate a \<leftarrow> cs]"
  "fakePlan fcUpdate (client_run cs s) = fakePlan fcUpdate s"
  by (induction cs arbitrary: s; simp add: client_step client_plan split: client_call.splits)+

text \<open>The calls recorded under a name are as many as the calls of that method.\<close>

lemma client_run_count:
  "length (case FakeClient_Invocations (client_run cs s) k of None \<Rightarrow> [] | Some xs \<Rightarrow> xs) =
   length (case FakeClient_Invocations s k of None \<Rightarrow> [] | Some xs \<Rightarrow> xs) + count_list (map client_key cs) k"
  by (induction cs arbitrary: s) (simp_all add: client_step(11))

section \<open>Property\<close>

text \<open>
  The double of the client. After any sequence of calls of its methods, in any order, every
  method hands back the arguments of its own calls by their number, panics for a number it was
  not called with, and answers its next call as planned for that number before, whatever the
  other methods did; and each call is recorded once under the name of its method.
\<close>

theorem client_double_replays:
  "replays FakeClient_Create fcCreate [a. CallClientCreate a \<leftarrow> cs] s (client_run cs s) \<and>
   replays FakeClient_Delete fcDelete [a. CallClientDelete a \<leftarrow> cs] s (client_run cs s) \<and>
   replays FakeClient_DeleteAllOf fcDeleteAllOf [a. CallClientDeleteAllOf a \<leftarrow> cs] s (client_run cs s) \<and>
   replays FakeClient_Get fcGet [a. CallClientGet a \<leftarrow> cs] s (client_run cs s) \<and>
   replays FakeClient_List fcList [a. CallClientList a \<leftarrow> cs] s (client_run cs s) \<and>
   replays FakeClient_Patch fcPatch [a. CallClientPatch a \<leftarrow> cs] s (client_run cs s) \<and>
   replays FakeClient_RESTMapper fcRESTMapper [(). CallClientRESTMapper \<leftarrow> cs] s (client_run cs s) \<and>
   replays FakeClient_Scheme fcScheme [(). CallClientScheme \<leftarrow> cs] s (client_run cs s) \<and>
   replays FakeClient_Status fcStatus [(). CallClientStatus \<leftarrow> cs] s (client_run cs s) \<and>
   replays FakeClient_Update fcUpdate [a. CallClientUpdate a \<leftarrow> cs] s (client_run cs s) \<and>
   length (case FakeClient_Invocations (client_run cs s) k of None \<Rightarrow> [] | Some xs \<Rightarrow> xs) =
     length (case FakeClient_Invocations s k of None \<Rightarrow> [] | Some xs \<Rightarrow> xs) + count_list (map client_key cs) k"
  unfolding FakeClient_Create_def FakeClient_Delete_def FakeClient_DeleteAllOf_def
    FakeClient_Get_def FakeClient_List_def FakeClient_Patch_def
    FakeClient_RESTMapper_def FakeClient_Scheme_def FakeClient_Status_def
    FakeClient_Update_def
  by (intro conjI client_run_count
      client_Create.replaysI client_Delete.replaysI client_DeleteAllOf.replaysI
      client_Get.replaysI client_List.replaysI client_Patch.replaysI
      client_RESTMapper.replaysI client_Scheme.replaysI client_Status.replaysI
      client_Update.replaysI;
      simp add: client_run_calls)

end
