(* ===== verification/Fake_Manager.thy ===== *)
theory Fake_Manager
  imports Doubles
begin

text \<open>The double of the manager (\<open>fakes/manager.go\<close>). Contexts and the handles a manager hands out are
  strings; runnables, checks and handlers are of any type \<open>'o\<close>.\<close>

section \<open>The double\<close>

record 'o FakeManager =
  fmAdd :: "('o, go_error option) faked"
  fmAddHealthzCheck :: "(string \<times> 'o, go_error option) faked"
  fmAddMetricsExtraHandler :: "(string \<times> 'o, go_error option) faked"
  fmAddReadyzCheck :: "(string \<times> 'o, go_error option) faked"
  fmElected :: "(unit, string) faked"
  fmGetAPIReader :: "(unit, string) faked"
  fmGetCache :: "(unit, string) faked"
  fmGetClient :: "(unit, string) faked"
  fmGetConfig :: "(unit, string) faked"
  fmGetEventRecorderFor :: "(string, string) faked"
  fmGetFieldIndexer :: "(unit, string) faked"
  fmGetLogger :: "(unit, string) faked"
  fmGetRESTMapper :: "(unit, string) faked"
  fmGetScheme :: "(unit, string) faked"
  fmGetWebhookServer :: "(unit, string) faked"
  fmSetFields :: "('o, go_error option) faked"
  fmStart :: "(string, go_error option) faked"
  fmInvocations :: "'o record_map"

definition recordFakeManager :: "string \<Rightarrow> 'o arg list \<Rightarrow> 'o FakeManager \<Rightarrow> 'o FakeManager" where
  "recordFakeManager key args fake = fake\<lparr>fmInvocations := appendInvocation key args (fmInvocations fake)\<rparr>"

text \<open>A copy of the recorded calls, never nil.\<close>

definition FakeManager_Invocations :: "'o FakeManager \<Rightarrow> string \<rightharpoonup> 'o arg list list" where
  "FakeManager_Invocations fake = (case fmInvocations fake of None \<Rightarrow> Map.empty | Some m \<Rightarrow> m)"

section \<open>The methods\<close>

definition FakeManager_Add :: "('o, go_error option, 'o FakeManager) fake_ops" where
  "FakeManager_Add = fakeOps fmAdd fmAdd_update
     (\<lambda>a. recordFakeManager ''Add'' [ObjectArg a])"

definition FakeManager_AddHealthzCheck :: "(string \<times> 'o, go_error option, 'o FakeManager) fake_ops" where
  "FakeManager_AddHealthzCheck = fakeOps fmAddHealthzCheck fmAddHealthzCheck_update
     (\<lambda>(a, b). recordFakeManager ''AddHealthzCheck'' [StringArg a, ObjectArg b])"

definition FakeManager_AddMetricsExtraHandler :: "(string \<times> 'o, go_error option, 'o FakeManager) fake_ops" where
  "FakeManager_AddMetricsExtraHandler = fakeOps fmAddMetricsExtraHandler fmAddMetricsExtraHandler_update
     (\<lambda>(a, b). recordFakeManager ''AddMetricsExtraHandler'' [StringArg a, ObjectArg b])"

definition FakeManager_AddReadyzCheck :: "(string \<times> 'o, go_error option, 'o FakeManager) fake_ops" where
  "FakeManager_AddReadyzCheck = fakeOps fmAddReadyzCheck fmAddReadyzCheck_update
     (\<lambda>(a, b). recordFakeManager ''AddReadyzCheck'' [StringArg a, ObjectArg b])"

definition FakeManager_Elected :: "(unit, string, 'o FakeManager) fake_ops" where
  "FakeManager_Elected = fakeOps fmElected fmElected_update
     (\<lambda>_. recordFakeManager ''Elected'' [])"

definition FakeManager_GetAPIReader :: "(unit, string, 'o FakeManager) fake_ops" where
  "FakeManager_GetAPIReader = fakeOps fmGetAPIReader fmGetAPIReader_update
     (\<lambda>_. recordFakeManager ''GetAPIReader'' [])"

definition FakeManager_GetCache :: "(unit, string, 'o FakeManager) fake_ops" where
  "FakeManager_GetCache = fakeOps fmGetCache fmGetCache_update
     (\<lambda>_. recordFakeManager ''GetCache'' [])"

definition FakeManager_GetClient :: "(unit, string, 'o FakeManager) fake_ops" where
  "FakeManager_GetClient = fakeOps fmGetClient fmGetClient_update
     (\<lambda>_. recordFakeManager ''GetClient'' [])"

definition FakeManager_GetConfig :: "(unit, string, 'o FakeManager) fake_ops" where
  "FakeManager_GetConfig = fakeOps fmGetConfig fmGetConfig_update
     (\<lambda>_. recordFakeManager ''GetConfig'' [])"

definition FakeManager_GetEventRecorderFor :: "(string, string, 'o FakeManager) fake_ops" where
  "FakeManager_GetEventRecorderFor = fakeOps fmGetEventRecorderFor fmGetEventRecorderFor_update
     (\<lambda>a. recordFakeManager ''GetEventRecorderFor'' [StringArg a])"

definition FakeManager_GetFieldIndexer :: "(unit, string, 'o FakeManager) fake_ops" where
  "FakeManager_GetFieldIndexer = fakeOps fmGetFieldIndexer fmGetFieldIndexer_update
     (\<lambda>_. recordFakeManager ''GetFieldIndexer'' [])"

definition FakeManager_GetLogger :: "(unit, string, 'o FakeManager) fake_ops" where
  "FakeManager_GetLogger = fakeOps fmGetLogger fmGetLogger_update
     (\<lambda>_. recordFakeManager ''GetLogger'' [])"

definition FakeManager_GetRESTMapper :: "(unit, string, 'o FakeManager) fake_ops" where
  "FakeManager_GetRESTMapper = fakeOps fmGetRESTMapper fmGetRESTMapper_update
     (\<lambda>_. recordFakeManager ''GetRESTMapper'' [])"

definition FakeManager_GetScheme :: "(unit, string, 'o FakeManager) fake_ops" where
  "FakeManager_GetScheme = fakeOps fmGetScheme fmGetScheme_update
     (\<lambda>_. recordFakeManager ''GetScheme'' [])"

definition FakeManager_GetWebhookServer :: "(unit, string, 'o FakeManager) fake_ops" where
  "FakeManager_GetWebhookServer = fakeOps fmGetWebhookServer fmGetWebhookServer_update
     (\<lambda>_. recordFakeManager ''GetWebhookServer'' [])"

definition FakeManager_SetFields :: "('o, go_error option, 'o FakeManager) fake_ops" where
  "FakeManager_SetFields = fakeOps fmSetFields fmSetFields_update
     (\<lambda>a. recordFakeManager ''SetFields'' [ObjectArg a])"

definition FakeManager_Start :: "(string, go_error option, 'o FakeManager) fake_ops" where
  "FakeManager_Start = fakeOps fmStart fmStart_update
     (\<lambda>a. recordFakeManager ''Start'' [StringArg a])"

section \<open>The contract of the methods\<close>

text \<open>Every method is a faked method over its own field.\<close>

interpretation manager_Add: faked_field fmAdd fmAdd_update
  "\<lambda>a. recordFakeManager ''Add'' [ObjectArg a]"
  by unfold_locales (auto simp: recordFakeManager_def split: prod.splits)

interpretation manager_AddHealthzCheck: faked_field fmAddHealthzCheck fmAddHealthzCheck_update
  "\<lambda>(a, b). recordFakeManager ''AddHealthzCheck'' [StringArg a, ObjectArg b]"
  by unfold_locales (auto simp: recordFakeManager_def split: prod.splits)

interpretation manager_AddMetricsExtraHandler: faked_field fmAddMetricsExtraHandler fmAddMetricsExtraHandler_update
  "\<lambda>(a, b). recordFakeManager ''AddMetricsExtraHandler'' [StringArg a, ObjectArg b]"
  by unfold_locales (auto simp: recordFakeManager_def split: prod.splits)

interpretation manager_AddReadyzCheck: faked_field fmAddReadyzCheck fmAddReadyzCheck_update
  "\<lambda>(a, b). recordFakeManager ''AddReadyzCheck'' [StringArg a, ObjectArg b]"
  by unfold_locales (auto simp: recordFakeManager_def split: prod.splits)

interpretation manager_Elected: faked_field fmElected fmElected_update
  "\<lambda>_. recordFakeManager ''Elected'' []"
  by unfold_locales (auto simp: recordFakeManager_def split: prod.splits)

interpretation manager_GetAPIReader: faked_field fmGetAPIReader fmGetAPIReader_update
  "\<lambda>_. recordFakeManager ''GetAPIReader'' []"
  by unfold_locales (auto simp: recordFakeManager_def split: prod.splits)

interpretation manager_GetCache: faked_field fmGetCache fmGetCache_update
  "\<lambda>_. recordFakeManager ''GetCache'' []"
  by unfold_locales (auto simp: recordFakeManager_def split: prod.splits)

interpretation manager_GetClient: faked_field fmGetClient fmGetClient_update
  "\<lambda>_. recordFakeManager ''GetClient'' []"
  by unfold_locales (auto simp: recordFakeManager_def split: prod.splits)

interpretation manager_GetConfig: faked_field fmGetConfig fmGetConfig_update
  "\<lambda>_. recordFakeManager ''GetConfig'' []"
  by unfold_locales (auto simp: recordFakeManager_def split: prod.splits)

interpretation manager_GetEventRecorderFor: faked_field fmGetEventRecorderFor fmGetEventRecorderFor_update
  "\<lambda>a. recordFakeManager ''GetEventRecorderFor'' [StringArg a]"
  by unfold_locales (auto simp: recordFakeManager_def split: prod.splits)

interpretation manager_GetFieldIndexer: faked_field fmGetFieldIndexer fmGetFieldIndexer_update
  "\<lambda>_. recordFakeManager ''GetFieldIndexer'' []"
  by unfold_locales (auto simp: recordFakeManager_def split: prod.splits)

interpretation manager_GetLogger: faked_field fmGetLogger fmGetLogger_update
  "\<lambda>_. recordFakeManager ''GetLogger'' []"
  by unfold_locales (auto simp: recordFakeManager_def split: prod.splits)

interpretation manager_GetRESTMapper: faked_field fmGetRESTMapper fmGetRESTMapper_update
  "\<lambda>_. recordFakeManager ''GetRESTMapper'' []"
  by unfold_locales (auto simp: recordFakeManager_def split: prod.splits)

interpretation manager_GetScheme: faked_field fmGetScheme fmGetScheme_update
  "\<lambda>_. recordFakeManager ''GetScheme'' []"
  by unfold_locales (auto simp: recordFakeManager_def split: prod.splits)

interpretation manager_GetWebhookServer: faked_field fmGetWebhookServer fmGetWebhookServer_update
  "\<lambda>_. recordFakeManager ''GetWebhookServer'' []"
  by unfold_locales (auto simp: recordFakeManager_def split: prod.splits)

interpretation manager_SetFields: faked_field fmSetFields fmSetFields_update
  "\<lambda>a. recordFakeManager ''SetFields'' [ObjectArg a]"
  by unfold_locales (auto simp: recordFakeManager_def split: prod.splits)

interpretation manager_Start: faked_field fmStart fmStart_update
  "\<lambda>a. recordFakeManager ''Start'' [StringArg a]"
  by unfold_locales (auto simp: recordFakeManager_def split: prod.splits)

section \<open>Interleaved calls\<close>

datatype 'o manager_call =
  CallManagerAdd "'o"
| CallManagerAddHealthzCheck "string \<times> 'o"
| CallManagerAddMetricsExtraHandler "string \<times> 'o"
| CallManagerAddReadyzCheck "string \<times> 'o"
| CallManagerElected
| CallManagerGetAPIReader
| CallManagerGetCache
| CallManagerGetClient
| CallManagerGetConfig
| CallManagerGetEventRecorderFor "string"
| CallManagerGetFieldIndexer
| CallManagerGetLogger
| CallManagerGetRESTMapper
| CallManagerGetScheme
| CallManagerGetWebhookServer
| CallManagerSetFields "'o"
| CallManagerStart "string"

text \<open>One call of any method, for its effect; and a sequence of them.\<close>

fun manager_perform :: "'o manager_call \<Rightarrow> 'o FakeManager \<Rightarrow> 'o FakeManager" where
  "manager_perform (CallManagerAdd a) fake = snd (fo_invoke FakeManager_Add a fake)"
| "manager_perform (CallManagerAddHealthzCheck a) fake = snd (fo_invoke FakeManager_AddHealthzCheck a fake)"
| "manager_perform (CallManagerAddMetricsExtraHandler a) fake = snd (fo_invoke FakeManager_AddMetricsExtraHandler a fake)"
| "manager_perform (CallManagerAddReadyzCheck a) fake = snd (fo_invoke FakeManager_AddReadyzCheck a fake)"
| "manager_perform CallManagerElected fake = snd (fo_invoke FakeManager_Elected () fake)"
| "manager_perform CallManagerGetAPIReader fake = snd (fo_invoke FakeManager_GetAPIReader () fake)"
| "manager_perform CallManagerGetCache fake = snd (fo_invoke FakeManager_GetCache () fake)"
| "manager_perform CallManagerGetClient fake = snd (fo_invoke FakeManager_GetClient () fake)"
| "manager_perform CallManagerGetConfig fake = snd (fo_invoke FakeManager_GetConfig () fake)"
| "manager_perform (CallManagerGetEventRecorderFor a) fake = snd (fo_invoke FakeManager_GetEventRecorderFor a fake)"
| "manager_perform CallManagerGetFieldIndexer fake = snd (fo_invoke FakeManager_GetFieldIndexer () fake)"
| "manager_perform CallManagerGetLogger fake = snd (fo_invoke FakeManager_GetLogger () fake)"
| "manager_perform CallManagerGetRESTMapper fake = snd (fo_invoke FakeManager_GetRESTMapper () fake)"
| "manager_perform CallManagerGetScheme fake = snd (fo_invoke FakeManager_GetScheme () fake)"
| "manager_perform CallManagerGetWebhookServer fake = snd (fo_invoke FakeManager_GetWebhookServer () fake)"
| "manager_perform (CallManagerSetFields a) fake = snd (fo_invoke FakeManager_SetFields a fake)"
| "manager_perform (CallManagerStart a) fake = snd (fo_invoke FakeManager_Start a fake)"

definition manager_run :: "'o manager_call list \<Rightarrow> 'o FakeManager \<Rightarrow> 'o FakeManager" where
  "manager_run = fold manager_perform"

text \<open>The name of the method a call is of.\<close>

fun manager_key :: "'o manager_call \<Rightarrow> string" where
  "manager_key (CallManagerAdd a) = ''Add''"
| "manager_key (CallManagerAddHealthzCheck a) = ''AddHealthzCheck''"
| "manager_key (CallManagerAddMetricsExtraHandler a) = ''AddMetricsExtraHandler''"
| "manager_key (CallManagerAddReadyzCheck a) = ''AddReadyzCheck''"
| "manager_key CallManagerElected = ''Elected''"
| "manager_key CallManagerGetAPIReader = ''GetAPIReader''"
| "manager_key CallManagerGetCache = ''GetCache''"
| "manager_key CallManagerGetClient = ''GetClient''"
| "manager_key CallManagerGetConfig = ''GetConfig''"
| "manager_key (CallManagerGetEventRecorderFor a) = ''GetEventRecorderFor''"
| "manager_key CallManagerGetFieldIndexer = ''GetFieldIndexer''"
| "manager_key CallManagerGetLogger = ''GetLogger''"
| "manager_key CallManagerGetRESTMapper = ''GetRESTMapper''"
| "manager_key CallManagerGetScheme = ''GetScheme''"
| "manager_key CallManagerGetWebhookServer = ''GetWebhookServer''"
| "manager_key (CallManagerSetFields a) = ''SetFields''"
| "manager_key (CallManagerStart a) = ''Start''"

lemma manager_step:
  "fk_ArgsForCall (fmAdd (manager_perform c s)) = fk_ArgsForCall (fmAdd s) @ (case c of CallManagerAdd a \<Rightarrow> [a] | _ \<Rightarrow> [])"
  "fk_ArgsForCall (fmAddHealthzCheck (manager_perform c s)) = fk_ArgsForCall (fmAddHealthzCheck s) @ (case c of CallManagerAddHealthzCheck a \<Rightarrow> [a] | _ \<Rightarrow> [])"
  "fk_ArgsForCall (fmAddMetricsExtraHandler (manager_perform c s)) = fk_ArgsForCall (fmAddMetricsExtraHandler s) @ (case c of CallManagerAddMetricsExtraHandler a \<Rightarrow> [a] | _ \<Rightarrow> [])"
  "fk_ArgsForCall (fmAddReadyzCheck (manager_perform c s)) = fk_ArgsForCall (fmAddReadyzCheck s) @ (case c of CallManagerAddReadyzCheck a \<Rightarrow> [a] | _ \<Rightarrow> [])"
  "fk_ArgsForCall (fmElected (manager_perform c s)) = fk_ArgsForCall (fmElected s) @ (case c of CallManagerElected \<Rightarrow> [()] | _ \<Rightarrow> [])"
  "fk_ArgsForCall (fmGetAPIReader (manager_perform c s)) = fk_ArgsForCall (fmGetAPIReader s) @ (case c of CallManagerGetAPIReader \<Rightarrow> [()] | _ \<Rightarrow> [])"
  "fk_ArgsForCall (fmGetCache (manager_perform c s)) = fk_ArgsForCall (fmGetCache s) @ (case c of CallManagerGetCache \<Rightarrow> [()] | _ \<Rightarrow> [])"
  "fk_ArgsForCall (fmGetClient (manager_perform c s)) = fk_ArgsForCall (fmGetClient s) @ (case c of CallManagerGetClient \<Rightarrow> [()] | _ \<Rightarrow> [])"
  "fk_ArgsForCall (fmGetConfig (manager_perform c s)) = fk_ArgsForCall (fmGetConfig s) @ (case c of CallManagerGetConfig \<Rightarrow> [()] | _ \<Rightarrow> [])"
  "fk_ArgsForCall (fmGetEventRecorderFor (manager_perform c s)) = fk_ArgsForCall (fmGetEventRecorderFor s) @ (case c of CallManagerGetEventRecorderFor a \<Rightarrow> [a] | _ \<Rightarrow> [])"
  "fk_ArgsForCall (fmGetFieldIndexer (manager_perform c s)) = fk_ArgsForCall (fmGetFieldIndexer s) @ (case c of CallManagerGetFieldIndexer \<Rightarrow> [()] | _ \<Rightarrow> [])"
  "fk_ArgsForCall (fmGetLogger (manager_perform c s)) = fk_ArgsForCall (fmGetLogger s) @ (case c of CallManagerGetLogger \<Rightarrow> [()] | _ \<Rightarrow> [])"
  "fk_ArgsForCall (fmGetRESTMapper (manager_perform c s)) = fk_ArgsForCall (fmGetRESTMapper s) @ (case c of CallManagerGetRESTMapper \<Rightarrow> [()] | _ \<Rightarrow> [])"
  "fk_ArgsForCall (fmGetScheme (manager_perform c s)) = fk_ArgsForCall (fmGetScheme s) @ (case c of CallManagerGetScheme \<Rightarrow> [()] | _ \<Rightarrow> [])"
  "fk_ArgsForCall (fmGetWebhookServer (manager_perform c s)) = fk_ArgsForCall (fmGetWebhookServer s) @ (case c of CallManagerGetWebhookServer \<Rightarrow> [()] | _ \<Rightarrow> [])"
  "fk_ArgsForCall (fmSetFields (manager_perform c s)) = fk_ArgsForCall (fmSetFields s) @ (case c of CallManagerSetFields a \<Rightarrow> [a] | _ \<Rightarrow> [])"
  "fk_ArgsForCall (fmStart (manager_perform c s)) = fk_ArgsForCall (fmStart s) @ (case c of CallManagerStart a \<Rightarrow> [a] | _ \<Rightarrow> [])"
  "length (case FakeManager_Invocations (manager_perform c s) k of None \<Rightarrow> [] | Some xs \<Rightarrow> xs) =
     length (case FakeManager_Invocations s k of None \<Rightarrow> [] | Some xs \<Rightarrow> xs) + (if manager_key c = k then 1 else 0)"
  by (cases c; auto simp: fakeOps_def fakeInvoke_def Let_def recordFakeManager_def appendInvocation_def
      FakeManager_Invocations_def FakeManager_Add_def FakeManager_AddHealthzCheck_def FakeManager_AddMetricsExtraHandler_def
      FakeManager_AddReadyzCheck_def FakeManager_Elected_def FakeManager_GetAPIReader_def
      FakeManager_GetCache_def FakeManager_GetClient_def FakeManager_GetConfig_def
      FakeManager_GetEventRecorderFor_def FakeManager_GetFieldIndexer_def FakeManager_GetLogger_def
      FakeManager_GetRESTMapper_def FakeManager_GetScheme_def FakeManager_GetWebhookServer_def
      FakeManager_SetFields_def FakeManager_Start_def split: option.splits)+

lemma manager_plan:
  "fakePlan fmAdd (manager_perform c s) = fakePlan fmAdd s"
  "fakePlan fmAddHealthzCheck (manager_perform c s) = fakePlan fmAddHealthzCheck s"
  "fakePlan fmAddMetricsExtraHandler (manager_perform c s) = fakePlan fmAddMetricsExtraHandler s"
  "fakePlan fmAddReadyzCheck (manager_perform c s) = fakePlan fmAddReadyzCheck s"
  "fakePlan fmElected (manager_perform c s) = fakePlan fmElected s"
  "fakePlan fmGetAPIReader (manager_perform c s) = fakePlan fmGetAPIReader s"
  "fakePlan fmGetCache (manager_perform c s) = fakePlan fmGetCache s"
  "fakePlan fmGetClient (manager_perform c s) = fakePlan fmGetClient s"
  "fakePlan fmGetConfig (manager_perform c s) = fakePlan fmGetConfig s"
  "fakePlan fmGetEventRecorderFor (manager_perform c s) = fakePlan fmGetEventRecorderFor s"
  "fakePlan fmGetFieldIndexer (manager_perform c s) = fakePlan fmGetFieldIndexer s"
  "fakePlan fmGetLogger (manager_perform c s) = fakePlan fmGetLogger s"
  "fakePlan fmGetRESTMapper (manager_perform c s) = fakePlan fmGetRESTMapper s"
  "fakePlan fmGetScheme (manager_perform c s) = fakePlan fmGetScheme s"
  "fakePlan fmGetWebhookServer (manager_perform c s) = fakePlan fmGetWebhookServer s"
  "fakePlan fmSetFields (manager_perform c s) = fakePlan fmSetFields s"
  "fakePlan fmStart (manager_perform c s) = fakePlan fmStart s"
  by (cases c; simp add: fakePlan_def fakeOps_def fakeInvoke_def Let_def recordFakeManager_def fun_eq_iff
      FakeManager_Add_def FakeManager_AddHealthzCheck_def FakeManager_AddMetricsExtraHandler_def
      FakeManager_AddReadyzCheck_def FakeManager_Elected_def FakeManager_GetAPIReader_def
      FakeManager_GetCache_def FakeManager_GetClient_def FakeManager_GetConfig_def
      FakeManager_GetEventRecorderFor_def FakeManager_GetFieldIndexer_def FakeManager_GetLogger_def
      FakeManager_GetRESTMapper_def FakeManager_GetScheme_def FakeManager_GetWebhookServer_def
      FakeManager_SetFields_def FakeManager_Start_def split: option.splits prod.splits)+

lemma manager_run_Cons [simp]: "manager_run [] s = s" "manager_run (c # cs) s = manager_run cs (manager_perform c s)"
  by (simp_all add: manager_run_def)

lemma manager_run_calls:
  "fk_ArgsForCall (fmAdd (manager_run cs s)) = fk_ArgsForCall (fmAdd s) @ [a. CallManagerAdd a \<leftarrow> cs]"
  "fakePlan fmAdd (manager_run cs s) = fakePlan fmAdd s"
  "fk_ArgsForCall (fmAddHealthzCheck (manager_run cs s)) = fk_ArgsForCall (fmAddHealthzCheck s) @ [a. CallManagerAddHealthzCheck a \<leftarrow> cs]"
  "fakePlan fmAddHealthzCheck (manager_run cs s) = fakePlan fmAddHealthzCheck s"
  "fk_ArgsForCall (fmAddMetricsExtraHandler (manager_run cs s)) = fk_ArgsForCall (fmAddMetricsExtraHandler s) @ [a. CallManagerAddMetricsExtraHandler a \<leftarrow> cs]"
  "fakePlan fmAddMetricsExtraHandler (manager_run cs s) = fakePlan fmAddMetricsExtraHandler s"
  "fk_ArgsForCall (fmAddReadyzCheck (manager_run cs s)) = fk_ArgsForCall (fmAddReadyzCheck s) @ [a. CallManagerAddReadyzCheck a \<leftarrow> cs]"
  "fakePlan fmAddReadyzCheck (manager_run cs s) = fakePlan fmAddReadyzCheck s"
  "fk_ArgsForCall (fmElected (manager_run cs s)) = fk_ArgsForCall (fmElected s) @ [(). CallManagerElected \<leftarrow> cs]"
  "fakePlan fmElected (manager_run cs s) = fakePlan fmElected s"
  "fk_ArgsForCall (fmGetAPIReader (manager_run cs s)) = fk_ArgsForCall (fmGetAPIReader s) @ [(). CallManagerGetAPIReader \<leftarrow> cs]"
  "fakePlan fmGetAPIReader (manager_run cs s) = fakePlan fmGetAPIReader s"
  "fk_ArgsForCall (fmGetCache (manager_run cs s)) = fk_ArgsForCall (fmGetCache s) @ [(). CallManagerGetCache \<leftarrow> cs]"
  "fakePlan fmGetCache (manager_run cs s) = fakePlan fmGetCache s"
  "fk_ArgsForCall (fmGetClient (manager_run cs s)) = fk_ArgsForCall (fmGetClient s) @ [(). CallManagerGetClient \<leftarrow> cs]"
  "fakePlan fmGetClient (manager_run cs s) = fakePlan fmGetClient s"
  "fk_ArgsForCall (fmGetConfig (manager_run cs s)) = fk_ArgsForCall (fmGetConfig s) @ [(). CallManagerGetConfig \<leftarrow> cs]"
  "fakePlan fmGetConfig (manager_run cs s) = fakePlan fmGetConfig s"
  "fk_ArgsForCall (fmGetEventRecorderFor (manager_run cs s)) = fk_ArgsForCall (fmGetEventRecorderFor s) @ [a. CallManagerGetEventRecorderFor a \<leftarrow> cs]"
  "fakePlan fmGetEventRecorderFor (manager_run cs s) = fakePlan fmGetEventRecorderFor s"
  "fk_ArgsForCall (fmGetFieldIndexer (manager_run cs s)) = fk_ArgsForCall (fmGetFieldIndexer s) @ [(). CallManagerGetFieldIndexer \<leftarrow> cs]"
  "fakePlan fmGetFieldIndexer (manager_run cs s) = fakePlan fmGetFieldIndexer s"
  "fk_ArgsForCall (fmGetLogger (manager_run cs s)) = fk_ArgsForCall (fmGetLogger s) @ [(). CallManagerGetLogger \<leftarrow> cs]"
  "fakePlan fmGetLogger (manager_run cs s) = fakePlan fmGetLogger s"
  "fk_ArgsForCall (fmGetRESTMapper (manager_run cs s)) = fk_ArgsForCall (fmGetRESTMapper s) @ [(). CallManagerGetRESTMapper \<leftarrow> cs]"
  "fakePlan fmGetRESTMapper (manager_run cs s) = fakePlan fmGetRESTMapper s"
  "fk_ArgsForCall (fmGetScheme (manager_run cs s)) = fk_ArgsForCall (fmGetScheme s) @ [(). CallManagerGetScheme \<leftarrow> cs]"
  "fakePlan fmGetScheme (manager_run cs s) = fakePlan fmGetScheme s"
  "fk_ArgsForCall (fmGetWebhookServer (manager_run cs s)) = fk_ArgsForCall (fmGetWebhookServer s) @ [(). CallManagerGetWebhookServer \<leftarrow> cs]"
  "fakePlan fmGetWebhookServer (manager_run cs s) = fakePlan fmGetWebhookServer s"
  "fk_ArgsForCall (fmSetFields (manager_run cs s)) = fk_ArgsForCall (fmSetFields s) @ [a. CallManagerSetFields a \<leftarrow> cs]"
  "fakePlan fmSetFields (manager_run cs s) = fakePlan fmSetFields s"
  "fk_ArgsForCall (fmStart (manager_run cs s)) = fk_ArgsForCall (fmStart s) @ [a. CallManagerStart a \<leftarrow> cs]"
  "fakePlan fmStart (manager_run cs s) = fakePlan fmStart s"
  by (induction cs arbitrary: s; simp add: manager_step manager_plan split: manager_call.splits)+

text \<open>The calls recorded under a name are as many as the calls of that method.\<close>

lemma manager_run_count:
  "length (case FakeManager_Invocations (manager_run cs s) k of None \<Rightarrow> [] | Some xs \<Rightarrow> xs) =
   length (case FakeManager_Invocations s k of None \<Rightarrow> [] | Some xs \<Rightarrow> xs) + count_list (map manager_key cs) k"
  by (induction cs arbitrary: s) (simp_all add: manager_step(18))

section \<open>Property\<close>

text \<open>The same for the double of the manager.\<close>

lemma manager_double_replays:
  "replays FakeManager_Add fmAdd [a. CallManagerAdd a \<leftarrow> cs] s (manager_run cs s) \<and>
   replays FakeManager_AddHealthzCheck fmAddHealthzCheck [a. CallManagerAddHealthzCheck a \<leftarrow> cs] s (manager_run cs s) \<and>
   replays FakeManager_AddMetricsExtraHandler fmAddMetricsExtraHandler [a. CallManagerAddMetricsExtraHandler a \<leftarrow> cs] s (manager_run cs s) \<and>
   replays FakeManager_AddReadyzCheck fmAddReadyzCheck [a. CallManagerAddReadyzCheck a \<leftarrow> cs] s (manager_run cs s) \<and>
   replays FakeManager_Elected fmElected [(). CallManagerElected \<leftarrow> cs] s (manager_run cs s) \<and>
   replays FakeManager_GetAPIReader fmGetAPIReader [(). CallManagerGetAPIReader \<leftarrow> cs] s (manager_run cs s) \<and>
   replays FakeManager_GetCache fmGetCache [(). CallManagerGetCache \<leftarrow> cs] s (manager_run cs s) \<and>
   replays FakeManager_GetClient fmGetClient [(). CallManagerGetClient \<leftarrow> cs] s (manager_run cs s) \<and>
   replays FakeManager_GetConfig fmGetConfig [(). CallManagerGetConfig \<leftarrow> cs] s (manager_run cs s) \<and>
   replays FakeManager_GetEventRecorderFor fmGetEventRecorderFor [a. CallManagerGetEventRecorderFor a \<leftarrow> cs] s (manager_run cs s) \<and>
   replays FakeManager_GetFieldIndexer fmGetFieldIndexer [(). CallManagerGetFieldIndexer \<leftarrow> cs] s (manager_run cs s) \<and>
   replays FakeManager_GetLogger fmGetLogger [(). CallManagerGetLogger \<leftarrow> cs] s (manager_run cs s) \<and>
   replays FakeManager_GetRESTMapper fmGetRESTMapper [(). CallManagerGetRESTMapper \<leftarrow> cs] s (manager_run cs s) \<and>
   replays FakeManager_GetScheme fmGetScheme [(). CallManagerGetScheme \<leftarrow> cs] s (manager_run cs s) \<and>
   replays FakeManager_GetWebhookServer fmGetWebhookServer [(). CallManagerGetWebhookServer \<leftarrow> cs] s (manager_run cs s) \<and>
   replays FakeManager_SetFields fmSetFields [a. CallManagerSetFields a \<leftarrow> cs] s (manager_run cs s) \<and>
   replays FakeManager_Start fmStart [a. CallManagerStart a \<leftarrow> cs] s (manager_run cs s) \<and>
   length (case FakeManager_Invocations (manager_run cs s) k of None \<Rightarrow> [] | Some xs \<Rightarrow> xs) =
     length (case FakeManager_Invocations s k of None \<Rightarrow> [] | Some xs \<Rightarrow> xs) + count_list (map manager_key cs) k"
  unfolding FakeManager_Add_def FakeManager_AddHealthzCheck_def FakeManager_AddMetricsExtraHandler_def
    FakeManager_AddReadyzCheck_def FakeManager_Elected_def FakeManager_GetAPIReader_def
    FakeManager_GetCache_def FakeManager_GetClient_def FakeManager_GetConfig_def
    FakeManager_GetEventRecorderFor_def FakeManager_GetFieldIndexer_def FakeManager_GetLogger_def
    FakeManager_GetRESTMapper_def FakeManager_GetScheme_def FakeManager_GetWebhookServer_def
    FakeManager_SetFields_def FakeManager_Start_def
  by (intro conjI manager_run_count
      manager_Add.replaysI manager_AddHealthzCheck.replaysI manager_AddMetricsExtraHandler.replaysI
      manager_AddReadyzCheck.replaysI manager_Elected.replaysI manager_GetAPIReader.replaysI
      manager_GetCache.replaysI manager_GetClient.replaysI manager_GetConfig.replaysI
      manager_GetEventRecorderFor.replaysI manager_GetFieldIndexer.replaysI manager_GetLogger.replaysI
      manager_GetRESTMapper.replaysI manager_GetScheme.replaysI manager_GetWebhookServer.replaysI
      manager_SetFields.replaysI manager_Start.replaysI;
      simp add: manager_run_calls)

end
