(* ===== verification/Command.thy ===== *)
theory Command
  imports Qsts
begin

text \<open>
  What the operator takes from its surroundings: the flags of the command (\<open>init\<close> of
  \<open>cmd/internal/root.go\<close>) and the configuration of its cluster (\<open>KubeConfig\<close> of
  \<open>active_passive_reconciler.go\<close>). Reading the environment and building a configuration are
  parameters; \<open>filepath.Join\<close> is defined as the standard library documents it.
\<close>

section \<open>Flags\<close>

datatype flag_value = StringFlag string | IntFlag int | BoolFlag bool

record flag =
  fl_Name :: string
  fl_Shorthand :: string
  fl_Default :: flag_value
  fl_Usage :: string

text \<open>The flags that \<open>quarks-utils\<close> defines, by the function that does.\<close>

datatype shared_flags =
    OperatorNamespaceFlags string
  | MonitoredIDFlags
  | CtxTimeOutFlags
  | KubeConfigFlags
  | LoggerFlags
  | ApplyCRDsFlags
  | MeltdownFlags

record command_init =
  ci_Shared :: "shared_flags list"
  ci_Flags :: "flag list"
  ci_Bound :: "string list"
  ci_ArgToEnv :: "(string \<times> string) list"
  ci_SilenceUsage :: bool
  ci_SilenceErrors :: bool

definition sharedFlags :: "shared_flags list" where
  "sharedFlags = [OperatorNamespaceFlags ''quarks-statefulset-namespace'', MonitoredIDFlags, CtxTimeOutFlags,
     KubeConfigFlags, LoggerFlags, ApplyCRDsFlags, MeltdownFlags]"

definition ownFlags :: "flag list" where
  "ownFlags = [
     \<lparr>fl_Name = ''cluster-domain'', fl_Shorthand = '''', fl_Default = StringFlag ''cluster.local'',
        fl_Usage = ''The Kubernetes cluster domain''\<rparr>,
     \<lparr>fl_Name = ''max-quarks-statefulset-workers'', fl_Shorthand = '''', fl_Default = IntFlag 1,
        fl_Usage = ''Maximum number of workers concurrently running QuarksStatefulSet controller''\<rparr>,
     \<lparr>fl_Name = ''operator-webhook-service-host'', fl_Shorthand = ''w'', fl_Default = StringFlag '''',
        fl_Usage = ''Hostname/IP under which the webhook server can be reached from the cluster''\<rparr>,
     \<lparr>fl_Name = ''operator-webhook-service-port'', fl_Shorthand = ''p'', fl_Default = StringFlag ''2999'',
        fl_Usage = ''Port the webhook server listens on''\<rparr>,
     \<lparr>fl_Name = ''operator-webhook-use-service-reference'', fl_Shorthand = ''x'', fl_Default = BoolFlag False,
        fl_Usage = ''If true the webhook service is targeted using a service reference instead of a URL''\<rparr>]"

definition boundFlags :: "string list" where
  "boundFlags = [''max-quarks-statefulset-workers'', ''operator-webhook-service-host'',
     ''operator-webhook-service-port'', ''operator-webhook-use-service-reference'']"

definition ownArgToEnv :: "(string \<times> string) list" where
  "ownArgToEnv = [
     (''max-quarks-statefulset-workers'', ''MAX_QUARKS_STATEFULSET_WORKERS''),
     (''operator-webhook-service-host'', ''QUARKS_STS_WEBHOOK_SERVICE_HOST''),
     (''operator-webhook-service-port'', ''QUARKS_STS_WEBHOOK_SERVICE_PORT''),
     (''operator-webhook-use-service-reference'', ''QUARKS_STS_WEBHOOK_USE_SERVICE_REFERENCE'')]"

text \<open>\<open>argToEnv\<close> starts with the entries of the shared flags, which \<open>shared_env\<close> gives.\<close>

definition rootInit :: "(shared_flags \<Rightarrow> (string \<times> string) list) \<Rightarrow> command_init" where
  "rootInit shared_env = \<lparr>ci_Shared = sharedFlags, ci_Flags = ownFlags, ci_Bound = boundFlags,
     ci_ArgToEnv = concat (map shared_env sharedFlags) @ ownArgToEnv,
     ci_SilenceUsage = True, ci_SilenceErrors = True\<rparr>"

text \<open>The flags that the command reads (\<open>RunE\<close>).\<close>

definition readFlags :: "string list" where
  "readFlags = [''operator-webhook-service-host'', ''operator-webhook-service-port'',
     ''operator-webhook-use-service-reference'', ''max-quarks-statefulset-workers'']"

text \<open>
  Every flag the command reads is declared, bound and settable from the environment; the flag
  \<open>cluster-domain\<close> is declared and documented, but neither bound nor read.
\<close>

lemma flags_usable:
  "set readFlags = set boundFlags \<and> set boundFlags \<subseteq> fl_Name ` set ownFlags \<and>
   map fst ownArgToEnv = boundFlags \<and> distinct (map fl_Name ownFlags) \<and> distinct (map snd ownArgToEnv)"
  by (auto simp: readFlags_def boundFlags_def ownFlags_def ownArgToEnv_def)

lemma cluster_domain_unread:
  "''cluster-domain'' \<in> fl_Name ` set ownFlags \<and> ''cluster-domain'' \<notin> set boundFlags \<and>
   ''cluster-domain'' \<notin> set readFlags"
  by (simp add: readFlags_def boundFlags_def ownFlags_def)

section \<open>File paths\<close>

text \<open>\<open>filepath.Clean\<close> on Unix: the stack of elements, the last one first.\<close>

fun cleanElements :: "bool \<Rightarrow> string list \<Rightarrow> string list \<Rightarrow> string list" where
  "cleanElements rooted stack [] = rev stack"
| "cleanElements rooted stack (e # es) =
     (if e = '''' \<or> e = ''.'' then cleanElements rooted stack es
      else if e = ''..'' then
        (case stack of
           [] \<Rightarrow> cleanElements rooted (if rooted then [] else [''..'']) es
         | t # ts \<Rightarrow> cleanElements rooted (if t = ''..'' then ''..'' # stack else ts) es)
      else cleanElements rooted (e # stack) es)"

definition filepath_Clean :: "string \<Rightarrow> string" where
  "filepath_Clean path =
     (let rooted = (path \<noteq> '''' \<and> hd path = CHR ''/'');
          cleaned = strings_Join (CHR ''/'') (cleanElements rooted [] (strings_Split (CHR ''/'') path));
          result = (if rooted then CHR ''/'' # cleaned else cleaned)
      in if result = '''' then ''.'' else result)"

definition filepath_Join :: "string list \<Rightarrow> string" where
  "filepath_Join elems =
     (case dropWhile (\<lambda>e. e = '''') elems of
        [] \<Rightarrow> ''''
      | es \<Rightarrow> filepath_Clean (strings_Join (CHR ''/'') es))"

section \<open>The configuration of the cluster\<close>

text \<open>\<open>buildConfig\<close> is \<open>clientcmd.BuildConfigFromFlags("", location)\<close>.\<close>

definition kubeConfigLocation :: "(string \<Rightarrow> string) \<Rightarrow> string" where
  "kubeConfigLocation getenv =
     (if getenv ''KUBECONFIG'' = '''' then filepath_Join [getenv ''HOME'', ''.kube'', ''config'']
      else getenv ''KUBECONFIG'')"

definition KubeConfig ::
  "(string \<Rightarrow> string) \<Rightarrow> (string \<Rightarrow> go_error + 'c) \<Rightarrow> go_error + 'c \<Rightarrow> go_error + 'c" where
  "KubeConfig getenv buildConfig inClusterConfig =
     (case buildConfig (kubeConfigLocation getenv) of
        Inl err \<Rightarrow> (case inClusterConfig of Inl err \<Rightarrow> Inl err | Inr config \<Rightarrow> Inr config)
      | Inr config \<Rightarrow> Inr config)"

lemma strings_Split_nonempty: "strings_Split sep s \<noteq> []"
  by (induction s) (auto split: list.splits)

lemma strings_Split_no_sep: "sep \<notin> set s \<Longrightarrow> strings_Split sep s = [s]"
  by (induction s) auto

lemma strings_Split_append:
  "sep \<notin> set s \<Longrightarrow> strings_Split sep (s @ sep # t) = s # strings_Split sep t"
  by (induction s) auto

text \<open>Splitting what was joined gives the elements back, if none holds the separator.\<close>

lemma strings_Split_Join:
  "ws \<noteq> [] \<Longrightarrow> \<forall>w \<in> set ws. sep \<notin> set w \<Longrightarrow> strings_Split sep (strings_Join sep ws) = ws"
  by (induction sep ws rule: strings_Join.induct) (auto simp: strings_Split_no_sep strings_Split_append)

lemma strings_Join_Split: "strings_Join sep (strings_Split sep s) = s"
proof (induction s)
  case (Cons c s)
  obtain w ws where "strings_Split sep s = w # ws"
    using strings_Split_nonempty [of sep s] by (cases "strings_Split sep s") auto
  with Cons show ?case by (cases ws) auto
qed simp

lemma cleanElements_plain:
  "\<forall>e \<in> set es. e \<notin> {'''', ''.'', ''..''} \<Longrightarrow> cleanElements rooted stack es = rev stack @ es"
  by (induction es arbitrary: stack) auto

definition plain_element :: "string \<Rightarrow> bool" where
  "plain_element e \<longleftrightarrow> e \<noteq> '''' \<and> e \<noteq> ''.'' \<and> e \<noteq> ''..'' \<and> CHR ''/'' \<notin> set e"

lemma filepath_Clean_rooted:
  assumes "es \<noteq> []" "\<forall>e \<in> set es. plain_element e"
  shows "filepath_Clean (CHR ''/'' # strings_Join (CHR ''/'') es) = CHR ''/'' # strings_Join (CHR ''/'') es"
proof -
  have "strings_Split (CHR ''/'') (strings_Join (CHR ''/'') es) = es"
    using assms by (intro strings_Split_Join) (auto simp: plain_element_def)
  moreover have "cleanElements True [] es = es"
    using assms(2) cleanElements_plain [of es True "[]"] by (auto simp: plain_element_def)
  ultimately show ?thesis by (simp add: filepath_Clean_def Let_def)
qed

text \<open>
  The cluster of the active/passive reconciler. KubeConfig takes the file KUBECONFIG
  names, or, without one, .kube/config under an absolute home directory; only if that file
  gives no configuration it takes the one of the pod, whose error is the only one returned.
\<close>

theorem KubeConfig_spec:
  assumes "getenv ''HOME'' = CHR ''/'' # strings_Join (CHR ''/'') dirs" "dirs \<noteq> []"
    and "\<forall>d \<in> set dirs. plain_element d"
  shows "(let file = (if getenv ''KUBECONFIG'' = '''' then getenv ''HOME'' @ ''/.kube/config'' else getenv ''KUBECONFIG'') in
    KubeConfig getenv buildConfig inClusterConfig =
      (case buildConfig file of Inr config \<Rightarrow> Inr config | Inl e \<Rightarrow> inClusterConfig))"
proof -
  have join: "strings_Join (CHR ''/'') (dirs @ es) = strings_Join (CHR ''/'') dirs @ CHR ''/'' # strings_Join (CHR ''/'') es"
    if "es \<noteq> []" for es
    using assms(2) that by (induction dirs rule: induct_list012) (auto simp: neq_Nil_conv)
  have "strings_Join (CHR ''/'') [getenv ''HOME'', ''.kube'', ''config''] =
      CHR ''/'' # strings_Join (CHR ''/'') (dirs @ [''.kube'', ''config''])"
    by (simp add: assms(1) join)
  moreover have "\<forall>e \<in> set (dirs @ [''.kube'', ''config'']). plain_element e"
    using assms(3) by (auto simp: plain_element_def)
  ultimately have "filepath_Join [getenv ''HOME'', ''.kube'', ''config''] = getenv ''HOME'' @ ''/.kube/config''"
    using filepath_Clean_rooted [of "dirs @ [''.kube'', ''config'']"]
    by (simp add: filepath_Join_def assms(1) join)
  then show ?thesis
    by (auto simp: KubeConfig_def kubeConfigLocation_def Let_def split: sum.splits)
qed

theorem KubeConfig_spec_witness:
  "KubeConfig (\<lambda>v. if v = ''HOME'' then ''/home/op'' else '''') (\<lambda>f. if f = ''/home/op/.kube/config'' then Inr f else Inl (Errorf f))
     (Inl (Errorf ''not in a cluster'')) = Inr ''/home/op/.kube/config''"
  using KubeConfig_spec [of "\<lambda>v. if v = ''HOME'' then ''/home/op'' else ''''" "[''home'', ''op'']"
      "\<lambda>f. if f = ''/home/op/.kube/config'' then Inr f else Inl (Errorf f)" "Inl (Errorf ''not in a cluster'')"]
  by (simp add: plain_element_def Let_def)

end
