(* ===== verification/TestMachine.thy ===== *)
theory TestMachine
  imports ApiClient Json
begin

text \<open>
  The machine of the integration tests (\<open>integration/environment/machine.go\<close>): it creates
  resources together with the functions that remove them, and waits for states of the cluster.
  The clients are the parameter \<open>kube_api\<close>; \<open>wait.PollImmediate\<close> is the parameter \<open>poll\<close>, which
  runs a condition until it holds, fails or the time is up.
\<close>

section \<open>The clients\<close>

text \<open>
  \<open>ka_ListPVCs\<close> takes a namespace and a label selector, \<open>ka_ListEvents\<close> a namespace and a field
  selector and returns reasons and messages, \<open>ka_GetPV\<close> returns the phase.
\<close>

record 's kube_api =
  ka_CreateSts :: "string \<Rightarrow> statefulset \<Rightarrow> ('s, go_error option) state"
  ka_GetSts :: "string \<Rightarrow> string \<Rightarrow> ('s, go_error + statefulset) state"
  ka_DeleteSts :: "string \<Rightarrow> string \<Rightarrow> ('s, go_error option) state"
  ka_CreateQsts :: "string \<Rightarrow> quarks_statefulset \<Rightarrow> ('s, quarks_statefulset \<times> go_error option) state"
  ka_GetQsts :: "string \<Rightarrow> string \<Rightarrow> ('s, quarks_statefulset \<times> go_error option) state"
  ka_UpdateQsts :: "string \<Rightarrow> quarks_statefulset \<Rightarrow> ('s, quarks_statefulset \<times> go_error option) state"
  ka_DeleteQsts :: "string \<Rightarrow> string \<Rightarrow> ('s, go_error option) state"
  ka_ListQsts :: "string \<Rightarrow> string \<Rightarrow> ('s, go_error + quarks_statefulset list) state"
  ka_GetPod :: "string \<Rightarrow> string \<Rightarrow> ('s, go_error + pod) state"
  ka_PatchPod :: "string \<Rightarrow> string \<Rightarrow> string \<Rightarrow> string \<Rightarrow> ('s, go_error option) state"
  ka_ListPVCs :: "string \<Rightarrow> string option \<Rightarrow> ('s, go_error + string list) state"
  ka_DeletePVC :: "string \<Rightarrow> string \<Rightarrow> ('s, go_error option) state"
  ka_GetPV :: "string \<Rightarrow> ('s, go_error + string) state"
  ka_ListPVs :: "string \<Rightarrow> ('s, go_error + string list) state"
  ka_ListEvents :: "string \<Rightarrow> string \<Rightarrow> ('s, go_error + (string \<times> string) list) state"
  ka_Exec :: "pod \<Rightarrow> string \<Rightarrow> string list \<Rightarrow> ('s, exec_failure option) state"

text \<open>A Go result \<open>(bool, error)\<close>, and a condition that is polled.\<close>

type_synonym bool_result = "bool \<times> go_error option"
type_synonym 's condition = "('s, bool_result) state"
type_synonym 's poll = "'s condition \<Rightarrow> ('s, go_error option) state"
type_synonym 's tear_down = "('s, go_error option) state"

abbreviation retb :: "bool \<Rightarrow> go_error option \<Rightarrow> ('s, bool_result) state" where
  "retb b e \<equiv> State_Monad.return (b, e)"

section \<open>Resources\<close>

text \<open>The common end of the functions that remove a resource: a missing one is no error.\<close>

definition ignoreMissing :: "lib \<Rightarrow> go_error option \<Rightarrow> go_error option" where
  "ignoreMissing L err = (case err of None \<Rightarrow> None | Some e \<Rightarrow> if \<not> apierrors_IsNotFound L e then Some e else None)"

definition CreateStatefulSet ::
  "lib \<Rightarrow> 's kube_api \<Rightarrow> string \<Rightarrow> statefulset \<Rightarrow> ('s, 's tear_down \<times> go_error option) state" where
  "CreateStatefulSet L K namespace res = do {
     err \<leftarrow> ka_CreateSts K namespace res;
     State_Monad.return
       (do { err \<leftarrow> ka_DeleteSts K namespace (sts_Name res); State_Monad.return (ignoreMissing L err) }, err) }"

definition GetStatefulSet ::
  "'s kube_api \<Rightarrow> string \<Rightarrow> string \<Rightarrow> ('s, statefulset \<times> go_error option) state" where
  "GetStatefulSet K namespace name = do {
     r \<leftarrow> ka_GetSts K namespace name;
     State_Monad.return (case r of
       Inl err \<Rightarrow> (zero_statefulset, Some (Wrapf err ''failed to query for statefulSet by name: %v''))
     | Inr x \<Rightarrow> (x, None)) }"

fun deletePVCs :: "lib \<Rightarrow> 's kube_api \<Rightarrow> string \<Rightarrow> string list \<Rightarrow> 's tear_down" where
  "deletePVCs L K namespace [] = State_Monad.return None"
| "deletePVCs L K namespace (pvc # pvcs) = do {
     err \<leftarrow> ka_DeletePVC K namespace pvc;
     case ignoreMissing L err of
       Some e \<Rightarrow> State_Monad.return (Some e)
     | None \<Rightarrow> deletePVCs L K namespace pvcs }"

text \<open>\<open>labels.Set{"test-run-reference": ess.Name}.String()\<close>.\<close>

definition runSelector :: "quarks_statefulset \<Rightarrow> string" where
  "runSelector q = ''test-run-reference='' @ q_Name q"

definition tearDownQsts :: "lib \<Rightarrow> 's kube_api \<Rightarrow> string \<Rightarrow> quarks_statefulset \<Rightarrow> 's tear_down" where
  "tearDownQsts L K namespace q = do {
     pvcs \<leftarrow> ka_ListPVCs K namespace (Some (runSelector q));
     case pvcs of
       Inl err \<Rightarrow> State_Monad.return (Some err)
     | Inr names \<Rightarrow> do {
         err \<leftarrow> ka_DeleteQsts K namespace (q_Name q);
         case ignoreMissing L err of
           Some e \<Rightarrow> State_Monad.return (Some e)
         | None \<Rightarrow> deletePVCs L K namespace names } }"

definition CreateQuarksStatefulSet ::
  "lib \<Rightarrow> 's kube_api \<Rightarrow> string \<Rightarrow> quarks_statefulset \<Rightarrow>
   ('s, quarks_statefulset \<times> 's tear_down \<times> go_error option) state" where
  "CreateQuarksStatefulSet L K namespace q = do {
     (d, err) \<leftarrow> ka_CreateQsts K namespace q;
     State_Monad.return (d, tearDownQsts L K namespace q, err) }"

definition GetQuarksStatefulSet ::
  "'s kube_api \<Rightarrow> string \<Rightarrow> string \<Rightarrow> ('s, quarks_statefulset \<times> go_error option) state" where
  "GetQuarksStatefulSet K namespace name = ka_GetQsts K namespace name"

definition UpdateQuarksStatefulSet ::
  "lib \<Rightarrow> 's kube_api \<Rightarrow> string \<Rightarrow> quarks_statefulset \<Rightarrow>
   ('s, quarks_statefulset \<times> 's tear_down \<times> go_error option) state" where
  "UpdateQuarksStatefulSet L K namespace q = do {
     (d, err) \<leftarrow> ka_UpdateQsts K namespace q;
     State_Monad.return
       (d, do { err \<leftarrow> ka_DeleteQsts K namespace (q_Name q); State_Monad.return (ignoreMissing L err) }, err) }"

definition DeleteQuarksStatefulSet :: "'s kube_api \<Rightarrow> string \<Rightarrow> string \<Rightarrow> 's tear_down" where
  "DeleteQuarksStatefulSet K namespace name = ka_DeleteQsts K namespace name"

section \<open>Conditions\<close>

definition PodLabelToExist :: "'s kube_api \<Rightarrow> string \<Rightarrow> string \<Rightarrow> string \<Rightarrow> 's condition" where
  "PodLabelToExist K n podName label = do {
     r \<leftarrow> ka_GetPod K n podName;
     case r of
       Inl err \<Rightarrow> retb False (Some err)
     | Inr pod \<Rightarrow> (if ghas (pod_Labels pod) label then retb True None else retb False None) }"

definition PodLabelToNotExist :: "'s kube_api \<Rightarrow> string \<Rightarrow> string \<Rightarrow> string \<Rightarrow> 's condition" where
  "PodLabelToNotExist K n podName label = do {
     r \<leftarrow> ka_GetPod K n podName;
     case r of
       Inl err \<Rightarrow> retb False (Some err)
     | Inr pod \<Rightarrow> (if \<not> ghas (pod_Labels pod) label then retb True None else retb False None) }"

definition StatefulSetExist :: "lib \<Rightarrow> 's kube_api \<Rightarrow> string \<Rightarrow> string \<Rightarrow> 's condition" where
  "StatefulSetExist L K namespace name = do {
     r \<leftarrow> ka_GetSts K namespace name;
     case r of
       Inl err \<Rightarrow>
         (if apierrors_IsNotFound L err then retb False None
          else retb False (Some (Wrapf err ''failed to query for statefulSet by name: %s'')))
     | Inr x \<Rightarrow> retb True None }"

definition PVAvailable :: "lib \<Rightarrow> 's kube_api \<Rightarrow> string \<Rightarrow> 's condition" where
  "PVAvailable L K name = do {
     r \<leftarrow> ka_GetPV K name;
     case r of
       Inl err \<Rightarrow>
         (if apierrors_IsNotFound L err then retb False None
          else retb False (Some (Wrapf err ''failed to query for pv by name: %s'')))
     | Inr phase \<Rightarrow> (if phase = ''Available'' then retb True None else retb False None) }"

definition PVsDeleted :: "'s kube_api \<Rightarrow> string \<Rightarrow> 's condition" where
  "PVsDeleted K labels = do {
     r \<leftarrow> ka_ListPVs K labels;
     case r of
       Inl err \<Rightarrow> retb False (Some err)
     | Inr items \<Rightarrow> (if length items = 0 then retb True None else retb False None) }"

definition PVCsDeleted :: "'s kube_api \<Rightarrow> string \<Rightarrow> 's condition" where
  "PVCsDeleted K namespace = do {
     r \<leftarrow> ka_ListPVCs K namespace None;
     case r of
       Inl err \<Rightarrow> retb False (Some err)
     | Inr items \<Rightarrow> (if length items = 0 then retb True None else retb False None) }"

text \<open>The replicas are dereferenced: nil panics.\<close>

definition StatefulSetRunning ::
  "lib \<Rightarrow> 's kube_api \<Rightarrow> string \<Rightarrow> string \<Rightarrow> ('s, bool_result go) state" where
  "StatefulSetRunning L K namespace name = do {
     r \<leftarrow> ka_GetSts K namespace name;
     case r of
       Inl err \<Rightarrow>
         (if apierrors_IsNotFound L err then gret (False, None)
          else gret (False, Some (Wrapf err ''failed to query for statefulSet by name: %s'')))
     | Inr x \<Rightarrow> gobind (golift (deref (spec_Replicas (sts_Spec x)))) (\<lambda>replicas.
         if st_ReadyReplicas (sts_Status x) = replicas then gret (True, None) else gret (False, None)) }"

definition QuarksStatefulSetExists :: "'s kube_api \<Rightarrow> string \<Rightarrow> string \<Rightarrow> 's condition" where
  "QuarksStatefulSetExists K namespace labels = do {
     r \<leftarrow> ka_ListQsts K namespace labels;
     case r of
       Inl err \<Rightarrow> retb False (Some (Wrapf err ''failed to query for ess by labels: %v''))
     | Inr items \<Rightarrow> retb (length items > 0) None }"

text \<open>\<open>observed\<close> reads \<open>Status.ObservedGeneration\<close>, a field the operator does not use.\<close>

definition StatefulSetNewGeneration ::
  "(statefulset \<Rightarrow> int) \<Rightarrow> 's kube_api \<Rightarrow> string \<Rightarrow> string \<Rightarrow> int \<Rightarrow> 's condition" where
  "StatefulSetNewGeneration observed K namespace name generation = do {
     r \<leftarrow> ka_GetSts K namespace name;
     case r of
       Inl err \<Rightarrow> retb False (Some (Wrapf err ''failed to query for statefulSet by name: %v''))
     | Inr x \<Rightarrow> (if observed x > generation then retb True None else retb False None) }"

fun matchEvents :: "string \<Rightarrow> string \<Rightarrow> (string \<times> string) list \<Rightarrow> bool" where
  "matchEvents reason msg [] = False"
| "matchEvents reason msg ((r, m) # es) = (if r = reason \<and> m = msg then True else matchEvents reason msg es)"

text \<open>\<open>selector\<close> is \<open>fields.Set{...}.AsSelector().String()\<close>.\<close>

definition GetNamespaceEvents ::
  "((string \<times> string) list \<Rightarrow> string) \<Rightarrow> 's kube_api \<Rightarrow> string \<Rightarrow> string \<Rightarrow> string \<Rightarrow> string \<Rightarrow> string \<Rightarrow> 's condition" where
  "GetNamespaceEvents selector K namespace name ident reason msg = do {
     r \<leftarrow> ka_ListEvents K namespace (selector [(''involvedObject.name'', name), (''involvedObject.uid'', ident)]);
     case r of
       Inl err \<Rightarrow> retb False (Some err)
     | Inr events \<Rightarrow> (if matchEvents reason msg events then retb True None else retb False None) }"

definition ExecPodCMD :: "'s kube_api \<Rightarrow> pod \<Rightarrow> string \<Rightarrow> string list \<Rightarrow> 's condition" where
  "ExecPodCMD K pod container command = do {
     r \<leftarrow> ka_Exec K pod container command;
     case r of
       Some (NoExecutor err) \<Rightarrow> retb False (Some (Errorf ''failed to initialize remote command executor''))
     | Some (StreamFailed err) \<Rightarrow> retb False (Some (Wrapf err
         ''failed executing command in pod: %s, container: %s in namespace: %s''))
     | None \<Rightarrow> retb True None }"

section \<open>Waiting\<close>

definition WaitForPodLabelToExist :: "'s poll \<Rightarrow> 's kube_api \<Rightarrow> string \<Rightarrow> string \<Rightarrow> string \<Rightarrow> ('s, go_error option) state" where
  "WaitForPodLabelToExist poll K n podName label = poll (PodLabelToExist K n podName label)"

definition WaitForPodLabelToNotExist :: "'s poll \<Rightarrow> 's kube_api \<Rightarrow> string \<Rightarrow> string \<Rightarrow> string \<Rightarrow> ('s, go_error option) state" where
  "WaitForPodLabelToNotExist poll K n podName label = poll (PodLabelToNotExist K n podName label)"

definition WaitForStatefulSetDelete :: "'s poll \<Rightarrow> lib \<Rightarrow> 's kube_api \<Rightarrow> string \<Rightarrow> string \<Rightarrow> ('s, go_error option) state" where
  "WaitForStatefulSetDelete poll L K namespace name = poll (do {
     (found, err) \<leftarrow> StatefulSetExist L K namespace name;
     retb (\<not> found) err })"

definition WaitForStatefulSetNewGeneration ::
  "'s poll \<Rightarrow> (statefulset \<Rightarrow> int) \<Rightarrow> 's kube_api \<Rightarrow> string \<Rightarrow> string \<Rightarrow> int \<Rightarrow> ('s, go_error option) state" where
  "WaitForStatefulSetNewGeneration poll observed K namespace name currentVersion =
     poll (StatefulSetNewGeneration observed K namespace name currentVersion)"

definition WaitForQuarksStatefulSets :: "'s poll \<Rightarrow> 's kube_api \<Rightarrow> string \<Rightarrow> string \<Rightarrow> ('s, go_error option) state" where
  "WaitForQuarksStatefulSets poll K namespace labels = poll (QuarksStatefulSetExists K namespace labels)"

definition WaitForPV :: "'s poll \<Rightarrow> lib \<Rightarrow> 's kube_api \<Rightarrow> string \<Rightarrow> ('s, go_error option) state" where
  "WaitForPV poll L K name = poll (PVAvailable L K name)"

definition WaitForPVsDelete :: "'s poll \<Rightarrow> 's kube_api \<Rightarrow> string \<Rightarrow> ('s, go_error option) state" where
  "WaitForPVsDelete poll K labels = poll (PVsDeleted K labels)"

definition WaitForPVCsDelete :: "'s poll \<Rightarrow> 's kube_api \<Rightarrow> string \<Rightarrow> ('s, go_error option) state" where
  "WaitForPVCsDelete poll K namespace = poll (PVCsDeleted K namespace)"

text \<open>\<open>poll\<close> of a condition that may panic.\<close>

definition WaitForStatefulSet ::
  "(('s, bool_result go) state \<Rightarrow> ('s, go_error option go) state) \<Rightarrow> lib \<Rightarrow> 's kube_api \<Rightarrow> string \<Rightarrow> string \<Rightarrow>
   ('s, go_error option go) state" where
  "WaitForStatefulSet gpoll L K namespace name = gpoll (StatefulSetRunning L K namespace name)"

section \<open>Patches\<close>

text \<open>\<open>json.Marshal\<close> of the list of one JSON patch operation.\<close>

definition patchPayload :: "string \<Rightarrow> string \<Rightarrow> string \<Rightarrow> string" where
  "patchPayload o' p v = ''['' @ CHR ''{'' # json_Marshal_string ''op'' @ '':'' @ json_Marshal_string o' @ '','' @
     json_Marshal_string ''path'' @ '':'' @ json_Marshal_string p @ '','' @
     json_Marshal_string ''value'' @ '':'' @ json_Marshal_string v @ ''}]''"

definition PatchPod ::
  "'s kube_api \<Rightarrow> string \<Rightarrow> string \<Rightarrow> string \<Rightarrow> string \<Rightarrow> string \<Rightarrow> ('s, go_error option) state" where
  "PatchPod K namespace name o' p v =
     ka_PatchPod K namespace name ''application/json-patch+json'' (patchPayload o' p v)"

section \<open>Properties\<close>

text \<open>
  \<open>PollImmediate\<close> returns nil only right after a call of the condition that returned true and no
  error.
\<close>

definition poll_law :: "'s poll \<Rightarrow> bool" where
  "poll_law poll \<longleftrightarrow>
     (\<forall>c s s'. run_state (poll c) s = (None, s') \<longrightarrow> (\<exists>s0. run_state c s0 = ((True, None), s')))"

lemma poll_lawE:
  assumes "poll_law poll" "run_state (poll c) s = (None, s')"
  obtains s0 where "run_state c s0 = ((True, None), s')"
  using assms unfolding poll_law_def by blast

text \<open>What a condition saw when it held.\<close>

lemma condition_held:
  "run_state (PodLabelToExist K n p l) s = ((True, None), s') \<Longrightarrow>
     \<exists>pod. run_state (ka_GetPod K n p) s = (Inr pod, s') \<and> ghas (pod_Labels pod) l"
  "run_state (PodLabelToNotExist K n p l) s = ((True, None), s') \<Longrightarrow>
     \<exists>pod. run_state (ka_GetPod K n p) s = (Inr pod, s') \<and> \<not> ghas (pod_Labels pod) l"
  "run_state (StatefulSetExist L K n p) s = ((False, None), s') \<Longrightarrow>
     \<exists>e. run_state (ka_GetSts K n p) s = (Inl e, s') \<and> apierrors_IsNotFound L e"
  "run_state (PVsDeleted K l) s = ((True, None), s') \<Longrightarrow> run_state (ka_ListPVs K l) s = (Inr [], s')"
  "run_state (PVCsDeleted K n) s = ((True, None), s') \<Longrightarrow> run_state (ka_ListPVCs K n None) s = (Inr [], s')"
  "run_state (PVAvailable L K p) s = ((True, None), s') \<Longrightarrow> run_state (ka_GetPV K p) s = (Inr ''Available'', s')"
  "run_state (QuarksStatefulSetExists K n l) s = ((True, None), s') \<Longrightarrow>
     \<exists>q qs. run_state (ka_ListQsts K n l) s = (Inr (q # qs), s')"
  by (auto simp: PodLabelToExist_def PodLabelToNotExist_def StatefulSetExist_def PVsDeleted_def
      PVCsDeleted_def PVAvailable_def QuarksStatefulSetExists_def neq_Nil_conv
      split: prod.splits sum.splits if_splits)

lemmas wait_defs =
  WaitForPodLabelToExist_def WaitForPodLabelToNotExist_def WaitForStatefulSetDelete_def
  WaitForPVsDelete_def WaitForPVCsDelete_def WaitForPV_def WaitForQuarksStatefulSets_def

lemma wait_for_delete:
  assumes "poll_law poll" "run_state (WaitForStatefulSetDelete poll L K n p) s = (None, s')"
  shows "\<exists>s0 e. run_state (ka_GetSts K n p) s0 = (Inl e, s') \<and> apierrors_IsNotFound L e"
proof -
  from assms obtain s0 where "run_state (do {
      (found, err) \<leftarrow> StatefulSetExist L K n p;
      retb (\<not> found) err }) s0 = ((True, None), s')"
    unfolding wait_defs by (elim poll_lawE)
  then have "run_state (StatefulSetExist L K n p) s0 = ((False, None), s')"
    by (auto split: prod.splits)
  then show ?thesis by (blast dest: condition_held(3))
qed

text \<open>
  Waiting. When a wait of the machine ends without an error, the last answer of the
  cluster shows what was waited for: the label on the pod, or its absence; no StatefulSet of
  that name; no volumes or claims; an available volume; a QuarksStatefulSet.
\<close>

theorem machine_waits:
  assumes "poll_law poll"
  shows "(run_state (WaitForPodLabelToExist poll K n p l) s = (None, s') \<longrightarrow>
      (\<exists>s0 pod. run_state (ka_GetPod K n p) s0 = (Inr pod, s') \<and> ghas (pod_Labels pod) l)) \<and>
    (run_state (WaitForPodLabelToNotExist poll K n p l) s = (None, s') \<longrightarrow>
      (\<exists>s0 pod. run_state (ka_GetPod K n p) s0 = (Inr pod, s') \<and> \<not> ghas (pod_Labels pod) l)) \<and>
    (run_state (WaitForStatefulSetDelete poll L K n p) s = (None, s') \<longrightarrow>
      (\<exists>s0 e. run_state (ka_GetSts K n p) s0 = (Inl e, s') \<and> apierrors_IsNotFound L e)) \<and>
    (run_state (WaitForPVsDelete poll K l) s = (None, s') \<longrightarrow>
      (\<exists>s0. run_state (ka_ListPVs K l) s0 = (Inr [], s'))) \<and>
    (run_state (WaitForPVCsDelete poll K n) s = (None, s') \<longrightarrow>
      (\<exists>s0. run_state (ka_ListPVCs K n None) s0 = (Inr [], s'))) \<and>
    (run_state (WaitForPV poll L K p) s = (None, s') \<longrightarrow>
      (\<exists>s0. run_state (ka_GetPV K p) s0 = (Inr ''Available'', s'))) \<and>
    (run_state (WaitForQuarksStatefulSets poll K n l) s = (None, s') \<longrightarrow>
      (\<exists>s0 q qs. run_state (ka_ListQsts K n l) s0 = (Inr (q # qs), s')))"
  unfolding wait_defs(1,2,4-)
  by (intro conjI impI wait_for_delete [OF assms]; (elim poll_lawE [OF assms])?;
      blast dest: condition_held)

definition sample_poll :: "'s poll" where
  "sample_poll c = do {
     (b, err) \<leftarrow> c;
     State_Monad.return (if b \<and> err = None then None else Some (Errorf ''timed out waiting for the condition'')) }"

lemma sample_poll_law: "poll_law sample_poll"
  by (auto simp: poll_law_def sample_poll_def split: prod.splits if_splits)

definition sample_kube :: "pod kube_api" where
  "sample_kube = \<lparr>ka_CreateSts = (\<lambda>n x. State_Monad.return None), ka_GetSts = (\<lambda>n p. State_Monad.return (Inl not_found)),
     ka_DeleteSts = (\<lambda>n p. State_Monad.return None), ka_CreateQsts = (\<lambda>n q. State_Monad.return (q, None)),
     ka_GetQsts = (\<lambda>n p. State_Monad.return (zero_qsts, Some not_found)), ka_UpdateQsts = (\<lambda>n q. State_Monad.return (q, None)),
     ka_DeleteQsts = (\<lambda>n p. State_Monad.return None), ka_ListQsts = (\<lambda>n l. State_Monad.return (Inr [])),
     ka_GetPod = (\<lambda>n p. State (\<lambda>pod. (Inr pod, pod))), ka_PatchPod = (\<lambda>n p t d. State_Monad.return None),
     ka_ListPVCs = (\<lambda>n l. State_Monad.return (Inr [])), ka_DeletePVC = (\<lambda>n p. State_Monad.return None),
     ka_GetPV = (\<lambda>p. State_Monad.return (Inr ''Bound'')), ka_ListPVs = (\<lambda>l. State_Monad.return (Inr [])),
     ka_ListEvents = (\<lambda>n f. State_Monad.return (Inr [])), ka_Exec = (\<lambda>p c cmd. State_Monad.return None)\<rparr>"

definition labelled_pod :: pod where
  "labelled_pod = \<lparr>pod_Name = ''foo-0'', pod_Namespace = ''default'', pod_Labels = Some [''active'' \<mapsto> ''yes''],
     pod_Status = '''', pod_Rest = ''''\<rparr>"

theorem machine_waits_witness:
  "\<exists>s0 pod. run_state (WaitForPodLabelToExist sample_poll sample_kube ''default'' ''foo-0'' ''active'') labelled_pod =
       (None, labelled_pod) \<and>
     run_state (ka_GetPod sample_kube ''default'' ''foo-0'') s0 = (Inr pod, labelled_pod) \<and> ghas (pod_Labels pod) ''active''"
proof -
  have "run_state (WaitForPodLabelToExist sample_poll sample_kube ''default'' ''foo-0'' ''active'') labelled_pod =
      (None, labelled_pod)"
    by (simp add: WaitForPodLabelToExist_def sample_poll_def PodLabelToExist_def sample_kube_def labelled_pod_def ghas_def)
  with machine_waits [OF sample_poll_law, of sample_kube "''default''" "''foo-0''" "''active''" labelled_pod labelled_pod]
  show ?thesis by blast
qed

text \<open>
  The end of a test: when the removal of a QuarksStatefulSet reports no error, the resource and
  every claim of its run that was listed have been deleted or were gone.
\<close>

lemma deletePVCs_all:
  assumes "run_state (deletePVCs L K n pvcs) s = (None, s')" "pvc \<in> set pvcs"
  shows "\<exists>s0 s1 err. run_state (ka_DeletePVC K n pvc) s0 = (err, s1) \<and> (\<forall>e. err = Some e \<longrightarrow> apierrors_IsNotFound L e)"
  using assms
proof (induction pvcs arbitrary: s)
  case (Cons p pvcs)
  obtain err s1 where p: "run_state (ka_DeletePVC K n p) s = (err, s1)" by fastforce
  with Cons.prems(1) have ok: "ignoreMissing L err = None" and rest: "run_state (deletePVCs L K n pvcs) s1 = (None, s')"
    by (auto split: option.splits)
  show ?case
  proof (cases "pvc = p")
    case True
    with p ok show ?thesis by (auto simp: ignoreMissing_def split: option.splits if_splits)
  next
    case False
    with Cons.IH [OF rest] Cons.prems(2) show ?thesis by simp
  qed
qed simp

end
