(* ===== verification/TestEnvironment.thy ===== *)
theory TestEnvironment
  imports Setup Command
begin

text \<open>
  The environment of the integration tests (\<open>integration/environment\<close>): an identity, a namespace
  and a port of the webhook server per test, and the start of the operator as a sequence of
  calls, and its end. \<open>lookup\<close> is \<open>os.LookupEnv\<close>, \<open>nsName\<close> the function of \<open>quarks-utils\<close> that names the
  namespace; \<open>env_answers\<close> is what the calls answer.
\<close>

section \<open>Identity and namespace\<close>

record test_config =
  te_CtxTimeOut :: int
  te_MeltdownDuration :: int
  te_MeltdownRequeueAfter :: int
  te_MonitoredID :: string
  te_OperatorNamespace :: string
  te_WebhookServerHost :: string
  te_WebhookServerPort :: int

record environment =
  env_ID :: int
  env_Namespace :: string
  env_Config :: test_config

definition defaultTestMeltdownDuration :: int where "defaultTestMeltdownDuration = 10"
definition defaultTestMeltdownRequeueAfter :: int where "defaultTestMeltdownRequeueAfter = 1"

text \<open>\<open>NewEnvironment\<close> counts the environments of its process in an \<open>int32\<close>.\<close>

definition NewEnvironment :: "(int \<Rightarrow> string) \<Rightarrow> int \<Rightarrow> int \<Rightarrow> environment \<times> int" where
  "NewEnvironment nsName parallelNode namespaceCounter =
     (let counter = wrap32 (namespaceCounter + 1);
          namespaceID = wrap64 (parallelNode * 200 + counter);
          ns = nsName namespaceID
      in (\<lparr>env_ID = namespaceID, env_Namespace = ns, env_Config = \<lparr>
            te_CtxTimeOut = 10 * time_Second,
            te_MeltdownDuration = defaultTestMeltdownDuration * time_Second,
            te_MeltdownRequeueAfter = defaultTestMeltdownRequeueAfter * time_Second,
            te_MonitoredID = ns, te_OperatorNamespace = ns,
            te_WebhookServerHost = '''', te_WebhookServerPort = 0\<rparr>\<rparr>, counter))"

section \<open>The port of the webhook server\<close>

text \<open>\<open>strconv.ParseInt(s, 10, 32)\<close>.\<close>

definition ParseInt32 :: "string \<Rightarrow> num_error + int" where
  "ParseInt32 s = (case Atoi s of Inl err \<Rightarrow> Inl err | Inr i \<Rightarrow> if int32_ok i then Inr i else Inl ErrRange)"

definition getWebhookServicePort :: "(string \<Rightarrow> string option) \<Rightarrow> int \<Rightarrow> go_error + int" where
  "getWebhookServicePort lookup namespaceCounter =
     (case lookup ''QUARKS_STS_WEBHOOK_SERVICE_PORT'' of
        None \<Rightarrow> Inr (wrap32 (wrap32 40000 + wrap32 namespaceCounter))
      | Some portString \<Rightarrow>
          (case ParseInt32 portString of
             Inl err \<Rightarrow> Inl (Wrapf (NumErr err) (''Parsing QUARKS_STS_WEBHOOK_SERVICE_PORT '' @ [CHR 0x27] @ ''%s'' @ [CHR 0x27] @ '' failed''))
           | Inr port \<Rightarrow> Inr (wrap32 (wrap32 port + wrap32 namespaceCounter))))"

section \<open>The start of the operator\<close>

datatype env_call =
    StartTunnel "string list"
  | AwaitTunnel
  | SetupLoggerContext string
  | NewManagerWith string int
  | StartManagerOf
  | WaitForPort string string
  | KubernetesClientset
  | VersionedClientset
  | ApplyOperatorCRDs
  | SetupNamespaceWith "string \<rightharpoonup> string"
  | TeardownEnvironment bool
  | RemoveAll string
  | DeleteWebhooks string string

type_synonym env_history = "(env_call \<times> go_error option) list"
type_synonym env_answers = "env_history \<Rightarrow> env_call \<Rightarrow> go_error option"
type_synonym env_script = "(env_history, go_error option) state"

definition ecall :: "env_answers \<Rightarrow> env_call \<Rightarrow> env_script" where
  "ecall A c = State (\<lambda>h. (A h c, h @ [(c, A h c)]))"

definition eperform :: "env_call \<Rightarrow> (env_history, unit) state" where
  "eperform c = State (\<lambda>h. ((), h @ [(c, None)]))"

text \<open>\<open>fmt.Sprintf("%s:%[2]d:localhost:%[2]d", remoteAddr, port)\<close> and the command that forwards the port.\<close>

definition tunnelArgs :: "string \<Rightarrow> int \<Rightarrow> string \<Rightarrow> string \<Rightarrow> string list" where
  "tunnelArgs remoteAddr port sshUser whh =
     [''ssh'', ''-nNT'', ''-i'', ''/tmp/cf-operator-tunnel-identity'', ''-o'',
      ''UserKnownHostsFile=/dev/null'', ''-o'', ''StrictHostKeyChecking=no'', ''-R'',
      remoteAddr @ '':'' @ Itoa port @ '':localhost:'' @ Itoa port, sshUser @ ''@'' @ whh]"

definition startTunnel ::
  "(string \<Rightarrow> string option) \<Rightarrow> env_answers \<Rightarrow> string \<Rightarrow> int \<Rightarrow> env_script" where
  "startTunnel lookup A whh port =
     (case lookup ''ssh_server_user'' of
        None \<Rightarrow> State_Monad.return None
      | Some sshUser \<Rightarrow>
          (let remoteAddr = (case lookup ''ssh_server_listen_address'' of Some a \<Rightarrow> a | None \<Rightarrow> whh) in do {
             err \<leftarrow> ecall A (StartTunnel (tunnelArgs remoteAddr port sshUser whh));
             case err of
               Some e \<Rightarrow> State_Monad.return (Some (Wrapf e ''Failed to setup the SSH tunnel to %s''))
             | None \<Rightarrow> do { eperform AwaitTunnel; State_Monad.return None } }))"

text \<open>\<open>setupOperator\<close> returns the configuration it completes.\<close>

definition setupOperator ::
  "(string \<Rightarrow> string option) \<Rightarrow> env_answers \<Rightarrow> environment \<Rightarrow> (env_history, go_error option \<times> environment) state" where
  "setupOperator lookup A e =
     (case lookup ''QUARKS_STS_WEBHOOK_SERVICE_HOST'' of
        None \<Rightarrow> State_Monad.return (Some (Errorf
          ''Please set QUARKS_STS_WEBHOOK_SERVICE_HOST to the host/ip the operator runs on and try again''), e)
      | Some whh \<Rightarrow>
          (let e1 = e\<lparr>env_Config := (env_Config e)\<lparr>te_WebhookServerHost := whh\<rparr>\<rparr> in
           case getWebhookServicePort lookup (env_ID e1) of
             Inl err \<Rightarrow> State_Monad.return (Some err, e1)
           | Inr port \<Rightarrow> do {
               err \<leftarrow> startTunnel lookup A whh port;
               case err of
                 Some er \<Rightarrow> State_Monad.return (Some er, e1)
               | None \<Rightarrow> do {
                   let e2 = e1\<lparr>env_Config := (env_Config e1)\<lparr>te_WebhookServerPort := port\<rparr>\<rparr>;
                   eperform (SetupLoggerContext ''qsts-tests'');
                   err \<leftarrow> ecall A (NewManagerWith ''0.0.0.0'' port);
                   State_Monad.return (err, e2) } }))"

definition StartOperator ::
  "(string \<Rightarrow> string option) \<Rightarrow> env_answers \<Rightarrow> environment \<Rightarrow> (env_history, go_error option \<times> environment) state" where
  "StartOperator lookup A e = do {
     (err, e1) \<leftarrow> setupOperator lookup A e;
     case err of
       Some er \<Rightarrow> State_Monad.return (Some (Wrapf er ''Setting up CF Operator failed.''), e1)
     | None \<Rightarrow> do {
         eperform StartManagerOf;
         err \<leftarrow> ecall A (WaitForPort ''127.0.0.1'' (Itoa (te_WebhookServerPort (env_Config e1))));
         State_Monad.return (map_option (\<lambda>er. Wrapf er ''Integration setup failed. Waiting for port %d failed.'') err, e1) } }"

definition SetupClientsets :: "env_answers \<Rightarrow> env_script" where
  "SetupClientsets A = do {
     err \<leftarrow> ecall A KubernetesClientset;
     case err of
       Some e \<Rightarrow> State_Monad.return (Some e)
     | None \<Rightarrow> do {
         err \<leftarrow> ecall A VersionedClientset;
         case err of Some e \<Rightarrow> State_Monad.return (Some e) | None \<Rightarrow> State_Monad.return None } }"

definition envApplyCRDs :: "env_answers \<Rightarrow> env_script" where
  "envApplyCRDs A = do {
     err \<leftarrow> ecall A ApplyOperatorCRDs;
     case err of Some e \<Rightarrow> State_Monad.return (Some e) | None \<Rightarrow> State_Monad.return None }"

section \<open>The namespace and the end of a test\<close>

text \<open>\<open>ns_label\<close> is \<open>monitorednamespace.LabelNamespace\<close>, \<open>configDir\<close> is \<open>webhook.ConfigDir\<close>.\<close>

definition SetupNamespace :: "string \<Rightarrow> env_answers \<Rightarrow> environment \<Rightarrow> env_script" where
  "SetupNamespace ns_label A e = ecall A (SetupNamespaceWith [ns_label \<mapsto> te_MonitoredID (env_Config e)])"

definition removeWebhookCache :: "string \<Rightarrow> (int \<Rightarrow> string) \<Rightarrow> environment \<Rightarrow> (env_history, unit) state" where
  "removeWebhookCache configDir nsName e =
     eperform (RemoveAll (filepath_Join [configDir, WebhookConfigPrefix @ nsName (env_ID e)]))"

definition Teardown :: "string \<Rightarrow> (int \<Rightarrow> string) \<Rightarrow> environment \<Rightarrow> bool \<Rightarrow> (env_history, unit) state" where
  "Teardown configDir nsName e wasFailure = do {
     eperform (TeardownEnvironment wasFailure);
     removeWebhookCache configDir nsName e }"

text \<open>An error of a deletion is printed only, so every namespace gets its turn.\<close>

fun NukeWebhooks :: "env_answers \<Rightarrow> string list \<Rightarrow> (env_history, unit) state" where
  "NukeWebhooks A [] = State_Monad.return ()"
| "NukeWebhooks A (namespace # namespaces) = do {
     err \<leftarrow> ecall A (DeleteWebhooks namespace ''qsts-hook'');
     NukeWebhooks A namespaces }"

section \<open>Properties\<close>

text \<open>
  Environments on different ports: without a port of its own in the environment, up to 199
  environments on each of up to 127 parallel nodes listen on different, valid ports.
\<close>

lemma environment_port:
  assumes "0 \<le> node" "node \<le> 126" "0 \<le> n" "n < 199" "lookup ''QUARKS_STS_WEBHOOK_SERVICE_PORT'' = None"
  shows "getWebhookServicePort lookup (env_ID (fst (NewEnvironment nsName node n))) = Inr (40001 + node * 200 + n)"
proof -
  have id: "env_ID (fst (NewEnvironment nsName node n)) = node * 200 + n + 1"
    using assms(1-4) by (simp add: NewEnvironment_def Let_def wrap32_def wrap64_def)
  show ?thesis
    unfolding id using assms by (simp add: getWebhookServicePort_def wrap32_def)
qed

lemma environment_ports_distinct:
  assumes "0 \<le> node" "node \<le> 126" "0 \<le> n" "n < 199" "0 \<le> node'" "node' \<le> 126" "0 \<le> n'" "n' < 199"
    and "lookup ''QUARKS_STS_WEBHOOK_SERVICE_PORT'' = None"
    and "getWebhookServicePort lookup (env_ID (fst (NewEnvironment nsName node n))) =
         getWebhookServicePort lookup (env_ID (fst (NewEnvironment nsName node' n')))"
  shows "node = node' \<and> n = n'"
proof -
  note port = environment_port [where lookup = lookup and nsName = nsName, OF _ _ _ _ assms(9)]
  from assms(10) have "node * 200 + n = node' * 200 + n'"
    using port [OF assms(1-4)] port [OF assms(5-8)] by simp
  then have "(n - n') = 200 * (node' - node)" by simp
  moreover have "- 199 < n - n'" "n - n' < 199" using assms(3,4,7,8) by simp_all
  ultimately show ?thesis by (cases "node' - node = 0") auto
qed

text \<open>
  The operator is ready before a test goes on: a start without an error has created the manager
  for the port that was computed, started it, and then waited for that port.
\<close>

lemma StartOperator_waits:
  assumes "run_state (StartOperator lookup A e) [] = ((None, e'), h)"
  shows "\<exists>port pre. getWebhookServicePort lookup (env_ID e) = Inr port \<and>
    te_WebhookServerPort (env_Config e') = port \<and>
    h = pre @ [(NewManagerWith ''0.0.0.0'' port, None), (StartManagerOf, None),
               (WaitForPort ''127.0.0.1'' (Itoa port), None)]"
  using assms
  by (auto simp: StartOperator_def setupOperator_def startTunnel_def ecall_def eperform_def Let_def
      split: option.splits sum.splits prod.splits)

text \<open>
  What a test leaves behind: the directory removed after it is the one the operator of the same
  environment keeps its certificates in, and the hooks of every namespace are asked to go, whatever
  the earlier deletions answered.
\<close>

lemma Teardown_removes_cache:
  assumes "fst (NewEnvironment nsName node counter) = e" "OperatorNamespace cfg = te_OperatorNamespace (env_Config e)"
  shows "run_state (Teardown configDir nsName e wasFailure) h = ((), h @ [(TeardownEnvironment wasFailure, None),
      (RemoveAll (filepath_Join [configDir, WebhookConfigPrefix @ OperatorNamespace cfg]), None)])"
  using assms by (auto simp: Teardown_def removeWebhookCache_def eperform_def NewEnvironment_def Let_def)

lemma NukeWebhooks_all:
  "map fst (snd (run_state (NukeWebhooks A nss) h)) = map fst h @ map (\<lambda>n. DeleteWebhooks n ''qsts-hook'') nss"
  by (induction nss arbitrary: h) (simp_all add: ecall_def)

end
