(* ===== verification/Rollout_Requeue.thy ===== *)
theory Rollout_Requeue
  imports Rollout_Liveness
begin

text \<open>
  When a Reconcile of the rollout controller comes back. A rollout in progress is not driven by
  events alone: the result of a Reconcile asks for the next one, no later than the deadline
  that is running, and at most a minute later while pods are being moved.
\<close>

section \<open>The time left, as a function of the clock\<close>

definition time_left :: "lib \<Rightarrow> gomap \<Rightarrow> string \<Rightarrow> int \<Rightarrow> int" where
  "time_left L m k now =
     (if \<not> ghas m k \<or> gget m k = '''' then 0
      else case (Atoi (gget m k), Atoi (gget m (AnnotationUpdateStartTime (gname L)))) of
        (Inr w, Inr u) \<Rightarrow>
          (let d = time_Until now (time_Add (time_Unix u) (wrap64 (time_Millisecond * w)))
           in if d = 0 then -1 else d)
      | _ \<Rightarrow> -1)"

text \<open>
  \<open>left_at L x k T d\<close>: \<open>d\<close> is the time left at one of the clock readings \<open>T\<close>. The readings of a
  Reconcile are those of its trace; it makes one before it looks at any deadline.
\<close>

definition clocks :: "event list \<Rightarrow> int set" where
  "clocks ev = {t. Clock t \<in> set ev}"

definition left_at :: "lib \<Rightarrow> gomap \<Rightarrow> string \<Rightarrow> int set \<Rightarrow> int \<Rightarrow> bool" where
  "left_at L m k T d \<longleftrightarrow> (\<exists>t\<in>T. d = time_left L m k t)"

lemma clocks_simps [simp]:
  "clocks [] = {}"
  "clocks (e # ev) = (case e of Clock t \<Rightarrow> insert t (clocks ev) | _ \<Rightarrow> clocks ev)"
  "clocks (ev @ ev') = clocks ev \<union> clocks ev'"
  by (auto simp: clocks_def split: event.splits)

lemma left_at_mono: "left_at L m k T d \<Longrightarrow> T \<subseteq> T' \<Longrightarrow> left_at L m k T' d"
  by (auto simp: left_at_def)

lemma getTimeOut_left:
  "emits (getTimeOut L (recording W) x k)
     (\<lambda>d ev. now \<in> T \<longrightarrow> left_at L (sts_Annotations x) k (T \<union> clocks ev) d)"
  unfolding getTimeOut_def recording_simps Let_def
  by (intro emits_rules) (auto simp: left_at_def time_left_def Let_def)

section \<open>The result of a Reconcile\<close>

text \<open>The deadline that is running: a rollout that is about to start its canary has two.\<close>

definition starts_canary :: "lib \<Rightarrow> statefulset \<Rightarrow> bool" where
  "starts_canary L x \<longleftrightarrow> canary_state L x = rolloutStatePending \<and>
     (\<exists>r. spec_Replicas (sts_Spec x) = Some r \<and> r \<le> st_Replicas (sts_Status x))"

definition deadline_key :: "lib \<Rightarrow> statefulset \<Rightarrow> string" where
  "deadline_key L x =
     (if starts_canary L x then AnnotationCanaryWatchTime (gname L)
      else AnnotationUpdateWatchTime (gname L))"

definition comes_back :: "lib \<Rightarrow> statefulset \<Rightarrow> int set \<Rightarrow> reconcile_result \<Rightarrow> bool" where
  "comes_back L x T res \<longleftrightarrow>
     (\<exists>d. left_at L (sts_Annotations x) (deadline_key L x) T d \<and>
        (canary_state L x = rolloutStatePending \<longrightarrow> \<not> Requeue res) \<and>
        (if canary_state L x = rolloutStateRollout then RequeueAfter res = min d time_Minute
         else if canary_state L x = rolloutStateCanary then RequeueAfter res \<in> {d, min d time_Minute}
         else RequeueAfter res = d))"

lemma caseRollout_result:
  "emits (caseRollout L (recording W) x st res) (\<lambda>q ev. \<forall>y ns dirty res'.
     q = Ret (SwitchOk y ns dirty res') \<longrightarrow> RequeueAfter res' = min (RequeueAfter res) time_Minute)"
proof -
  have any: "emits (partitionPodIsReadyAndUpdated L (recording W) x) (\<lambda>q ev. True)"
    by (rule emits_mono [OF partitionPodIsReady_emits]) simp
  show ?thesis
    unfolding caseRollout_def Let_def
    by (intro emits_rules emits_mono [OF any]) auto
qed

lemma comes_backI:
  assumes "left_at L (sts_Annotations x) (deadline_key L x) T d" "T \<subseteq> T'"
    and "RequeueAfter res = min d time_Minute \<and> canary_state L x \<in> {rolloutStateCanary, rolloutStateRollout} \<or>
      RequeueAfter res = d \<and> canary_state L x \<noteq> rolloutStateRollout"
    and "canary_state L x \<noteq> rolloutStatePending"
  shows "comes_back L x T' res"
  using assms left_at_mono [OF assms(1,2)] unfolding comes_back_def
  by (intro exI [of _ d]) (auto simp: rollout_states)

lemma deadline_update:
  "canary_state L x \<noteq> rolloutStatePending \<Longrightarrow> deadline_key L x = AnnotationUpdateWatchTime (gname L)"
  by (simp add: deadline_key_def starts_canary_def)

lemma state_distinct:
  "rolloutStatePending \<noteq> rolloutStateCanaryUpscale" "rolloutStatePending \<noteq> rolloutStateCanary"
  "rolloutStatePending \<noteq> rolloutStateRollout" "rolloutStateCanaryUpscale \<noteq> rolloutStateRollout"
  "rolloutStateCanary \<noteq> rolloutStateRollout" "rolloutStateCanaryUpscale \<noteq> rolloutStateCanary"
  by (simp_all add: rollout_states)

lemma casePending_result:
  assumes "now \<in> T" "canary_state L x = rolloutStatePending" "\<not> Requeue res"
  shows "emits (casePending L (recording W) x st res) (\<lambda>q ev. \<forall>y ns dirty res'.
     q = Ret (SwitchOk y ns dirty res') \<longrightarrow> comes_back L x (T \<union> clocks ev) res')"
  unfolding casePending_def Let_def
  by (intro emits_rules emits_mono [OF getTimeOut_left [where now = now and T = T]])
     (use assms in \<open>auto simp: comes_back_def deadline_key_def starts_canary_def deref_def state_distinct
        split: if_splits option.splits\<close>)

lemma rolloutSwitch_result:
  assumes T: "now \<in> T"
    and not: "\<not> Requeue res"
    and left: "left_at L (sts_Annotations x) (AnnotationUpdateWatchTime (gname L)) T (RequeueAfter res)"
  shows "emits (rolloutSwitch L (recording W) x (canary_state L x) res) (\<lambda>q ev. \<forall>y ns dirty res'.
     q = Ret (SwitchOk y ns dirty res') \<longrightarrow> comes_back L x (T \<union> clocks ev) res')"
proof (cases "canary_state L x = rolloutStatePending")
  case True
  then show ?thesis
    using casePending_result [OF T True not] by (simp add: rolloutSwitch_def state_distinct)
next
  case False
  have any: "emits (getTimeOut L (recording W) y k) (\<lambda>d ev. True)" for y k
    by (rule emits_mono [OF getTimeOut_emits]) simp
  have again: "comes_back L x T' r" if "T \<subseteq> T'"
    "RequeueAfter r = min (RequeueAfter res) time_Minute \<and> canary_state L x \<in> {rolloutStateCanary, rolloutStateRollout} \<or>
      RequeueAfter r = RequeueAfter res \<and> canary_state L x \<noteq> rolloutStateRollout" for T' r
    by (rule comes_backI [where d = "RequeueAfter res" and T = T])
       (use that in \<open>simp_all add: left deadline_update False\<close>)
  show ?thesis
    unfolding rolloutSwitch_def caseCanaryUpscale_def caseCanary_def
    by (intro emits_rules emits_mono [OF any] emits_mono [OF caseRollout_result])
       (simp_all add: False state_distinct again)
qed

lemma failIfTimedOut_left:
  assumes "now \<in> T"
  shows "emits (failIfTimedOut L (recording W) x k) (\<lambda>q ev. \<forall>e. q = Ret (True, e) \<longrightarrow>
     (\<exists>d < 0. left_at L (sts_Annotations x) k (T \<union> clocks ev) d))"
  unfolding failIfTimedOut_def
  by (intro emits_rules emits_mono [OF getTimeOut_left [where now = now and T = T]]
        emits_mono [OF updateStatefulSet_refused])
     (use assms in \<open>auto intro: left_at_mono\<close>)

text \<open>What Reconcile returns from the test of the final states on, if the update has time left.\<close>

lemma rolloutFinish_result:
  "emits (rolloutFinish L (recording W) y ns dirty old res)
     (\<lambda>q ev. \<forall>res'. q = Ret (res', None) \<longrightarrow> res' = res)"
  unfolding rolloutFinish_def Let_def
  by (intro emits_rules emits_mono [OF updateWithPartitionMove_refused]) auto

lemma comes_back_mono:
  assumes "comes_back L x T res" "T \<subseteq> T'"
  shows "comes_back L x T' res"
proof -
  have left: "left_at L (sts_Annotations x) (deadline_key L x) T d \<Longrightarrow>
      left_at L (sts_Annotations x) (deadline_key L x) T' d" for d
    by (rule left_at_mono [OF _ assms(2)])
  show ?thesis using assms(1) unfolding comes_back_def by (elim exE conjE) (drule left, intro exI conjI)
qed

definition in_time :: "lib \<Rightarrow> statefulset \<Rightarrow> int set \<Rightarrow> bool" where
  "in_time L x T \<longleftrightarrow>
     (\<forall>t\<in>T. 0 \<le> time_left L (sts_Annotations x) (AnnotationUpdateWatchTime (gname L)) t)"

lemma rolloutAdvance_result:
  assumes T: "now \<in> T" and live: "canary_state L x \<noteq> rolloutStateDone" "canary_state L x \<noteq> rolloutStateFailed"
  shows "emits (rolloutAdvance L (recording W) x) (\<lambda>q ev. \<forall>res.
     q = Ret (res, None) \<longrightarrow> in_time L x (T \<union> clocks ev) \<longrightarrow> comes_back L x (T \<union> clocks ev) res)"
proof -
  have late: "\<not> in_time L x (T \<union> T')"
    if "left_at L (sts_Annotations x) (AnnotationUpdateWatchTime (gname L)) (T \<union> T') d" "d < 0" for T' d
    using that by (force simp: in_time_def left_at_def)
  have rest: "emits (gobind (rolloutSwitch L (recording W) x (canary_state L x) (requeue_after d)) (\<lambda>out.
       case out of
         SwitchErr e \<Rightarrow> gret (empty_result, Some e)
       | SwitchOk x1 newStatus dirty res \<Rightarrow> rolloutFinish L (recording W) x1 newStatus dirty old res))
     (\<lambda>q ev. \<forall>res. q = Ret (res, None) \<longrightarrow> comes_back L x (T' \<union> clocks ev) res)"
    if "now \<in> T'" "left_at L (sts_Annotations x) (AnnotationUpdateWatchTime (gname L)) T' d" for T' d old
    by (intro emits_rules emits_mono [OF rolloutSwitch_result [where now = now and T = T']]
          emits_mono [OF rolloutFinish_result])
       (use that in \<open>auto simp: requeue_after_def intro: comes_back_mono\<close>)
  have left: "emits (do {
         d \<leftarrow> getTimeOut L (recording W) x (AnnotationUpdateWatchTime (gname L));
         gobind (rolloutSwitch L (recording W) x (canary_state L x) (requeue_after d)) (\<lambda>out.
           case out of
             SwitchErr e \<Rightarrow> gret (empty_result, Some e)
           | SwitchOk x1 newStatus dirty res \<Rightarrow> rolloutFinish L (recording W) x1 newStatus dirty old res) })
     (\<lambda>q ev. \<forall>res. q = Ret (res, None) \<longrightarrow> comes_back L x (T \<union> clocks ev) res)" for old
    by (intro emits_bind emits_mono [OF getTimeOut_left [where now = now and T = T]] emits_mono [OF rest])
       (use T in \<open>auto simp: Un_assoc\<close>)
  show ?thesis
    unfolding rolloutAdvance_def Let_def
    by (intro emits_rules emits_mono [OF failIfTimedOut_left [OF T]] emits_mono [OF left])
       (auto simp: live dest: late intro: comes_back_mono)
qed

lemma rolloutReconcile_result:
  assumes "tr = trace_of (rolloutReconcile L cfg (recording W) req) s"
    and "result_of (rolloutReconcile L cfg (recording W) req) s = Ret (res, None)"
    and "hd tr = GotSts req (Inr x)"
    and "canary_state L x \<noteq> rolloutStateDone" "canary_state L x \<noteq> rolloutStateFailed"
    and "in_time L x (clocks tr)"
  shows "\<exists>t ev. tr = GotSts req (Inr x) # Clock t # ev \<and>
    (if meltdown_AnnotationWindow_Contains L (MeltdownDuration cfg) (sts_Annotations x) t
     then res = requeue_after (MeltdownRequeueAfter cfg) else comes_back L x (clocks tr) res)"
proof -
  have advance: "emits (rolloutAdvance L (recording W) y) (\<lambda>q ev. \<forall>res.
      q = Ret (res, None) \<longrightarrow> canary_state L y \<noteq> rolloutStateDone \<longrightarrow>
      canary_state L y \<noteq> rolloutStateFailed \<longrightarrow> in_time L y (insert t (clocks ev)) \<longrightarrow>
      comes_back L y (insert t (clocks ev)) res)" for y t
    using rolloutAdvance_result [of t "{t}" y L W]
    by (cases "canary_state L y \<noteq> rolloutStateDone \<and> canary_state L y \<noteq> rolloutStateFailed")
       (auto elim!: emits_mono simp: rolloutAdvance_final intro: emits_gret)
  have "emits (rolloutReconcile L cfg (recording W) req) (\<lambda>q ev. \<forall>y res. hd ev = GotSts req (Inr y) \<longrightarrow>
      q = Ret (res, None) \<longrightarrow> canary_state L y \<noteq> rolloutStateDone \<longrightarrow>
      canary_state L y \<noteq> rolloutStateFailed \<longrightarrow> in_time L y (clocks ev) \<longrightarrow>
      (\<exists>t ev'. ev = GotSts req (Inr y) # Clock t # ev' \<and>
        (if meltdown_AnnotationWindow_Contains L (MeltdownDuration cfg) (sts_Annotations y) t
         then res = requeue_after (MeltdownRequeueAfter cfg) else comes_back L y (clocks ev) res)))"
    unfolding rolloutReconcile_def recording_simps
    by (intro emits_rules emits_mono [OF advance]) auto
  from emits_trace [OF this, of s] show ?thesis
    using assms by blast
qed

lemma rolloutReconcile_hd:
  "hd (trace_of (rolloutReconcile L cfg (recording W) req) s) = GotSts req (fst (run_state (w_GetSts W req) s))"
  unfolding rolloutReconcile_def rolloutAdvance_def recording_simps Let_def
  by (rule hd_trace_bind)
     (intro emits_rules emits_mono [OF failIfTimedOut_refused] emits_mono [OF getTimeOut_emits]
        emits_mono [OF rolloutSwitch_emits] emits_mono [OF rolloutFinish_result]; simp)


text \<open>
  C24: the gap. A pending rollout that has all its pods goes to its canary and asks to come back
  at the deadline of the canary only; if it has none, it does not ask at all, even if the
  update has a deadline. Then nothing but a later event marks the rollout as failed.
\<close>

theorem canary_start_forgets_deadline:
  assumes "tr = trace_of (rolloutReconcile L cfg (recording W) req) s"
    and "result_of (rolloutReconcile L cfg (recording W) req) s = Ret (res, None)"
    and "hd tr = GotSts req (Inr x)" and "in_time L x (clocks tr)"
    and "starts_canary L x" "gget (sts_Annotations x) (AnnotationCanaryWatchTime (gname L)) = ''''"
    and "\<forall>t\<in>clocks tr. \<not> meltdown_AnnotationWindow_Contains L (MeltdownDuration cfg) (sts_Annotations x) t"
  shows "RequeueAfter res = 0 \<and> \<not> Requeue res"
proof -
  have st: "canary_state L x = rolloutStatePending"
    using assms(5) by (simp add: starts_canary_def)
  have "comes_back L x (clocks tr) res"
    using rolloutReconcile_result [OF assms(1-3) _ _ assms(4)] st assms(7)
    by (auto simp: rollout_states split: if_splits)
  with st assms(5,6) show ?thesis
    by (auto simp: comes_back_def left_at_def deadline_key_def time_left_def rollout_states)
qed

section \<open>Witnesses\<close>

text \<open>A StatefulSet whose update has 90 ms from second 1 on, read at second 1; its pods are not ready.\<close>

definition timed_sts :: "string \<Rightarrow> statefulset" where
  "timed_sts st = (sample_sts st 1 2 2)\<lparr>sts_Annotations :=
     Some [''quarks.cloudfoundry.org/canary-rollout'' \<mapsto> st,
           ''quarks.cloudfoundry.org/update-watch-time-ms'' \<mapsto> ''90'',
           ''quarks.cloudfoundry.org/update-start-time'' \<mapsto> ''1'']\<rparr>"

definition timed_mem :: "string \<Rightarrow> mem" where
  "timed_mem st = (sample_mem (timed_sts st) [sample_pod 1 '''', sample_pod 0 ''''])\<lparr>m_Now := 1000000000\<rparr>"

definition timed_config :: config where
  "timed_config = sample_config\<lparr>MeltdownRequeueAfter := 30 * time_Second\<rparr>"

abbreviation timed_run :: "(mem \<times> event list, reconcile_out) state" where
  "timed_run \<equiv> rolloutReconcile sample_lib timed_config (recording mem_world) sample_key"

lemma Atoi_small: "Atoi ''1'' = Inr 1" "Atoi ''90'' = Inr 90"
  by code_simp+

lemma timed_left:
  "time_left sample_lib (sts_Annotations (timed_sts st)) (AnnotationUpdateWatchTime (gname sample_lib)) 1000000000 =
     90 * time_Millisecond"
  unfolding timed_sts_def
  by (simp add: time_left_def sample_lib_def key_defs gget_def ghas_def Atoi_small time_Until_def sat64_def
      time_Add_def time_Unix_def norm_time_range time_Millisecond_def wrap64_id int64_ok_def
      del: Atoi.simps)

lemma timed_state: "canary_state sample_lib (timed_sts st) = st"
  by (simp add: timed_sts_def sample_lib_def key_defs gget_def)

lemma timed_trace:
  assumes "list_all (\<lambda>e. case e of Clock t \<Rightarrow> t = 1000000000 | _ \<Rightarrow> True) tr"
  shows "t \<in> clocks tr \<Longrightarrow> t = 1000000000" "in_time sample_lib (timed_sts st) (clocks tr)"
proof -
  show t: "t = 1000000000" if "t \<in> clocks tr" for t
    using assms that by (auto simp: clocks_def list_all_iff)
  show "in_time sample_lib (timed_sts st) (clocks tr)"
    by (auto simp: in_time_def timed_left time_Millisecond_def dest: t)
qed

lemma timed_read:
  "hd (trace_of timed_run (timed_mem st)) = GotSts sample_key (Inr (timed_sts st))"
  by (simp add: rolloutReconcile_hd timed_mem_def sample_mem_def mem_world_def found_def)


theorem canary_start_forgets_deadline_witness:
  "\<exists>res. result_of timed_run (timed_mem ''Pending'') = Ret (res, None) \<and>
     RequeueAfter res = 0 \<and> \<not> Requeue res"
proof -
  let ?s = "timed_mem ''Pending''" and ?x = "timed_sts ''Pending''"
  have "go_sat (\<lambda>(r, e). e = None) (result_of timed_run ?s)" by code_simp
  then obtain res where res: "result_of timed_run ?s = Ret (res, None)"
    by (auto elim: go_satE)
  have "list_all (\<lambda>e. case e of Clock t \<Rightarrow> t = 1000000000 | _ \<Rightarrow> True) (trace_of timed_run ?s)" by code_simp
  note ev = timed_trace(2) [OF this]
  have "starts_canary sample_lib ?x" "gget (sts_Annotations ?x) (AnnotationCanaryWatchTime (gname sample_lib)) = []"
    by (simp_all add: starts_canary_def timed_state rollout_states)
       (simp_all add: timed_sts_def sample_sts_def zero_defs sample_lib_def key_defs gget_def)
  with canary_start_forgets_deadline [OF refl res timed_read ev] res show ?thesis
    by (auto simp: sample_lib_def)
qed

end
