(* ===== verification/Rollout_Stuck.thy ===== *)
theory Rollout_Stuck
  imports Rollout_Requeue Rollout_Completion
begin

text \<open>
  A rollout that is stuck, driven by the work queue alone: no pod becomes ready, no event
  arrives, and the next Reconcile is the one the last one asked for. It is marked as failed, by
  its deadline.
\<close>

section \<open>A stalled cluster\<close>

text \<open>
  \<open>I T\<close> holds of the states of the cluster at time \<open>T\<close>, \<open>view\<close> is the StatefulSet stored in them,
  \<open>pass d\<close> is what \<open>d\<close> nanoseconds without an event do. Reads answer with the stored object, the
  clock is in no meltdown window, the pod looked at is missing, not ready or not updated, not all
  replicas are ready, and a write stores what the mutate function makes of the stored object.
\<close>

definition stalled ::
  "lib \<Rightarrow> config \<Rightarrow> 's world \<Rightarrow> nsname \<Rightarrow> (int \<Rightarrow> 's \<Rightarrow> bool) \<Rightarrow> ('s \<Rightarrow> statefulset) \<Rightarrow> (int \<Rightarrow> 's \<Rightarrow> 's) \<Rightarrow> bool" where
  "stalled L cfg W req I view pass \<longleftrightarrow> (\<forall>T s. I T s \<longrightarrow>
     keeps (I T) view (w_GetSts W req) (\<lambda>r. r = Inr (view s)) s \<and>
     keeps (I T) view (w_Now W) (\<lambda>t. t = T \<and> \<not> meltdown_AnnotationWindow_Contains L (MeltdownDuration cfg)
        (sts_Annotations (view s)) t) s \<and>
     (\<forall>p. partitionVal (view s) = Ret p \<longrightarrow>
        keeps (I T) view (w_GetPod W (podKey (view s) p))
          (\<lambda>r. case r of Inl e \<Rightarrow> crc_IgnoreNotFound L e = None
                | Inr pod \<Rightarrow> \<not> (podutil_IsPodReady L pod \<and> podIsUpdated L (view s) pod)) s) \<and>
     (\<exists>r. spec_Replicas (sts_Spec (view s)) = Some r \<and>
        \<not> (st_Replicas (sts_Status (view s)) = r \<and> st_ReadyReplicas (sts_Status (view s)) = r)) \<and>
     (\<forall>x part st z. sts_Name x = sts_Name (view s) \<longrightarrow> sts_Namespace x = sts_Namespace (view s) \<longrightarrow>
        rolloutMutate L part st (view s) = Ret z \<longrightarrow>
        wp (w_CreateOrUpdate W x (rolloutMutate L part st)) (\<lambda>r s'. r = Ret (None, z) \<and> I T s' \<and> view s' = z) s) \<and>
     (\<forall>d > 0. I (T + d) (pass d s) \<and> view (pass d s) = view s))"

lemma stalledD:
  assumes "stalled L cfg W req I view pass" "I T s"
  shows stall_get: "keeps (I T) view (w_GetSts W req) (\<lambda>r. r = Inr (view s)) s"
    and stall_now: "keeps (I T) view (w_Now W) (\<lambda>t. t = T \<and> \<not> meltdown_AnnotationWindow_Contains L
      (MeltdownDuration cfg) (sts_Annotations (view s)) t) s"
    and stall_pod: "partitionVal (view s) = Ret p \<Longrightarrow> keeps (I T) view (w_GetPod W (podKey (view s) p))
      (\<lambda>r. case r of Inl e \<Rightarrow> crc_IgnoreNotFound L e = None
            | Inr pod \<Rightarrow> \<not> (podutil_IsPodReady L pod \<and> podIsUpdated L (view s) pod)) s"
    and stall_replicas: "\<exists>r. spec_Replicas (sts_Spec (view s)) = Some r \<and>
      \<not> (st_Replicas (sts_Status (view s)) = r \<and> st_ReadyReplicas (sts_Status (view s)) = r)"
    and stall_write: "sts_Name x = sts_Name (view s) \<Longrightarrow> sts_Namespace x = sts_Namespace (view s) \<Longrightarrow>
      rolloutMutate L part st (view s) = Ret z \<Longrightarrow>
      wp (w_CreateOrUpdate W x (rolloutMutate L part st)) (\<lambda>r s'. r = Ret (None, z) \<and> I T s' \<and> view s' = z) s"
    and stall_pass: "0 < d \<Longrightarrow> I (T + d) (pass d s)" "0 < d \<Longrightarrow> view (pass d s) = view s"
  using assms unfolding stalled_def by blast+

text \<open>
  The work queue of controller-runtime for one request, without events: it calls Reconcile again
  after the time a successful result asks for, and forgets the request if it asks for none.
\<close>

primrec queue ::
  "lib \<Rightarrow> config \<Rightarrow> 's world \<Rightarrow> nsname \<Rightarrow> (int \<Rightarrow> 's \<Rightarrow> 's) \<Rightarrow> nat \<Rightarrow> 's \<Rightarrow> 's" where
  "queue L cfg W req pass 0 s = s"
| "queue L cfg W req pass (Suc n) s =
     (case run_state (rolloutReconcile L cfg W req) s of
        (Ret (res, None), s') \<Rightarrow>
          (if 0 < RequeueAfter res then queue L cfg W req pass n (pass (RequeueAfter res) s') else s')
      | (_, s') \<Rightarrow> s')"

section \<open>One Reconcile on a stalled cluster\<close>

lemma stall_timeout:
  assumes "stalled L cfg W req I view pass" "I T s"
  shows "keeps (I T) view (getTimeOut L W (view s) k) (\<lambda>d. d = time_left L (sts_Annotations (view s)) k T) s"
  unfolding keeps_def getTimeOut_def time_left_def Let_def
  using assms(2) by (auto simp: wp_simps intro!: keeps_wp [OF stall_now [OF assms]] split: sum.splits)

lemma stall_ready:
  assumes "stalled L cfg W req I view pass" "I T s" "partitionVal (view s) = Ret p"
  shows "keeps (I T) view (partitionPodIsReadyAndUpdated L W (view s)) (\<lambda>r. r = Ret (Inr False)) s"
  using assms(2,3)
  unfolding partitionPodIsReadyAndUpdated_def getPodWithIndex_def keeps_def
  by (auto simp: wp_simps deref_def intro!: keeps_wp [OF stall_pod [OF assms]] split: sum.splits)

text \<open>Storing the state \<open>Failed\<close>; the partition stays, so that no pod is cleaned up.\<close>

lemma stall_fail:
  assumes stall: "stalled L cfg W req I view pass" "meltdown_keeps_state L" and s: "I T s"
    and p: "partitionVal (view s) = Ret p" and m: "gset (sts_Annotations (view s)) (AnnotationCanaryRollout (gname L)) st = Ret m"
  shows "wp (updateStatefulSet L W ((view s)\<lparr>sts_Annotations := m\<rparr>))
     (\<lambda>r s'. (\<exists>z. r = Ret (None, z) \<and> partitionVal z = Ret p) \<and> I T s' \<and> stands L st p (view s')) s"
proof -
  let ?x = "(view s)\<lparr>sts_Annotations := m\<rparr>"
  have st: "canary_state L ?x = st"
    using m by (cases "sts_Annotations (view s)") auto
  obtain z where z: "rolloutMutate L p (canary_state L ?x) (view s) = Ret z"
    unfolding st using m partitionVal_Ret [OF p] by (auto simp: rolloutMutate_def)
  have zp: "partitionVal z = Ret p" "canary_state L z = st"
    using rolloutMutate_Ret(1,2) [OF z] st by simp_all
  have wr: "wp (w_CreateOrUpdate W x' (rolloutMutate L p (gget m (AnnotationCanaryRollout (gname L)))))
      (\<lambda>r s'. r = Ret (None, z) \<and> I T s' \<and> view s' = z) s'"
    if "I T s'" "view s' = view s" "sts_Name x' = sts_Name (view s)" "sts_Namespace x' = sts_Namespace (view s)" for x' s'
    using that z by (intro stall_write [OF stall(1)]) simp_all
  show ?thesis
    unfolding updateStatefulSet_def Let_def
    using stall(2) p st zp
    by (auto simp: wp_simps meltdown_keeps_state_def s stands_def
          intro!: keeps_wp [OF stall_now [OF stall(1), where T = T]] wp_mono [OF wr])
qed

definition waiting :: "lib \<Rightarrow> statefulset \<Rightarrow> bool" where
  "waiting L x \<longleftrightarrow> canary_state L x \<in> {rolloutStateCanary, rolloutStateRollout, rolloutStateCanaryUpscale}"

lemma waiting_nonnil: "waiting L x \<Longrightarrow> \<exists>f. sts_Annotations x = Some f"
  by (rule gget_nonempty_nonnil [of _ "AnnotationCanaryRollout (gname L)"]) (auto simp: waiting_def rollout_states)

lemma waiting_live: "waiting L x \<Longrightarrow> canary_state L x \<noteq> rolloutStateFailed \<and> canary_state L x \<noteq> rolloutStateDone"
  by (auto simp: waiting_def rollout_states)

abbreviation update_left :: "lib \<Rightarrow> statefulset \<Rightarrow> int \<Rightarrow> int" where
  "update_left L x \<equiv> time_left L (sts_Annotations x) (AnnotationUpdateWatchTime (gname L))"

text \<open>The switch: it waits, or gives up at the deadline of the canary.\<close>

definition idles :: "statefulset \<Rightarrow> string \<Rightarrow> int \<Rightarrow> switch_out go \<Rightarrow> bool" where
  "idles x st d r \<longleftrightarrow> (\<exists>st' res. r = Ret (SwitchOk x st' False res) \<and> (st' = st \<or> st' = rolloutStateFailed) \<and>
     (RequeueAfter res = d \<or> RequeueAfter res = min d time_Minute))"

lemma idlesI:
  "RequeueAfter res = d \<or> RequeueAfter res = min d time_Minute \<Longrightarrow> st' = st \<or> st' = rolloutStateFailed \<Longrightarrow>
     idles x st d (Ret (SwitchOk x st' False res))"
  by (auto simp: idles_def)

lemma stall_rollout:
  assumes "stalled L cfg W req I view pass" "I T s" "partitionVal (view s) = Ret p"
  shows "keeps (I T) view (caseRollout L W (view s) st (requeue_after d)) (idles (view s) st d) s"
  unfolding keeps_def caseRollout_def Let_def wp_gobind
  apply (rule keeps_wp [OF stall_ready [OF assms]])
  using assms(3) by (auto simp: wp_simps requeue_after_def intro!: idlesI)

lemma stall_switch:
  assumes stall: "stalled L cfg W req I view pass" "I T s" and p: "partitionVal (view s) = Ret p"
    and live: "waiting L (view s)"
  shows "keeps (I T) view (rolloutSwitch L W (view s) (canary_state L (view s)) (requeue_after d))
    (idles (view s) (canary_state L (view s)) d) s"
proof -
  have canary: "keeps (I T) view (caseCanary L W (view s) st (requeue_after d)) (idles (view s) st d) s" for st
  proof -
    have "keeps (I T) view (caseRollout L W (view s) st (requeue_after d)) (idles (view s) st d) s'"
      if "I T s'" "view s' = view s" for s'
      using stall_rollout [OF stall(1) that(1), of p st d] that p by simp
    then show ?thesis
      unfolding keeps_def caseCanary_def
      by (auto simp: wp_simps keeps_def requeue_after_def intro!: keeps_wp [OF stall_timeout [OF stall]] idlesI)
  qed
  obtain r where "spec_Replicas (sts_Spec (view s)) = Some r"
    "\<not> (st_Replicas (sts_Status (view s)) = r \<and> st_ReadyReplicas (sts_Status (view s)) = r)"
    using stall_replicas [OF stall] by blast
  then have upscale: "keeps (I T) view (caseCanaryUpscale (view s) st (requeue_after d)) (idles (view s) st d) s" for st
    using stall(2) by (auto simp: keeps_def caseCanaryUpscale_def deref_def wp_simps requeue_after_def intro!: idlesI)
  from live show ?thesis
    unfolding waiting_def rolloutSwitch_def
    using canary upscale stall_rollout [OF stall p] by (auto simp: rollout_states)
qed

text \<open>
  What a Reconcile at time \<open>T\<close> does: past the deadline it stores the failure, before it asks to
  come back and leaves the StatefulSet as it is, or gives up at the deadline of the canary.
\<close>

definition stuck_run :: "lib \<Rightarrow> (int \<Rightarrow> 's \<Rightarrow> bool) \<Rightarrow> ('s \<Rightarrow> statefulset) \<Rightarrow> int \<Rightarrow> int \<Rightarrow> statefulset \<Rightarrow>
    reconcile_out \<Rightarrow> 's \<Rightarrow> bool" where
  "stuck_run L I view T p x r s' \<longleftrightarrow> I T s' \<and> (\<exists>res. r = Ret (res, None) \<and>
     (if update_left L x T < 0 then stands L rolloutStateFailed p (view s') \<and> RequeueAfter res = 0
      else (view s' = x \<or> stands L rolloutStateFailed p (view s')) \<and>
        (RequeueAfter res = update_left L x T \<or> RequeueAfter res = min (update_left L x T) time_Minute)))"

lemma stall_finish:
  assumes stall: "stalled L cfg W req I view pass" "meltdown_keeps_state L" and s: "I T s"
    and p: "partitionVal (view s) = Ret p" and live: "waiting L (view s)"
    and st: "st = canary_state L (view s) \<or> st = rolloutStateFailed"
  shows "wp (rolloutFinish L W (view s) st False p res)
    (\<lambda>r s'. r = Ret (res, None) \<and> I T s' \<and> (view s' = view s \<or> stands L rolloutStateFailed p (view s'))) s"
proof (cases "st = canary_state L (view s)")
  case True
  then show ?thesis using s by (simp add: rolloutFinish_def Let_def wp_simps)
next
  case False
  obtain m where m: "gset (sts_Annotations (view s)) (AnnotationCanaryRollout (gname L)) st = Ret m"
    using waiting_nonnil [OF live] by auto
  have "wp (updateWithPartitionMove L W ((view s)\<lparr>sts_Annotations := m\<rparr>) p)
      (\<lambda>r s'. r = Ret None \<and> I T s' \<and> stands L st p (view s')) s"
    unfolding updateWithPartitionMove_def wp_gobind
    by (rule wp_mono [OF stall_fail [OF stall s p m]]) (auto simp: wp_simps)
  then show ?thesis
    using False st m unfolding rolloutFinish_def Let_def
    by (auto simp: wp_simps elim!: wp_mono)
qed

lemma stall_reconcile:
  assumes stall: "stalled L cfg W req I view pass" "meltdown_keeps_state L" and s: "I T s"
    and p: "partitionVal (view s) = Ret p" and live: "waiting L (view s)"
  shows "wp (rolloutReconcile L cfg W req) (stuck_run L I view T p (view s)) s"
proof -
  obtain m where m: "gset (sts_Annotations (view s)) (AnnotationCanaryRollout (gname L)) rolloutStateFailed = Ret m"
    using waiting_nonnil [OF live] by auto
  have adv: "wp (rolloutAdvance L W (view s)) (stuck_run L I view T p (view s)) s'"
    if s': "I T s'" "view s' = view s" for s'
  proof -
    have time: "keeps (I T) view (getTimeOut L W (view s) k) (\<lambda>d. d = time_left L (sts_Annotations (view s)) k T) s''"
      and switch: "keeps (I T) view (rolloutSwitch L W (view s) (canary_state L (view s)) (requeue_after d))
        (idles (view s) (canary_state L (view s)) d) s''"
      and fin: "st = canary_state L (view s) \<or> st = rolloutStateFailed \<Longrightarrow>
        wp (rolloutFinish L W (view s) st False p res) (\<lambda>r s'. r = Ret (res, None) \<and> I T s' \<and>
          (view s' = view s \<or> stands L rolloutStateFailed p (view s'))) s''"
      and fail: "wp (updateStatefulSet L W ((view s)\<lparr>sts_Annotations := m\<rparr>))
         (\<lambda>r s'. (\<exists>z. r = Ret (None, z) \<and> partitionVal z = Ret p) \<and> I T s' \<and> stands L rolloutStateFailed p (view s')) s''"
      if "I T s''" "view s'' = view s" for s'' d k res st
      using stall_timeout [OF stall(1) that(1), of k] stall_switch [OF stall(1) that(1), of p d]
        stall_finish [OF stall that(1), of p st res] stall_fail [OF stall that(1), of p rolloutStateFailed m]
        that p live m by simp_all
    show ?thesis
    proof (cases "update_left L (view s) T < 0")
      case True
      then show ?thesis
        unfolding rolloutAdvance_def failIfTimedOut_def Let_def
        using waiting_live [OF live] m partitionVal_Ret [OF p]
        by (auto simp: wp_simps stuck_run_def empty_result_def s' intro!: keeps_wp [OF time] wp_mono [OF fail])
    next
      case False
      have "wp (do { d \<leftarrow> getTimeOut L W (view s) (AnnotationUpdateWatchTime (gname L));
            gobind (rolloutSwitch L W (view s) (canary_state L (view s)) (requeue_after d)) (\<lambda>out.
              case out of
                SwitchErr e \<Rightarrow> gret (empty_result, Some e)
              | SwitchOk x1 newStatus dirty res \<Rightarrow> rolloutFinish L W x1 newStatus dirty p res) })
          (stuck_run L I view T p (view s)) s''" if "I T s''" "view s'' = view s" for s''
        using False that
        by (auto simp: wp_simps idles_def stuck_run_def
              intro!: keeps_wp [OF time] keeps_wp [OF switch] wp_mono [OF fin])
      with False show ?thesis
        unfolding rolloutAdvance_def failIfTimedOut_def Let_def
        using waiting_live [OF live] partitionVal_Ret [OF p]
        by (auto simp: wp_simps s' intro!: keeps_wp [OF time])
    qed
  qed
  then show ?thesis
    unfolding rolloutReconcile_def
    by (auto simp: wp_simps s intro!: keeps_wp [OF stall_get [OF stall(1) s]]
          keeps_wp [OF stall_now [OF stall(1), where T = T]])
qed

section \<open>The deadline\<close>

text \<open>The update of a StatefulSet was started at second \<open>u\<close> and has \<open>w\<close> milliseconds.\<close>

definition timed :: "lib \<Rightarrow> statefulset \<Rightarrow> int \<Rightarrow> int \<Rightarrow> bool" where
  "timed L x u w \<longleftrightarrow>
     gmap (sts_Annotations x) (AnnotationUpdateWatchTime (gname L)) = Some (Itoa w) \<and>
     gmap (sts_Annotations x) (AnnotationUpdateStartTime (gname L)) = Some (Itoa u) \<and>
     0 \<le> w \<and> w * time_Millisecond < 2 ^ 63 \<and> 0 \<le> u \<and> u < 2 ^ 61"

definition deadline :: "int \<Rightarrow> int \<Rightarrow> int" where
  "deadline u w = u * time_Second + w * time_Millisecond"

lemma update_left_at:
  assumes "timed L x u w" "u * time_Second \<le> T"
  shows "T < deadline u w \<Longrightarrow> update_left L x T = deadline u w - T"
    and "deadline u w \<le> T \<Longrightarrow> update_left L x T < 0"
proof -
  have "int64_ok w" "int64_ok u" "wrap64 (time_Millisecond * w) = time_Millisecond * w"
    using assms by (auto simp: timed_def int64_ok_def time_Millisecond_def intro!: wrap64_id)
  moreover have "time_Add (time_Unix u) (time_Millisecond * w) = deadline u w"
    using assms
    by (simp add: timed_def time_Add_def time_Unix_def norm_time_range time_Second_def time_Millisecond_def deadline_def)
  ultimately have d: "update_left L x T = (let d = sat64 (deadline u w - T) in if d = 0 then -1 else d)"
    using assms(1) by (simp add: timed_def time_left_def gget_def ghas_def Atoi_Itoa time_Until_def Let_def Itoa_nonempty)
  have "deadline u w - T < 2 ^ 63"
    using assms by (simp add: timed_def deadline_def)
  then show "T < deadline u w \<Longrightarrow> update_left L x T = deadline u w - T"
    and "deadline u w \<le> T \<Longrightarrow> update_left L x T < 0"
    unfolding d Let_def by (auto simp: sat64_sign) (auto simp: sat64_def)
qed

lemma stall_queue:
  assumes stall: "stalled L cfg W req I view pass" "meltdown_keeps_state L"
    and s: "I T s" "partitionVal (view s) = Ret p" "waiting L (view s)"
    and time: "timed L (view s) u w" "u * time_Second \<le> T" "deadline u w - T \<le> int k * time_Minute"
  shows "\<exists>n T'. n \<le> k + 1 \<and> T' \<le> max T (deadline u w) \<and> I T' (queue L cfg W req pass n s) \<and>
    stands L rolloutStateFailed p (view (queue L cfg W req pass n s))"
  using s time
proof (induction k arbitrary: T s)
  case 0
  then have "update_left L (view s) T < 0" by (intro update_left_at(2)) auto
  with stall_reconcile [OF stall 0(1-3)]
  have "I T (queue L cfg W req pass 1 s) \<and> stands L rolloutStateFailed p (view (queue L cfg W req pass 1 s))"
    by (auto simp: wp_def stuck_run_def split: prod.splits)
  then show ?case by (intro exI [of _ 1] exI [of _ T]) auto
next
  case (Suc k)
  obtain r s' where run: "run_state (rolloutReconcile L cfg W req) s = (r, s')" by force
  with stall_reconcile [OF stall Suc.prems(1-3)] have out: "stuck_run L I view T p (view s) r s'"
    by (simp add: wp_def)
  show ?case
  proof (cases "deadline u w \<le> T")
    case True
    with out run Suc.prems(4,5)
    have "I T (queue L cfg W req pass 1 s) \<and> stands L rolloutStateFailed p (view (queue L cfg W req pass 1 s))"
      using update_left_at(2) by (auto simp: stuck_run_def split: prod.splits)
    then show ?thesis by (intro exI [of _ 1] exI [of _ T]) auto
  next
    case False
    let ?d = "deadline u w - T"
    have left: "update_left L (view s) T = ?d" "0 < ?d"
      using False update_left_at(1) [OF Suc.prems(4,5)] by auto
    obtain res where res: "r = Ret (res, None)" "RequeueAfter res = ?d \<or> RequeueAfter res = min ?d time_Minute"
      "view s' = view s \<or> stands L rolloutStateFailed p (view s')" "I T s'"
      using out left by (auto simp: stuck_run_def)
    let ?a = "RequeueAfter res"
    have a: "0 < ?a" "?a \<le> ?d" "?d - ?a \<le> int k * time_Minute"
      using res(2) left(2) Suc.prems(6) by (auto simp: time_Minute_def time_Second_def min_def split: if_splits)
    have next_run: "I (T + ?a) (pass ?a s')" "view (pass ?a s') = view s'"
      using stall_pass [OF stall(1) res(4) a(1)] by auto
    have queue: "queue L cfg W req pass (Suc n) s = queue L cfg W req pass n (pass ?a s')" for n
      using run res(1) a(1) by simp
    show ?thesis
    proof (cases "view s' = view s")
      case True
      then obtain n T' where n: "n \<le> k + 1" "T' \<le> max (T + ?a) (deadline u w)"
        "I T' (queue L cfg W req pass n (pass ?a s'))"
        "stands L rolloutStateFailed p (view (queue L cfg W req pass n (pass ?a s')))"
        using Suc.IH [of "T + ?a" "pass ?a s'"] next_run Suc.prems a by auto
      with a show ?thesis
        by (intro exI [of _ "Suc n"] exI [of _ T']) (auto simp: queue simp del: queue.simps(2))
    next
      case False
      with res(3) next_run a show ?thesis
        by (intro exI [of _ 1] exI [of _ "T + ?a"]) (auto simp: queue [of 0, simplified])
    qed
  qed
qed

text \<open>
  C6: a stuck rollout fails in time. On a stalled cluster, without any event, the Reconciles that
  the work queue makes because the last one asked for them mark a rollout that waits for a pod as
  failed, at its deadline at the latest (or in the first Reconcile, if that comes later), with its
  partition unchanged, after at most one Reconcile more than the minutes left.
\<close>

theorem stuck_rollout_fails:
  assumes "stalled L cfg W req I view pass" "meltdown_keeps_state L"
    and "I T s" "partitionVal (view s) = Ret p"
    and "canary_state L (view s) \<in> {rolloutStateCanary, rolloutStateRollout, rolloutStateCanaryUpscale}"
    and "timed L (view s) u w" "u * time_Second \<le> T"
    and "deadline u w - T \<le> int k * time_Minute"
  shows "\<exists>n T'. n \<le> k + 1 \<and> T' \<le> max T (deadline u w) \<and> I T' (queue L cfg W req pass n s) \<and>
    canary_state L (view (queue L cfg W req pass n s)) = rolloutStateFailed \<and>
    partitionVal (view (queue L cfg W req pass n s)) = Ret p"
  using stall_queue [OF assms(1-4) _ assms(6-8)] assms(5) by (simp add: waiting_def stands_def)

section \<open>Witness\<close>

text \<open>A rollout of one pod that is missing, 90 seconds before its deadline.\<close>

definition stuck_sts :: "string \<Rightarrow> int \<Rightarrow> statefulset" where
  "stuck_sts st part = (sample_sts st part 2 1)\<lparr>sts_Annotations :=
     Some [''quarks.cloudfoundry.org/canary-rollout'' \<mapsto> st,
           ''quarks.cloudfoundry.org/update-watch-time-ms'' \<mapsto> Itoa 90000,
           ''quarks.cloudfoundry.org/update-start-time'' \<mapsto> Itoa 1]\<rparr>"

definition stuck_mem :: "int \<Rightarrow> mem \<Rightarrow> bool" where
  "stuck_mem T s \<longleftrightarrow> m_Now s = T \<and> m_Pods s = [] \<and> (\<exists>st part. m_Sts s = [(sample_key, stuck_sts st part)])"

definition mem_pass :: "int \<Rightarrow> mem \<Rightarrow> mem" where
  "mem_pass d s = s\<lparr>m_Now := m_Now s + d\<rparr>"

lemma stuck_mutate:
  "rolloutMutate sample_lib part st (stuck_sts st0 part0) = Ret z \<Longrightarrow> z = stuck_sts st part"
  by (auto simp: rolloutMutate_def stuck_sts_def sample_sts_def partitionPtr_def withPartition_def zero_defs
        sample_lib_def key_defs)

lemma stuck_frame:
  "sts_Name (stuck_sts st part) = ''foo''" "sts_Namespace (stuck_sts st part) = ''default''"
  "spec_Replicas (sts_Spec (stuck_sts st part)) = Some 2"
  "st_Replicas (sts_Status (stuck_sts st part)) = 2" "st_ReadyReplicas (sts_Status (stuck_sts st part)) = 1"
  "canary_state sample_lib (stuck_sts st part) = st" "partitionVal (stuck_sts st part) = Ret part"
  by (simp_all add: stuck_sts_def sample_sts_def sample_lib_def key_defs gget_def partitionVal_def partitionPtr_def zero_defs)

lemma sample_stalled:
  "stalled sample_lib sample_config mem_world sample_key stuck_mem sample_view mem_pass"
proof -
  have key: "sts_key x = sample_key" if "sts_Name x = ''foo''" "sts_Namespace x = ''default''" for x
    using that by (simp add: sts_key_def sample_key_def)
  have window: "\<not> meltdown_AnnotationWindow_Contains sample_lib d m t"
    and missing: "crc_IgnoreNotFound sample_lib not_found = None" for d m t
    by (simp_all add: sample_lib_def not_found_def)
  show ?thesis
    unfolding stalled_def stuck_mem_def
    by (auto simp: sample_view_def keeps_def wp_def mem_world_def found_def window missing mem_pass_def
        stuck_frame key dest!: stuck_mutate) blast+
qed

theorem stuck_rollout_fails_witness:
  "\<exists>n s. n \<le> 3 \<and> m_Now s \<le> 91 * time_Second \<and>
     s = queue sample_lib sample_config mem_world sample_key mem_pass n
           ((sample_mem (stuck_sts ''Rollout'' 1) [])\<lparr>m_Now := time_Second\<rparr>) \<and>
     canary_state sample_lib (sample_view s) = rolloutStateFailed \<and> partitionVal (sample_view s) = Ret 1"
proof -
  define s where "s = (sample_mem (stuck_sts ''Rollout'' 1) [])\<lparr>m_Now := time_Second\<rparr>"
  let ?q = "\<lambda>n. queue sample_lib sample_config mem_world sample_key mem_pass n s"
  have s: "stuck_mem time_Second s" "sample_view s = stuck_sts ''Rollout'' 1"
    by (auto simp: s_def stuck_mem_def sample_view_def sample_mem_def empty_mem_def)
  have st: "partitionVal (sample_view s) = Ret 1"
    "canary_state sample_lib (sample_view s) \<in> {rolloutStateCanary, rolloutStateRollout, rolloutStateCanaryUpscale}"
    by (simp_all add: s(2) stuck_frame rollout_states)
  have timed: "timed sample_lib (sample_view s) 1 90000" "1 * time_Second \<le> time_Second"
    unfolding s(2)
    by (simp_all add: timed_def stuck_sts_def sample_lib_def key_defs time_Millisecond_def)
  have d: "deadline 1 90000 = 91 * time_Second"
    by (simp add: deadline_def time_Second_def time_Millisecond_def)
  then have k: "deadline 1 90000 - time_Second \<le> int 2 * time_Minute"
    by (simp add: time_Second_def time_Minute_def)
  obtain n T' where n: "n \<le> 2 + 1" "T' \<le> max time_Second (deadline 1 90000)" "stuck_mem T' (?q n)"
    "canary_state sample_lib (sample_view (?q n)) = rolloutStateFailed" "partitionVal (sample_view (?q n)) = Ret 1"
    using stuck_rollout_fails [OF sample_stalled sample_keeps s(1) st timed k] by blast
  have "m_Now (?q n) \<le> 91 * time_Second"
    using n(2,3) unfolding d by (simp add: stuck_mem_def time_Second_def)
  with n show ?thesis unfolding s_def [symmetric] by (intro exI [of _ n] exI [of _ "?q n"]) simp
qed

end
