(* ===== verification/Deployment.thy ===== *)
theory Deployment
  imports Version_Progress Reconcilers
begin

text \<open>
  The reconcilers of a QuarksStatefulSet together: on a cluster that serves its requests, two
  Reconciles deploy a fresh resource, and the status reconciler then marks it ready as soon as
  the StatefulSets deployed are ready.
\<close>

section \<open>A cluster that serves the resource\<close>

text \<open>
  \<open>I\<close> holds of the states of the cluster; \<open>res\<close> is the resource and \<open>stored\<close> the StatefulSets of its
  namespace in them. Reads answer with what is stored, the secrets the resource mounts can be
  read, and a write stores what it is documented to store.
\<close>

definition unchanged :: "('s \<Rightarrow> bool) \<Rightarrow> ('s \<Rightarrow> quarks_statefulset) \<Rightarrow> ('s \<Rightarrow> statefulset list) \<Rightarrow> 's \<Rightarrow> 's \<Rightarrow> bool" where
  "unchanged I res stored s s' \<longleftrightarrow> I s' \<and> res s' = res s \<and> stored s' = stored s"

definition serves_resource ::
  "lib \<Rightarrow> 's world \<Rightarrow> nsname \<Rightarrow> ('s \<Rightarrow> bool) \<Rightarrow> ('s \<Rightarrow> quarks_statefulset) \<Rightarrow> ('s \<Rightarrow> statefulset list) \<Rightarrow> bool" where
  "serves_resource L W req I res stored \<longleftrightarrow> (\<forall>s. I s \<longrightarrow>
     wp (w_GetQsts W req) (\<lambda>r s'. r = Inr (res s) \<and> unchanged I res stored s s') s \<and>
     wp (UpdateVersions L W (res s)) (\<lambda>r s'. (\<exists>q. r = Inr q) \<and> unchanged I res stored s s') s \<and>
     wp (w_Now W) (\<lambda>t s'. unchanged I res stored s s') s \<and>
     wp (w_ListSts W (q_Namespace (res s))) (\<lambda>r s'. r = Inr (stored s) \<and> unchanged I res stored s s') s \<and>
     (\<forall>ps. wp (w_SetSecretReferences W (nn_Namespace req) ps)
        (\<lambda>r s'. (\<exists>ps'. r = (None, ps')) \<and> unchanged I res stored s s') s) \<and>
     (\<forall>x. sts_Namespace x = q_Namespace (res s) \<longrightarrow>
        wp (w_CreateOrUpdate W x (StatefulSetMutateFn x)) (\<lambda>r s'. (\<exists>y. r = Ret (None, y)) \<and> I s' \<and>
          res s' = res s \<and> stored s' = stored_after (stored s) (WroteSts x (StatefulSetMutateFn x) r)) s) \<and>
     (\<forall>q. q_Name q = q_Name (res s) \<longrightarrow> q_Namespace q = q_Namespace (res s) \<longrightarrow>
        wp (w_UpdateQstsStatus W q) (\<lambda>r s'. r = None \<and> I s' \<and>
          res s' = (res s)\<lparr>q_Status := q_Status q\<rparr> \<and> stored s' = stored s) s))"

lemma servesD:
  assumes "serves_resource L W req I res stored" "I s"
  shows serve_get: "wp (w_GetQsts W req) (\<lambda>r s'. r = Inr (res s) \<and> unchanged I res stored s s') s"
    and serve_versions: "wp (UpdateVersions L W (res s)) (\<lambda>r s'. (\<exists>q. r = Inr q) \<and> unchanged I res stored s s') s"
    and serve_now: "wp (w_Now W) (\<lambda>t s'. unchanged I res stored s s') s"
    and serve_list: "wp (w_ListSts W (q_Namespace (res s))) (\<lambda>r s'. r = Inr (stored s) \<and> unchanged I res stored s s') s"
    and serve_references: "wp (w_SetSecretReferences W (nn_Namespace req) ps)
        (\<lambda>r s'. (\<exists>ps'. r = (None, ps')) \<and> unchanged I res stored s s') s"
    and serve_write: "sts_Namespace x = q_Namespace (res s) \<Longrightarrow>
        wp (w_CreateOrUpdate W x (StatefulSetMutateFn x)) (\<lambda>r s'. (\<exists>y. r = Ret (None, y)) \<and> I s' \<and>
          res s' = res s \<and> stored s' = stored_after (stored s) (WroteSts x (StatefulSetMutateFn x) r)) s"
    and serve_status: "q_Name q = q_Name (res s) \<Longrightarrow> q_Namespace q = q_Namespace (res s) \<Longrightarrow>
        wp (w_UpdateQstsStatus W q) (\<lambda>r s'. r = None \<and> I s' \<and>
          res s' = (res s)\<lparr>q_Status := q_Status q\<rparr> \<and> stored s' = stored s) s"
  using assms unfolding serves_resource_def by blast+

text \<open>\<open>SetControllerReference\<close> succeeds, as it does on an object without another controller.\<close>

definition owner_settable :: "lib \<Rightarrow> bool" where
  "owner_settable L \<longleftrightarrow> (\<forall>q x. \<exists>x1. setReference L q x = Inr x1)"

section \<open>The writes of a Reconcile\<close>

lemma createAll_deploys:
  assumes serves: "serves_resource L W req I res stored" and laws: "owner_law L" "owner_settable L"
  shows "I s \<Longrightarrow> same_resource (res s) q \<Longrightarrow> \<forall>x\<in>set xs. sts_Namespace x = q_Namespace (res s) \<Longrightarrow>
    wp (createAll L W req q xs) (\<lambda>r s'. r = Ret (empty_result, None) \<and> I s' \<and> res s' = res s \<and>
      (\<exists>ws. list_all2 (wrote_desired L (res s)) xs ws \<and> stored s' = foldl stored_after (stored s) ws)) s"
proof (induction xs arbitrary: s q)
  case Nil
  then show ?case by (simp add: wp_simps)
next
  case (Cons x xs)
  have step: "wp (createStatefulSet L W q1 x) (\<lambda>r s2. r = Ret None \<and> I s2 \<and> res s2 = res s \<and>
      (\<exists>w. wrote_desired L (res s) x w \<and> stored s2 = stored_after (stored s) w)) s1"
    if s1: "unchanged I res stored s s1" and q1: "same_resource (res s) q1" for q1 s1
  proof -
    obtain x1 where x1: "setReference L q1 x = Inr x1"
      using laws(2) unfolding owner_settable_def by blast
    have "sts_Namespace x1 = sts_Namespace x"
      using laws(1) x1 unfolding owner_law_def by (metis statefulset.select_convs(2) statefulset.surjective statefulset.update_convs(5))
    then have ns: "sts_Namespace x1 = q_Namespace (res s1)"
      using Cons.prems(3) s1 by (simp add: unchanged_def)
    have wr: "\<exists>w. wrote_desired L (res s) x w \<and>
        stored_after items (WroteSts x1 (StatefulSetMutateFn x1) r) = stored_after items w" for r items
      using q1 x1 unfolding wrote_desired_def by blast
    have "I s1" using s1 by (simp add: unchanged_def)
    from serve_write [OF serves this ns] show ?thesis
      unfolding createStatefulSet_def x1 sum.case wp_gobind wp_gret
      by (rule wp_mono) (use s1 in \<open>auto simp: unchanged_def wp_simps simp del: stored_after.simps intro: wr\<close>)
  qed
  let ?Q = "\<lambda>r s'. r = Ret (empty_result, None) \<and> I s' \<and> res s' = res s \<and>
      (\<exists>ws. list_all2 (wrote_desired L (res s)) (x # xs) ws \<and> stored s' = foldl stored_after (stored s) ws)"
  have tail: "wp (createAll L W req (withReady False (withPodSpec ps q)) xs) ?Q s2"
    if s2: "I s2" "res s2 = res s" and w: "wrote_desired L (res s) x w" "stored s2 = stored_after (stored s) w"
    for ps s2 w
  proof -
    have "wp (createAll L W req (withReady False (withPodSpec ps q)) xs) (\<lambda>r s'. r = Ret (empty_result, None) \<and>
        I s' \<and> res s' = res s2 \<and> (\<exists>ws. list_all2 (wrote_desired L (res s2)) xs ws \<and>
          stored s' = foldl stored_after (stored s2) ws)) s2"
      using Cons.prems(2,3) s2 by (intro Cons.IH) simp_all
    then show ?thesis
    proof (rule wp_mono)
      fix r s'
      assume r: "r = Ret (empty_result, None) \<and> I s' \<and> res s' = res s2 \<and>
        (\<exists>ws. list_all2 (wrote_desired L (res s2)) xs ws \<and> stored s' = foldl stored_after (stored s2) ws)"
      then obtain ws where "list_all2 (wrote_desired L (res s2)) xs ws" "stored s' = foldl stored_after (stored s2) ws"
        by blast
      with r s2 w show "?Q r s'" by (auto intro!: exI [of _ "w # ws"])
    qed
  qed
  have rest: "wp (createStatefulSet L W (withPodSpec ps q) x) (\<lambda>r s2. r = Ret None \<and>
      wp (createAll L W req (withReady False (withPodSpec ps q)) xs) ?Q s2) s1"
    if "unchanged I res stored s s1" for ps s1
    using that Cons.prems(2) by (intro wp_mono [OF step]) (auto intro: tail)
  show ?case
    unfolding createAll.simps wp_bind Let_def
    by (rule wp_mono [OF serve_references [OF serves Cons.prems(1)]])
       (auto simp: wp_gobind intro!: wp_mono [OF rest])
qed

section \<open>Phases of a deployment\<close>

text \<open>The versions of the secrets change the pod spec of the resource only.\<close>

lemma UpdateVersions_same: "wp (UpdateVersions L W q) (\<lambda>r s'. \<forall>q'. r = Inr q' \<longrightarrow> (\<exists>ps. q' = withPodSpec ps q)) s"
  unfolding UpdateVersions_def wp_bind wp_return
  by (rule wp_any) (auto split: sum.splits)

lemma serve_reads:
  assumes "serves_resource L W req I res stored" "I s"
    and "\<And>ps s'. unchanged I res stored s s' \<Longrightarrow> wp (qstsWindow L W req (withPodSpec ps (res s))) Q s'"
  shows "wp (qstsReconcile L W req) Q s"
proof -
  have rest: "wp (qstsRest L W req (res s)) Q s1" if "unchanged I res stored s s1" for s1
  proof -
    have s1: "I s1" "res s1 = res s" "stored s1 = stored s" using that by (simp_all add: unchanged_def)
    have "wp (UpdateVersions L W (res s)) (\<lambda>r s'. (\<exists>ps. r = Inr (withPodSpec ps (res s))) \<and> unchanged I res stored s s') s1"
      using serve_versions [OF assms(1) s1(1)] UpdateVersions_same [of L W "res s" s1] s1
      by (auto simp: wp_run unchanged_def)
    then show ?thesis
      unfolding qstsRest_def wp_bind by (rule wp_mono) (auto intro: assms(3))
  qed
  show ?thesis
    unfolding qstsReconcile_def wp_bind
    by (rule wp_mono [OF serve_get [OF assms(1,2)]]) (auto intro: rest)
qed

text \<open>The times the clock shows in the states of the cluster.\<close>

definition shown :: "'s world \<Rightarrow> ('s \<Rightarrow> bool) \<Rightarrow> int \<Rightarrow> bool" where
  "shown W I t \<longleftrightarrow> (\<exists>s. I s \<and> t = fst (run_state (w_Now W) s))"

text \<open>The first Reconcile of a fresh resource notes the time and asks to come back.\<close>

lemma first_reconcile:
  assumes serves: "serves_resource L W req I res stored" and s: "I s"
    and fresh: "qst_LastReconcile (q_Status (res s)) = None"
  shows "wp (qstsReconcile L W req) (\<lambda>r s'. r = Ret (requeue_after ReconcileSkipDuration, None) \<and> I s' \<and>
    (\<exists>t. shown W I t \<and> res s' = withLastReconcile t (res s)) \<and> stored s' = stored s) s"
proof (rule serve_reads [OF serves s])
  fix ps s1
  assume s1: "unchanged I res stored s s1"
  let ?q = "withPodSpec ps (res s)"
  have None: "qst_LastReconcile (q_Status ?q) = None" by (simp add: withPodSpec_def fresh)
  have "wp (w_UpdateQstsStatus W (withLastReconcile t ?q)) (\<lambda>r s'. r = None \<and> I s' \<and>
      (\<exists>t. shown W I t \<and> res s' = withLastReconcile t (res s)) \<and> stored s' = stored s) s2"
    if s2: "unchanged I res stored s1 s2" "shown W I t" for t s2
  proof -
    have "I s2" "res s2 = res s" "stored s2 = stored s" using s1 s2(1) by (simp_all add: unchanged_def)
    with s2(2) serve_status [OF serves, of s2 "withLastReconcile t ?q"] show ?thesis
      by (auto simp: withPodSpec_def withLastReconcile_def elim!: wp_mono)
  qed
  note status = this
  have "I s1" using s1 by (simp add: unchanged_def)
  then have "wp (w_Now W) (\<lambda>t s'. unchanged I res stored s1 s' \<and> shown W I t) s1"
    using serve_now [OF serves] unfolding wp_run shown_def by blast
  then show "wp (qstsWindow L W req ?q) (\<lambda>r s'. r = Ret (requeue_after ReconcileSkipDuration, None) \<and>
    I s' \<and> (\<exists>t. shown W I t \<and> res s' = withLastReconcile t (res s)) \<and> stored s' = stored s) s1"
    unfolding qstsWindow_def None option.case wp_bind
    by (rule wp_mono) (rule wp_mono [OF status]; auto simp: wp_simps)
qed


text \<open>The second one, once the window has passed, writes the StatefulSets of the zones.\<close>

definition window_passed :: "lib \<Rightarrow> 's world \<Rightarrow> ('s \<Rightarrow> bool) \<Rightarrow> int \<Rightarrow> bool" where
  "window_passed L W J t0 \<longleftrightarrow>
     (\<forall>t. shown W J t \<longrightarrow> \<not> meltdown_Window_Contains L ReconcileSkipDuration t0 t)"

definition deployable :: "lib \<Rightarrow> quarks_statefulset \<Rightarrow> statefulset list \<Rightarrow> int \<Rightarrow> bool" where
  "deployable L q items M \<longleftrightarrow> q_Namespace q \<noteq> '''' \<and>
     spec_Replicas (sts_Spec (qs_Template (q_Spec q))) \<noteq> None \<and>
     listed_version L q items M \<and> int64_ok (M + 1) \<and>
     (\<forall>y \<in> set items. sts_key y \<in> desired_keys q \<longrightarrow> metav1_IsControlledBy L y q)"

abbreviation deployed :: "lib \<Rightarrow> quarks_statefulset \<Rightarrow> int \<Rightarrow> statefulset list \<Rightarrow> statefulset list \<Rightarrow> bool" where
  "deployed L q V items after \<equiv> renewed L q V (desired_keys q) items after"

lemma replicas_same: "spec_Replicas (sts_Spec (qs_Template (q_Spec (withZoneNodeLabel (withPodSpec ps q))))) =
    spec_Replicas (sts_Spec (qs_Template (q_Spec q)))"
  by (simp add: withZoneNodeLabel_def withPodSpec_def)

lemma second_reconcile:
  assumes serves: "serves_resource L W req I res stored" and s: "I s"
    and laws: "owner_law L" "owner_settable L" "controller_law L" "union_maps_law L"
    and last: "qst_LastReconcile (q_Status (res s)) = Some t0" "window_passed L W I t0"
    and dep: "deployable L (res s) (stored s) M"
  shows "wp (qstsReconcile L W req) (\<lambda>r s'. r = Ret (empty_result, None) \<and> I s' \<and> res s' = res s \<and>
    deployed L (res s) (M + 1) (stored s) (stored s')) s"
proof (rule serve_reads [OF serves s])
  fix ps s1
  assume s1: "unchanged I res stored s s1"
  let ?q = "withPodSpec ps (res s)"
  let ?z = "withZoneNodeLabel ?q"
  have same: "same_resource (res s) ?z" by simp
  from dep obtain ys where ver: "maxVersionResult L (filterByOwner L (res s) (stored s)) = Inr (ys, M)"
    and ok: "int64_ok (M + 1)" by (auto simp: deployable_def listed_version_def)
  have "filterByOwner L ?q = filterByOwner L (res s)"
    by (rule filterByOwner_same [OF laws(3)]) simp
  moreover have ns: "q_Namespace ?q = q_Namespace (res s)" "q_Namespace (res s) \<noteq> ''''"
    using dep by (simp_all add: withPodSpec_def deployable_def)
  moreover obtain xs where xs: "desiredStatefulSets L ?z (M + 1) = Ret xs"
    using desired_total [of ?z] replicas_same dep unfolding deployable_def by metis
  ultimately have calc: "wp (calculateDesiredStatefulSets L W ?q)
      (\<lambda>r s'. r = Ret (Inr xs, ?z) \<and> unchanged I res stored s s') s2" if "unchanged I res stored s s2" for s2
    using serve_list [OF serves, of s2] that ver wrap64_id [OF ok]
    by (auto simp: calculateDesiredStatefulSets_def GetMaxStatefulSetVersion_def listStatefulSetsFromInformer_def
        wp_simps unchanged_def elim!: wp_mono)
  have versions: "\<forall>x \<in> set xs. versionOf L x = Inr (M + 1)" and keys: "sts_key ` set xs = desired_keys (res s)"
    using desired_versions [OF xs laws(4) ok] desired_keys_same [OF same] by simp_all
  have namespace: "\<forall>x\<in>set xs. sts_Namespace x = q_Namespace (res s)"
  proof
    fix x assume "x \<in> set xs"
    then have "sts_key x \<in> desired_keys (res s)" using keys by blast
    then show "sts_Namespace x = q_Namespace (res s)" by (auto simp: desired_keys_def sts_key_def)
  qed
  have create: "wp (createAll L W req ?z xs) (\<lambda>r s'. r = Ret (empty_result, None) \<and> I s' \<and> res s' = res s \<and>
      deployed L (res s) (M + 1) (stored s) (stored s')) s2" if s2: "unchanged I res stored s s2" for s2
  proof -
    have "I s2" "same_resource (res s2) ?z" "\<forall>x\<in>set xs. sts_Namespace x = q_Namespace (res s2)"
      using s2 namespace same by (simp_all add: unchanged_def)
    from createAll_deploys [OF serves laws(1,2) this] show ?thesis
    proof (rule wp_mono, elim conjE exE)
      fix r s3 ws
      assume r: "r = Ret (empty_result, None)" "I s3" "res s3 = res s2"
        and ws: "list_all2 (wrote_desired L (res s2)) xs ws" "stored s3 = foldl stored_after (stored s2) ws"
      have "renewed L (res s) (M + 1) (sts_key ` set xs \<union> {}) (stored s) (foldl stored_after (stored s) ws)"
        using ws(1) s2 dep keys
        by (intro renewed_writes [OF _ renewed_empty laws(1,3) versions])
           (auto simp: unchanged_def deployable_def)
      with r ws(2) s2 show "r = Ret (empty_result, None) \<and> I s3 \<and> res s3 = res s \<and>
          deployed L (res s) (M + 1) (stored s) (stored s3)"
        by (simp add: keys unchanged_def)
    qed
  qed
  have last': "qst_LastReconcile (q_Status ?q) = Some t0" by (simp add: withPodSpec_def last)
  have I1: "I s1" using s1 by (simp add: unchanged_def)
  have now: "wp (w_Now W) (\<lambda>t s'. \<not> meltdown_Window_Contains L ReconcileSkipDuration t0 t \<and> unchanged I res stored s s') s1"
    using serve_now [OF serves I1] last(2) I1 s1 by (auto simp: wp_run window_passed_def shown_def unchanged_def)
  have applied: "wp (qstsApply L W req ?q) (\<lambda>r s'. r = Ret (empty_result, None) \<and> I s' \<and> res s' = res s \<and>
      deployed L (res s) (M + 1) (stored s) (stored s')) s2" if "unchanged I res stored s s2" for s2
    unfolding qstsApply_def wp_gobind
    by (rule wp_mono [OF calc [OF that]]) (auto intro: create)
  show "wp (qstsWindow L W req ?q) (\<lambda>r s'. r = Ret (empty_result, None) \<and> I s' \<and> res s' = res s \<and>
    deployed L (res s) (M + 1) (stored s) (stored s')) s1"
    unfolding qstsWindow_def last' option.case wp_bind
    by (rule wp_mono [OF now]) (auto intro: applied)
qed


section \<open>Readiness of what was deployed\<close>

text \<open>The StatefulSet controller reports the pods in the status of the StatefulSets, and changes nothing else.\<close>

definition reported :: "(statefulset \<Rightarrow> sts_status) \<Rightarrow> statefulset \<Rightarrow> statefulset" where
  "reported g x = x\<lparr>sts_Status := g x\<rparr>"

lemma reported_simps [simp]:
  "versionOf L (reported g x) = versionOf L x" "sts_key (reported g x) = sts_key x"
  "sts_Annotations (reported g x) = sts_Annotations x"
  "sts_OwnerReferences (reported g x) = sts_OwnerReferences x"
  by (simp_all add: reported_def versionOf_def sts_key_def)

lemma maxVersionLoop_reported:
  "maxVersionLoop L (map (reported g) r) v (map (reported g) xs) =
     map_sum id (map_prod (map (reported g)) id) (maxVersionLoop L r v xs)"
proof (induction xs arbitrary: r v)
  case (Cons x xs)
  show ?case
    using Cons [of "[x]"] Cons [of "r @ [x]"] Cons [of r] by (auto split: sum.splits)
qed simp

lemma filterByOwner_reported:
  assumes "controller_law L"
  shows "filterByOwner L q (map (reported g) xs) = map (reported g) (filterByOwner L q xs)"
proof -
  have "metav1_IsControlledBy L (reported g x) q = metav1_IsControlledBy L x q" for x
    using assms reported_simps(4) [of g x] unfolding controller_law_def by metis
  then show ?thesis by (simp add: filterByOwner_filter filter_map comp_def)
qed

lemma deployed_maximum:
  assumes "deployed L q (M + 1) items after" "listed_version L q items M" "controller_law L"
  shows "\<exists>new. maxVersionResult L (filterByOwner L q (map (reported g) after)) = Inr (new, M + 1) \<and>
    sts_key ` set new = desired_keys q \<and> new \<noteq> [] \<and>
    (list_all stsReady new \<longleftrightarrow> (\<forall>z \<in> set (map (reported g) after). sts_key z \<in> desired_keys q \<longrightarrow> stsReady z))"
proof -
  let ?ys = "filterByOwner L q after"
  have "desired_keys q \<noteq> {}" by (auto simp: desired_keys_def zonesOf_def)
  from renewed_maximum [OF assms(1) this assms(2) refl] obtain new where
    new: "maxVersionResult L ?ys = Inr (new, M + 1)" "sts_key ` set new = desired_keys q" "set new \<subseteq> set after"
    by blast
  have some: "new \<noteq> []" using new(2) \<open>desired_keys q \<noteq> {}\<close> by auto
  have versioned: "versioned L ?ys"
    using new(1) maxVersionLoop_error [of L "[]" 0 ?ys] by (auto simp: maxVersionResult_def split: sum.splits)
  have "0 \<le> M"
    using assms(2) maxVersionLoop_error [of L "[]" 0 "filterByOwner L q items"]
      maxVersionLoop_eq [of L "filterByOwner L q items" "[]" 0]
    by (cases "versioned L (filterByOwner L q items)")
       (auto simp: listed_version_def maxVersionResult_def Let_def split: sum.splits)
  moreover have Max: "M + 1 = Max (insert 0 (versions L ?ys))"
    using new(1) maxVersionLoop_eq [OF versioned, of "[]" 0] by (simp add: maxVersionResult_def Let_def)
  ultimately have "M + 1 \<in> versions L ?ys"
    using Max_in [of "insert 0 (versions L ?ys)"] by auto
  then have "at_version L (M + 1) ?ys \<noteq> []" by (auto simp: versions_def at_version_def filter_empty_conv)
  then have new_eq: "new = at_version L (M + 1) ?ys" and loop: "maxVersionLoop L [] 0 ?ys = Inr (new, M + 1)"
    using new(1) maxVersionLoop_eq [OF versioned, of "[]" 0] Max
    by (auto simp: maxVersionResult_def Let_def)
  have all: "set new = {z \<in> set after. sts_key z \<in> desired_keys q}"
  proof
    show "set new \<subseteq> {z \<in> set after. sts_key z \<in> desired_keys q}"
      using new(2,3) by blast
    show "{z \<in> set after. sts_key z \<in> desired_keys q} \<subseteq> set new"
      using assms(1) by (auto simp: new_eq at_version_def filterByOwner_filter renewed_def)
  qed
  have "maxVersionLoop L [] 0 (map (reported g) ?ys) = Inr (map (reported g) new, M + 1)"
    using maxVersionLoop_reported [of L g "[]" 0 ?ys] loop by simp
  then have "maxVersionResult L (filterByOwner L q (map (reported g) after)) = Inr (map (reported g) new, M + 1)"
    using some by (simp add: maxVersionResult_def filterByOwner_reported [OF assms(3)])
  moreover have "sts_key ` set (map (reported g) new) = desired_keys q"
    using new(2) by (simp add: image_image)
  ultimately show ?thesis
    using some by (intro exI [of _ "map (reported g) new"]) (auto simp: list_all_iff all)
qed

text \<open>The resource is marked ready if all StatefulSets of its zones are.\<close>

definition marked_ready :: "quarks_statefulset \<Rightarrow> statefulset list \<Rightarrow> quarks_statefulset \<Rightarrow> quarks_statefulset" where
  "marked_ready q items p =
     (if \<forall>z \<in> set items. sts_key z \<in> desired_keys q \<longrightarrow> stsReady z then withReady True p else p)"

lemma status_of_deployed:
  assumes serves: "serves_resource L W req I res stored" and s: "I s"
    and laws: "controller_law L"
    and dep: "deployed L q (M + 1) items after" "listed_version L q items M" "q_Namespace q \<noteq> []"
    and now: "same_resource q (res s)" "stored s = map (reported g) after"
  shows "wp (statusReconcile L W req) (\<lambda>r s'. r = Ret (empty_result, None) \<and> I s' \<and> stored s' = stored s \<and>
    res s' = marked_ready q (stored s) (res s)) s"
proof -
  obtain new where new: "maxVersionResult L (filterByOwner L q (stored s)) = Inr (new, M + 1)" "new \<noteq> []"
    "list_all stsReady new \<longleftrightarrow> (\<forall>z \<in> set (stored s). sts_key z \<in> desired_keys q \<longrightarrow> stsReady z)"
    using deployed_maximum [OF dep(1,2) laws, of g] now(2) by metis
  have owner: "filterByOwner L (res s) = filterByOwner L q" and ns: "q_Namespace (res s) \<noteq> ''''"
    using filterByOwner_same [OF laws now(1)] now(1) dep(3) by (simp_all add: same_resource_def)
  have get: "wp (GetMaxStatefulSetVersion L W (res s))
      (\<lambda>r s'. r = Inr (new, M + 1) \<and> unchanged I res stored s s') s1" if "unchanged I res stored s s1" for s1
    using serve_list [OF serves, of s1] that ns new(1)
    by (auto simp: GetMaxStatefulSetVersion_def listStatefulSetsFromInformer_def owner wp_simps unchanged_def
        elim!: wp_mono)
  have status: "wp (w_UpdateQstsStatus W (withReady True (res s)))
      (\<lambda>r s'. r = None \<and> I s' \<and> res s' = withReady True (res s) \<and> stored s' = stored s) s1"
    if "unchanged I res stored s s1" for s1
    using serve_status [OF serves, of s1 "withReady True (res s)"] that
    by (auto simp: withReady_def unchanged_def elim!: wp_mono)
  have rest: "wp (statusRest L W (res s)) (\<lambda>r s'. r = Ret (empty_result, None) \<and> I s' \<and> stored s' = stored s \<and>
    res s' = marked_ready q (stored s) (res s)) s1" if s1: "unchanged I res stored s s1" for s1
    unfolding statusRest_def wp_bind
    by (rule wp_mono [OF get [OF s1]])
       (auto simp: wp_simps readyStsCnt_eq new(2,3) unchanged_def marked_ready_def intro!: wp_mono [OF status])
  show ?thesis
    unfolding statusReconcile_def wp_bind
    by (rule wp_mono [OF serve_get [OF serves s]]) (auto intro: rest)
qed

end
