(* ===== verification/Deployment_Properties.thy ===== *)
theory Deployment_Properties
  imports Deployment
begin

text \<open>
  From a fresh QuarksStatefulSet to a ready one: the three Reconciles that take it there, and an
  in-memory cluster that shows that the assumptions can hold.
\<close>

section \<open>The deployment of a fresh resource\<close>

text \<open>The time of the last Reconcile plays no part in what is to be deployed.\<close>

lemma desired_keys_last: "desired_keys (withLastReconcile t q) = desired_keys q"
proof -
  have "zonePrefix (withLastReconcile t q) = zonePrefix q" "zonesOf (withLastReconcile t q) = zonesOf q"
    by (auto simp: withLastReconcile_def zonePrefix_def zonesOf_def fun_eq_iff)
  then show ?thesis by (simp add: desired_keys_def withLastReconcile_def)
qed

lemma controlled_last:
  assumes "controller_law L"
  shows "metav1_IsControlledBy L x (withLastReconcile t q) = metav1_IsControlledBy L x q"
proof -
  have "q_UID (withLastReconcile t q) = q_UID q" by (simp add: withLastReconcile_def)
  with assms show ?thesis unfolding controller_law_def by blast
qed

lemma deployed_last:
  "controller_law L \<Longrightarrow> deployed L (withLastReconcile t q) V items after \<longleftrightarrow> deployed L q V items after"
  by (simp add: renewed_def desired_keys_last controlled_last)

lemma deployable_last:
  "controller_law L \<Longrightarrow> deployable L (withLastReconcile t q) items M \<longleftrightarrow> deployable L q items M"
  by (simp add: deployable_def desired_keys_last listed_version_def filterByOwner_filter controlled_last)
     (simp add: withLastReconcile_def)

section \<open>A cluster that serves\<close>

text \<open>The in-memory cluster with one resource of two zones, at the time \<open>n\<close>.\<close>

definition fresh_qsts :: quarks_statefulset where
  "fresh_qsts = zoned_qsts\<lparr>q_Spec := (q_Spec zoned_qsts)\<lparr>qs_Template := zero_statefulset
     \<lparr>sts_Spec := (sts_Spec zero_statefulset)\<lparr>spec_Replicas := Some 1\<rparr>\<rparr>\<rparr>\<rparr>"

definition keyed :: "(nsname \<times> statefulset) list \<Rightarrow> bool" where
  "keyed m \<longleftrightarrow> distinct (map fst m) \<and> (\<forall>(k, x) \<in> set m. k = sts_key x \<and> nn_Namespace k = ''default'')"

definition fresh_mem :: "int \<Rightarrow> mem \<Rightarrow> bool" where
  "fresh_mem n s \<longleftrightarrow> m_Now s = n \<and> keyed (m_Sts s) \<and>
     (\<exists>st. m_Qsts s = [(sample_key, fresh_qsts\<lparr>q_Status := st\<rparr>)])"

definition mem_res :: "mem \<Rightarrow> quarks_statefulset" where
  "mem_res s = snd (hd (m_Qsts s))"

definition mem_stored :: "mem \<Rightarrow> statefulset list" where
  "mem_stored s = map snd (m_Sts s)"

lemma update_new: "k \<notin> fst ` set m \<Longrightarrow> AList.update k y m = m @ [(k, y)]"
  by (induction m) auto

lemma update_old: "distinct (map fst m) \<Longrightarrow> k \<in> fst ` set m \<Longrightarrow>
    AList.update k y m = map (\<lambda>(k', x). (k', if k' = k then y else x)) m"
proof (induction m)
  case (Cons e m)
  have "map (\<lambda>(k', x). (k', if k' = fst e then y else x)) m = m" if "fst e \<notin> fst ` set m"
    by (rule map_idI) (use that in \<open>auto simp: rev_image_eqI\<close>)
  with Cons show ?case by (cases e) auto
qed simp

lemma keyed_update:
  assumes m: "keyed m" and x: "sts_Namespace x = ''default''"
    and y: "StatefulSetMutateFn x (case map_of m (sts_key x) of None \<Rightarrow> x | Some b \<Rightarrow> b) = Ret y"
  shows "keyed (AList.update (sts_key x) y m)"
    and "map snd (AList.update (sts_key x) y m) = stored_after (map snd m) (WroteSts x (StatefulSetMutateFn x) r)"
proof -
  let ?k = "sts_key x"
  have key: "StatefulSetMutateFn x b = Ret c \<Longrightarrow> sts_key c = sts_key b" for b c
    by (auto simp: StatefulSetMutateFn_def sts_key_def)
  have ns: "nn_Namespace ?k = ''default''" using x by (simp add: sts_key_def)
  have "keyed (AList.update ?k y m) \<and>
    map snd (AList.update ?k y m) = stored_after (map snd m) (WroteSts x (StatefulSetMutateFn x) r)"
  proof (cases "?k \<in> fst ` set m")
    case False
    then have "map_of m ?k = None" by (simp add: map_of_eq_None_iff)
    with y have y': "StatefulSetMutateFn x x = Ret y" by simp
    have "\<not> (\<exists>z \<in> set (map snd m). sts_key z = ?k)" using False m by (fastforce simp: keyed_def image_iff)
    with False m ns y' key [OF y'] show ?thesis by (auto simp: update_new keyed_def)
  next
    case True
    then obtain b where b: "map_of m ?k = Some b" by (metis map_of_eq_None_iff not_None_eq)
    with y have y': "StatefulSetMutateFn x b = Ret y" by simp
    from b have mem: "(?k, b) \<in> set m" by (rule map_of_SomeD)
    then have bk: "sts_key b = ?k" using m by (auto simp: keyed_def)
    have dist: "distinct (map fst m)" using m by (simp add: keyed_def)
    note upd = update_old [OF dist True, of y]
    have same: "z = b" if "(k, z) \<in> set m" "sts_key z = ?k" for k z
    proof -
      have "k = ?k" using that m by (auto simp: keyed_def)
      with that(1) mem dist show ?thesis by (auto dest: eq_key_imp_eq_value)
    qed
    have "keyed (AList.update ?k y m)"
      unfolding upd using m key [OF y'] bk by (auto simp: keyed_def comp_def case_prod_unfold)
    moreover have "map snd (AList.update ?k y m) =
        map (\<lambda>z. if sts_key z = ?k then (case StatefulSetMutateFn x z of Ret c \<Rightarrow> c | Panic \<Rightarrow> z) else z) (map snd m)"
      unfolding upd using m y' same by (auto simp: keyed_def)
    moreover have "\<exists>z \<in> set (map snd m). sts_key z = ?k" using mem bk by force
    ultimately show ?thesis by simp
  qed
  then show "keyed (AList.update ?k y m)"
    "map snd (AList.update ?k y m) = stored_after (map snd m) (WroteSts x (StatefulSetMutateFn x) r)"
    by blast+
qed

lemma mem_serves: "serves_resource sample_lib mem_world sample_key (fresh_mem n) mem_res mem_stored"
  unfolding serves_resource_def
proof (intro allI impI)
  fix s assume I: "fresh_mem n s"
  then obtain st where q: "m_Qsts s = [(sample_key, fresh_qsts\<lparr>q_Status := st\<rparr>)]" and k: "keyed (m_Sts s)"
    by (auto simp: fresh_mem_def)
  have res: "mem_res s = fresh_qsts\<lparr>q_Status := st\<rparr>" by (simp add: mem_res_def q)
  have names: "q_Namespace fresh_qsts = ''default''" "q_Name fresh_qsts = ''foo''"
    "ps_Volumes (podSpecOf (fresh_qsts\<lparr>q_Status := st\<rparr>)) = []" for st
    by (simp_all add: fresh_qsts_def zoned_qsts_def sample_qsts_def podSpecOf_def zero_defs)
  have list: "in_ns ''default'' (m_Sts s) = map snd (m_Sts s)"
  proof -
    have "filter (\<lambda>e. nn_Namespace (fst e) = ''default'') (m_Sts s) = m_Sts s"
      using k by (auto simp: keyed_def filter_id_conv)
    then show ?thesis by (simp add: in_ns_def)
  qed
  have create: "\<exists>y. r = Ret (None, y) \<and> fresh_mem n s' \<and> mem_res s' = mem_res s \<and>
      mem_stored s' = stored_after (mem_stored s) (WroteSts x (StatefulSetMutateFn x) r)"
    if "run_state (w_CreateOrUpdate mem_world x (StatefulSetMutateFn x)) s = (r, s')" "sts_Namespace x = ''default''" for x r s'
  proof -
    obtain y where y: "StatefulSetMutateFn x (case map_of (m_Sts s) (sts_key x) of None \<Rightarrow> x | Some b \<Rightarrow> b) = Ret y"
      by (simp add: StatefulSetMutateFn_def)
    with that have "r = Ret (None, y)" "s' = s\<lparr>m_Sts := AList.update (sts_key x) y (m_Sts s)\<rparr>"
      by (simp_all add: mem_world_def)
    then show ?thesis
      using keyed_update [OF k that(2) y] I by (auto simp: fresh_mem_def mem_res_def mem_stored_def simp del: stored_after.simps)
  qed
  show "wp (w_GetQsts mem_world sample_key) (\<lambda>r s'. r = Inr (mem_res s) \<and> unchanged (fresh_mem n) mem_res mem_stored s s') s \<and>
     wp (UpdateVersions sample_lib mem_world (mem_res s)) (\<lambda>r s'. (\<exists>q. r = Inr q) \<and> unchanged (fresh_mem n) mem_res mem_stored s s') s \<and>
     wp (w_Now mem_world) (\<lambda>t s'. unchanged (fresh_mem n) mem_res mem_stored s s') s \<and>
     wp (w_ListSts mem_world (q_Namespace (mem_res s))) (\<lambda>r s'. r = Inr (mem_stored s) \<and> unchanged (fresh_mem n) mem_res mem_stored s s') s \<and>
     (\<forall>ps. wp (w_SetSecretReferences mem_world (nn_Namespace sample_key) ps)
        (\<lambda>r s'. (\<exists>ps'. r = (None, ps')) \<and> unchanged (fresh_mem n) mem_res mem_stored s s') s) \<and>
     (\<forall>x. sts_Namespace x = q_Namespace (mem_res s) \<longrightarrow>
        wp (w_CreateOrUpdate mem_world x (StatefulSetMutateFn x)) (\<lambda>r s'. (\<exists>y. r = Ret (None, y)) \<and> fresh_mem n s' \<and>
          mem_res s' = mem_res s \<and> mem_stored s' = stored_after (mem_stored s) (WroteSts x (StatefulSetMutateFn x) r)) s) \<and>
     (\<forall>q. q_Name q = q_Name (mem_res s) \<longrightarrow> q_Namespace q = q_Namespace (mem_res s) \<longrightarrow>
        wp (w_UpdateQstsStatus mem_world q) (\<lambda>r s'. r = None \<and> fresh_mem n s' \<and>
          mem_res s' = (mem_res s)\<lparr>q_Status := q_Status q\<rparr> \<and> mem_stored s' = mem_stored s) s)"
    using I create
    by (simp add: wp_run prod_eq_iff unchanged_def res names UpdateVersions_def)
       (auto simp: mem_world_def q k found_def list mem_stored_def mem_res_def res names fresh_mem_def qsts_key_def sample_key_def)
qed

section \<open>The property\<close>

text \<open>
  C5: deployment. On a cluster that serves its requests, the first Reconcile of a fresh
  QuarksStatefulSet notes the time and asks to come back; the second, once the window has
  passed, stores exactly one StatefulSet per zone at the next version; and from then on,
  whatever the StatefulSets report, the status reconciler marks the resource ready exactly if
  those StatefulSets have all their replicas ready.
\<close>

theorem fresh_resource_deployed:
  assumes "serves_resource L W req I res stored" "serves_resource L W req J res stored"
    and "owner_law L" "owner_settable L" "controller_law L" "union_maps_law L"
    and "\<forall>t0. shown W I t0 \<longrightarrow> window_passed L W J t0"
    and "I s" "qst_LastReconcile (q_Status (res s)) = None" "deployable L (res s) (stored s) M"
  shows "wp (qstsReconcile L W req) (\<lambda>r1 s1. r1 = Ret (requeue_after ReconcileSkipDuration, None) \<and> I s1 \<and>
    (\<exists>t0. res s1 = withLastReconcile t0 (res s) \<and> stored s1 = stored s \<and>
      (\<forall>s2. J s2 \<and> res s2 = res s1 \<and> stored s2 = stored s1 \<longrightarrow>
        wp (qstsReconcile L W req) (\<lambda>r3 s3. r3 = Ret (empty_result, None) \<and> J s3 \<and>
          deployed L (res s) (M + 1) (stored s) (stored s3) \<and>
          (\<forall>g s4. J s4 \<and> res s4 = res s3 \<and> stored s4 = map (reported g) (stored s3) \<longrightarrow>
            wp (statusReconcile L W req) (\<lambda>r5 s5. r5 = Ret (empty_result, None) \<and>
              res s5 = marked_ready (res s) (stored s4) (res s4)) s4)) s2))) s"
proof (rule wp_mono [OF first_reconcile [OF assms(1,8,9)]], elim conjE exE)
  fix r1 s1 t0
  assume t0: "shown W I t0"
    and s1: "r1 = Ret (requeue_after ReconcileSkipDuration, None)" "I s1" "res s1 = withLastReconcile t0 (res s)"
    "stored s1 = stored s"
  let ?q = "withLastReconcile t0 (res s)"
  have second: "wp (qstsReconcile L W req) (\<lambda>r3 s3. r3 = Ret (empty_result, None) \<and> J s3 \<and> res s3 = ?q \<and>
      deployed L (res s) (M + 1) (stored s) (stored s3)) s2"
    if s2: "J s2" "res s2 = ?q" "stored s2 = stored s" for s2
  proof -
    have "qst_LastReconcile (q_Status (res s2)) = Some t0" by (simp add: s2(2) withLastReconcile_def)
    from second_reconcile [OF assms(2) s2(1) assms(3-6) this] assms(7) t0 show ?thesis
      using assms(10) s2(2,3) by (simp add: deployable_last [OF assms(5)] deployed_last [OF assms(5)])
  qed
  have third: "wp (statusReconcile L W req) (\<lambda>r5 s5. r5 = Ret (empty_result, None) \<and>
      res s5 = marked_ready (res s) (map (reported g) after) ?q) s4"
    if s4: "J s4" "res s4 = ?q" "stored s4 = map (reported g) after"
      and after: "deployed L (res s) (M + 1) (stored s) after" for g s4 after
  proof -
    have "deployed L ?q (M + 1) (stored s) after" "listed_version L ?q (stored s) M" "q_Namespace ?q \<noteq> ''''"
      using after deployable_last [OF assms(5), of t0 "res s" "stored s" M] assms(10)
      by (simp_all add: deployed_last [OF assms(5)] deployable_def)
    from status_of_deployed [OF assms(2) s4(1) assms(5) this _ s4(3)] s4(2,3) show ?thesis
      by (auto simp: marked_ready_def desired_keys_last split del: if_split elim!: wp_mono)
  qed
  show "r1 = Ret (requeue_after ReconcileSkipDuration, None) \<and> I s1 \<and>
    (\<exists>t0. res s1 = withLastReconcile t0 (res s) \<and> stored s1 = stored s \<and>
      (\<forall>s2. J s2 \<and> res s2 = res s1 \<and> stored s2 = stored s1 \<longrightarrow>
        wp (qstsReconcile L W req) (\<lambda>r3 s3. r3 = Ret (empty_result, None) \<and> J s3 \<and>
          deployed L (res s) (M + 1) (stored s) (stored s3) \<and>
          (\<forall>g s4. J s4 \<and> res s4 = res s3 \<and> stored s4 = map (reported g) (stored s3) \<longrightarrow>
            wp (statusReconcile L W req) (\<lambda>r5 s5. r5 = Ret (empty_result, None) \<and>
              res s5 = marked_ready (res s) (stored s4) (res s4)) s4)) s2))"
    using s1 by (auto intro!: exI [of _ t0] wp_mono [OF second] third)
qed

definition fresh_start :: mem where
  "fresh_start = empty_mem\<lparr>m_Qsts := [(sample_key, fresh_qsts)]\<rparr>"

text \<open>The clock goes on; the pods of all StatefulSets become ready.\<close>

definition sleep_until :: "int \<Rightarrow> (mem, unit) state" where
  "sleep_until n = State (\<lambda>s. ((), s\<lparr>m_Now := n\<rparr>))"

definition all_pods_ready :: "statefulset \<Rightarrow> sts_status" where
  "all_pods_ready x = (sts_Status x)\<lparr>st_ReadyReplicas := wantedReplicas x\<rparr>"

definition report_ready :: "(mem, unit) state" where
  "report_ready = State (\<lambda>s. ((), s\<lparr>m_Sts := map (\<lambda>(k, x). (k, reported all_pods_ready x)) (m_Sts s)\<rparr>))"

lemma wp_steps:
  "wp (sleep_until n) Q s \<longleftrightarrow> Q () (s\<lparr>m_Now := n\<rparr>)"
  "wp report_ready Q s \<longleftrightarrow> Q () (s\<lparr>m_Sts := map (\<lambda>(k, x). (k, reported all_pods_ready x)) (m_Sts s)\<rparr>)"
  by (simp_all add: wp_run sleep_until_def report_ready_def)

lemma report_makes_ready:
  assumes J: "fresh_mem n s3"
    and ready: "\<forall>g s4. fresh_mem n s4 \<and> mem_res s4 = mem_res s3 \<and>
         mem_stored s4 = map (reported g) (mem_stored s3) \<longrightarrow>
        wp (statusReconcile sample_lib mem_world sample_key) (\<lambda>r5 s5. r5 = Ret (empty_result, None) \<and>
          mem_res s5 = marked_ready q (mem_stored s4) (mem_res s4)) s4"
  shows "wp (statusReconcile sample_lib mem_world sample_key)
    (\<lambda>r5 s5. r5 = Ret (empty_result, None) \<and> qst_Ready (q_Status (mem_res s5)))
    (s3\<lparr>m_Sts := map (\<lambda>(k, x). (k, reported all_pods_ready x)) (m_Sts s3)\<rparr>)"
proof -
  let ?s4 = "s3\<lparr>m_Sts := map (\<lambda>(k, x). (k, reported all_pods_ready x)) (m_Sts s3)\<rparr>"
  have stored: "mem_stored ?s4 = map (reported all_pods_ready) (mem_stored s3)"
    by (auto simp: mem_stored_def)
  moreover have "fresh_mem n ?s4" "mem_res ?s4 = mem_res s3"
    using J by (auto simp: fresh_mem_def keyed_def mem_res_def comp_def case_prod_unfold)
  ultimately have "wp (statusReconcile sample_lib mem_world sample_key) (\<lambda>r5 s5. r5 = Ret (empty_result, None) \<and>
      mem_res s5 = marked_ready q (mem_stored ?s4) (mem_res ?s4)) ?s4"
    using ready by blast
  moreover have "stsReady z" if "z \<in> set (mem_stored ?s4)" for z
    using that unfolding stored by (auto simp: stsReady_def reported_def all_pods_ready_def wantedReplicas_def)
  ultimately show ?thesis
    by (auto simp: marked_ready_def withReady_def elim!: wp_mono)
qed

theorem fresh_resource_deployed_witness:
  "wp (do { r1 \<leftarrow> qstsReconcile sample_lib mem_world sample_key; sleep_until (60 * time_Second);
          r3 \<leftarrow> qstsReconcile sample_lib mem_world sample_key; report_ready;
          statusReconcile sample_lib mem_world sample_key })
     (\<lambda>r5 s5. r5 = Ret (empty_result, None) \<and> qst_Ready (q_Status (mem_res s5)))
     fresh_start"
proof -
  let ?s = fresh_start
  have settable: "owner_settable sample_lib" by (simp add: owner_settable_def sample_lib_def)
  have start: "fresh_mem 0 ?s" "mem_res ?s = fresh_qsts" "mem_stored ?s = []"
    by (auto simp: fresh_start_def fresh_mem_def empty_mem_def keyed_def mem_res_def mem_stored_def
        intro: exI [of _ "q_Status fresh_qsts"])
  have fresh: "qst_LastReconcile (q_Status (mem_res ?s)) = None"
    by (simp add: start fresh_qsts_def zoned_qsts_def sample_qsts_def)
  have dep: "deployable sample_lib (mem_res ?s) (mem_stored ?s) 0"
    unfolding start
    by (simp add: deployable_def listed_version_def maxVersionResult_def int64_ok_def fresh_qsts_def
        zoned_qsts_def sample_qsts_def)
  have window: "\<forall>t0. shown mem_world (fresh_mem 0) t0 \<longrightarrow>
      window_passed sample_lib mem_world (fresh_mem (60 * time_Second)) t0"
    by (auto simp: shown_def window_passed_def fresh_mem_def mem_world_def sample_lib_def
        ReconcileSkipDuration_def time_Second_def)
  have keep: "fresh_mem (60 * time_Second) (s\<lparr>m_Now := 60 * time_Second\<rparr>)" if "fresh_mem 0 s" for s
    using that by (auto simp: fresh_mem_def)
  note main = fresh_resource_deployed [OF mem_serves [of 0] mem_serves [of "60 * time_Second"]
      sample_owner_law settable sample_controller_law sample_union window start(1) fresh dep]
  show ?thesis
    unfolding wp_bind wp_steps
  proof (rule wp_mono [OF main], elim conjE exE)
    fix r1 s1 t0
    let ?s2 = "(s1 :: mem)\<lparr>m_Now := 60 * time_Second\<rparr>"
    assume I: "fresh_mem 0 s1" and s1: "mem_res s1 = withLastReconcile t0 (mem_res ?s)"
      and go: "\<forall>s2. fresh_mem (60 * time_Second) s2 \<and> mem_res s2 = mem_res s1 \<and> mem_stored s2 = mem_stored s1 \<longrightarrow>
        wp (qstsReconcile sample_lib mem_world sample_key) (\<lambda>r3 s3. r3 = Ret (empty_result, None) \<and>
          fresh_mem (60 * time_Second) s3 \<and> deployed sample_lib (mem_res ?s) (0 + 1) (mem_stored ?s) (mem_stored s3) \<and>
          (\<forall>g s4. fresh_mem (60 * time_Second) s4 \<and> mem_res s4 = mem_res s3 \<and>
             mem_stored s4 = map (reported g) (mem_stored s3) \<longrightarrow>
            wp (statusReconcile sample_lib mem_world sample_key) (\<lambda>r5 s5. r5 = Ret (empty_result, None) \<and>
              mem_res s5 = marked_ready (mem_res ?s) (mem_stored s4) (mem_res s4)) s4)) s2"
    have "mem_res ?s2 = mem_res s1" "mem_stored ?s2 = mem_stored s1" by (simp_all add: mem_res_def mem_stored_def)
    note second = go [rule_format, OF conjI [OF keep [OF I] conjI [OF this]]]
    show "wp (qstsReconcile sample_lib mem_world sample_key)
      (\<lambda>r3 s3. wp (statusReconcile sample_lib mem_world sample_key)
         (\<lambda>r5 s5. r5 = Ret (empty_result, None) \<and> qst_Ready (q_Status (mem_res s5)))
         (s3\<lparr>m_Sts := map (\<lambda>(k, x). (k, reported all_pods_ready x)) (m_Sts s3)\<rparr>)) ?s2"
      by (rule wp_mono [OF second], elim conjE, rule report_makes_ready)
  qed
qed

end
