(* ===== verification/Catalog.thy ===== *)
theory Catalog
  imports Json Rollout TestEnvironment
begin

text \<open>
  The sample objects of \<open>testing/catalog.go\<close> and \<open>testing/catalog_qstsv1.go\<close>, with which the
  integration tests drive the operator. Every function of the catalog is a definition; the
  fields the records of \<open>K8s_Types\<close> keep as one string are given as the JSON of what the
  sample sets.
\<close>

section \<open>Serialised fields\<close>

datatype rest_json =
    RString string
  | RInt int
  | RArray "rest_json list"
  | RObject "(string \<times> rest_json) list"

fun rest_text :: "rest_json \<Rightarrow> string"
  and rest_items :: "rest_json list \<Rightarrow> string list"
  and rest_fields :: "(string \<times> rest_json) list \<Rightarrow> string list" where
  "rest_text (RString s) = json_Marshal_string s"
| "rest_text (RInt i) = Itoa i"
| "rest_text (RArray xs) = ''['' @ concat (rest_items xs) @ '']''"
| "rest_text (RObject fs) = ''{'' @ concat (rest_fields fs) @ ''}''"
| "rest_items [] = []"
| "rest_items (x # xs) = (rest_text x @ (if xs = [] then '''' else '','')) # rest_items xs"
| "rest_fields [] = []"
| "rest_fields ((k, x) # fs) =
     (json_Marshal_string k @ '':'' @ rest_text x @ (if fs = [] then '''' else '','')) # rest_fields fs"

definition rest_of :: "(string \<times> rest_json) list \<Rightarrow> string" where
  "rest_of fs = rest_text (RObject fs)"

section \<open>Configuration, secrets and config maps\<close>

definition DefaultConfig :: test_config where
  "DefaultConfig = \<lparr>te_CtxTimeOut = 10 * time_Second, te_MeltdownDuration = 0, te_MeltdownRequeueAfter = 0,
     te_MonitoredID = ''staging'', te_OperatorNamespace = ''default'',
     te_WebhookServerHost = ''foo.com'', te_WebhookServerPort = 1234\<rparr>"

text \<open>A secret with the field \<open>StringData\<close>, which only writers use.\<close>

record string_secret = secret +
  sec_StringData :: gomap

definition DefaultSecret :: "string \<Rightarrow> string_secret" where
  "DefaultSecret name = \<lparr>sec_Name = name, sec_Namespace = '''', sec_Labels = None, sec_Data = None,
     sec_StringData = Some [name \<mapsto> ''default-value'']\<rparr>"

definition DefaultConfigMap :: "string \<Rightarrow> config_map" where
  "DefaultConfigMap name = \<lparr>cm_Name = name, cm_Namespace = '''', cm_Data = Some [name \<mapsto> ''default-value'']\<rparr>"

section \<open>Pods\<close>

definition sleep1h :: "(string \<times> rest_json) list" where
  "sleep1h = [(''image'', RString ''busybox''), (''imagePullPolicy'', RString ''IfNotPresent''),
     (''command'', RArray [RString ''sleep'', RString ''3600''])]"

definition oneSecondGrace :: "(string \<times> rest_json) list" where
  "oneSecondGrace = [(''terminationGracePeriodSeconds'', RInt 1)]"

definition Sleep1hPodSpec :: pod_spec where
  "Sleep1hPodSpec = zero_pod_spec\<lparr>
     ps_Containers := [\<lparr>con_Name = ''busybox'', con_Env = [], con_Rest = rest_of sleep1h\<rparr>],
     ps_Rest := rest_of oneSecondGrace\<rparr>"

definition templateOf :: "string \<Rightarrow> gomap \<Rightarrow> pod_spec \<Rightarrow> pod_template" where
  "templateOf name labels ps = \<lparr>pt_Labels = labels, pt_Annotations = None, pt_Spec = ps,
     pt_Rest = rest_of [(''name'', RString name)]\<rparr>"

definition DefaultPodTemplate :: "string \<Rightarrow> pod_template" where
  "DefaultPodTemplate name = templateOf name (Some [''testpod'' \<mapsto> ''yes'']) Sleep1hPodSpec"

definition DefaultPodTemplateWithActiveLabel :: "string \<Rightarrow> pod_template" where
  "DefaultPodTemplateWithActiveLabel name =
     templateOf name (Some [''testpod'' \<mapsto> ''yes'', ''quarks.cloudfoundry.org/pod-active'' \<mapsto> ''active''])
       Sleep1hPodSpec"

definition LabeledPod :: "string \<Rightarrow> gomap \<Rightarrow> pod" where
  "LabeledPod name labels = \<lparr>pod_Name = name, pod_Namespace = '''', pod_Labels = labels, pod_Status = '''',
     pod_Rest = rest_of [(''spec'', RObject (oneSecondGrace @
       [(''containers'', RArray [RObject ((''name'', RString ''busybox'') # sleep1h)])]))]\<rparr>"

definition DefaultVolumeMount :: "string \<Rightarrow> rest_json" where
  "DefaultVolumeMount name = RObject [(''name'', RString name), (''mountPath'', RString ''/etc/random'')]"

definition PodTemplateWithLabelsAndMount :: "string \<Rightarrow> gomap \<Rightarrow> string \<Rightarrow> pod_template" where
  "PodTemplateWithLabelsAndMount name labels pvcName = templateOf name labels (zero_pod_spec\<lparr>
     ps_Containers := [\<lparr>con_Name = ''busybox'', con_Env = [],
       con_Rest = rest_of (sleep1h @ [(''volumeMounts'', RArray [DefaultVolumeMount pvcName])])\<rparr>],
     ps_Rest := rest_of oneSecondGrace\<rparr>)"

definition WrongPodTemplateWithLabelsAndMount :: "string \<Rightarrow> gomap \<Rightarrow> string \<Rightarrow> pod_template" where
  "WrongPodTemplateWithLabelsAndMount name labels pvcName = templateOf name labels (zero_pod_spec\<lparr>
     ps_Containers := [\<lparr>con_Name = ''wrong-container'', con_Env = [],
       con_Rest = rest_of [(''image'', RString ''wrong-image''), (''imagePullPolicy'', RString ''IfNotPresent''),
         (''volumeMounts'', RArray [DefaultVolumeMount pvcName])]\<rparr>],
     ps_Rest := rest_of oneSecondGrace\<rparr>)"

definition WrongPodTemplate :: "string \<Rightarrow> pod_template" where
  "WrongPodTemplate name = templateOf name (Some [''wrongpod'' \<mapsto> ''yes'']) (zero_pod_spec\<lparr>
     ps_Containers := [\<lparr>con_Name = ''wrong-container'', con_Env = [],
       con_Rest = rest_of [(''image'', RString ''ghcr.io/cfcontainerizationbot/wrong-image'')]\<rparr>],
     ps_Rest := rest_of oneSecondGrace\<rparr>)"

text \<open>A reference to an object by name, and a variable that takes a key of it.\<close>

definition nameRef :: "string \<Rightarrow> rest_json" where
  "nameRef name = RObject [(''name'', RString name)]"

definition envFromKey :: "string \<Rightarrow> string \<Rightarrow> string \<Rightarrow> string \<Rightarrow> env_var" where
  "envFromKey var kind key name = \<lparr>env_Name = var, env_Value = '''',
     env_ValueFrom = Some (rest_of [(kind, RObject [(''name'', RString name), (''key'', RString key)])])\<rparr>"

definition OwnedReferencesPodTemplate :: "string \<Rightarrow> pod_template" where
  "OwnedReferencesPodTemplate name = templateOf name (Some [''referencedpod'' \<mapsto> ''yes'']) (zero_pod_spec\<lparr>
     ps_Volumes := [
       \<lparr>vol_Name = ''secret1'', vol_Secret = Some \<lparr>ss_SecretName = ''example1'', ss_Rest = ''''\<rparr>, vol_Rest = ''''\<rparr>,
       \<lparr>vol_Name = ''configmap1'', vol_Secret = None, vol_Rest = rest_of [(''configMap'', nameRef ''example1'')]\<rparr>],
     ps_Containers := [
       \<lparr>con_Name = ''container1'', con_Env = [],
        con_Rest = rest_of (sleep1h @ [(''envFrom'', RArray [
          RObject [(''configMapRef'', nameRef ''example1'')], RObject [(''secretRef'', nameRef ''example1'')]])])\<rparr>,
       \<lparr>con_Name = ''container2'',
        con_Env = [envFromKey ''ENV1'' ''configMapKeyRef'' ''example2'' ''example2'',
                   envFromKey ''ENV2'' ''secretKeyRef'' ''example2'' ''example2''],
        con_Rest = rest_of sleep1h\<rparr>],
     ps_Rest := rest_of oneSecondGrace\<rparr>)"

section \<open>StatefulSets\<close>

text \<open>The StatefulSet with this name, selector and template; \<open>ServiceName\<close> is the name.\<close>

definition statefulSetOf :: "string \<Rightarrow> gomap \<Rightarrow> gomap \<Rightarrow> int \<Rightarrow> gomap \<Rightarrow> pod_template \<Rightarrow> statefulset" where
  "statefulSetOf name labels annotations replicas selector template = zero_statefulset\<lparr>
     sts_Name := name, sts_Labels := labels, sts_Annotations := annotations,
     sts_Spec := (sts_Spec zero_statefulset)\<lparr>spec_Replicas := Some replicas, spec_Selector := Some selector,
       spec_Template := template, spec_Rest := rest_of [(''serviceName'', RString name)]\<rparr>\<rparr>"

definition withClaims :: "string \<Rightarrow> statefulset \<Rightarrow> statefulset" where
  "withClaims claims x = x\<lparr>sts_Spec := (sts_Spec x)\<lparr>spec_VolumeClaimTemplates := claims\<rparr>\<rparr>"

definition DefaultStatefulSet :: "string \<Rightarrow> statefulset" where
  "DefaultStatefulSet name = statefulSetOf name (Some [''testpod'' \<mapsto> ''yes'']) None 1
     (Some [''testpod'' \<mapsto> ''yes'']) (DefaultPodTemplate name)"

definition DefaultStatefulSetWithActiveSinglePod :: "string \<Rightarrow> statefulset" where
  "DefaultStatefulSetWithActiveSinglePod name = statefulSetOf name (Some [''testpod'' \<mapsto> ''yes'']) None 1
     (Some [''testpod'' \<mapsto> ''yes'']) (DefaultPodTemplateWithActiveLabel name)"

definition DefaultStatefulSetWithReplicasN :: "string \<Rightarrow> statefulset" where
  "DefaultStatefulSetWithReplicasN name = statefulSetOf name (Some [''testpod'' \<mapsto> ''yes'']) None 3
     (Some [''testpod'' \<mapsto> ''yes'']) (DefaultPodTemplate name)"

definition DefaultVolumeClaimTemplates :: "string \<Rightarrow> string \<Rightarrow> string" where
  "DefaultVolumeClaimTemplates name storageClassName = rest_text (RArray [RObject
     [(''metadata'', RObject [(''name'', RString name)]),
      (''spec'', RObject [(''storageClassName'', RString storageClassName),
         (''accessModes'', RArray [RString ''ReadWriteOnce'']),
         (''resources'', RObject [(''requests'', RObject [(''storage'', RString ''1G'')])])])]])"

definition StatefulSetWithPVC :: "string \<Rightarrow> string \<Rightarrow> string \<Rightarrow> statefulset" where
  "StatefulSetWithPVC name pvcName storageClassName =
     (let labels = Some [''test-run-reference'' \<mapsto> name, ''testpod'' \<mapsto> ''yes'']
      in withClaims (DefaultVolumeClaimTemplates pvcName storageClassName)
           (statefulSetOf name None None 1 labels (PodTemplateWithLabelsAndMount name labels pvcName)))"

definition WrongStatefulSet :: "lib \<Rightarrow> string \<Rightarrow> statefulset" where
  "WrongStatefulSet L name = statefulSetOf name None
     (Some [AnnotationUpdateWatchTime (gname L) \<mapsto> ''20000'']) 1
     (Some [''wrongpod'' \<mapsto> ''yes'']) (WrongPodTemplate name)"

definition WrongStatefulSetWithPVC :: "string \<Rightarrow> string \<Rightarrow> string \<Rightarrow> statefulset" where
  "WrongStatefulSetWithPVC name pvcName storageClassName =
     (let labels = Some [''wrongpod'' \<mapsto> ''yes'', ''test-run-reference'' \<mapsto> name]
      in withClaims (DefaultVolumeClaimTemplates pvcName storageClassName)
           (statefulSetOf name None None 1 labels (WrongPodTemplateWithLabelsAndMount name labels pvcName)))"

definition OwnedReferencesStatefulSet :: "string \<Rightarrow> statefulset" where
  "OwnedReferencesStatefulSet name = statefulSetOf name None None 1
     (Some [''referencedpod'' \<mapsto> ''yes'']) (OwnedReferencesPodTemplate name)"

section \<open>QuarksStatefulSets\<close>

text \<open>The resource with this name, template and probes, and the zero value elsewhere.\<close>

definition resourceOf :: "string \<Rightarrow> statefulset \<Rightarrow> probe_map \<Rightarrow> quarks_statefulset" where
  "resourceOf name template probes = \<lparr>q_Name = name, q_Namespace = '''', q_UID = '''', q_Labels = None,
     q_Annotations = None,
     q_Spec = \<lparr>qs_UpdateOnConfigChange = False, qs_ZoneNodeLabel = '''', qs_Zones = [],
       qs_Template = template, qs_ActivePassiveProbes = probes, qs_InjectReplicasEnv = None\<rparr>,
     q_Status = \<lparr>qst_LastReconcile = None, qst_Ready = False\<rparr>\<rparr>"

definition busyboxProbe :: "int \<Rightarrow> string list \<Rightarrow> probe_map" where
  "busyboxProbe period cmd = Some [(''busybox'', \<lparr>pr_Exec = Some cmd, pr_PeriodSeconds = period\<rparr>)]"

definition DefaultQuarksStatefulSet :: "string \<Rightarrow> quarks_statefulset" where
  "DefaultQuarksStatefulSet name = resourceOf name (DefaultStatefulSet name) None"

definition QstsWithProbeSinglePod :: "string \<Rightarrow> string list \<Rightarrow> quarks_statefulset" where
  "QstsWithProbeSinglePod name cmd = resourceOf name (DefaultStatefulSet name) (busyboxProbe 2 cmd)"

definition QstsWithProbeSinglePodMultipleAZs :: "string \<Rightarrow> string list \<Rightarrow> string list \<Rightarrow> quarks_statefulset" where
  "QstsWithProbeSinglePodMultipleAZs name cmd zones =
     (let q = resourceOf name (DefaultStatefulSet name) (busyboxProbe 2 cmd)
      in q\<lparr>q_Spec := (q_Spec q)\<lparr>qs_Zones := zones\<rparr>\<rparr>)"

definition QstsWithActiveSinglePod :: "string \<Rightarrow> string list \<Rightarrow> quarks_statefulset" where
  "QstsWithActiveSinglePod name cmd =
     resourceOf name (DefaultStatefulSetWithActiveSinglePod name) (busyboxProbe 2 cmd)"

definition QstsWithoutProbeMultiplePods :: "string \<Rightarrow> string list \<Rightarrow> quarks_statefulset" where
  "QstsWithoutProbeMultiplePods name cmd =
     resourceOf name (DefaultStatefulSetWithReplicasN name) (busyboxProbe 0 cmd)"

definition QstsWithProbeMultiplePods :: "string \<Rightarrow> string list \<Rightarrow> quarks_statefulset" where
  "QstsWithProbeMultiplePods name cmd =
     resourceOf name (DefaultStatefulSetWithReplicasN name) (busyboxProbe 2 cmd)"

definition WrongQuarksStatefulSet :: "lib \<Rightarrow> string \<Rightarrow> quarks_statefulset" where
  "WrongQuarksStatefulSet L name = resourceOf name (WrongStatefulSet L name) None"

definition QuarksStatefulSetWithPVC :: "string \<Rightarrow> string \<Rightarrow> string \<Rightarrow> quarks_statefulset" where
  "QuarksStatefulSetWithPVC name pvcName storageClassName =
     resourceOf name (StatefulSetWithPVC name pvcName storageClassName) None"

definition WrongQuarksStatefulSetWithPVC :: "string \<Rightarrow> string \<Rightarrow> string \<Rightarrow> quarks_statefulset" where
  "WrongQuarksStatefulSetWithPVC name pvcName storageClassName =
     resourceOf name (WrongStatefulSetWithPVC name pvcName storageClassName) None"

definition OwnedReferencesQuarksStatefulSet :: "string \<Rightarrow> quarks_statefulset" where
  "OwnedReferencesQuarksStatefulSet name =
     (let q = resourceOf name (OwnedReferencesStatefulSet name) None
      in q\<lparr>q_Spec := (q_Spec q)\<lparr>qs_UpdateOnConfigChange := True\<rparr>\<rparr>)"

end
