(* ===== verification/Catalog_Properties.thy ===== *)
theory Catalog_Properties
  imports Catalog Rollout_Webhook Rollout_Liveness ActivePassive_Properties Generate_Properties
begin

text \<open>
  What the operator makes of the sample resources, for every name, command and list of zones
  the tests may pass: all of them are deployed, the wrong one runs into its deadline, and the
  probed ones are probed.
\<close>

section \<open>Every sample is deployed\<close>

definition sample_resources ::
  "lib \<Rightarrow> string \<Rightarrow> string list \<Rightarrow> string list \<Rightarrow> string \<Rightarrow> string \<Rightarrow> quarks_statefulset list" where
  "sample_resources L name cmd zones pvcName storageClassName =
     [DefaultQuarksStatefulSet name, QstsWithProbeSinglePod name cmd,
      QstsWithProbeSinglePodMultipleAZs name cmd zones, QstsWithActiveSinglePod name cmd,
      QstsWithoutProbeMultiplePods name cmd, QstsWithProbeMultiplePods name cmd,
      WrongQuarksStatefulSet L name, QuarksStatefulSetWithPVC name pvcName storageClassName,
      WrongQuarksStatefulSetWithPVC name pvcName storageClassName, OwnedReferencesQuarksStatefulSet name]"

text \<open>A sample as the API server stores it: in a namespace, with an identity.\<close>

definition created :: "string \<Rightarrow> string \<Rightarrow> quarks_statefulset \<Rightarrow> quarks_statefulset" where
  "created ns uid q = q\<lparr>q_Namespace := ns, q_UID := uid\<rparr>"

lemmas resource_defs = sample_resources_def DefaultQuarksStatefulSet_def QstsWithProbeSinglePod_def
  QstsWithProbeSinglePodMultipleAZs_def QstsWithActiveSinglePod_def QstsWithoutProbeMultiplePods_def
  QstsWithProbeMultiplePods_def WrongQuarksStatefulSet_def QuarksStatefulSetWithPVC_def
  WrongQuarksStatefulSetWithPVC_def OwnedReferencesQuarksStatefulSet_def resourceOf_def

lemmas sts_sample_defs = DefaultStatefulSet_def DefaultStatefulSetWithActiveSinglePod_def
  DefaultStatefulSetWithReplicasN_def StatefulSetWithPVC_def WrongStatefulSet_def
  WrongStatefulSetWithPVC_def OwnedReferencesStatefulSet_def statefulSetOf_def withClaims_def

lemma sample_fields:
  assumes "q \<in> set (sample_resources L name cmd zones pvcName storageClassName)"
  shows "q_Name q = name" "spec_Replicas (sts_Spec (qs_Template (q_Spec q))) \<in> {Some 1, Some 3}"
    "qs_Zones (q_Spec q) = [] \<or> qs_Zones (q_Spec q) = zones"
    "ps_Containers (pt_Spec (spec_Template (sts_Spec (qs_Template (q_Spec q))))) \<noteq> []"
  using assms
  by (auto simp: resource_defs sts_sample_defs Let_def templateOf_def DefaultPodTemplate_def
      DefaultPodTemplateWithActiveLabel_def PodTemplateWithLabelsAndMount_def WrongPodTemplate_def
      WrongPodTemplateWithLabelsAndMount_def OwnedReferencesPodTemplate_def Sleep1hPodSpec_def)

text \<open>
  The samples. Every QuarksStatefulSet of the catalog, created in any namespace, generates
  its StatefulSets without a panic: the one with zones one per zone, with distinct names, every
  other exactly one, with the name of the resource.
\<close>

theorem samples_are_deployed:
  assumes "q \<in> set (sample_resources L name cmd zones pvcName storageClassName)" "'''' \<notin> set zones"
  shows "\<exists>xs. desiredStatefulSets L (created ns uid q) v = Ret xs \<and>
    (if qs_Zones (q_Spec q) = [] then map sts_Name xs = [name]
     else length xs = length zones \<and> distinct (map sts_Name xs)) \<and>
    (\<forall>x \<in> set xs. sts_Namespace x = ns)"
proof -
  let ?q = "created ns uid q"
  have spec: "q_Spec ?q = q_Spec q" "q_Namespace ?q = ns" "q_Name ?q = name"
    using sample_fields(1) [OF assms(1)] by (simp_all add: created_def)
  obtain xs where xs: "desiredStatefulSets L ?q v = Ret xs"
    using desired_total [of ?q] sample_fields(2) [OF assms(1)] spec(1) by (metis insertE option.distinct(1) singletonD)
  note names = desired_names [OF xs]
  have len: "length xs = length (zonesOf ?q)"
    using arg_cong [OF names(1), of length] by simp
  have "map sts_Name xs = [name]" if "qs_Zones (q_Spec q) = []"
    using names(1) that by (simp add: zonesOf_def zonePrefix_def spec)
  moreover have "length xs = length zones \<and> distinct (map sts_Name xs)" if "qs_Zones (q_Spec q) \<noteq> []"
    using names(3) len that assms(2) sample_fields(3) [OF assms(1)] by (auto simp: zonesOf_def spec)
  ultimately show ?thesis
    using xs names(2) by (intro exI [of _ xs]) (simp add: spec)
qed

theorem samples_are_deployed_witness:
  "\<exists>xs. desiredStatefulSets sample_lib
       (created ''default'' ''uid-1'' (QstsWithProbeSinglePodMultipleAZs ''foo'' [''ls''] [''z1'', ''z2''])) 1 = Ret xs \<and>
     length xs = 2 \<and> distinct (map sts_Name xs)"
proof -
  let ?q = "QstsWithProbeSinglePodMultipleAZs ''foo'' [''ls''] [''z1'', ''z2'']"
  have "?q \<in> set (sample_resources sample_lib ''foo'' [''ls''] [''z1'', ''z2''] ''pvc'' ''standard'')"
    by (simp add: sample_resources_def)
  from samples_are_deployed [OF this, of "''default''" "''uid-1''" 1] show ?thesis
    by (auto simp: QstsWithProbeSinglePodMultipleAZs_def Let_def resourceOf_def)
qed

section \<open>The wrong sample runs into its deadline\<close>

lemma desired_single:
  "qs_Zones (q_Spec q) = [] \<Longrightarrow> desiredStatefulSets L q v = Ret xs \<longleftrightarrow>
     (\<exists>x. xs = [x] \<and> generateSingleStatefulSet L q
        ((qs_Template (q_Spec q))\<lparr>sts_Namespace := q_Namespace q\<rparr>) 0 '''' v = Ret x)"
  by (auto simp: desiredStatefulSets_def Let_def split: go.splits)

lemma wrong_watch_time: "''20000'' = Itoa 20000"
  by (simp add: Itoa_def nat_digits.simps digit_char_def)

text \<open>
  The deadline of the wrong sample. The StatefulSet generated from WrongQuarksStatefulSet, as
  the mutator admits it at some time, has time left for its update until exactly 20 seconds
  after that time (in whole seconds); from then on the rollout controller marks it as failed.
\<close>

theorem wrong_sample_deadline:
  assumes "union_maps_law L" "desiredStatefulSets L (created ns uid (WrongQuarksStatefulSet L name)) v = Ret [x]"
    and "ConfigureStatefulSetForInitialRollout L start x = Ret y" "0 \<le> start" "start < 2 ^ 61 * 10 ^ 9"
    and "run_state (w_Now W) s = (now, s')"
  shows "\<exists>d. run_state (getTimeOut L W y (AnnotationUpdateWatchTime (gname L))) s = (d, s') \<and>
    (d < 0 \<longleftrightarrow> (unixSeconds start + 20) * time_Second \<le> now)"
proof -
  let ?q = "created ns uid (WrongQuarksStatefulSet L name)"
  have zones: "qs_Zones (q_Spec ?q) = []" "sts_Annotations (qs_Template (q_Spec ?q)) =
      Some [AnnotationUpdateWatchTime (gname L) \<mapsto> Itoa 20000]"
    by (simp_all add: created_def WrongQuarksStatefulSet_def resourceOf_def WrongStatefulSet_def statefulSetOf_def
        wrong_watch_time)
  have gen: "generateSingleStatefulSet L ?q
      ((qs_Template (q_Spec ?q))\<lparr>sts_Namespace := q_Namespace ?q\<rparr>) 0 '''' v = Ret x"
    using desired_single [OF zones(1)] assms(2) by blast
  have watch: "gmap (sts_Annotations x) (AnnotationUpdateWatchTime (gname L)) = Some (Itoa 20000)"
    using generated_fields(4) [OF gen] zones(2) assms(1)
    by (simp add: union_maps_law_def zoneAnnotations_def key_defs map_add_def)
  have start: "startRollout L rolloutStateCanaryUpscale 0 start x = Ret y"
    using assms(3) by (simp add: ConfigureStatefulSetForInitialRollout_def)
  have ann: "gmap (sts_Annotations y) (AnnotationUpdateWatchTime (gname L)) = Some (Itoa 20000)"
    "gmap (sts_Annotations y) (AnnotationUpdateStartTime (gname L)) = Some (Itoa (unixSeconds start))"
    using start watch
    by (cases "sts_Annotations x"; force simp: startRollout_def withUpdateStrategy_def key_defs)+
  have "0 \<le> unixSeconds start" "unixSeconds start < 2 ^ 61"
    using assms(4,5) by (simp_all add: unixSeconds_def)
  from getTimeOut_at [OF ann _ _ this assms(6)] show ?thesis
    by (auto simp: Let_def sat64_sign time_Millisecond_def time_Second_def algebra_simps)
qed

theorem wrong_sample_deadline_witness:
  "\<exists>x y d. desiredStatefulSets sample_lib (created ''default'' ''uid-1'' (WrongQuarksStatefulSet sample_lib ''foo'')) 1 = Ret [x] \<and>
     ConfigureStatefulSetForInitialRollout sample_lib (100 * 10 ^ 9) x = Ret y \<and>
     run_state (getTimeOut sample_lib mem_world y (AnnotationUpdateWatchTime (gname sample_lib)))
       (empty_mem\<lparr>m_Now := 120 * 10 ^ 9\<rparr>) = (d, empty_mem\<lparr>m_Now := 120 * 10 ^ 9\<rparr>) \<and> d < 0"
proof -
  let ?w = "WrongQuarksStatefulSet sample_lib ''foo''" and ?s = "empty_mem\<lparr>m_Now := 120 * 10 ^ 9\<rparr>"
  let ?q = "created ''default'' ''uid-1'' ?w"
  have w: "?w \<in> set (sample_resources sample_lib ''foo'' [] [] '''' '''')" by (simp add: sample_resources_def)
  have zones: "qs_Zones (q_Spec ?q) = []"
    by (simp add: created_def WrongQuarksStatefulSet_def resourceOf_def)
  have "spec_Replicas (sts_Spec (qs_Template (q_Spec ?q))) \<noteq> None"
    using sample_fields(2) [OF w] by (auto simp: created_def)
  then obtain xs where xs: "desiredStatefulSets sample_lib ?q 1 = Ret xs" by (rule desired_total)
  then obtain x where x: "xs = [x]" "generateSingleStatefulSet sample_lib ?q
      ((qs_Template (q_Spec ?q))\<lparr>sts_Namespace := q_Namespace ?q\<rparr>) 0 '''' 1 = Ret x"
    using desired_single [OF zones] by blast
  have "\<exists>f. sts_Annotations x = Some f"
    using generated_fields(4) [OF x(2)] by (simp add: sample_lib_def)
  then obtain y where y: "ConfigureStatefulSetForInitialRollout sample_lib (100 * 10 ^ 9) x = Ret y"
    using startRollout_total unfolding ConfigureStatefulSetForInitialRollout_def by blast
  have "\<exists>d. run_state (getTimeOut sample_lib mem_world y (AnnotationUpdateWatchTime (gname sample_lib))) ?s = (d, ?s) \<and>
      (d < 0 \<longleftrightarrow> (unixSeconds (100 * 10 ^ 9) + 20) * time_Second \<le> 120 * 10 ^ 9)"
    by (rule wrong_sample_deadline [OF sample_union xs [unfolded x(1)] y]) (simp_all add: mem_world_def)
  then show ?thesis using xs y x(1) by (auto simp: unixSeconds_def time_Second_def)
qed

section \<open>The probed samples are probed\<close>

text \<open>
  Probing. The active/passive reconciler finds the probe of every probed sample, runs its command
  in the container busybox, which the template has, and comes back after 2 seconds, the period
  of the probe, or after the default of 30 seconds if the sample sets none.
\<close>

theorem probed_samples_probed:
  assumes "(q, period) \<in> {(QstsWithProbeSinglePod name cmd, 2), (QstsWithProbeSinglePodMultipleAZs name cmd zones, 2),
      (QstsWithActiveSinglePod name cmd, 2), (QstsWithProbeMultiplePods name cmd, 2),
      (QstsWithoutProbeMultiplePods name cmd, 30)}"
  shows "getProbeContainerName (qs_ActivePassiveProbes (q_Spec q)) = Inr ''busybox'' \<and>
    pr_Exec (probeOf q ''busybox'') = Some cmd \<and>
    ''busybox'' \<in> con_Name ` set (ps_Containers (pt_Spec (spec_Template (sts_Spec (qs_Template (q_Spec q)))))) \<and>
    probePeriod q ''busybox'' = period * time_Second"
proof -
  have probe: "probeOf q ''busybox'' = \<lparr>pr_Exec = Some cmd, pr_PeriodSeconds = (if period = 30 then 0 else 2)\<rparr>"
    "getProbeContainerName (qs_ActivePassiveProbes (q_Spec q)) = Inr ''busybox''" "period = 2 \<or> period = 30"
    using assms by (auto simp: resource_defs busyboxProbe_def probeOf_def getProbeContainerName_def Let_def)
  moreover have "''busybox'' \<in> con_Name ` set (ps_Containers (pt_Spec (spec_Template (sts_Spec (qs_Template (q_Spec q))))))"
    using assms
    by (auto simp: resource_defs sts_sample_defs templateOf_def DefaultPodTemplate_def
        DefaultPodTemplateWithActiveLabel_def Sleep1hPodSpec_def Let_def)
  moreover have "probePeriod q ''busybox'' = period * time_Second"
    using probe(3) by (auto simp: probePeriod_def probe(1) Let_def time_Second_def wrap64_def)
  ultimately show ?thesis by simp
qed

theorem probed_samples_probed_witness:
  "probePeriod (QstsWithoutProbeMultiplePods ''foo'' [''ls'']) ''busybox'' = 30 * time_Second"
  using probed_samples_probed [of "QstsWithoutProbeMultiplePods ''foo'' [''ls'']" 30 "''foo''" "[''ls'']" "[]"] by simp

end
