(* ===== verification/Entry_Points.thy ===== *)
theory Entry_Points
  imports Setup_Properties FakeClientSet ClientSet
begin

text \<open>
  Where the binaries enter: \<open>cmd/main.go\<close> and \<open>Execute\<close> of \<open>cmd/internal/root.go\<close>, the command
  \<open>version\<close>, the generator of the command's documentation, the initialisation of the two packages
  that keep a scheme, and the constructors that hand a client, a cache or a decoder to the parts
  modelled elsewhere. \<open>cobra\<close> and the generator of \<open>quarks-utils\<close> are parameters.
\<close>

section \<open>The process\<close>

text \<open>How a process ends, with what \<open>log.Fatal\<close> writes.\<close>

datatype process_end = Returned | Exited nat go_error | Panicked go_error

text \<open>
  The tree of commands: what the root runs, and its sub-commands with the lines they print.
  \<open>NewCFOperatorCommand\<close> hands out the root.
\<close>

record command_tree =
  ct_Use :: string
  ct_Short :: string
  ct_RunE :: startup
  ct_TraverseChildren :: bool
  ct_Commands :: "(string \<times> string \<times> string list) list"

definition Version :: string where "Version = ''0.0.1''"

text \<open>\<open>rt_\<close>: \<open>runtime.Version()\<close>, \<open>runtime.GOOS\<close> and \<open>runtime.GOARCH\<close>.\<close>

record go_runtime =
  rt_Version :: string
  rt_GOOS :: string
  rt_GOARCH :: string

definition versionLines :: "go_runtime \<Rightarrow> string list" where
  "versionLines R = [''Quarks Statefulset Version: '' @ Version,
     ''Go Version: '' @ rt_Version R,
     ''Go OS/Arch: '' @ rt_GOOS R @ ''/'' @ rt_GOARCH R]"

definition versionCmd :: "go_runtime \<Rightarrow> string \<times> string \<times> string list" where
  "versionCmd R = (''version'', ''Print the version number'', versionLines R)"

definition rootCmd :: "startup \<Rightarrow> command_tree" where
  "rootCmd runE = \<lparr>ct_Use = ''quarks-statefulset'',
     ct_Short = ''quarks-statefulset manages statefulsets on Kubernetes'',
     ct_RunE = runE, ct_TraverseChildren = True, ct_Commands = []\<rparr>"

definition versionInit :: "go_runtime \<Rightarrow> command_tree \<Rightarrow> command_tree" where
  "versionInit R c = c\<lparr>ct_Commands := ct_Commands c @ [versionCmd R]\<rparr>"

definition NewCFOperatorCommand :: "go_runtime \<Rightarrow> startup \<Rightarrow> command_tree" where
  "NewCFOperatorCommand R runE = versionInit R (rootCmd runE)"

text \<open>
  \<open>Execute\<close>: \<open>cobra\<close> parses the arguments and runs a command of the tree. \<open>golog.Fatal\<close> ends the
  process with status 1, so that the \<open>os.Exit(1)\<close> behind it is never reached.
\<close>

definition Execute :: "(command_tree \<Rightarrow> startup) \<Rightarrow> command_tree \<Rightarrow> (history, process_end) state" where
  "Execute cobra root = do {
     err \<leftarrow> cobra root;
     State_Monad.return (case err of None \<Rightarrow> Returned | Some e \<Rightarrow> Exited 1 e) }"

definition main :: "(command_tree \<Rightarrow> startup) \<Rightarrow> go_runtime \<Rightarrow> startup \<Rightarrow> (history, process_end) state" where
  "main cobra R runE = Execute cobra (NewCFOperatorCommand R runE)"

text \<open>\<open>gen-command-docs\<close>: without an argument the index is out of range.\<close>

definition indexOutOfRange :: "nat \<Rightarrow> go_error" where
  "indexOutOfRange n = Errorf (''runtime error: index out of range [1] with length '' @ Itoa (int n))"

definition docsMain :: "(command_tree \<Rightarrow> string \<Rightarrow> go_error option) \<Rightarrow> go_runtime \<Rightarrow> startup \<Rightarrow> string list \<Rightarrow> process_end" where
  "docsMain gen R runE args =
     (if length args \<le> 1 then Panicked (indexOutOfRange (length args))
      else (case gen (NewCFOperatorCommand R runE) (args ! 1) of Some err \<Rightarrow> Panicked err | None \<Rightarrow> Returned))"

section \<open>The schemes of the generated client\<close>

text \<open>\<open>utilruntime.Must(AddToScheme(Scheme))\<close> panics with the error, if there is one.\<close>

definition localSchemeBuilder :: "lib \<Rightarrow> startup list" where
  "localSchemeBuilder L = [AddToScheme L]"

fun runBuilder :: "startup list \<Rightarrow> startup" where
  "runBuilder [] = State_Monad.return None"
| "runBuilder (f # fs) = check f id (runBuilder fs)"

definition schemeInit :: "lib \<Rightarrow> (history, unit go) state" where
  "schemeInit L = do {
     perform (SchemeAddGroupVersion ('''', ''v1''));
     err \<leftarrow> runBuilder (localSchemeBuilder L);
     State_Monad.return (case err of None \<Rightarrow> Ret () | Some e \<Rightarrow> Panic) }"

definition fakeSchemeInit :: "lib \<Rightarrow> (history, unit go) state" where
  "fakeSchemeInit L = do {
     perform (SchemeAddGroupVersion ('''', ''v1''));
     err \<leftarrow> runBuilder (localSchemeBuilder L);
     State_Monad.return (case err of None \<Rightarrow> Ret () | Some e \<Rightarrow> Panic) }"

section \<open>Constructors\<close>

text \<open>
  The interface a constructor gets its client from: \<open>newQuarksStatefulSets\<close> calls \<open>RESTClient\<close> of
  the client of the group, the getters of the fake keep the fake, and the fake's \<open>RESTClient\<close> is
  a typed nil.
\<close>

record 'r namespaced_client =
  nc_client :: "'r option"
  nc_ns :: string

definition newQuarksStatefulSets :: "'r typed_client option \<Rightarrow> string \<Rightarrow> 'r namespaced_client" where
  "newQuarksStatefulSets c namespace = \<lparr>nc_client = typedRESTClient c, nc_ns = namespace\<rparr>"

definition clientQuarksStatefulSets :: "'r typed_client option \<Rightarrow> string \<Rightarrow> 'r namespaced_client" where
  "clientQuarksStatefulSets c namespace = newQuarksStatefulSets c namespace"

record 's fake_namespaced =
  fn_Fake :: "'s fake_invoker"
  fn_ns :: string

definition fakeQuarksStatefulSets :: "'s fake_invoker \<Rightarrow> string \<Rightarrow> 's fake_namespaced" where
  "fakeQuarksStatefulSets c namespace = \<lparr>fn_Fake = c, fn_ns = namespace\<rparr>"

definition fakeRESTClient :: "'r option" where
  "fakeRESTClient = None"

record qsts_lister =
  ql_indexer :: indexer

record qsts_namespace_lister =
  qnl_indexer :: indexer
  qnl_namespace :: string

definition NewQuarksStatefulSetLister :: "indexer \<Rightarrow> qsts_lister" where
  "NewQuarksStatefulSetLister I = \<lparr>ql_indexer = I\<rparr>"

definition listerQuarksStatefulSets :: "qsts_lister \<Rightarrow> string \<Rightarrow> qsts_namespace_lister" where
  "listerQuarksStatefulSets s namespace = \<lparr>qnl_indexer = ql_indexer s, qnl_namespace = namespace\<rparr>"

text \<open>The liveness answer of the webhook server (\<open>ordinaryHTTPHandler\<close>), for every request.\<close>

definition ordinaryHTTPHandler :: "'request \<Rightarrow> nat" where
  "ordinaryHTTPHandler r = 200"

section \<open>Mutators\<close>

text \<open>
  The two mutators as the webhook server builds them: without a decoder, which it injects before
  the first request, together with a client for the mutator of pods. \<open>C\<close> is what a decoder, or
  the lack of one, and the JSON encoder make of a request.
\<close>

record 'd sts_mutator =
  sm_config :: config
  sm_decoder :: "'d option"

definition NewMutator :: "config \<Rightarrow> 'd sts_mutator" where
  "NewMutator cfg = \<lparr>sm_config = cfg, sm_decoder = None\<rparr>"

definition mutatorInjectDecoder :: "'d \<Rightarrow> 'd sts_mutator \<Rightarrow> 'd sts_mutator \<times> go_error option" where
  "mutatorInjectDecoder d m = (m\<lparr>sm_decoder := Some d\<rparr>, None)"

definition mutatorHandle ::
  "lib \<Rightarrow> ('d option \<Rightarrow> codec) \<Rightarrow> int \<Rightarrow> 'd sts_mutator \<Rightarrow> admission_request \<Rightarrow> admission_response go" where
  "mutatorHandle L C now m req = rolloutHandle L (C (sm_decoder m)) now req"

record ('d, 'c) pod_mutator =
  pm_client :: "'c option"
  pm_config :: config
  pm_decoder :: "'d option"

definition NewPodMutator :: "config \<Rightarrow> ('d, 'c) pod_mutator" where
  "NewPodMutator cfg = \<lparr>pm_client = None, pm_config = cfg, pm_decoder = None\<rparr>"

definition podInjectDecoder :: "'d \<Rightarrow> ('d, 'c) pod_mutator \<Rightarrow> ('d, 'c) pod_mutator \<times> go_error option" where
  "podInjectDecoder d m = (m\<lparr>pm_decoder := Some d\<rparr>, None)"

definition podInjectClient :: "'c \<Rightarrow> ('d, 'c) pod_mutator \<Rightarrow> ('d, 'c) pod_mutator \<times> go_error option" where
  "podInjectClient c m = (m\<lparr>pm_client := Some c\<rparr>, None)"

definition podMutatorHandle ::
  "lib \<Rightarrow> ('d option \<Rightarrow> codec) \<Rightarrow> ('d, 'c) pod_mutator \<Rightarrow> admission_request \<Rightarrow> admission_response" where
  "podMutatorHandle L C m req = podHandle L (C (pm_decoder m)) req"

section \<open>Reconcilers\<close>

text \<open>
  What the reconcilers keep of the manager: its client, its scheme and its configuration. The
  contexts are left out. The set-up of a controller (\<open>Setup\<close>) names them by \<open>reconciler\<close>.
\<close>

record ('c, 's, 'r) manager_parts =
  mgr_Client :: 'c
  mgr_Scheme :: 's
  mgr_Config :: 'r

record ('c, 's, 'f, 'v) qsts_reconciler =
  qr_config :: config
  qr_client :: 'c
  qr_scheme :: 's
  qr_setReference :: 'f
  qr_versionedSecretStore :: 'v

definition NewReconciler ::
  "config \<Rightarrow> ('c, 's, 'r) manager_parts \<Rightarrow> 'f \<Rightarrow> 'v \<Rightarrow> ('c, 's, 'f, 'v) qsts_reconciler" where
  "NewReconciler cfg mgr srf store = \<lparr>qr_config = cfg, qr_client = mgr_Client mgr, qr_scheme = mgr_Scheme mgr,
     qr_setReference = srf, qr_versionedSecretStore = store\<rparr>"

record ('c, 's) status_reconciler =
  sr_config :: config
  sr_client :: 'c
  sr_scheme :: 's

definition NewQuarksStatefulSetStatusReconciler ::
  "config \<Rightarrow> ('c, 's, 'r) manager_parts \<Rightarrow> ('c, 's) status_reconciler" where
  "NewQuarksStatefulSetStatusReconciler cfg mgr = \<lparr>sr_config = cfg, sr_client = mgr_Client mgr, sr_scheme = mgr_Scheme mgr\<rparr>"

record ('c, 's) rollout_reconciler =
  rr_config :: config
  rr_client :: 'c
  rr_scheme :: 's

definition NewStatefulSetRolloutReconciler ::
  "config \<Rightarrow> ('c, 's, 'r) manager_parts \<Rightarrow> ('c, 's) rollout_reconciler" where
  "NewStatefulSetRolloutReconciler cfg mgr = \<lparr>rr_config = cfg, rr_client = mgr_Client mgr, rr_scheme = mgr_Scheme mgr\<rparr>"

record ('c, 'k, 's, 'r) active_passive_reconciler =
  ar_config :: config
  ar_client :: 'c
  ar_kclient :: 'k
  ar_scheme :: 's
  ar_restConfig :: 'r

definition NewActivePassiveReconciler ::
  "config \<Rightarrow> ('c, 's, 'r) manager_parts \<Rightarrow> 'k \<Rightarrow> ('c, 'k, 's, 'r) active_passive_reconciler" where
  "NewActivePassiveReconciler cfg mgr kclient = \<lparr>ar_config = cfg, ar_client = mgr_Client mgr, ar_kclient = kclient,
     ar_scheme = mgr_Scheme mgr, ar_restConfig = mgr_Config mgr\<rparr>"

section \<open>Properties\<close>

text \<open>The injections commute, and only the decoder matters to the answer.\<close>

lemma podMutator_injected:
  "podMutatorHandle L C (fst (podInjectDecoder d m)) req = podHandle L (C (Some d)) req"
  "podMutatorHandle L C (fst (podInjectClient c m)) req = podMutatorHandle L C m req"
  "fst (podInjectDecoder d (fst (podInjectClient c m))) = fst (podInjectClient c (fst (podInjectDecoder d m)))"
  by (simp_all add: podMutatorHandle_def podInjectDecoder_def podInjectClient_def)

text \<open>
  All four reconcilers talk to the API server through the client of the one manager; the commands
  of the probes run with its configuration.
\<close>

lemma reconcilers_share_client:
  "qr_client (NewReconciler cfg mgr srf store) = mgr_Client mgr"
  "sr_client (NewQuarksStatefulSetStatusReconciler cfg mgr) = mgr_Client mgr"
  "rr_client (NewStatefulSetRolloutReconciler cfg mgr) = mgr_Client mgr"
  "ar_client (NewActivePassiveReconciler cfg mgr kclient) = mgr_Client mgr"
  "ar_restConfig (NewActivePassiveReconciler cfg mgr kclient) = mgr_Config mgr"
  by (simp_all add: NewReconciler_def NewQuarksStatefulSetStatusReconciler_def NewStatefulSetRolloutReconciler_def
      NewActivePassiveReconciler_def)

text \<open>A client for a namespace rests on the REST client that the client set was built on.\<close>

lemma New_QuarksStatefulSets:
  "nc_client (clientQuarksStatefulSets (Some (QuarksstatefulsetV1alpha1 (New K c))) ns) = Some c"
  by (simp add: clientQuarksStatefulSets_def newQuarksStatefulSets_def QuarksstatefulsetV1alpha1_def New_def
      typedNew_def typedRESTClient_def)

text \<open>
  The initialisation of a scheme registers the version v1 of the empty group and then the types
  of the project, and never panics: registering them has no error.
\<close>

lemma schemeInit_registers:
  "run_state (schemeInit L) h = (Ret (), h @ (SchemeAddGroupVersion ('''', ''v1''), None) # map (\<lambda>c. (c, None)) (schemeCalls L))"
  by (simp add: schemeInit_def localSchemeBuilder_def AddToScheme_def addKnownTypes_def check_def perform_def schemeCalls_def)

lemma fakeSchemeInit_same: "fakeSchemeInit L = schemeInit L"
  by (simp add: fakeSchemeInit_def schemeInit_def)

text \<open>
  The process ends normally only if the manager was started and has stopped without an error,
  after a set-up in which every call succeeded; otherwise its status is 1 and some call failed,
  or no webhook server is configured.
\<close>

lemma main_outcome:
  assumes cobra: "cobra (NewCFOperatorCommand R runE) = runE"
    and runE: "runE = runCommand L cfg ns_label cmd_ApplyCRDs serviceHost useServiceRef A"
    and crds: "script (cmd_ApplyCRDs (ApplyCRDs L A)) crds"
    and out: "run_state (main cobra R runE) [] = (r, ev)"
  shows "r = Returned \<Longrightarrow>
      map fst ev = [CmdKubeConfig] @ crds @ managerCalls L cfg ns_label @ [StartManager] \<and> all_ok ev"
    and "r \<noteq> Returned \<Longrightarrow> \<exists>e. r = Exited 1 e \<and> (serviceHost = '''' \<and> \<not> useServiceRef \<or> \<not> all_ok ev)"
proof -
  obtain err where err: "run_state runE [] = (err, ev)" "r = (case err of None \<Rightarrow> Returned | Some e \<Rightarrow> Exited 1 e)"
    using out cobra by (auto simp: main_def Execute_def split: prod.splits)
  have conf: "follows ([CmdKubeConfig] @ crds @ managerCalls L cfg ns_label @ [StartManager]) err ev"
    if "\<not> (serviceHost = '''' \<and> \<not> useServiceRef)"
    using script_run [OF script_runCommand [of serviceHost useServiceRef cmd_ApplyCRDs L A crds cfg ns_label, OF that crds]] err(1) runE by simp
  have unconf: "err \<noteq> None" if "serviceHost = '''' \<and> \<not> useServiceRef"
    using that err(1) runE by (auto simp: runCommand_def check_def call_def split: option.splits)
  {
    assume "r = Returned"
    then have "err = None" using err(2) by (cases err) auto
    then show "map fst ev = [CmdKubeConfig] @ crds @ managerCalls L cfg ns_label @ [StartManager] \<and> all_ok ev"
      using conf unconf by (auto simp: follows_def)
  next
    assume "r \<noteq> Returned"
    then obtain e where e: "err = Some e" "r = Exited 1 e" using err(2) by (cases err) auto
    have "\<not> all_ok ev" if "\<not> (serviceHost = '''' \<and> \<not> useServiceRef)"
      using conf [OF that] e(1) by (cases ev rule: rev_cases) (auto simp: follows_def)
    with e show "\<exists>e. r = Exited 1 e \<and> (serviceHost = '''' \<and> \<not> useServiceRef \<or> \<not> all_ok ev)" by blast
  }
qed

end
